(* ===== verification/Prelude.thy ===== *)
theory Prelude
  imports Main "HOL-Library.Word"
begin

text \<open>
  Shared vocabulary of the development.

  A Rust function that returns a \<open>Result\<close> is a value of a sum type, \<open>Inl\<close> the
  error.  A Rust function that takes \<open>&mut self\<close> and returns a \<open>Result\<close> is
  a function from the state to the result and the new state: an early return with an
  error keeps every change made to the state before it, as it does in Rust, so the
  state stands beside the sum and not inside it.

  The theory holds the combinators on those two types (the question-mark operator is
  \<open>bindR\<close> and \<open>bindE\<close>), a partial-correctness judgement over
  them with its composition rules, and the lemmas on lists the components share.
\<close>

section \<open>Collections of facts\<close>

named_theorems exec_simps \<open>unfolding rules of the state and error combinators\<close>

section \<open>Results\<close>

definition bindR :: "'e + 'a \<Rightarrow> ('a \<Rightarrow> 'e + 'b) \<Rightarrow> 'e + 'b" where
  "bindR r f = (case r of Inl e \<Rightarrow> Inl e | Inr x \<Rightarrow> f x)"

definition is_ok :: "'e + 'a \<Rightarrow> bool" where
  "is_ok r = (case r of Inl _ \<Rightarrow> False | Inr _ \<Rightarrow> True)"

definition map_err :: "('e \<Rightarrow> 'f) \<Rightarrow> 'e + 'a \<Rightarrow> 'f + 'a" where
  "map_err f r = (case r of Inl e \<Rightarrow> Inl (f e) | Inr x \<Rightarrow> Inr x)"

lemma bindR_simps [simp]:
  "bindR (Inl e) f = Inl e"
  "bindR (Inr x) f = f x"
  by (simp_all add: bindR_def)

lemma is_ok_simps [simp]: "is_ok (Inl e) = False" "is_ok (Inr x) = True"
  by (simp_all add: is_ok_def)

lemma map_err_simps [simp]: "map_err f (Inl e) = Inl (f e)" "map_err f (Inr x) = Inr x"
  by (simp_all add: map_err_def)

lemma bindR_eq_Inr: "bindR r f = Inr y \<longleftrightarrow> (\<exists>x. r = Inr x \<and> f x = Inr y)"
  by (cases r) auto

lemma bindR_eq_Inl: "bindR r f = Inl e \<longleftrightarrow> r = Inl e \<or> (\<exists>x. r = Inr x \<and> f x = Inl e)"
  by (cases r) auto

section \<open>Computations on a state that may fail\<close>

type_synonym ('e, 's, 'a) exec = "'s \<Rightarrow> ('e + 'a) \<times> 's"

definition returnE :: "'a \<Rightarrow> ('e, 's, 'a) exec" where
  "returnE x = (\<lambda>s. (Inr x, s))"

definition throwE :: "'e \<Rightarrow> ('e, 's, 'a) exec" where
  "throwE e = (\<lambda>s. (Inl e, s))"

definition bindE :: "('e, 's, 'a) exec \<Rightarrow> ('a \<Rightarrow> ('e, 's, 'b) exec) \<Rightarrow> ('e, 's, 'b) exec" where
  "bindE m f = (\<lambda>s. case m s of (Inl e, t) \<Rightarrow> (Inl e, t) | (Inr x, t) \<Rightarrow> f x t)"

definition thenE :: "('e, 's, 'a) exec \<Rightarrow> ('e, 's, 'b) exec \<Rightarrow> ('e, 's, 'b) exec" where
  "thenE m n = bindE m (\<lambda>_. n)"

definition getE :: "('s \<Rightarrow> 'a) \<Rightarrow> ('e, 's, 'a) exec" where
  "getE f = (\<lambda>s. (Inr (f s), s))"

definition modifyE :: "('s \<Rightarrow> 's) \<Rightarrow> ('e, 's, unit) exec" where
  "modifyE f = (\<lambda>s. (Inr (), f s))"

definition liftE :: "'e + 'a \<Rightarrow> ('e, 's, 'a) exec" where
  "liftE r = (\<lambda>s. (r, s))"

definition whenE :: "bool \<Rightarrow> ('e, 's, unit) exec \<Rightarrow> ('e, 's, unit) exec" where
  "whenE b m = (if b then m else returnE ())"

primrec seqE :: "('e, 's, unit) exec list \<Rightarrow> ('e, 's, unit) exec" where
  "seqE [] = returnE ()"
| "seqE (m # ms) = thenE m (seqE ms)"

primrec repeatE :: "nat \<Rightarrow> ('a \<Rightarrow> ('e, 's, 'a) exec) \<Rightarrow> 'a \<Rightarrow> ('e, 's, 'a) exec" where
  "repeatE 0 f x = returnE x"
| "repeatE (Suc n) f x = bindE (f x) (repeatE n f)"

lemmas exec_defs = returnE_def throwE_def bindE_def thenE_def getE_def modifyE_def liftE_def

lemma exec_unfold [simp, exec_simps]:
  "returnE x s = (Inr x, s)"
  "throwE e s = (Inl e, s)"
  "getE f s = (Inr (f s), s)"
  "modifyE g s = (Inr (), g s)"
  "liftE r s = (r, s)"
  by (simp_all add: exec_defs)

lemma bindE_unfold [exec_simps]:
  "bindE m f s = (case m s of (Inl e, t) \<Rightarrow> (Inl e, t) | (Inr x, t) \<Rightarrow> f x t)"
  by (simp add: bindE_def)

lemma thenE_unfold [exec_simps]:
  "thenE m n s = (case m s of (Inl e, t) \<Rightarrow> (Inl e, t) | (Inr x, t) \<Rightarrow> n t)"
  by (simp add: thenE_def bindE_def)

lemma whenE_unfold [exec_simps]:
  "whenE b m s = (if b then m s else (Inr (), s))"
  by (simp add: whenE_def)

lemma bindE_Inr: "m s = (Inr x, t) \<Longrightarrow> bindE m f s = f x t"
  by (simp add: bindE_def)

lemma bindE_Inl: "m s = (Inl e, t) \<Longrightarrow> bindE m f s = (Inl e, t)"
  by (simp add: bindE_def)

lemma thenE_Inr: "m s = (Inr x, t) \<Longrightarrow> thenE m n s = n t"
  by (simp add: thenE_def bindE_def)

lemma thenE_Inl: "m s = (Inl e, t) \<Longrightarrow> thenE m n s = (Inl e, t)"
  by (simp add: thenE_def bindE_def)

lemma bindE_basic [simp]:
  "bindE (returnE x) f = f x"
  "bindE (throwE e) f = throwE e"
  "bindE (liftE (Inr x)) f = f x"
  "bindE (liftE (Inl e)) f = throwE e"
  by (simp_all add: exec_defs)

lemma bindE_assoc: "bindE (bindE m f) g = bindE m (\<lambda>x. bindE (f x) g)"
  by (auto simp: bindE_def fun_eq_iff split: prod.splits sum.splits)

lemma bindE_state [simp, exec_simps]:
  "bindE (getE h) f s = f (h s) s"
  "bindE (modifyE g) k s = k () (g s)"
  "thenE (getE h) n s = n s"
  "thenE (modifyE g) n s = n (g s)"
  "thenE (returnE x) n s = n s"
  by (simp_all add: exec_defs)

section \<open>A judgement on computations\<close>

text \<open>
  \<open>sound I R E m V\<close>: from a state with the invariant \<open>I\<close>, whatever \<open>m\<close> returns, it leaves a
  state that has \<open>I\<close> again and is related to the first by \<open>R\<close>; a result satisfies \<open>V\<close> and an
  error satisfies \<open>E\<close>.
\<close>

definition sound ::
  "('s \<Rightarrow> bool) \<Rightarrow> ('s \<Rightarrow> 's \<Rightarrow> bool) \<Rightarrow> ('e \<Rightarrow> bool) \<Rightarrow> ('e, 's, 'a) exec \<Rightarrow> ('a \<Rightarrow> bool) \<Rightarrow> bool" where
  "sound I R E m V \<longleftrightarrow>
     (\<forall>s. I s \<longrightarrow> I (snd (m s)) \<and> R s (snd (m s)) \<and> (case fst (m s) of Inl e \<Rightarrow> E e | Inr x \<Rightarrow> V x))"

lemma soundI:
  assumes "\<And>s r t. I s \<Longrightarrow> m s = (r, t) \<Longrightarrow> I t \<and> R s t \<and> (case r of Inl e \<Rightarrow> E e | Inr x \<Rightarrow> V x)"
  shows "sound I R E m V"
  using assms unfolding sound_def by (metis prod.collapse)

lemma soundD:
  assumes "sound I R E m V" and "I s" and "m s = (r, t)"
  shows "I t" "R s t" "r = Inl e \<Longrightarrow> E e" "r = Inr x \<Longrightarrow> V x"
proof -
  have "I t \<and> R s t \<and> (case r of Inl e \<Rightarrow> E e | Inr x \<Rightarrow> V x)"
    using assms unfolding sound_def by (metis fst_conv snd_conv)
  then show "I t" "R s t" "r = Inl e \<Longrightarrow> E e" "r = Inr x \<Longrightarrow> V x" by auto
qed

text \<open>
  The composition rules hold for every relation that is a preorder: the contract each
  combinator keeps as soon as the computations it is built from keep it.
\<close>

locale judgement =
  fixes I :: "'s \<Rightarrow> bool"
    and R :: "'s \<Rightarrow> 's \<Rightarrow> bool"
    and E :: "'e \<Rightarrow> bool"
  assumes R_refl: "R s s"
    and R_trans: "R s t \<Longrightarrow> R t u \<Longrightarrow> R s u"
begin

lemma sound_return: "V x \<Longrightarrow> sound I R E (returnE x) V"
  by (simp add: sound_def R_refl)

lemma sound_throw: "E e \<Longrightarrow> sound I R E (throwE e) V"
  by (simp add: sound_def R_refl)

lemma sound_get: "(\<And>s. I s \<Longrightarrow> V (f s)) \<Longrightarrow> sound I R E (getE f) V"
  by (simp add: sound_def R_refl)

lemma sound_modify: "(\<And>s. I s \<Longrightarrow> I (g s) \<and> R s (g s)) \<Longrightarrow> V () \<Longrightarrow> sound I R E (modifyE g) V"
  by (simp add: sound_def)

lemma sound_lift: "(case r of Inl e \<Rightarrow> E e | Inr x \<Rightarrow> V x) \<Longrightarrow> sound I R E (liftE r) V"
  by (simp add: sound_def R_refl)

lemma sound_bind:
  assumes m: "sound I R E m U" and f: "\<And>x. U x \<Longrightarrow> sound I R E (f x) V"
  shows "sound I R E (bindE m f) V"
proof (rule soundI)
  fix s r t
  assume "I s" and run: "bindE m f s = (r, t)"
  obtain r1 s1 where m1: "m s = (r1, s1)" by fastforce
  note first = soundD [OF m \<open>I s\<close> m1]
  show "I t \<and> R s t \<and> (case r of Inl e \<Rightarrow> E e | Inr x \<Rightarrow> V x)"
  proof (cases r1)
    case (Inl e)
    then show ?thesis using run m1 first by (auto simp: bindE_def)
  next
    case (Inr x)
    then have "f x s1 = (r, t)" using run m1 by (simp add: bindE_def)
    note second = soundD [OF f [OF first(4) [OF Inr]] first(1) this]
    show ?thesis using second R_trans [OF first(2) second(2)] by (simp split: sum.split)
  qed
qed

lemma sound_then: "sound I R E m U \<Longrightarrow> sound I R E n V \<Longrightarrow> sound I R E (thenE m n) V"
  unfolding thenE_def by (rule sound_bind)

lemma sound_when: "(b \<Longrightarrow> sound I R E m V) \<Longrightarrow> V () \<Longrightarrow> sound I R E (whenE b m) V"
  by (simp add: whenE_def sound_return)

lemma sound_seq: "list_all (\<lambda>m. sound I R E m V) ms \<Longrightarrow> V () \<Longrightarrow> sound I R E (seqE ms) V"
  by (induction ms) (auto intro: sound_return sound_then)

lemma sound_repeat:
  "(\<And>x. V x \<Longrightarrow> sound I R E (f x) V) \<Longrightarrow> V x \<Longrightarrow> sound I R E (repeatE n f x) V"
  by (induction n arbitrary: x) (auto intro: sound_return sound_bind)

lemma sound_if:
  "(b \<Longrightarrow> sound I R E m V) \<Longrightarrow> (\<not> b \<Longrightarrow> sound I R E n V) \<Longrightarrow> sound I R E (if b then m else n) V"
  by simp

lemma sound_weaken: "sound I R E m U \<Longrightarrow> (\<And>x. U x \<Longrightarrow> V x) \<Longrightarrow> sound I R E m V"
  unfolding sound_def by (fastforce split: sum.splits)

end

section \<open>Lists\<close>

lemma nth_rev_index: "i < length xs \<Longrightarrow> xs ! (length xs - 1 - i) = rev xs ! i"
  by (simp add: rev_nth)

lemma rotate_append_swap: "rotate (length xs) (xs @ ys) = ys @ xs"
  by (induction xs arbitrary: ys) (auto simp: rotate1_rotate_swap)

lemma take_drop_split: "i \<le> j \<Longrightarrow> take i xs @ take (j - i) (drop i xs) @ drop j xs = xs"
  by (metis add_diff_inverse_nat append_assoc append_take_drop_id not_le take_add)

end
