(* ===== verification/Exception_Types.thy ===== *)
theory Exception_Types
  imports Prelude
begin

text \<open>
  The kinds of exception of \<open>types.rs\<close>.

  The codes themselves are an enum of the crate the virtual machine is built on; its
  constructors are named here as the sources name them.  Its numeric cast
  (\<open>code as i32\<close>) belongs to that crate and is an argument of the definitions that
  need it.
\<close>

datatype exception_code =
    NormalTermination | AlternativeTermination | StackUnderflow | StackOverflow
  | IntegerOverflow | RangeCheckError | InvalidOpcode | TypeCheckError | CellOverflow
  | CellUnderflow | DictionaryError | UnknownError | FatalErrorCode | OutOfGas | IllegalInstruction

datatype exception_type = System exception_code | Custom int

fun is_normal_termination :: "exception_type \<Rightarrow> int option" where
  "is_normal_termination (System NormalTermination) = Some 0"
| "is_normal_termination (System AlternativeTermination) = Some 1"
| "is_normal_termination (System _) = None"
| "is_normal_termination (Custom n) = (if n = 0 then Some 0 else if n = 1 then Some 1 else None)"

primrec exception_code_of :: "exception_type \<Rightarrow> exception_code option" where
  "exception_code_of (System code) = Some code"
| "exception_code_of (Custom n) = None"

primrec custom_code :: "exception_type \<Rightarrow> int option" where
  "custom_code (System code) = None"
| "custom_code (Custom n) = Some n"

primrec exception_or_custom_code :: "(exception_code \<Rightarrow> int) \<Rightarrow> exception_type \<Rightarrow> int" where
  "exception_or_custom_code num (System code) = num code"
| "exception_or_custom_code num (Custom n) = n"

lemma is_normal_termination_cases:
  "is_normal_termination x = Some n \<Longrightarrow> n = 0 \<or> n = 1"
  by (induction x rule: is_normal_termination.induct) (auto split: if_splits)

end
