(* ===== verification/Integer_Data.thy ===== *)
theory Integer_Data
  imports Exception_Types "HOL-Library.Signed_Division"
begin

text \<open>
  The 257-bit integers of \<open>stack/integer\<close>: the value type with its not-a-number,
  the signaling and quiet behaviours, the arithmetic of \<open>math.rs\<close>, the bit logic
  of \<open>bitlogics.rs\<close> and the conversions of \<open>conversion.rs\<close>.

  A \<open>num::BigInt\<close> is a HOL integer: its operators are those of the integers, its
  shifts are \<open>push_bit\<close> and \<open>drop_bit\<close> (towards minus infinity), its
  bitwise operators act on the infinite two's complement form, and \<open>bits\<close> counts the
  bits of the magnitude.
\<close>

unbundle bit_operations_syntax

section \<open>The value type (\<open>mod.rs\<close>)\<close>

datatype integer_data = NaN | Value int

definition zero_int :: integer_data where "zero_int = Value 0"
definition one_int :: integer_data where "one_int = Value 1"
definition minus_one_int :: integer_data where "minus_one_int = Value (- 1)"

definition is_nan :: "integer_data \<Rightarrow> bool" where
  "is_nan x = (x = NaN)"

primrec is_neg :: "integer_data \<Rightarrow> bool" where
  "is_neg NaN = False"
| "is_neg (Value v) = (v < 0)"

primrec check_neg :: "integer_data \<Rightarrow> exception_code + unit" where
  "check_neg NaN = Inl RangeCheckError"
| "check_neg (Value v) = (if v < 0 then Inl RangeCheckError else Inr ())"

primrec is_zero :: "integer_data \<Rightarrow> bool" where
  "is_zero NaN = False"
| "is_zero (Value v) = (v = 0)"

section \<open>Behaviours (\<open>behavior.rs\<close>)\<close>

datatype behavior = Signaling | Quiet

primrec quiet :: "behavior \<Rightarrow> bool" where
  "quiet Signaling = False"
| "quiet Quiet = True"

primrec name_prefix :: "behavior \<Rightarrow> string option" where
  "name_prefix Signaling = None"
| "name_prefix Quiet = Some ''Q''"

primrec on_integer_overflow :: "behavior \<Rightarrow> exception_code + unit" where
  "on_integer_overflow Signaling = Inl IntegerOverflow"
| "on_integer_overflow Quiet = Inr ()"

primrec on_nan_parameter :: "behavior \<Rightarrow> exception_code + unit" where
  "on_nan_parameter Signaling = Inl IntegerOverflow"
| "on_nan_parameter Quiet = Inr ()"

primrec on_range_check_error :: "behavior \<Rightarrow> exception_code + unit" where
  "on_range_check_error Signaling = Inl RangeCheckError"
| "on_range_check_error Quiet = Inr ()"

section \<open>Sizes and overflow (\<open>mod.rs\<close>, module \<open>utils\<close>)\<close>

fun nat_bits :: "nat \<Rightarrow> nat" where
  "nat_bits n = (if n = 0 then 0 else Suc (nat_bits (n div 2)))"

declare nat_bits.simps [simp del]

definition bits :: "int \<Rightarrow> nat" where
  "bits v = nat_bits (nat \<bar>v\<bar>)"

definition bitsize :: "int \<Rightarrow> nat" where
  "bitsize v =
     (if v = 0 \<or> v = - 1 then 1
      else let res = bits v in
        if v > 0 then res + 1
        else let modpow2 = \<bar>v\<bar> AND (\<bar>v\<bar> - 1) in
          if modpow2 = 0 then res else res + 1)"

definition check_overflow :: "int \<Rightarrow> bool" where
  "check_overflow v = (bitsize v < 258)"

primrec process_value :: "integer_data \<Rightarrow> (int \<Rightarrow> exception_code + 'r) \<Rightarrow> exception_code + 'r" where
  "process_value NaN f = Inl IntegerOverflow"
| "process_value (Value v) f = f v"

definition integer_bitsize :: "integer_data \<Rightarrow> exception_code + nat" where
  "integer_bitsize x = process_value x (\<lambda>v. Inr (bitsize v))"

definition ubitsize :: "integer_data \<Rightarrow> exception_code + nat" where
  "ubitsize x = process_value x (\<lambda>v. Inr (bits v))"

definition fits_in :: "integer_data \<Rightarrow> nat \<Rightarrow> exception_code + bool" where
  "fits_in x n = bindR (integer_bitsize x) (\<lambda>b. Inr (b \<le> n))"

definition ufits_in :: "integer_data \<Rightarrow> nat \<Rightarrow> exception_code + bool" where
  "ufits_in x n = (if is_neg x then Inr False else bindR (ubitsize x) (\<lambda>b. Inr (b \<le> n)))"

datatype ordering = Less | Equal | Greater

definition int_cmp :: "int \<Rightarrow> int \<Rightarrow> ordering" where
  "int_cmp x y = (if x < y then Less else if x = y then Equal else Greater)"

fun compare :: "behavior \<Rightarrow> integer_data \<Rightarrow> integer_data \<Rightarrow> exception_code + ordering option" where
  "compare T (Value l) (Value r) = Inr (Some (int_cmp l r))"
| "compare T _ _ = bindR (on_nan_parameter T) (\<lambda>_. Inr None)"

definition integer_from :: "int \<Rightarrow> exception_code + integer_data" where
  "integer_from v = (if check_overflow v then Inr (Value v) else Inl IntegerOverflow)"

definition unary_op ::
  "behavior \<Rightarrow> integer_data \<Rightarrow> (int \<Rightarrow> 'i) \<Rightarrow> 'r \<Rightarrow> ('i \<Rightarrow> 'r \<Rightarrow> exception_code + 'r) \<Rightarrow> exception_code + 'r" where
  "unary_op T lhs callback nan_constructor result_processor =
     (case lhs of
        NaN \<Rightarrow> bindR (on_nan_parameter T) (\<lambda>_. Inr nan_constructor)
      | Value x \<Rightarrow> result_processor (callback x) nan_constructor)"

definition binary_op ::
  "behavior \<Rightarrow> integer_data \<Rightarrow> integer_data \<Rightarrow> (int \<Rightarrow> int \<Rightarrow> 'i) \<Rightarrow> 'r \<Rightarrow>
   ('i \<Rightarrow> 'r \<Rightarrow> exception_code + 'r) \<Rightarrow> exception_code + 'r" where
  "binary_op T lhs rhs callback nan_constructor result_processor =
     (case lhs of
        NaN \<Rightarrow> bindR (on_nan_parameter T) (\<lambda>_. Inr nan_constructor)
      | Value x \<Rightarrow>
          (case rhs of
             NaN \<Rightarrow> bindR (on_nan_parameter T) (\<lambda>_. Inr nan_constructor)
           | Value y \<Rightarrow> result_processor (callback x y) nan_constructor))"

definition process_single_result ::
  "behavior \<Rightarrow> int \<Rightarrow> integer_data \<Rightarrow> exception_code + integer_data" where
  "process_single_result T r nan_constructor =
     (case integer_from r of
        Inr x \<Rightarrow> Inr x
      | Inl _ \<Rightarrow> bindR (on_integer_overflow T) (\<lambda>_. Inr nan_constructor))"

definition process_double_result ::
  "behavior \<Rightarrow> int \<times> int \<Rightarrow> integer_data \<times> integer_data \<Rightarrow> exception_code + integer_data \<times> integer_data" where
  "process_double_result T r nan_constructor =
     (case integer_from (fst r) of
        Inr r1 \<Rightarrow> bindR (integer_from (snd r)) (\<lambda>r2. Inr (r1, r2))
      | Inl _ \<Rightarrow> bindR (on_integer_overflow T) (\<lambda>_. Inr nan_constructor))"

section \<open>Arithmetic (\<open>math.rs\<close>)\<close>

datatype round = Ceil | FloorToNegativeInfinity | FloorToZero | Nearest

definition neg :: "behavior \<Rightarrow> integer_data \<Rightarrow> exception_code + integer_data" where
  "neg T x = unary_op T x (\<lambda>v. - v) NaN (process_single_result T)"

definition add :: "behavior \<Rightarrow> integer_data \<Rightarrow> integer_data \<Rightarrow> exception_code + integer_data" where
  "add T x y = binary_op T x y (\<lambda>v w. v + w) NaN (process_single_result T)"

text \<open>The in-place sum also returns what the target holds afterwards: on a signaling
  overflow it keeps the sum that does not fit.\<close>

definition add_assign ::
  "behavior \<Rightarrow> integer_data \<Rightarrow> integer_data \<Rightarrow> (exception_code + unit) \<times> integer_data" where
  "add_assign T x y =
     (case x of
        NaN \<Rightarrow> (on_nan_parameter T, NaN)
      | Value lhs \<Rightarrow>
          (case y of
             NaN \<Rightarrow> (case on_nan_parameter T of Inl e \<Rightarrow> (Inl e, x) | Inr _ \<Rightarrow> (Inr (), NaN))
           | Value rhs \<Rightarrow>
               (if \<not> check_overflow (lhs + rhs)
                then (case on_integer_overflow T of
                        Inl e \<Rightarrow> (Inl e, Value (lhs + rhs)) | Inr _ \<Rightarrow> (Inr (), NaN))
                else (Inr (), Value (lhs + rhs)))))"

definition add_i8 :: "behavior \<Rightarrow> integer_data \<Rightarrow> int \<Rightarrow> exception_code + integer_data" where
  "add_i8 T x c = unary_op T x (\<lambda>v. v + c) NaN (process_single_result T)"

definition sub :: "behavior \<Rightarrow> integer_data \<Rightarrow> integer_data \<Rightarrow> exception_code + integer_data" where
  "sub T x y = binary_op T x y (\<lambda>v w. v - w) NaN (process_single_result T)"

definition sub_i8 :: "behavior \<Rightarrow> integer_data \<Rightarrow> int \<Rightarrow> exception_code + integer_data" where
  "sub_i8 T x c = unary_op T x (\<lambda>v. v - c) NaN (process_single_result T)"

definition mul :: "behavior \<Rightarrow> integer_data \<Rightarrow> integer_data \<Rightarrow> exception_code + integer_data" where
  "mul T x y = binary_op T x y (\<lambda>v w. v * w) NaN (process_single_result T)"

definition mul_shr256 :: "behavior \<Rightarrow> integer_data \<Rightarrow> integer_data \<Rightarrow> exception_code + integer_data" where
  "mul_shr256 T x y = binary_op T x y (\<lambda>v w. drop_bit 256 (v * w)) NaN (process_single_result T)"

definition mul_i8 :: "behavior \<Rightarrow> integer_data \<Rightarrow> int \<Rightarrow> exception_code + integer_data" where
  "mul_i8 T x c = unary_op T x (\<lambda>v. v * c) NaN (process_single_result T)"

definition round_floor_to_negative_infinity :: "int \<Rightarrow> int \<Rightarrow> int \<Rightarrow> int \<Rightarrow> int \<times> int" where
  "round_floor_to_negative_infinity quot remainder dividend divisor =
     (if remainder = 0 \<or> sgn remainder = sgn divisor then (quot, remainder)
      else (if sgn dividend = sgn divisor then quot + 1 else quot - 1, remainder + divisor))"

definition round_ceil :: "int \<Rightarrow> int \<Rightarrow> int \<Rightarrow> int \<Rightarrow> int \<times> int" where
  "round_ceil quot remainder dividend divisor =
     (if remainder = 0 \<or> sgn remainder \<noteq> sgn divisor then (quot, remainder)
      else (if sgn dividend = sgn divisor then quot + 1 else quot - 1, remainder - divisor))"

definition round_nearest :: "int \<Rightarrow> int \<Rightarrow> int \<Rightarrow> int \<Rightarrow> int \<times> int" where
  "round_nearest quot remainder dividend divisor =
     (if remainder = 0 then (quot, remainder)
      else let r_x2 = push_bit 1 remainder;
               cmp_result = int_cmp \<bar>r_x2\<bar> \<bar>divisor\<bar>;
               is_not_negative = (sgn dividend = sgn divisor)
        in if cmp_result = Greater \<or> (cmp_result = Equal \<and> is_not_negative)
           then (if is_not_negative then quot + 1 else quot - 1,
                 if sgn divisor = sgn remainder then remainder - divisor else remainder + divisor)
           else (quot, remainder))"

fun divmod :: "int \<Rightarrow> int \<Rightarrow> round \<Rightarrow> int \<times> int" where
  "divmod dividend divisor FloorToNegativeInfinity = (dividend div divisor, dividend mod divisor)"
| "divmod dividend divisor FloorToZero = (dividend sdiv divisor, dividend smod divisor)"
| "divmod dividend divisor Ceil =
     round_ceil (dividend sdiv divisor) (dividend smod divisor) dividend divisor"
| "divmod dividend divisor Nearest =
     round_nearest (dividend sdiv divisor) (dividend smod divisor) dividend divisor"

definition shift_divmod :: "int \<Rightarrow> nat \<Rightarrow> int \<times> int" where
  "shift_divmod dividend shift =
     (let remainder_mask = push_bit shift 1 - 1 in
      if dividend < 0
      then (- drop_bit shift \<bar>dividend\<bar>, - (\<bar>dividend\<bar> AND remainder_mask))
      else (drop_bit shift dividend, dividend AND remainder_mask))"

definition div_by_shift :: "int \<Rightarrow> nat \<Rightarrow> round \<Rightarrow> int \<times> int" where
  "div_by_shift dividend shift rounding =
     (let divisor = push_bit shift 1; (quot, remainder) = shift_divmod dividend shift in
      case rounding of
        FloorToNegativeInfinity \<Rightarrow> round_floor_to_negative_infinity quot remainder dividend divisor
      | Ceil \<Rightarrow> round_ceil quot remainder dividend divisor
      | Nearest \<Rightarrow> round_nearest quot remainder dividend divisor
      | FloorToZero \<Rightarrow> (quot, remainder))"

definition integer_div ::
  "behavior \<Rightarrow> integer_data \<Rightarrow> integer_data \<Rightarrow> round \<Rightarrow> exception_code + integer_data \<times> integer_data" where
  "integer_div T x divisor rounding =
     (case divisor of
        NaN \<Rightarrow> bindR (on_nan_parameter T) (\<lambda>_. Inr (NaN, NaN))
      | Value d \<Rightarrow>
          (if d = 0 then bindR (on_integer_overflow T) (\<lambda>_. Inr (NaN, NaN))
           else unary_op T x (\<lambda>dividend. divmod dividend d rounding) (NaN, NaN)
                  (process_double_result T)))"

definition integer_div_by_shift ::
  "behavior \<Rightarrow> integer_data \<Rightarrow> nat \<Rightarrow> round \<Rightarrow> exception_code + integer_data \<times> integer_data" where
  "integer_div_by_shift T x shift rounding =
     unary_op T x (\<lambda>dividend. div_by_shift dividend shift rounding) (NaN, NaN)
       (process_double_result T)"

section \<open>Bit logic (\<open>bitlogics.rs\<close>)\<close>

definition and_int :: "behavior \<Rightarrow> integer_data \<Rightarrow> integer_data \<Rightarrow> exception_code + integer_data" where
  "and_int T x y = binary_op T x y (\<lambda>v w. v AND w) NaN (process_single_result T)"

definition or_int :: "behavior \<Rightarrow> integer_data \<Rightarrow> integer_data \<Rightarrow> exception_code + integer_data" where
  "or_int T x y = binary_op T x y (\<lambda>v w. v OR w) NaN (process_single_result T)"

definition xor_int :: "behavior \<Rightarrow> integer_data \<Rightarrow> integer_data \<Rightarrow> exception_code + integer_data" where
  "xor_int T x y = binary_op T x y (\<lambda>v w. v XOR w) NaN (process_single_result T)"

definition not_int :: "behavior \<Rightarrow> integer_data \<Rightarrow> exception_code + integer_data" where
  "not_int T x = unary_op T x (\<lambda>v. NOT v) NaN (process_single_result T)"

definition shl :: "behavior \<Rightarrow> integer_data \<Rightarrow> nat \<Rightarrow> exception_code + integer_data" where
  "shl T x shift = unary_op T x (\<lambda>v. push_bit shift v) NaN (process_single_result T)"

definition shr :: "behavior \<Rightarrow> integer_data \<Rightarrow> nat \<Rightarrow> exception_code + integer_data" where
  "shr T x shift = unary_op T x (\<lambda>v. drop_bit shift v) NaN (process_single_result T)"

text \<open>The quiet operations never fail, so the two \<open>unwrap\<close> of \<open>mask\<close> are total.\<close>

definition int_mask :: "nat \<Rightarrow> integer_data" where
  "int_mask n =
     (case bindR (shl Quiet one_int n) (\<lambda>x. sub Quiet x one_int) of Inr x \<Rightarrow> x | Inl _ \<Rightarrow> NaN)"

section \<open>Conversions (\<open>conversion.rs\<close>)\<close>

datatype int_type = U8 | I8 | U16 | I16 | U32 | I32 | U64 | I64 | U128 | Usize | Isize

primrec type_min :: "int_type \<Rightarrow> int" where
  "type_min U8 = 0" | "type_min I8 = - (2 ^ 7)"
| "type_min U16 = 0" | "type_min I16 = - (2 ^ 15)"
| "type_min U32 = 0" | "type_min I32 = - (2 ^ 31)"
| "type_min U64 = 0" | "type_min I64 = - (2 ^ 63)"
| "type_min U128 = 0"
| "type_min Usize = 0" | "type_min Isize = - (2 ^ 63)"

primrec type_max :: "int_type \<Rightarrow> int" where
  "type_max U8 = 2 ^ 8 - 1" | "type_max I8 = 2 ^ 7 - 1"
| "type_max U16 = 2 ^ 16 - 1" | "type_max I16 = 2 ^ 15 - 1"
| "type_max U32 = 2 ^ 32 - 1" | "type_max I32 = 2 ^ 31 - 1"
| "type_max U64 = 2 ^ 64 - 1" | "type_max I64 = 2 ^ 63 - 1"
| "type_max U128 = 2 ^ 128 - 1"
| "type_max Usize = 2 ^ 64 - 1" | "type_max Isize = 2 ^ 63 - 1"

definition to_primitive :: "int_type \<Rightarrow> int \<Rightarrow> int option" where
  "to_primitive t v = (if type_min t \<le> v \<and> v \<le> type_max t then Some v else None)"

definition from_int :: "int_type \<Rightarrow> int \<Rightarrow> exception_code + int" where
  "from_int t v = (case to_primitive t v of Some x \<Rightarrow> Inr x | None \<Rightarrow> Inl RangeCheckError)"

primrec integer_into :: "int_type \<Rightarrow> int \<Rightarrow> int \<Rightarrow> integer_data \<Rightarrow> exception_code + int" where
  "integer_into t lo hi NaN = Inl RangeCheckError"
| "integer_into t lo hi (Value v) =
     bindR (from_int t v) (\<lambda>ret. if lo > ret \<or> hi < ret then Inl RangeCheckError else Inr ret)"

primrec take_value_of :: "(int \<Rightarrow> 'a option) \<Rightarrow> integer_data \<Rightarrow> exception_code + 'a" where
  "take_value_of convert NaN = Inl IntegerOverflow"
| "take_value_of convert (Value v) =
     (case convert v of Some x \<Rightarrow> Inr x | None \<Rightarrow> Inl RangeCheckError)"

section \<open>What the operations promise\<close>

text \<open>\<open>integer_ok\<close>: not-a-number or a signed 257-bit value.  \<open>rounded\<close>: the condition
  the comments on \<open>Round\<close> put on the remainder; a tie of \<open>Nearest\<close> goes towards plus
  infinity.\<close>

primrec integer_ok :: "integer_data \<Rightarrow> bool" where
  "integer_ok NaN = True"
| "integer_ok (Value v) = (- (2 ^ 256) \<le> v \<and> v < 2 ^ 256)"

fun rounded :: "round \<Rightarrow> int \<Rightarrow> int \<Rightarrow> int \<Rightarrow> bool" where
  "rounded FloorToNegativeInfinity x d r = (\<bar>r\<bar> < \<bar>d\<bar> \<and> (r = 0 \<or> sgn r = sgn d))"
| "rounded Ceil x d r = (\<bar>r\<bar> < \<bar>d\<bar> \<and> (r = 0 \<or> sgn r = - sgn d))"
| "rounded FloorToZero x d r = (\<bar>r\<bar> < \<bar>d\<bar> \<and> (r = 0 \<or> sgn r = sgn x))"
| "rounded Nearest x d r = (2 * \<bar>r\<bar> < \<bar>d\<bar> \<or> 2 * \<bar>r\<bar> = \<bar>d\<bar> \<and> sgn r = - sgn d)"

section \<open>Sizes: lemmas\<close>

lemma nat_bits_le_iff: "nat_bits n \<le> k \<longleftrightarrow> n < 2 ^ k"
proof (induction k arbitrary: n)
  case 0
  show ?case by (cases n) (simp_all add: nat_bits.simps)
next
  case (Suc k)
  show ?case
    using Suc.IH [of "n div 2"] by (auto simp: nat_bits.simps [of n] div_less_iff_less_mult mult.commute)
qed

lemma bits_le_iff: "bits v \<le> k \<longleftrightarrow> \<bar>v\<bar> < 2 ^ k"
  by (simp add: bits_def nat_bits_le_iff nat_less_iff)

lemma bits_pow2: "bits (2 ^ k) = Suc k"
proof (rule antisym)
  show "bits (2 ^ k) \<le> Suc k" by (simp add: bits_le_iff)
  show "Suc k \<le> bits (2 ^ k)" using bits_le_iff [of "2 ^ k" k] by simp
qed

lemma and_pred_pow2: "(2 ^ k :: int) AND (2 ^ k - 1) = 0"
  by (simp add: mask_eq_exp_minus_1 [symmetric] take_bit_eq_mask [symmetric])

lemma and_pred_nonzero:
  assumes "0 < m" and "\<And>k. m \<noteq> 2 ^ k"
  shows "m AND (m - 1) \<noteq> (0 :: int)"
proof -
  define k where "k = bits m - 1"
  have pos: "bits m > 0" using assms(1) bits_le_iff [of m 0] by simp
  have lo: "2 ^ k \<le> m" using pos bits_le_iff [of m k] assms(1) unfolding k_def by linarith
  have hi: "m < 2 ^ Suc k" using pos bits_le_iff [of m "Suc k"] assms(1) by (simp add: k_def)
  have "2 ^ k < m" using lo assms(2) [of k] by simp
  then have "m div 2 ^ k = 1" "(m - 1) div 2 ^ k = 1"
    using hi div_pos_geq [of "2 ^ k" m] div_pos_geq [of "2 ^ k" "m - 1"] by simp_all
  then have "bit m k" "bit (m - 1) k" by (simp_all add: bit_iff_odd)
  then have "bit (m AND (m - 1)) k" by (simp add: bit_and_iff)
  then show ?thesis by auto
qed

lemma bitsize_le_iff:
  assumes "0 < n"
  shows "bitsize v \<le> n \<longleftrightarrow> - (2 ^ (n - 1)) \<le> v \<and> v < 2 ^ (n - 1)"
proof -
  obtain k where n: "n = Suc k" using assms by (cases n) auto
  consider "v = 0 \<or> v = - 1" | "v > 0" | "v < - 1" by linarith
  then show ?thesis
  proof cases
    case 1
    have "(0 :: int) < 2 ^ k" by simp
    with 1 show ?thesis using n by (auto simp: bitsize_def simp del: zero_less_power)
  next
    case 2
    then have "bitsize v = Suc (bits v)" by (simp add: bitsize_def)
    then show ?thesis using 2 n bits_le_iff [of v k] by (smt (verit) Suc_le_mono diff_Suc_1 zero_le_power)
  next
    case 3
    show ?thesis
    proof (cases "\<exists>j. \<bar>v\<bar> = 2 ^ j")
      case True
      then obtain j where j: "\<bar>v\<bar> = 2 ^ j" by blast
      have "bits v = Suc j" using j bits_pow2 [of j] by (metis abs_idempotent bits_def)
      then have "bitsize v = Suc j" using 3 j and_pred_pow2 [of j] by (simp add: bitsize_def Let_def)
      moreover have "j \<le> k \<longleftrightarrow> (2 :: int) ^ j \<le> 2 ^ k" by simp
      ultimately show ?thesis using 3 j n by (smt (verit) Suc_le_mono diff_Suc_1 zero_le_power)
    next
      case False
      then have "bitsize v = Suc (bits v)"
        using 3 and_pred_nonzero [of "\<bar>v\<bar>"] by (simp add: bitsize_def Let_def)
      then have "bitsize v \<le> n \<longleftrightarrow> \<bar>v\<bar> < 2 ^ k" using n bits_le_iff [of v k] by simp
      moreover have "\<bar>v\<bar> \<noteq> 2 ^ k" using False by blast
      ultimately show ?thesis using 3 n by (smt (verit) diff_Suc_1)
    qed
  qed
qed

lemma check_overflow_iff: "check_overflow v \<longleftrightarrow> - (2 ^ 256) \<le> v \<and> v < 2 ^ 256"
  using bitsize_le_iff [of 257 v] by (simp add: check_overflow_def less_Suc_eq_le [symmetric])

section \<open>Division: lemmas\<close>

lemma trunc_div_spec:
  fixes x d :: int
  assumes "d \<noteq> 0"
  shows "(x sdiv d) * d + x smod d = x" "\<bar>x smod d\<bar> < \<bar>d\<bar>" "x smod d = 0 \<or> sgn (x smod d) = sgn x"
proof -
  show "(x sdiv d) * d + x smod d = x" by (simp add: mult_sdiv_smod_eq mult.commute [of _ d])
  have m: "x smod d = sgn x * (\<bar>x\<bar> mod \<bar>d\<bar>)" by (simp add: signed_modulo_int_def signed_divide_int_def)
  show "\<bar>x smod d\<bar> < \<bar>d\<bar>" using assms by (simp add: m abs_mult) 
  show "x smod d = 0 \<or> sgn (x smod d) = sgn x"
  proof (cases "\<bar>x\<bar> mod \<bar>d\<bar> = 0")
    case False
    then have "0 < \<bar>x\<bar> mod \<bar>d\<bar>" using assms pos_mod_sign [of "\<bar>d\<bar>" "\<bar>x\<bar>"] by linarith
    then show ?thesis by (simp add: m sgn_mult)
  qed (simp add: m)
qed

lemma floor_div_spec:
  fixes x d :: int
  assumes "d \<noteq> 0"
  shows "(x div d) * d + x mod d = x" "\<bar>x mod d\<bar> < \<bar>d\<bar>" "x mod d \<noteq> 0 \<Longrightarrow> sgn (x mod d) = sgn d"
proof -
  show "(x div d) * d + x mod d = x" by simp
  consider "0 < d" | "d < 0" using assms by linarith
  then show "\<bar>x mod d\<bar> < \<bar>d\<bar>"
    by cases (use pos_mod_bound [of d x] pos_mod_sign [of d x] neg_mod_bound [of d x] neg_mod_sign [of d x] in linarith)+
  assume "x mod d \<noteq> 0"
  then have "0 < d \<Longrightarrow> 0 < x mod d" "d < 0 \<Longrightarrow> x mod d < 0"
    using pos_mod_sign [of d x] neg_mod_sign [of d x] by linarith+
  then show "sgn (x mod d) = sgn d" using assms by (cases "0 < d") auto
qed

lemma round_step:
  fixes q d r :: int
  shows "(q + 1) * d + (r - d) = q * d + r" "(q - 1) * d + (r + d) = q * d + r"
  by (simp_all add: algebra_simps)

lemma sgn_abs_diff:
  fixes r d :: int
  assumes "r \<noteq> 0" "\<bar>r\<bar> < \<bar>d\<bar>"
  shows "sgn r = sgn d \<Longrightarrow> \<bar>r - d\<bar> = \<bar>d\<bar> - \<bar>r\<bar> \<and> sgn (r - d) = - sgn d"
    "sgn r \<noteq> sgn d \<Longrightarrow> \<bar>r + d\<bar> = \<bar>d\<bar> - \<bar>r\<bar> \<and> sgn (r + d) = sgn d \<and> sgn r = - sgn d"
  using assms by (cases "0 < r"; cases "0 < d"; simp)+

lemma round_ceil_spec:
  assumes "\<bar>r\<bar> < \<bar>d\<bar>" "r = 0 \<or> sgn r = sgn x" "round_ceil q r x d = (q', r')"
  shows "q' * d + r' = q * d + r \<and> \<bar>r'\<bar> < \<bar>d\<bar> \<and> (r' = 0 \<or> sgn r' = - sgn d)"
proof (cases "r = 0 \<or> sgn r \<noteq> sgn d")
  case True
  then show ?thesis using assms sgn_abs_diff [of r d] by (cases "r = 0") (auto simp: round_ceil_def)
next
  case False
  then have "q' = q + 1" "r' = r - d" using assms by (auto simp: round_ceil_def)
  then show ?thesis using False assms(1) sgn_abs_diff [of r d] round_step(1) [of q d r] by simp
qed

lemma round_floor_spec:
  assumes "\<bar>r\<bar> < \<bar>d\<bar>" "r = 0 \<or> sgn r = sgn x" "round_floor_to_negative_infinity q r x d = (q', r')"
  shows "q' * d + r' = q * d + r \<and> \<bar>r'\<bar> < \<bar>d\<bar> \<and> (r' = 0 \<or> sgn r' = sgn d)"
proof (cases "r = 0 \<or> sgn r = sgn d")
  case True
  then show ?thesis using assms by (auto simp: round_floor_to_negative_infinity_def)
next
  case False
  then have "q' = q - 1" "r' = r + d" using assms by (auto simp: round_floor_to_negative_infinity_def)
  then show ?thesis using False assms(1) sgn_abs_diff [of r d] round_step(2) [of q d r] by simp
qed

lemma round_nearest_spec:
  assumes "\<bar>r\<bar> < \<bar>d\<bar>" "r = 0 \<or> sgn r = sgn x" "round_nearest q r x d = (q', r')"
  shows "q' * d + r' = q * d + r \<and> (2 * \<bar>r'\<bar> < \<bar>d\<bar> \<or> 2 * \<bar>r'\<bar> = \<bar>d\<bar> \<and> sgn r' = - sgn d)"
proof (cases "r = 0")
  case True
  then show ?thesis using assms by (simp add: round_nearest_def)
next
  case False
  then have "sgn x = sgn r" using assms(2) by simp
  with False have step: "round_nearest q r x d =
      (if 2 * \<bar>r\<bar> > \<bar>d\<bar> \<or> 2 * \<bar>r\<bar> = \<bar>d\<bar> \<and> sgn r = sgn d
       then if sgn r = sgn d then (q + 1, r - d) else (q - 1, r + d) else (q, r))"
    by (cases "sgn d = sgn r"; cases "2 * \<bar>r\<bar> > \<bar>d\<bar>"; cases "2 * \<bar>r\<bar> = \<bar>d\<bar>")
      (simp_all add: round_nearest_def int_cmp_def Let_def push_bit_eq_mult abs_mult)
  show ?thesis
  proof (cases "sgn r = sgn d")
    case True
    then show ?thesis
      using sgn_abs_diff(1) [OF False assms(1) True] round_step(1) [of q d r] assms(3)
      unfolding step by (cases "\<bar>d\<bar> < 2 * \<bar>r\<bar> \<or> 2 * \<bar>r\<bar> = \<bar>d\<bar>") auto
  next
    case neq: False
    then show ?thesis
      using sgn_abs_diff(2) [OF False assms(1) neq] round_step(2) [of q d r] assms(3)
      unfolding step by (cases "2 * \<bar>r\<bar> > \<bar>d\<bar>") auto
  qed
qed

lemma rounded_unique:
  assumes "d \<noteq> 0" "rounded m x d r" "rounded m x d r'" "q * d + r = x" "q' * d + r' = x"
  shows "q = q' \<and> r = r'"
proof -
  have eq: "(q - q') * d = r' - r" using assms(4,5) by (simp add: algebra_simps)
  have "\<bar>r' - r\<bar> < \<bar>d\<bar>"
  proof (cases m)
    case Nearest
    then have le: "2 * \<bar>r\<bar> \<le> \<bar>d\<bar>" "2 * \<bar>r'\<bar> \<le> \<bar>d\<bar>"
      and tie: "2 * \<bar>r\<bar> = \<bar>d\<bar> \<Longrightarrow> 2 * \<bar>r'\<bar> = \<bar>d\<bar> \<Longrightarrow> sgn r = sgn r'"
      using assms(2,3) by auto
    show ?thesis
    proof (cases "2 * \<bar>r\<bar> = \<bar>d\<bar> \<and> 2 * \<bar>r'\<bar> = \<bar>d\<bar>")
      case True
      then have "\<bar>r\<bar> = \<bar>r'\<bar>" "sgn r = sgn r'" using tie by simp_all
      then have "r = r'" by (metis mult_sgn_abs)
      then show ?thesis using assms(1) by simp
    next
      case False
      then show ?thesis using le by linarith
    qed
  qed (use assms(1-3) in \<open>cases "0 < d"; cases "0 < r"; cases "0 < r'"; simp add: sgn_if split: if_splits\<close>)+
  then have "\<bar>q - q'\<bar> * \<bar>d\<bar> < 1 * \<bar>d\<bar>" using eq by (metis abs_mult mult_1)
  then have "\<bar>q - q'\<bar> < 1" using assms(1) by (simp add: mult_less_cancel_right)
  then show ?thesis using eq by simp
qed

lemma divmod_rounded:
  assumes "d \<noteq> 0" and "divmod x d m = (q, r)"
  shows "q * d + r = x \<and> rounded m x d r"
proof -
  note t = trunc_div_spec [OF assms(1), of x]
  show ?thesis
  proof (cases m)
  case Ceil
  then show ?thesis
    using assms(2) round_ceil_spec [OF t(2,3)] t(1) by simp
next
  case FloorToNegativeInfinity
  then show ?thesis using assms(2) floor_div_spec [OF assms(1), of x] by auto
next
  case FloorToZero
  then show ?thesis using assms(2) t by auto
next
  case Nearest
  then show ?thesis using assms(2) round_nearest_spec [OF t(2,3)] t(1) by simp
  qed
qed

lemma shift_divmod_eq: "shift_divmod x n = (x sdiv 2 ^ n, x smod 2 ^ n)"
proof -
  have "v AND (push_bit n 1 - 1) = v mod 2 ^ n" for v :: int
    by (simp add: push_bit_eq_mult mask_eq_exp_minus_1 [symmetric] take_bit_eq_mask [symmetric] take_bit_eq_mod)
  then show ?thesis
    by (cases "x < 0"; cases "x = 0")
      (simp_all add: shift_divmod_def drop_bit_eq_div signed_divide_int_def signed_modulo_int_def)
qed

lemma div_by_shift_rounded:
  assumes "div_by_shift x n m = (q, r)"
  shows "q * 2 ^ n + r = x \<and> rounded m x (2 ^ n) r"
proof -
  have d: "(2 :: int) ^ n \<noteq> 0" by simp
  note t = trunc_div_spec [OF d, of x]
  note specs = round_ceil_spec [OF t(2,3)] round_floor_spec [OF t(2,3)] round_nearest_spec [OF t(2,3)]
  show ?thesis using assms specs t
    by (cases m) (simp_all add: div_by_shift_def shift_divmod_eq push_bit_eq_mult)
qed

lemma div_by_shift_eq_divmod: "div_by_shift x n m = divmod x (2 ^ n) m"
proof -
  obtain q r q' r' where "div_by_shift x n m = (q, r)" "divmod x (2 ^ n) m = (q', r')" by fastforce
  then show ?thesis
    using rounded_unique [of "2 ^ n" m x r r' q q'] div_by_shift_rounded [of x n m] divmod_rounded [of "2 ^ n" x m]
    by simp
qed

section \<open>The contract of the operations\<close>

lemma integer_from_eq: "integer_from v = (if integer_ok (Value v) then Inr (Value v) else Inl IntegerOverflow)"
  by (simp add: integer_from_def check_overflow_iff)

lemma process_single_result_eq:
  "process_single_result T v NaN =
     (if integer_ok (Value v) then Inr (Value v) else bindR (on_integer_overflow T) (\<lambda>_. Inr NaN))"
  by (simp add: process_single_result_def integer_from_eq del: integer_ok.simps)

locale int_binary =
  fixes oper :: "behavior \<Rightarrow> integer_data \<Rightarrow> integer_data \<Rightarrow> exception_code + integer_data"
    and f :: "int \<Rightarrow> int \<Rightarrow> int"
  assumes oper_value: "oper T (Value v) (Value w) =
      (if integer_ok (Value (f v w)) then Inr (Value (f v w)) else bindR (on_integer_overflow T) (\<lambda>_. Inr NaN))"
    and oper_nan: "x = NaN \<or> y = NaN \<Longrightarrow> oper T x y = bindR (on_nan_parameter T) (\<lambda>_. Inr NaN)"
begin

lemma in_range: "oper T x y = Inr z \<Longrightarrow> integer_ok z"
  by (cases T; cases x; cases y) (auto simp: oper_value oper_nan split: if_splits)

lemma signaling_value:
  "oper Signaling (Value v) (Value w) = (if integer_ok (Value (f v w)) then Inr (Value (f v w)) else Inl IntegerOverflow)"
  by (simp add: oper_value)

lemma signaling_ok: "oper Signaling x y = Inr z \<Longrightarrow> z \<noteq> NaN"
  by (cases x; cases y) (auto simp: oper_value oper_nan split: if_splits)

lemma signaling_error: "oper Signaling x y = Inl e \<Longrightarrow> e = IntegerOverflow"
  by (cases x; cases y) (auto simp: oper_value oper_nan split: if_splits)

lemma quiet_of_signaling:
  "oper Quiet x y = Inr (case oper Signaling x y of Inl _ \<Rightarrow> NaN | Inr z \<Rightarrow> z)"
  by (cases x; cases y) (auto simp: oper_value oper_nan)

end

locale int_unary =
  fixes oper :: "behavior \<Rightarrow> integer_data \<Rightarrow> exception_code + integer_data"
    and f :: "int \<Rightarrow> int"
  assumes oper_value: "oper T (Value v) =
      (if integer_ok (Value (f v)) then Inr (Value (f v)) else bindR (on_integer_overflow T) (\<lambda>_. Inr NaN))"
    and oper_nan: "oper T NaN = bindR (on_nan_parameter T) (\<lambda>_. Inr NaN)"
begin

lemma in_range: "oper T x = Inr z \<Longrightarrow> integer_ok z"
  by (cases T; cases x) (auto simp: oper_value oper_nan split: if_splits)

lemma signaling_value:
  "oper Signaling (Value v) = (if integer_ok (Value (f v)) then Inr (Value (f v)) else Inl IntegerOverflow)"
  by (simp add: oper_value)

lemma signaling_ok: "oper Signaling x = Inr z \<Longrightarrow> z \<noteq> NaN"
  by (cases x) (auto simp: oper_value oper_nan split: if_splits)

lemma signaling_error: "oper Signaling x = Inl e \<Longrightarrow> e = IntegerOverflow"
  by (cases x) (auto simp: oper_value oper_nan split: if_splits)

lemma quiet_of_signaling:
  "oper Quiet x = Inr (case oper Signaling x of Inl _ \<Rightarrow> NaN | Inr z \<Rightarrow> z)"
  by (cases x) (auto simp: oper_value oper_nan)

end

lemma binary_op_contract:
  "int_binary (\<lambda>T x y. binary_op T x y f NaN (process_single_result T)) f"
  by unfold_locales (auto simp: binary_op_def process_single_result_eq simp del: integer_ok.simps split: integer_data.splits)

lemma unary_op_contract:
  "int_unary (\<lambda>T x. unary_op T x f NaN (process_single_result T)) f"
  by unfold_locales (auto simp: unary_op_def process_single_result_eq simp del: integer_ok.simps)

interpretation add: int_binary add "(+)"
  using binary_op_contract [of "\<lambda>v w. v + w"] by (simp add: add_def [abs_def])

interpretation sub: int_binary sub "(-)"
  using binary_op_contract [of "\<lambda>v w. v - w"] by (simp add: sub_def [abs_def])

interpretation mul: int_binary mul "(*)"
  using binary_op_contract [of "\<lambda>v w. v * w"] by (simp add: mul_def [abs_def])

interpretation mul_shr256: int_binary mul_shr256 "\<lambda>v w. drop_bit 256 (v * w)"
  using binary_op_contract by (simp add: mul_shr256_def [abs_def])

interpretation and_int: int_binary and_int "(AND)"
  using binary_op_contract [of "\<lambda>v w. v AND w"] by (simp add: and_int_def [abs_def])

interpretation or_int: int_binary or_int "(OR)"
  using binary_op_contract [of "\<lambda>v w. v OR w"] by (simp add: or_int_def [abs_def])

interpretation xor_int: int_binary xor_int "(XOR)"
  using binary_op_contract [of "\<lambda>v w. v XOR w"] by (simp add: xor_int_def [abs_def])

interpretation neg: int_unary neg uminus
  using unary_op_contract [of "\<lambda>v. - v"] by (simp add: neg_def [abs_def])

interpretation not_int: int_unary not_int "NOT"
  using unary_op_contract [of "\<lambda>v. NOT v"] by (simp add: not_int_def [abs_def])

interpretation add_i8: int_unary "\<lambda>T x. add_i8 T x c" "\<lambda>v. v + c" for c
  using unary_op_contract by (simp add: add_i8_def)

interpretation sub_i8: int_unary "\<lambda>T x. sub_i8 T x c" "\<lambda>v. v - c" for c
  using unary_op_contract by (simp add: sub_i8_def)

interpretation mul_i8: int_unary "\<lambda>T x. mul_i8 T x c" "\<lambda>v. v * c" for c
  using unary_op_contract by (simp add: mul_i8_def)

interpretation shl: int_unary "\<lambda>T x. shl T x n" "push_bit n" for n
  using unary_op_contract [of "push_bit n"] by (simp add: shl_def)

interpretation shr: int_unary "\<lambda>T x. shr T x n" "drop_bit n" for n
  using unary_op_contract [of "drop_bit n"] by (simp add: shr_def)

lemma range_iff_drop_bit:
  fixes v :: int
  shows "- (2 ^ n) \<le> v \<and> v < 2 ^ n \<longleftrightarrow> drop_bit n v = 0 \<or> drop_bit n v = - 1"
proof -
  have zero: "u div 2 ^ n = 0 \<longleftrightarrow> 0 \<le> u \<and> u < 2 ^ n" for u :: int
    using zdiv_eq_0_iff [of u "2 ^ n"] zero_less_power [of "2 :: int" n] by linarith
  have "(v + 2 ^ n) div 2 ^ n = v div 2 ^ n + 1" by (rule div_add_self2) simp
  then have "v div 2 ^ n = - 1 \<longleftrightarrow> 0 \<le> v + 2 ^ n \<and> v + 2 ^ n < 2 ^ n"
    using zero [of "v + 2 ^ n"] by linarith
  then show ?thesis unfolding drop_bit_eq_div using zero [of v] zero_less_power [of "2 :: int" n] by linarith
qed

lemma bit_logic_in_range:
  fixes v w :: int
  assumes "- (2 ^ n) \<le> v \<and> v < 2 ^ n" "- (2 ^ n) \<le> w \<and> w < 2 ^ n"
  shows "- (2 ^ n) \<le> v AND w \<and> v AND w < 2 ^ n"
    "- (2 ^ n) \<le> v OR w \<and> v OR w < 2 ^ n"
    "- (2 ^ n) \<le> v XOR w \<and> v XOR w < 2 ^ n"
    "- (2 ^ n) \<le> NOT v \<and> NOT v < 2 ^ n"
    "- (2 ^ n) \<le> drop_bit k v \<and> drop_bit k v < 2 ^ n"
proof -
  show "- (2 ^ n) \<le> NOT v \<and> NOT v < 2 ^ n" using assms(1) by (simp add: not_eq_complement)
  have "drop_bit n (drop_bit k v) = drop_bit k (drop_bit n v)" by (simp add: add.commute)
  then show "- (2 ^ n) \<le> drop_bit k v \<and> drop_bit k v < 2 ^ n"
    using assms(1) unfolding range_iff_drop_bit by (elim disjE) simp_all
qed (use assms in \<open>unfold range_iff_drop_bit drop_bit_and drop_bit_or drop_bit_xor, elim disjE, simp_all\<close>)+

lemma divmod_quotient_bound:
  assumes "d \<noteq> 0" "divmod x d m = (q, r)" "- B \<le> x" "x < B" "2 \<le> B" "\<not> (x = - B \<and> d = - 1)"
  shows "- B \<le> q \<and> q < B"
proof -
  have x: "q * d + r = x" and "rounded m x d r" using divmod_rounded [OF assms(1,2)] by auto
  then have r: "\<bar>r\<bar> < \<bar>d\<bar>" using assms(1) by (cases m) auto
  consider "d = 1" | "d = - 1" | "2 \<le> \<bar>d\<bar>" using assms(1) by linarith
  then show ?thesis
  proof cases
    case 3
    have "\<bar>q * d\<bar> < \<bar>x\<bar> + \<bar>d\<bar>" using x r by linarith
    then have less: "\<bar>q\<bar> * \<bar>d\<bar> < \<bar>x\<bar> + \<bar>d\<bar>" by (simp only: abs_mult)
    show ?thesis
    proof (cases "q = 0")
      case False
      then have "(\<bar>q\<bar> - 1) * 2 \<le> (\<bar>q\<bar> - 1) * \<bar>d\<bar>" using 3 by (intro mult_left_mono) auto
      moreover have "(\<bar>q\<bar> - 1) * \<bar>d\<bar> = \<bar>q\<bar> * \<bar>d\<bar> - \<bar>d\<bar>" by (simp add: left_diff_distrib)
      ultimately have "2 * \<bar>q\<bar> - 2 < \<bar>x\<bar>" using less by simp
      moreover have "\<bar>x\<bar> \<le> B" using assms(3,4) by linarith
      ultimately have "2 * \<bar>q\<bar> < 2 * B" using assms(5) by linarith
      then show ?thesis by linarith
    qed (use assms(5) in simp)
  qed (use x r assms in simp_all)
qed

lemma divmod_remainder_in_range:
  assumes "d \<noteq> 0" "divmod x d m = (q, r)" "- (2 ^ 256) \<le> d" "d \<le> 2 ^ 256"
  shows "- (2 ^ 256) \<le> r \<and> r < 2 ^ 256"
proof -
  have "rounded m x d r" using divmod_rounded [OF assms(1,2)] by auto
  then have "\<bar>r\<bar> < \<bar>d\<bar>" using assms(1) by (cases m) auto
  then show ?thesis using assms(3,4) by linarith
qed

lemma integer_div_eq:
  assumes "integer_ok (Value d)" "d \<noteq> 0" "divmod x d m = (q, r)"
  shows "integer_div T (Value x) (Value d) m =
    (if integer_ok (Value q) then Inr (Value q, Value r) else bindR (on_integer_overflow T) (\<lambda>_. Inr (NaN, NaN)))"
proof -
  have "integer_ok (Value r)" using divmod_remainder_in_range [OF assms(2,3)] assms(1) by simp
  then show ?thesis using assms
    by (simp add: integer_div_def unary_op_def process_double_result_def integer_from_eq del: integer_ok.simps)
qed

end
