(* ===== verification/Integer_Theorems.thy ===== *)
theory Integer_Theorems
  imports Integer_Data
begin

text \<open>
  What the integer operations promise to the instructions: results are exact or refused, so that
  they stay within 257 bits, division rounds as the mode says, and the shifting division is the
  division by a power of two.
\<close>

unbundle bit_operations_syntax

text \<open>\<open>exact T r\<close>: the integer \<open>r\<close> where it fits, else the failure the behaviour \<open>T\<close> asks for.\<close>

definition refused :: "behavior \<Rightarrow> 'a \<Rightarrow> exception_code + 'a" where
  "refused T x = (if quiet T then Inr x else Inl IntegerOverflow)"

definition exact :: "behavior \<Rightarrow> int \<Rightarrow> exception_code + integer_data" where
  "exact T r = (if - (2 ^ 256) \<le> r \<and> r < 2 ^ 256 then Inr (Value r) else refused T NaN)"

lemma bind_overflow: "bindR (on_integer_overflow T) (\<lambda>_. Inr x) = refused T x"
  by (cases T) (simp_all add: refused_def)

lemma bind_nan_parameter: "bindR (on_nan_parameter T) (\<lambda>_. Inr x) = refused T x"
  by (cases T) (simp_all add: refused_def)

lemma exact_eq: "(if integer_ok (Value r) then Inr (Value r) else refused T NaN) = exact T r"
  by (simp add: exact_def)

lemma exact_ok: "- (2 ^ 256) \<le> r \<and> r < 2 ^ 256 \<Longrightarrow> exact T r = Inr (Value r)"
  by (simp add: exact_def)

context int_binary
begin

lemma exact_value: "oper T (Value v) (Value w) = exact T (f v w)"
  unfolding oper_value bind_overflow exact_eq ..

lemma refused_nan: "oper T NaN y = refused T NaN" "oper T x NaN = refused T NaN"
  by (simp_all add: oper_nan bind_nan_parameter)

end

context int_unary
begin

lemma exact_value: "oper T (Value v) = exact T (f v)"
  unfolding oper_value bind_overflow exact_eq ..

lemma refused_nan: "oper T NaN = refused T NaN"
  by (simp add: oper_nan bind_nan_parameter)

end

text \<open>C17: the arithmetic is exact.  Each operation on two numbers returns the mathematical result
  when it lies between \<open>- 2 ^ 256\<close> and \<open>2 ^ 256 - 1\<close>; otherwise, and on not-a-number, the
  signaling form fails with an integer overflow and the quiet form returns not-a-number.\<close>

theorem arithmetic_exact:
  "add T (Value v) (Value w) = exact T (v + w) \<and> add T NaN y = refused T NaN \<and> add T x NaN = refused T NaN \<and>
   sub T (Value v) (Value w) = exact T (v - w) \<and> sub T NaN y = refused T NaN \<and> sub T x NaN = refused T NaN \<and>
   mul T (Value v) (Value w) = exact T (v * w) \<and> mul T NaN y = refused T NaN \<and> mul T x NaN = refused T NaN \<and>
   mul_shr256 T (Value v) (Value w) = exact T ((v * w) div 2 ^ 256) \<and>
   mul_shr256 T NaN y = refused T NaN \<and> mul_shr256 T x NaN = refused T NaN \<and>
   neg T (Value v) = exact T (- v) \<and> neg T NaN = refused T NaN \<and>
   add_i8 T (Value v) c = exact T (v + c) \<and> add_i8 T NaN c = refused T NaN \<and>
   sub_i8 T (Value v) c = exact T (v - c) \<and> sub_i8 T NaN c = refused T NaN \<and>
   mul_i8 T (Value v) c = exact T (v * c) \<and> mul_i8 T NaN c = refused T NaN \<and>
   shl T (Value v) n = exact T (v * 2 ^ n) \<and> shl T NaN n = refused T NaN"
  unfolding add.exact_value sub.exact_value mul.exact_value mul_shr256.exact_value neg.exact_value
    add_i8.exact_value sub_i8.exact_value mul_i8.exact_value shl.exact_value
    add.refused_nan sub.refused_nan mul.refused_nan mul_shr256.refused_nan neg.refused_nan
    add_i8.refused_nan sub_i8.refused_nan mul_i8.refused_nan shl.refused_nan
    drop_bit_eq_div push_bit_eq_mult
  by simp

text \<open>C19: the bit operations never overflow: on 257-bit operands the conjunction, disjunction,
  exclusive or, complement and right shift succeed under both behaviours and return the operation
  on the infinite two's complement representations.\<close>

theorem bit_logic_total:
  assumes "integer_ok (Value v)" and "integer_ok (Value w)"
  shows "and_int T (Value v) (Value w) = Inr (Value (v AND w)) \<and>
    or_int T (Value v) (Value w) = Inr (Value (v OR w)) \<and>
    xor_int T (Value v) (Value w) = Inr (Value (v XOR w)) \<and>
    not_int T (Value v) = Inr (Value (- v - 1)) \<and>
    shr T (Value v) n = Inr (Value (v div 2 ^ n))"
proof -
  have r: "- (2 ^ 256) \<le> v \<and> v < 2 ^ 256" "- (2 ^ 256) \<le> w \<and> w < 2 ^ 256" using assms by auto
  note b = bit_logic_in_range [OF r]
  show ?thesis
    unfolding and_int.exact_value or_int.exact_value xor_int.exact_value not_int.exact_value shr.exact_value
      exact_ok [OF b(1)] exact_ok [OF b(2)] exact_ok [OF b(3)] exact_ok [OF b(4)] exact_ok [OF b(5)]
    by (simp add: not_eq_complement drop_bit_eq_div)
qed

theorem bit_logic_total_witness:
  "not_int Signaling (Value (2 ^ 256 - 1)) = Inr (Value (- (2 ^ 256))) \<and>
   shr Signaling (Value (2 ^ 256 - 1)) 255 = Inr (Value 1)"
  using bit_logic_total [of "2 ^ 256 - 1" 0 Signaling 255] by simp

text \<open>C14: division by a non-zero 257-bit number returns the quotient and the remainder that the
  rounding mode determines (they rebuild the dividend, and the remainder has the size and sign the
  mode prescribes); on 257-bit numbers it is refused only for \<open>- 2 ^ 256\<close> by \<open>- 1\<close>.\<close>

theorem integer_div_rounds:
  assumes "integer_ok (Value x)" and "integer_ok (Value d)" and "d \<noteq> 0"
  shows "\<exists>q r. q * d + r = x \<and> rounded m x d r \<and>
    integer_div T (Value x) (Value d) m =
      (if x = - (2 ^ 256) \<and> d = - 1 then refused T (NaN, NaN) else Inr (Value q, Value r))"
proof -
  obtain q r where qr: "divmod x d m = (q, r)" by fastforce
  have spec: "q * d + r = x \<and> rounded m x d r" by (rule divmod_rounded [OF assms(3) qr])
  have "integer_ok (Value q) \<longleftrightarrow> \<not> (x = - (2 ^ 256) \<and> d = - 1)"
  proof (cases "x = - (2 ^ 256) \<and> d = - 1")
    case True
    then have "r = 0" using spec by (cases m) auto
    then show ?thesis using True spec by auto
  next
    case False
    then show ?thesis using divmod_quotient_bound [OF assms(3) qr, of "2 ^ 256"] assms(1) by auto
  qed
  then have "integer_div T (Value x) (Value d) m =
      (if x = - (2 ^ 256) \<and> d = - 1 then refused T (NaN, NaN) else Inr (Value q, Value r))"
    using integer_div_eq [OF assms(2,3) qr, of T] unfolding bind_overflow by presburger
  then show ?thesis using spec by blast
qed

theorem integer_div_rounds_witness:
  "\<exists>q r. q * 2 + r = - 7 \<and> rounded Nearest (- 7) 2 r \<and>
     integer_div Signaling (Value (- 7)) (Value 2) Nearest = Inr (Value q, Value r)"
  using integer_div_rounds [of "- 7" 2 Nearest Signaling] by simp

text \<open>C15: the division by a shift, which works on magnitudes and masks, is the general division by
  the power of two, for every behaviour, dividend, shift and rounding mode.\<close>

theorem integer_div_by_shift_is_div:
  "integer_div_by_shift T x n m = integer_div T x (Value (2 ^ n)) m"
  by (cases x) (simp_all add: integer_div_by_shift_def integer_div_def unary_op_def div_by_shift_eq_divmod)

end
