(* ===== verification/Stack_Items.thy ===== *)
theory Stack_Items
  imports Integer_Data
begin

text \<open>
  Stack items and continuations (\<open>stack/mod.rs\<close>, \<open>stack/continuation.rs\<close>), the exceptions
  that carry an item (\<open>types.rs\<close>) and the errors of \<open>error.rs\<close>.

  Cells, slices and builders belong to the crate the machine is built on: they are the
  type variables \<open>'c\<close>, \<open>'s\<close> and \<open>'b\<close>.  A reference-counted pointer is the value
  it points to; \<open>mem::take\<close> through one is a returned pair.  The file and line of an
  exception and the texts of the errors are diagnostics and are left out.  A panic (an index out
  of range, an \<open>unwrap\<close> of nothing, \<open>unreachable!\<close>) is the error \<open>Panic\<close>.  The error
  \<open>OutOfFuel\<close> is the model's own: a loop that had no fuel left.
\<close>

section \<open>Data\<close>

datatype 's continuation_type =
    AgainLoopBody 's | TryCatch | CatchRevert nat | Ordinary | PushInt int | Quit int
  | RepeatLoopBody 's int | UntilLoopCondition 's | WhileLoopCondition 's 's | ExcQuit

datatype ('c, 's, 'b) stack_item =
    Item_None
  | Item_Builder 'b
  | Item_Cell 'c
  | Item_Continuation "('c, 's, 'b) continuation_data"
  | Item_Integer integer_data
  | Item_Slice 's
  | Item_Tuple "('c, 's, 'b) stack_item list"
and ('c, 's, 'b) continuation_data =
  ContinuationData (code_of: 's) (nargs_of: int) (savelist_of: "('c, 's, 'b) stack_item option list")
    (stack_of: "('c, 's, 'b) stack_item list") (type_of: "'s continuation_type")

type_synonym ('c, 's, 'b) save_list = "('c, 's, 'b) stack_item option list"
type_synonym ('c, 's, 'b) item_stack = "('c, 's, 'b) stack_item list"

datatype ('c, 's, 'b) exception_data =
  Exception (exception: exception_type) (exc_value: "('c, 's, 'b) stack_item")

datatype ('c, 's, 'b) tvm_error =
    FatalError | InvalidArg nat | InvalidData | TvmExceptionFull "('c, 's, 'b) exception_data"
  | CodeError exception_code | OtherError | Panic | OutOfFuel

section \<open>Exceptions and errors\<close>

definition from_code_and_value :: "exception_code \<Rightarrow> integer_data \<Rightarrow> ('c, 's, 'b) exception_data" where
  "from_code_and_value code v = Exception (System code) (Item_Integer v)"

definition from_code :: "exception_code \<Rightarrow> ('c, 's, 'b) exception_data" where
  "from_code code = from_code_and_value code (Value 0)"

definition i32_of_usize :: "nat \<Rightarrow> int" where
  "i32_of_usize n = sint (word_of_nat n :: 32 word)"

definition from_number_and_value :: "nat \<Rightarrow> ('c, 's, 'b) stack_item \<Rightarrow> ('c, 's, 'b) exception_data" where
  "from_number_and_value number v = Exception (Custom (i32_of_usize number)) v"

definition exc :: "exception_code \<Rightarrow> ('c, 's, 'b) tvm_error" where
  "exc code = TvmExceptionFull (from_code code)"

definition err :: "exception_code \<Rightarrow> ('c, 's, 'b) tvm_error + 'a" where
  "err code = Inl (exc code)"

definition lift_code :: "exception_code + 'a \<Rightarrow> ('c, 's, 'b) tvm_error + 'a" where
  "lift_code r = map_err exc r"

fun tvm_exception ::
  "('c, 's, 'b) tvm_error \<Rightarrow> ('c, 's, 'b) tvm_error + ('c, 's, 'b) exception_data" where
  "tvm_exception (TvmExceptionFull e) = Inr e"
| "tvm_exception (CodeError code) = Inr (from_code code)"
| "tvm_exception e = Inl e"

fun tvm_exception_code :: "('c, 's, 'b) tvm_error \<Rightarrow> exception_code option" where
  "tvm_exception_code (TvmExceptionFull e) = exception_code_of (exception e)"
| "tvm_exception_code (CodeError code) = Some code"
| "tvm_exception_code e = None"

fun tvm_exception_or_custom_code :: "(exception_code \<Rightarrow> int) \<Rightarrow> ('c, 's, 'b) tvm_error \<Rightarrow> int" where
  "tvm_exception_or_custom_code num (TvmExceptionFull e) = exception_or_custom_code num (exception e)"
| "tvm_exception_or_custom_code num (CodeError code) = num code"
| "tvm_exception_or_custom_code num e = num UnknownError"

fun tvm_exception_full :: "('c, 's, 'b) tvm_error \<Rightarrow> ('c, 's, 'b) exception_data option" where
  "tvm_exception_full (TvmExceptionFull e) = Some e"
| "tvm_exception_full (CodeError code) = Some (from_code code)"
| "tvm_exception_full e = None"

fun update_error_description :: "('c, 's, 'b) tvm_error \<Rightarrow> ('c, 's, 'b) tvm_error" where
  "update_error_description (CodeError code) = TvmExceptionFull (from_code code)"
| "update_error_description e = e"

section \<open>Items\<close>

definition item_boolean :: "bool \<Rightarrow> ('c, 's, 'b) stack_item" where
  "item_boolean b = Item_Integer (if b then minus_one_int else zero_int)"

definition item_int :: "int \<Rightarrow> ('c, 's, 'b) stack_item" where
  "item_int v = Item_Integer (Value v)"

fun as_bool :: "('c, 's, 'b) stack_item \<Rightarrow> ('c, 's, 'b) tvm_error + bool" where
  "as_bool (Item_Integer data) = (if is_nan data then err IntegerOverflow else Inr (\<not> is_zero data))"
| "as_bool _ = err TypeCheckError"

fun as_builder :: "('c, 's, 'b) stack_item \<Rightarrow> ('c, 's, 'b) tvm_error + 'b" where
  "as_builder (Item_Builder data) = Inr data"
| "as_builder _ = err TypeCheckError"

fun as_cell :: "('c, 's, 'b) stack_item \<Rightarrow> ('c, 's, 'b) tvm_error + 'c" where
  "as_cell (Item_Cell data) = Inr data"
| "as_cell _ = err TypeCheckError"

fun as_continuation ::
  "('c, 's, 'b) stack_item \<Rightarrow> ('c, 's, 'b) tvm_error + ('c, 's, 'b) continuation_data" where
  "as_continuation (Item_Continuation data) = Inr data"
| "as_continuation _ = err TypeCheckError"

fun as_dict :: "('c, 's, 'b) stack_item \<Rightarrow> ('c, 's, 'b) tvm_error + 'c option" where
  "as_dict Item_None = Inr None"
| "as_dict (Item_Cell data) = Inr (Some data)"
| "as_dict _ = err TypeCheckError"

fun as_integer :: "('c, 's, 'b) stack_item \<Rightarrow> ('c, 's, 'b) tvm_error + integer_data" where
  "as_integer (Item_Integer data) = Inr data"
| "as_integer _ = err TypeCheckError"

fun as_slice :: "('c, 's, 'b) stack_item \<Rightarrow> ('c, 's, 'b) tvm_error + 's" where
  "as_slice (Item_Slice data) = Inr data"
| "as_slice _ = err TypeCheckError"

fun as_tuple ::
  "('c, 's, 'b) stack_item \<Rightarrow> ('c, 's, 'b) tvm_error + ('c, 's, 'b) stack_item list" where
  "as_tuple (Item_Tuple data) = Inr data"
| "as_tuple _ = err TypeCheckError"

definition as_int_in ::
  "int_type \<Rightarrow> int \<Rightarrow> int \<Rightarrow> ('c, 's, 'b) stack_item \<Rightarrow> ('c, 's, 'b) tvm_error + int" where
  "as_int_in t lo hi x = bindR (as_integer x) (\<lambda>v. lift_code (integer_into t lo hi v))"

definition as_small_integer :: "('c, 's, 'b) stack_item \<Rightarrow> ('c, 's, 'b) tvm_error + nat" where
  "as_small_integer x = bindR (as_int_in Usize 0 255 x) (\<lambda>v. Inr (nat v))"

definition tuple_item ::
  "('c, 's, 'b) stack_item \<Rightarrow> nat \<Rightarrow> bool \<Rightarrow> ('c, 's, 'b) tvm_error + ('c, 's, 'b) stack_item" where
  "tuple_item x index dflt = bindR (as_tuple x) (\<lambda>tuple.
     if index < length tuple then Inr (tuple ! index)
     else if dflt then Inr Item_None else err RangeCheckError)"

definition tuple_item_ref ::
  "('c, 's, 'b) stack_item \<Rightarrow> nat \<Rightarrow> ('c, 's, 'b) tvm_error + ('c, 's, 'b) stack_item" where
  "tuple_item_ref x index = bindR (as_tuple x) (\<lambda>tuple.
     if index < length tuple then Inr (tuple ! index) else err RangeCheckError)"

text \<open>The contents are taken out: beside the result stands what is left behind.\<close>

fun as_tuple_mut ::
  "('c, 's, 'b) stack_item \<Rightarrow>
   (('c, 's, 'b) tvm_error + ('c, 's, 'b) stack_item list) \<times> ('c, 's, 'b) stack_item" where
  "as_tuple_mut (Item_Tuple data) = (Inr data, Item_Tuple [])"
| "as_tuple_mut x = (err TypeCheckError, x)"

text \<open>A shared tuple is copied by a range index, which panics when it is too short; an
  unshared one is truncated.  The model has the first behaviour.\<close>

fun withdraw_tuple_part ::
  "nat \<Rightarrow> ('c, 's, 'b) stack_item \<Rightarrow>
   (('c, 's, 'b) tvm_error + ('c, 's, 'b) stack_item list) \<times> ('c, 's, 'b) stack_item" where
  "withdraw_tuple_part n (Item_Tuple data) =
     (if n \<le> length data then Inr (take n data) else Inl Panic, Item_Tuple [])"
| "withdraw_tuple_part n x = (err TypeCheckError, x)"

fun is_null :: "('c, 's, 'b) stack_item \<Rightarrow> bool" where
  "is_null Item_None = True"
| "is_null _ = False"

fun is_slice :: "('c, 's, 'b) stack_item \<Rightarrow> bool" where
  "is_slice (Item_Slice _) = True"
| "is_slice _ = False"

fun is_tuple :: "('c, 's, 'b) stack_item \<Rightarrow> bool" where
  "is_tuple (Item_Tuple _) = True"
| "is_tuple _ = False"

fun is_continuation :: "('c, 's, 'b) stack_item \<Rightarrow> bool" where
  "is_continuation (Item_Continuation _) = True"
| "is_continuation _ = False"

section \<open>Lemmas\<close>

named_theorems item_cases \<open>what a successful access says of the item\<close>

lemma err_neq [simp]: "err c \<noteq> Inr x" "Inr x \<noteq> err c" "err c \<noteq> Inl Panic" "exc c \<noteq> Panic"
  "is_ok (err c) = False"
  by (simp_all add: err_def exc_def)

lemma bindR_err [simp]: "bindR (err c) f = err c"
  by (simp add: err_def)

lemma err_eq_iff [simp]: "err c = err d \<longleftrightarrow> c = d" "exc c = exc d \<longleftrightarrow> c = d"
  by (simp_all add: err_def exc_def from_code_def from_code_and_value_def)

lemma lift_code_simps [simp]: "lift_code (Inr x) = Inr x" "lift_code (Inl c) = err c"
  by (simp_all add: lift_code_def err_def)

lemma lift_code_not_panic [simp]: "lift_code r \<noteq> Inl Panic"
  by (cases r) simp_all

lemma as_InrD [item_cases]:
  "as_builder x = Inr b \<Longrightarrow> x = Item_Builder b"
  "as_cell x = Inr c \<Longrightarrow> x = Item_Cell c"
  "as_continuation x = Inr k \<Longrightarrow> x = Item_Continuation k"
  "as_integer x = Inr i \<Longrightarrow> x = Item_Integer i"
  "as_slice x = Inr s \<Longrightarrow> x = Item_Slice s"
  "as_tuple x = Inr t \<Longrightarrow> x = Item_Tuple t"
  by (cases x; simp)+

lemma as_ok_iff:
  "is_ok (as_continuation x) = is_continuation x"
  "is_ok (as_tuple x) = is_tuple x"
  by (cases x; simp)+

lemma as_not_panic [simp]:
  "as_bool x \<noteq> Inl Panic" "as_builder x \<noteq> Inl Panic" "as_cell x \<noteq> Inl Panic"
  "as_continuation x \<noteq> Inl Panic" "as_dict x \<noteq> Inl Panic" "as_integer x \<noteq> Inl Panic"
  "as_slice x \<noteq> Inl Panic" "as_tuple x \<noteq> Inl Panic"
  by (cases x; simp)+

end
