(* ===== verification/Stack_Ops.thy ===== *)
theory Stack_Ops
  imports Stack_Items
begin

text \<open>
  The data stack (\<open>Stack\<close> of \<open>stack/mod.rs\<close>).  The storage is the vector of the
  source: the top of the stack is its last element, and index \<open>i\<close> counts from the top.
  The specification reads the storage backwards, top first.
\<close>

section \<open>Operations\<close>

definition depth :: "('c, 's, 'b) item_stack \<Rightarrow> nat" where
  "depth st = length st"

definition push :: "('c, 's, 'b) stack_item \<Rightarrow> ('c, 's, 'b) item_stack \<Rightarrow> ('c, 's, 'b) item_stack" where
  "push x st = st @ [x]"

definition drop_top :: "nat \<Rightarrow> ('c, 's, 'b) item_stack \<Rightarrow> ('c, 's, 'b) item_stack" where
  "drop_top n st = (if depth st < n then st else take (depth st - n) st)"

definition stack_drop ::
  "nat \<Rightarrow> ('c, 's, 'b) item_stack \<Rightarrow>
   ('c, 's, 'b) tvm_error + ('c, 's, 'b) stack_item \<times> ('c, 's, 'b) item_stack" where
  "stack_drop i st =
     (if i \<ge> depth st then err StackUnderflow
      else let k = depth st - i - 1 in Inr (st ! k, take k st @ drop (Suc k) st))"

definition drop_range ::
  "nat \<Rightarrow> nat \<Rightarrow> ('c, 's, 'b) item_stack \<Rightarrow>
   ('c, 's, 'b) tvm_error + ('c, 's, 'b) stack_item list \<times> ('c, 's, 'b) item_stack" where
  "drop_range start stop st =
     (if start \<ge> stop then Inr ([], st)
      else if stop > depth st then err StackUnderflow
      else Inr (rev (take (stop - start) (drop (depth st - stop) st)),
                take (depth st - stop) st @ drop (depth st - start) st))"

definition drop_range_straight ::
  "nat \<Rightarrow> nat \<Rightarrow> ('c, 's, 'b) item_stack \<Rightarrow>
   ('c, 's, 'b) tvm_error + ('c, 's, 'b) stack_item list \<times> ('c, 's, 'b) item_stack" where
  "drop_range_straight start stop st =
     (if start \<ge> stop then Inr ([], st)
      else if stop > depth st then err StackUnderflow
      else if stop = depth st
      then let rem = drop (depth st - start) st; storage = take (depth st - start) st
           in Inr (storage, rem)
      else Inr (take (stop - start) (drop (depth st - stop) st),
                take (depth st - stop) st @ drop (depth st - start) st))"

function push_popped ::
  "('c, 's, 'b) stack_item list \<Rightarrow> ('c, 's, 'b) item_stack \<Rightarrow> ('c, 's, 'b) item_stack" where
  "push_popped block st =
     (if block = [] then st else push_popped (butlast block) (push (last block) st))"
  by pat_completeness auto
termination by (relation "measure (\<lambda>(block, st). length block)") auto

declare push_popped.simps [simp del]

definition block_swap ::
  "nat \<Rightarrow> nat \<Rightarrow> ('c, 's, 'b) item_stack \<Rightarrow> ('c, 's, 'b) tvm_error + ('c, 's, 'b) item_stack" where
  "block_swap i j st =
     (if depth st < j + i then err StackUnderflow
      else bindR (drop_range j (j + i) st) (\<lambda>(block, st). Inr (push_popped block st)))"

definition stack_get ::
  "nat \<Rightarrow> ('c, 's, 'b) item_stack \<Rightarrow> ('c, 's, 'b) tvm_error + ('c, 's, 'b) stack_item" where
  "stack_get i st = (if i < depth st then Inr (st ! (depth st - i - 1)) else Inl Panic)"

definition stack_insert ::
  "nat \<Rightarrow> ('c, 's, 'b) stack_item \<Rightarrow> ('c, 's, 'b) item_stack \<Rightarrow>
   ('c, 's, 'b) tvm_error + ('c, 's, 'b) item_stack" where
  "stack_insert i x st =
     (if i \<le> depth st then Inr (take (depth st - i) st @ [x] @ drop (depth st - i) st) else Inl Panic)"

definition list_swap :: "nat \<Rightarrow> nat \<Rightarrow> 'a list \<Rightarrow> 'a list" where
  "list_swap a b xs = xs[a := xs ! b, b := xs ! a]"

definition reverse_range ::
  "nat \<Rightarrow> nat \<Rightarrow> ('c, 's, 'b) item_stack \<Rightarrow> ('c, 's, 'b) tvm_error + ('c, 's, 'b) item_stack" where
  "reverse_range start stop st =
     (if stop > depth st then err StackUnderflow
      else if stop < start then Inl Panic
      else Inr (fold (\<lambda>i. list_swap (depth st - start - i - 1) (depth st - stop + i))
                  [0..<(stop - start) div 2] st))"

definition push_copy ::
  "nat \<Rightarrow> ('c, 's, 'b) item_stack \<Rightarrow> ('c, 's, 'b) tvm_error + ('c, 's, 'b) item_stack" where
  "push_copy index st =
     (if index \<ge> depth st then err StackUnderflow else Inr (push (st ! (depth st - 1 - index)) st))"

definition stack_swap ::
  "nat \<Rightarrow> nat \<Rightarrow> ('c, 's, 'b) item_stack \<Rightarrow> ('c, 's, 'b) tvm_error + ('c, 's, 'b) item_stack" where
  "stack_swap i j st =
     (if i \<ge> depth st \<or> j \<ge> depth st then err StackUnderflow
      else Inr (list_swap (depth st - i - 1) (depth st - j - 1) st))"

primrec push_copies ::
  "nat \<Rightarrow> nat \<Rightarrow> ('c, 's, 'b) item_stack \<Rightarrow> ('c, 's, 'b) tvm_error + ('c, 's, 'b) item_stack" where
  "push_copies 0 index st = Inr st"
| "push_copies (Suc n) index st = bindR (push_copy index st) (push_copies n index)"

section \<open>The stack read from the top\<close>

definition view :: "'a list \<Rightarrow> 'a list" where
  "view st = rev st"

named_theorems stack_view \<open>effect of the stack operations on the view from the top\<close>

lemma length_view [simp]: "length (view st) = length st"
  by (simp add: view_def)

lemma view_inject [simp]: "view a = view b \<longleftrightarrow> a = b"
  by (simp add: view_def)

lemma nth_storage: "i < length st \<Longrightarrow> st ! (length st - i - 1) = view st ! i"
  by (simp add: view_def rev_nth)

lemma nth_storage': "i < length st \<Longrightarrow> st ! (length st - Suc i) = view st ! i"
  using nth_storage [of i st] by simp

lemma list_swap_storage:
  assumes "i < length st" "j < length st"
  shows "view (list_swap (length st - i - 1) (length st - j - 1) st) = list_swap i j (view st)"
  using assms by (simp add: list_swap_def view_def rev_update rev_nth)

lemma push_view [stack_view]: "view (push x st) = x # view st"
  by (simp add: push_def view_def)

lemma depth_push [simp]: "depth (push x st) = Suc (depth st)"
  by (simp add: depth_def push_def)

lemma depth_view: "depth st = length (view st)"
  by (simp add: depth_def)

lemma push_popped_eq: "push_popped block st = st @ rev block"
proof (induction block arbitrary: st rule: rev_induct)
  case Nil
  show ?case by (subst push_popped.simps) simp
next
  case (snoc x xs)
  then show ?case by (subst push_popped.simps) (simp add: push_def)
qed

lemma drop_range_view [stack_view]:
  assumes "start \<le> stop" "stop \<le> depth st"
  shows "\<exists>st'. drop_range start stop st = Inr (take (stop - start) (drop start (view st)), st') \<and>
    view st' = take start (view st) @ drop stop (view st)"
proof -
  obtain v where v: "st = rev v" by (metis rev_rev_ident)
  have le: "stop \<le> length v" using assms(2) by (simp add: v depth_def)
  have block: "rev (take (stop - start) (drop (length v - stop) (rev v))) = take (stop - start) (drop start v)"
    using le assms(1) by (simp add: drop_rev take_rev drop_take)
  have rest: "take (length v - stop) (rev v) @ drop (length v - start) (rev v) = rev (take start v @ drop stop v)"
    using le assms(1) by (simp add: drop_rev take_rev)
  show ?thesis
  proof (cases "start = stop")
    case True
    then show ?thesis by (simp add: drop_range_def v view_def)
  next
    case False
    then show ?thesis using le assms(1) block rest by (simp add: drop_range_def depth_def v view_def)
  qed
qed

lemma drop_range_error:
  "drop_range start stop st = err StackUnderflow \<longleftrightarrow> start < stop \<and> depth st < stop"
  by (simp add: drop_range_def)

lemma push_copy_view [stack_view]:
  "push_copy i st = (if i < depth st then Inr (push (view st ! i) st) else err StackUnderflow)"
  by (simp add: push_copy_def depth_def view_def rev_nth)

lemma stack_swap_view [stack_view]:
  assumes "i < depth st" "j < depth st"
  shows "\<exists>st'. stack_swap i j st = Inr st' \<and> view st' = list_swap i j (view st)"
  using assms list_swap_storage [of i st j] by (simp add: stack_swap_def depth_def)

lemma stack_drop_view [stack_view]:
  assumes "i < depth st"
  shows "\<exists>st'. stack_drop i st = Inr (view st ! i, st') \<and> view st' = take i (view st) @ drop (Suc i) (view st)"
proof -
  obtain v where v: "st = rev v" by (metis rev_rev_ident)
  have i: "i < length v" using assms by (simp add: v depth_def)
  have "take (length v - i - 1) (rev v) = rev (drop (Suc i) v)" using i by (simp add: take_rev)
  moreover have "drop (Suc (length v - i - 1)) (rev v) = rev (take i v)" using i by (simp add: drop_rev)
  ultimately show ?thesis using i by (simp add: stack_drop_def depth_def v view_def rev_nth Let_def)
qed

lemma drop_top_view [stack_view]: "n \<le> depth st \<Longrightarrow> view (drop_top n st) = drop n (view st)"
  by (simp add: drop_top_def depth_def view_def rev_take)

lemma drop_range_straight_eq:
  "drop_range_straight start stop st =
     bindR (drop_range start stop st) (\<lambda>(items, rest). Inr (rev items, rest))"
  by (auto simp: drop_range_straight_def drop_range_def depth_def Let_def)

lemma block_swap_view [stack_view]:
  assumes "i + j \<le> depth st"
  shows "\<exists>st'. block_swap i j st = Inr st' \<and>
    view st' = take i (drop j (view st)) @ take j (view st) @ drop (i + j) (view st)"
  using assms drop_range_view [of j "j + i" st]
  by (auto simp: block_swap_def push_popped_eq view_def add.commute)

lemma block_swap_error: "block_swap i j st = err StackUnderflow \<longleftrightarrow> depth st < j + i"
  using block_swap_view [of i j st] by (cases "depth st < j + i") (auto simp: block_swap_def)

lemma length_list_swap [simp]: "length (list_swap a b xs) = length xs"
  by (simp add: list_swap_def)

lemma nth_list_swap:
  "a < length xs \<Longrightarrow> b < length xs \<Longrightarrow> p < length xs \<Longrightarrow>
   list_swap a b xs ! p = (if p = a then xs ! b else if p = b then xs ! a else xs ! p)"
  by (simp add: list_swap_def nth_list_update)

lemma length_fold_swap [simp]: "length (fold (\<lambda>i. list_swap (f i) (g i)) ns xs) = length xs"
  by (induction ns arbitrary: xs) simp_all

lemma nth_fold_swap:
  assumes "lo + 2 * k \<le> hi" "hi \<le> length xs" "p < length xs"
  shows "fold (\<lambda>i. list_swap (hi - i - 1) (lo + i)) [0..<k] xs ! p =
    (if lo \<le> p \<and> p < lo + k \<or> hi - k \<le> p \<and> p < hi then xs ! (lo + hi - 1 - p) else xs ! p)"
  using assms(1,3)
proof (induction k arbitrary: p)
  case (Suc k)
  let ?ys = "fold (\<lambda>i. list_swap (hi - i - 1) (lo + i)) [0..<k] xs"
  have IH: "?ys ! q = (if lo \<le> q \<and> q < lo + k \<or> hi - k \<le> q \<and> q < hi then xs ! (lo + hi - 1 - q) else xs ! q)"
    if "q < length xs" for q using Suc.IH Suc.prems(1) that by simp
  have a: "hi - k - 1 < length xs" "lo + k < length xs" using Suc.prems(1) assms(2) by auto
  have ends: "?ys ! (hi - k - 1) = xs ! (hi - k - 1)" "?ys ! (lo + k) = xs ! (lo + k)"
    using IH [OF a(1)] IH [OF a(2)] Suc.prems(1) by auto
  have "fold (\<lambda>i. list_swap (hi - i - 1) (lo + i)) [0..<Suc k] xs ! p =
      list_swap (hi - k - 1) (lo + k) ?ys ! p" by simp
  also have "\<dots> = (if p = hi - k - 1 then xs ! (lo + k) else if p = lo + k then xs ! (hi - k - 1) else ?ys ! p)"
    using a Suc.prems(2) ends nth_list_swap [of "hi - k - 1" ?ys "lo + k" p] by simp
  also have "\<dots> = (if lo \<le> p \<and> p < lo + Suc k \<or> hi - Suc k \<le> p \<and> p < hi then xs ! (lo + hi - 1 - p) else xs ! p)"
  proof -
    consider "p = hi - k - 1" | "p = lo + k" | "p \<noteq> hi - k - 1" "p \<noteq> lo + k" by blast
    then show ?thesis
    proof cases
      case 1
      then have "lo + hi - 1 - p = lo + k" using Suc.prems(1) by simp
      then show ?thesis using 1 Suc.prems(1) by simp
    next
      case 2
      then have "lo + hi - 1 - p = hi - k - 1" using Suc.prems(1) by simp
      then show ?thesis using 2 Suc.prems(1) by auto
    next
      case 3
      then show ?thesis using IH [OF Suc.prems(2)] Suc.prems(1) by auto
    qed
  qed
  finally show ?case .
qed auto

lemma reverse_range_view [stack_view]:
  assumes "start \<le> stop" "stop \<le> depth st"
  shows "\<exists>st'. reverse_range start stop st = Inr st' \<and>
    view st' = take start (view st) @ rev (take (stop - start) (drop start (view st))) @ drop stop (view st)"
proof -
  let ?n = "length st"
  define k where "k = (stop - start) div 2"
  have k: "2 * k \<le> stop - start" "stop - start \<le> Suc (2 * k)" by (auto simp: k_def)
  let ?st = "fold (\<lambda>i. list_swap (?n - start - i - 1) (?n - stop + i)) [0..<k] st"
  have b: "?n - stop + 2 * k \<le> ?n - start" "?n - start \<le> length st" using assms k by (auto simp: depth_def)
  have "view ?st = take start (view st) @ rev (take (stop - start) (drop start (view st))) @ drop stop (view st)"
    (is "_ = ?rhs")
  proof (rule nth_equalityI)
    show "length (view ?st) = length ?rhs" using assms by (simp add: depth_def)
    fix q assume "q < length (view ?st)"
    then have q: "q < ?n" by simp
    define p where "p = ?n - 1 - q"
    have p: "p < length st" using q by (simp add: p_def)
    have "view ?st ! q = ?st ! p" using q by (simp add: view_def rev_nth p_def)
    also have "\<dots> = (if start \<le> q \<and> q < stop then st ! (?n - stop + (?n - start) - 1 - p) else st ! p)"
    proof -
      have "p = ?n - stop + (?n - start) - 1 - p" if "start \<le> q" "q < stop"
        "\<not> (?n - stop \<le> p \<and> p < ?n - stop + k \<or> ?n - start - k \<le> p \<and> p < ?n - start)"
        using that assms q k unfolding p_def depth_def by linarith
      moreover have "start \<le> q \<and> q < stop"
        if "?n - stop \<le> p \<and> p < ?n - stop + k \<or> ?n - start - k \<le> p \<and> p < ?n - start"
        using that assms q k unfolding p_def depth_def by linarith
      ultimately show ?thesis using nth_fold_swap [OF b p] by (auto simp: diff_right_commute)
    qed
    also have "\<dots> = ?rhs ! q"
      using assms q by (auto simp: p_def depth_def nth_append view_def rev_nth add.commute)
    finally show "view ?st ! q = ?rhs ! q" .
  qed
  then show ?thesis using assms by (simp add: reverse_range_def depth_def k_def)
qed

lemma push_copies_view:
  assumes "i < depth st"
  shows "\<exists>st'. push_copies n i st = Inr st' \<and> depth st' = depth st + n \<and>
    (\<exists>xs. view st' = xs @ view st \<and> length xs = n)"
  using assms
proof (induction n arbitrary: st)
  case (Suc n)
  then obtain st' xs where "push_copies n i (push (view st ! i) st) = Inr st'"
    "depth st' = depth (push (view st ! i) st) + n" "view st' = xs @ view (push (view st ! i) st)" "length xs = n"
    using Suc.IH [of "push (view st ! i) st"] by auto
  then show ?case using Suc.prems
    by (auto simp: push_copy_view push_view intro!: exI [of _ "xs @ [view st ! i]"])
qed (auto simp: depth_def)

end
