(* ===== verification/Save_List.thy ===== *)
theory Save_List
  imports Stack_Ops
begin

text \<open>
  Save lists (\<open>stack/savelist.rs\<close>) and the operations on continuations of
  \<open>stack/continuation.rs\<close>.  A save list is the array of the source: seven optional items,
  for the registers 0 to 5 and 7.
\<close>

section \<open>Save lists\<close>

definition NUMREGS :: nat where "NUMREGS = 7"

definition REGS :: "nat list" where "REGS = [0, 1, 2, 3, 4, 5, 7]"

definition adjust :: "nat \<Rightarrow> nat" where
  "adjust index = (if index = 7 then 6 else index)"

definition savelist_new :: "('c, 's, 'b) save_list" where
  "savelist_new = replicate NUMREGS None"

definition can_put :: "nat \<Rightarrow> ('c, 's, 'b) stack_item \<Rightarrow> bool" where
  "can_put index x =
     (if index = 0 \<or> index = 1 \<or> index = 3 then is_ok (as_continuation x)
      else if index = 2 then is_ok (as_continuation x) \<or> is_null x
      else if index = 4 \<or> index = 5 then is_ok (as_cell x)
      else if index = 7 then is_ok (as_tuple x)
      else False)"

definition check_can_put :: "nat \<Rightarrow> ('c, 's, 'b) stack_item \<Rightarrow> ('c, 's, 'b) tvm_error + unit" where
  "check_can_put index x = (if can_put index x then Inr () else err TypeCheckError)"

text \<open>Reading a slot outside the array panics.\<close>

definition savelist_get ::
  "nat \<Rightarrow> ('c, 's, 'b) save_list \<Rightarrow> ('c, 's, 'b) tvm_error + ('c, 's, 'b) stack_item option" where
  "savelist_get index sl = (if adjust index < length sl then Inr (sl ! adjust index) else Inl Panic)"

definition savelist_is_empty :: "('c, 's, 'b) save_list \<Rightarrow> bool" where
  "savelist_is_empty sl = list_all (\<lambda>v. v = None) sl"

text \<open>The item put is withdrawn from its owner, who keeps the empty item.\<close>

definition put_opt ::
  "nat \<Rightarrow> ('c, 's, 'b) stack_item \<Rightarrow> ('c, 's, 'b) save_list \<Rightarrow>
   ('c, 's, 'b) stack_item option \<times> ('c, 's, 'b) save_list" where
  "put_opt index x sl = (sl ! adjust index, sl[adjust index := Some x])"

definition savelist_put ::
  "nat \<Rightarrow> ('c, 's, 'b) stack_item \<Rightarrow> ('c, 's, 'b) save_list \<Rightarrow>
   ('c, 's, 'b) tvm_error + ('c, 's, 'b) stack_item option \<times> ('c, 's, 'b) save_list" where
  "savelist_put index x sl = bindR (check_can_put index x) (\<lambda>_. Inr (put_opt index x sl))"

fun savelist_apply ::
  "('c, 's, 'b) save_list \<Rightarrow> ('c, 's, 'b) save_list \<Rightarrow> ('c, 's, 'b) save_list \<times> ('c, 's, 'b) save_list" where
  "savelist_apply (x # self) (y # other) =
     (let (self', other') = savelist_apply self other in
      case y of Some v \<Rightarrow> (Some v # self', None # other') | None \<Rightarrow> (x # self', None # other'))"
| "savelist_apply self other = (self, other)"

definition savelist_remove ::
  "nat \<Rightarrow> ('c, 's, 'b) save_list \<Rightarrow> ('c, 's, 'b) stack_item option \<times> ('c, 's, 'b) save_list" where
  "savelist_remove index sl = (sl ! adjust index, sl[adjust index := None])"

section \<open>Continuations\<close>

fun set_code :: "'s \<Rightarrow> ('c, 's, 'b) continuation_data \<Rightarrow> ('c, 's, 'b) continuation_data" where
  "set_code x (ContinuationData c n sl st ty) = ContinuationData x n sl st ty"

fun set_nargs :: "int \<Rightarrow> ('c, 's, 'b) continuation_data \<Rightarrow> ('c, 's, 'b) continuation_data" where
  "set_nargs x (ContinuationData c n sl st ty) = ContinuationData c x sl st ty"

fun set_savelist ::
  "('c, 's, 'b) save_list \<Rightarrow> ('c, 's, 'b) continuation_data \<Rightarrow> ('c, 's, 'b) continuation_data" where
  "set_savelist x (ContinuationData c n sl st ty) = ContinuationData c n x st ty"

fun set_stack ::
  "('c, 's, 'b) item_stack \<Rightarrow> ('c, 's, 'b) continuation_data \<Rightarrow> ('c, 's, 'b) continuation_data" where
  "set_stack x (ContinuationData c n sl st ty) = ContinuationData c n sl x ty"

fun set_type ::
  "'s continuation_type \<Rightarrow> ('c, 's, 'b) continuation_data \<Rightarrow> ('c, 's, 'b) continuation_data" where
  "set_type x (ContinuationData c n sl st ty) = ContinuationData c n sl st x"

text \<open>The default slice is an argument: it belongs to the slice type.\<close>

definition with_type :: "'s \<Rightarrow> 's continuation_type \<Rightarrow> ('c, 's, 'b) continuation_data" where
  "with_type dflt ty = ContinuationData dflt (- 1) savelist_new [] ty"

definition new_empty :: "'s \<Rightarrow> ('c, 's, 'b) continuation_data" where
  "new_empty dflt = ContinuationData dflt (- 1) savelist_new [] Ordinary"

definition with_code :: "'s \<Rightarrow> ('c, 's, 'b) continuation_data" where
  "with_code c = ContinuationData c (- 1) savelist_new [] Ordinary"

text \<open>The first component is the new continuation, the second what is left of the old one.\<close>

definition move_without_stack ::
  "('c, 's, 'b) continuation_data \<Rightarrow> 's \<Rightarrow>
   ('c, 's, 'b) continuation_data \<times> ('c, 's, 'b) continuation_data" where
  "move_without_stack cont body =
     (ContinuationData (code_of cont) (- 1) savelist_new [] (type_of cont),
      set_code body (set_type Ordinary cont))"

definition copy_without_stack :: "('c, 's, 'b) continuation_data \<Rightarrow> ('c, 's, 'b) continuation_data" where
  "copy_without_stack cont = set_stack [] cont"

definition can_put_to_savelist_once :: "nat \<Rightarrow> ('c, 's, 'b) continuation_data \<Rightarrow> bool" where
  "can_put_to_savelist_once i cont = (savelist_of cont ! adjust i = None)"

definition put_to_savelist ::
  "nat \<Rightarrow> ('c, 's, 'b) stack_item \<Rightarrow> ('c, 's, 'b) continuation_data \<Rightarrow>
   ('c, 's, 'b) tvm_error + ('c, 's, 'b) stack_item option \<times> ('c, 's, 'b) continuation_data" where
  "put_to_savelist i x cont =
     bindR (savelist_put i x (savelist_of cont)) (\<lambda>(old, sl). Inr (old, set_savelist sl cont))"

definition remove_from_savelist ::
  "nat \<Rightarrow> ('c, 's, 'b) continuation_data \<Rightarrow>
   ('c, 's, 'b) stack_item option \<times> ('c, 's, 'b) continuation_data" where
  "remove_from_savelist i cont =
     (let (old, sl) = savelist_remove i (savelist_of cont) in (old, set_savelist sl cont))"

definition cont_withdraw ::
  "'s \<Rightarrow> ('c, 's, 'b) continuation_data \<Rightarrow>
   ('c, 's, 'b) continuation_data \<times> ('c, 's, 'b) continuation_data" where
  "cont_withdraw dflt cont = (cont, new_empty dflt)"

section \<open>The type invariant of save lists\<close>

text \<open>The array has seven slots and a filled slot holds an item its register admits.\<close>

definition reg_of_slot :: "nat \<Rightarrow> nat" where
  "reg_of_slot k = (if k = 6 then 7 else k)"

definition savelist_ok :: "('c, 's, 'b) save_list \<Rightarrow> bool" where
  "savelist_ok sl \<longleftrightarrow> length sl = NUMREGS \<and>
     (\<forall>k < NUMREGS. \<forall>x. sl ! k = Some x \<longrightarrow> can_put (reg_of_slot k) x)"

lemma set_simps [simp]:
  "code_of (set_code x k) = x" "nargs_of (set_code x k) = nargs_of k"
  "savelist_of (set_code x k) = savelist_of k" "stack_of (set_code x k) = stack_of k"
  "type_of (set_code x k) = type_of k"
  "code_of (set_nargs n k) = code_of k" "nargs_of (set_nargs n k) = n"
  "savelist_of (set_nargs n k) = savelist_of k" "stack_of (set_nargs n k) = stack_of k"
  "type_of (set_nargs n k) = type_of k"
  "code_of (set_savelist l k) = code_of k" "nargs_of (set_savelist l k) = nargs_of k"
  "savelist_of (set_savelist l k) = l" "stack_of (set_savelist l k) = stack_of k"
  "type_of (set_savelist l k) = type_of k"
  "code_of (set_stack st k) = code_of k" "nargs_of (set_stack st k) = nargs_of k"
  "savelist_of (set_stack st k) = savelist_of k" "stack_of (set_stack st k) = st"
  "type_of (set_stack st k) = type_of k"
  "code_of (set_type ty k) = code_of k" "nargs_of (set_type ty k) = nargs_of k"
  "savelist_of (set_type ty k) = savelist_of k" "stack_of (set_type ty k) = stack_of k"
  "type_of (set_type ty k) = ty"
  by (cases k; simp)+

lemma set_stack_same [simp]: "set_stack (stack_of k) k = k"
  by (cases k) simp

lemma set_stack_twice [simp]: "set_stack a (set_stack b k) = set_stack a k"
  by (cases k) simp

lemma cont_eqI:
  "code_of a = code_of b \<Longrightarrow> nargs_of a = nargs_of b \<Longrightarrow> savelist_of a = savelist_of b \<Longrightarrow>
   stack_of a = stack_of b \<Longrightarrow> type_of a = type_of b \<Longrightarrow> a = b"
  by (cases a; cases b) simp

lemma savelist_new_simps [simp]:
  "length savelist_new = 7" "k < 7 \<Longrightarrow> savelist_new ! k = None" "savelist_ok savelist_new"
  "savelist_is_empty savelist_new"
  by (simp_all add: savelist_new_def NUMREGS_def savelist_ok_def savelist_is_empty_def list_all_length)

lemma REGS_iff: "i \<in> set REGS \<longleftrightarrow> i < 8 \<and> i \<noteq> 6"
  by (auto simp: REGS_def)

lemma adjust_less: "i \<in> set REGS \<Longrightarrow> adjust i < 7"
  by (auto simp: REGS_def adjust_def)

lemma reg_of_adjust: "i \<in> set REGS \<Longrightarrow> reg_of_slot (adjust i) = i"
  by (auto simp: REGS_def adjust_def reg_of_slot_def)

lemma adjust_inject: "i \<in> set REGS \<Longrightarrow> j \<in> set REGS \<Longrightarrow> adjust i = adjust j \<longleftrightarrow> i = j"
  by (auto simp: REGS_def adjust_def)

lemma can_put_REGS: "can_put i x \<Longrightarrow> i \<in> set REGS"
  by (auto simp: can_put_def REGS_def split: if_splits)

lemma savelist_okD:
  "savelist_ok sl \<Longrightarrow> length sl = 7"
  "savelist_ok sl \<Longrightarrow> i \<in> set REGS \<Longrightarrow> sl ! adjust i = Some x \<Longrightarrow> can_put i x"
proof -
  show "savelist_ok sl \<Longrightarrow> length sl = 7" by (simp add: savelist_ok_def NUMREGS_def)
  assume a: "savelist_ok sl" "i \<in> set REGS" "sl ! adjust i = Some x"
  then have "can_put (reg_of_slot (adjust i)) x"
    using adjust_less [of i] by (auto simp: savelist_ok_def NUMREGS_def)
  then show "can_put i x" using a(2) by (simp add: reg_of_adjust)
qed

lemma savelist_ok_update:
  assumes "savelist_ok sl" "v = None \<or> (\<exists>x. v = Some x \<and> can_put i x)" "i \<in> set REGS"
  shows "savelist_ok (sl[adjust i := v])"
  using assms adjust_less [of i]
  by (auto simp: savelist_ok_def NUMREGS_def nth_list_update reg_of_adjust)

lemma savelist_put_ok:
  assumes "savelist_ok sl" "savelist_put i x sl = Inr (old, sl')"
  shows "savelist_ok sl' \<and> i \<in> set REGS \<and> old = sl ! adjust i \<and> (\<forall>y. old = Some y \<longrightarrow> can_put i y)"
  using assms can_put_REGS [of i x] savelist_okD(2) [OF assms(1), of i]
  by (auto simp: savelist_put_def check_can_put_def put_opt_def intro: savelist_ok_update split: if_splits)

lemma savelist_remove_ok: "savelist_ok sl \<Longrightarrow> i \<in> set REGS \<Longrightarrow> savelist_ok (snd (savelist_remove i sl))"
  by (simp add: savelist_remove_def savelist_ok_update)

lemma savelist_apply_eq:
  "length a = length b \<Longrightarrow> savelist_apply a b =
     (map2 (\<lambda>x y. case y of Some v \<Rightarrow> Some v | None \<Rightarrow> x) a b, replicate (length b) None)"
  by (induction a b rule: savelist_apply.induct) (auto split: option.splits)

lemma savelist_apply_ok:
  assumes "savelist_ok a" "savelist_ok b"
  shows "savelist_ok (fst (savelist_apply a b)) \<and> snd (savelist_apply a b) = savelist_new"
  using assms by (auto simp: savelist_apply_eq savelist_ok_def savelist_new_def split: option.splits)

end
