(* ===== verification/Instructions.thy ===== *)
theory Instructions
  imports Save_List
begin

text \<open>
  Instructions and their parameters (\<open>executor/types.rs\<close>), the division modes of
  \<open>executor/math.rs\<close> and the 16-bit storage addresses of \<open>executor/microcode.rs\<close>.
  A half-open range is the pair of its bounds.
\<close>

unbundle bit_operations_syntax

type_synonym u8 = "8 word"
type_synonym u16 = "16 word"

section \<open>Division modes\<close>

record div_mode = mode_flags :: u8

definition PRE_MULTIPLICATION :: u8 where "PRE_MULTIPLICATION = 0b10000000"
definition MULTIPLICATION_REPLACED_BY_LEFT_SHIFT :: u8 where
  "MULTIPLICATION_REPLACED_BY_LEFT_SHIFT = 0b01000000"
definition DIVISION_REPLACED_BY_RIGHT_SHIFT :: u8 where
  "DIVISION_REPLACED_BY_RIGHT_SHIFT = 0b00100000"
definition SHIFT_OPERATION_PARAMETER_PASSED :: u8 where
  "SHIFT_OPERATION_PARAMETER_PASSED = 0b00010000"
definition REMAINDER_RESULT_REQUIRED :: u8 where "REMAINDER_RESULT_REQUIRED = 0b00001000"
definition QUOTIENT_RESULT_REQUIRED :: u8 where "QUOTIENT_RESULT_REQUIRED = 0b00000100"
definition ROUNDING_MODE_CEILING :: u8 where "ROUNDING_MODE_CEILING = 0b00000010"
definition ROUNDING_MODE_NEAREST_INTEGER :: u8 where "ROUNDING_MODE_NEAREST_INTEGER = 0b00000001"

definition with_flags :: "u8 \<Rightarrow> div_mode" where
  "with_flags flags = \<lparr> mode_flags = flags \<rparr>"

definition mode_contains :: "u8 \<Rightarrow> div_mode \<Rightarrow> bool" where
  "mode_contains bs m = (mode_flags m AND bs = bs)"

definition mode_div_by_shift :: "div_mode \<Rightarrow> bool" where
  "mode_div_by_shift = mode_contains DIVISION_REPLACED_BY_RIGHT_SHIFT"

definition mode_mul_by_shift :: "div_mode \<Rightarrow> bool" where
  "mode_mul_by_shift = mode_contains (PRE_MULTIPLICATION OR MULTIPLICATION_REPLACED_BY_LEFT_SHIFT)"

definition need_quotient :: "div_mode \<Rightarrow> bool" where
  "need_quotient = mode_contains QUOTIENT_RESULT_REQUIRED"

definition need_remainder :: "div_mode \<Rightarrow> bool" where
  "need_remainder = mode_contains REMAINDER_RESULT_REQUIRED"

definition premultiply :: "div_mode \<Rightarrow> bool" where
  "premultiply = mode_contains PRE_MULTIPLICATION"

definition shift_parameter :: "div_mode \<Rightarrow> bool" where
  "shift_parameter = mode_contains SHIFT_OPERATION_PARAMETER_PASSED"

definition rounding_strategy :: "div_mode \<Rightarrow> exception_code + round" where
  "rounding_strategy m =
     (if mode_contains (ROUNDING_MODE_NEAREST_INTEGER OR ROUNDING_MODE_CEILING) m then Inl InvalidOpcode
      else if mode_contains ROUNDING_MODE_NEAREST_INTEGER m then Inr Nearest
      else if mode_contains ROUNDING_MODE_CEILING m then Inr Ceil
      else Inr FloorToNegativeInfinity)"

definition is_valid :: "div_mode \<Rightarrow> bool" where
  "is_valid m \<longleftrightarrow>
     \<not> mode_contains (DIVISION_REPLACED_BY_RIGHT_SHIFT OR MULTIPLICATION_REPLACED_BY_LEFT_SHIFT) m \<and>
     \<not> mode_contains (ROUNDING_MODE_NEAREST_INTEGER OR ROUNDING_MODE_CEILING) m \<and>
     (need_quotient m \<or> need_remainder m) \<and>
     (\<not> mode_contains MULTIPLICATION_REPLACED_BY_LEFT_SHIFT m \<or> premultiply m) \<and>
     (\<not> shift_parameter m \<or> mode_mul_by_shift m \<or> mode_div_by_shift m)"

definition NAMES :: "string list list" where
  "NAMES =
    [[''DIVMODC'', ''DIVMOD'', ''DIVMODR''],
     [''MODC'', ''MOD'', ''MODR''],
     [''DIVC'', ''DIV'', ''DIVR''],
     [''RSHIFTMODC'', ''RSHIFTMOD'', ''RSHIFTMODR''],
     [''MODPOW2C'', ''MODPOW2'', ''MODPOW2R''],
     [''RSHIFTC'', ''RSHIFT'', ''RSHIFTR''],
     [''MULDIVMODC'', ''MULDIVMOD'', ''MULDIVMODR''],
     [''MULMODC'', ''MULMOD'', ''MULMODR''],
     [''MULDIVC'', ''MULDIV'', ''MULDIVR''],
     [''MULRSHIFTMODC'', ''MULRSHIFTMOD'', ''MULRSHIFTMODR''],
     [''MULMODPOW2C'', ''MULMODPOW2'', ''MULMODPOW2R''],
     [''MULRSHIFTC'', ''MULRSHIFT'', ''MULRSHIFTR''],
     [''LSHIFTDIVMODC'', ''LSHIFTDIVMOD'', ''LSHIFTDIVMODR''],
     [''LSHIFTMODC'', ''LSHIFTMOD'', ''LSHIFTMODR''],
     [''LSHIFTDIVC'', ''LSHIFTDIV'', ''LSHIFTDIVR'']]"

text \<open>The discriminants of \<open>Round\<close>.\<close>

primrec round_index :: "round \<Rightarrow> nat" where
  "round_index Ceil = 0"
| "round_index FloorToNegativeInfinity = 1"
| "round_index FloorToZero = 3"
| "round_index Nearest = 2"

definition name_row :: "div_mode \<Rightarrow> nat" where
  "name_row m =
     (if premultiply m then 6 else 0) + (if mode_mul_by_shift m then 6 else 0) +
     (if mode_div_by_shift m then 3 else 0) +
     (if \<not> need_remainder m then 2 else if \<not> need_quotient m then 1 else 0)"

text \<open>The two array accesses of the source panic outside the table.\<close>

definition command_name :: "div_mode \<Rightarrow> ('c, 's, 'b) tvm_error + string" where
  "command_name m =
     (if \<not> is_valid m then err InvalidOpcode
      else bindR (lift_code (rounding_strategy m)) (\<lambda>r.
        if name_row m < length NAMES \<and> round_index r < length (NAMES ! name_row m)
        then Inr (NAMES ! name_row m ! round_index r) else Inl Panic))"

section \<open>Options and parameters\<close>

datatype where_to_get_params =
    GetFromLastByte2Bits | GetFromLastByte | GetFromNextByte | GetFromNextByteLong
  | GetFromNextByteMinusOne | GetFromNextByteMinusOneMinusOne | GetFromNextByteMinusOneMinusTwo

datatype instruction_options =
    Opt_ArgumentConstraints
  | Opt_ArgumentAndReturnConstraints
  | Opt_BigInteger
  | Opt_Bytestring nat nat nat nat
  | Opt_ControlRegister
  | Opt_Dictionary nat nat
  | Opt_DivisionMode
  | Opt_Integer int int
  | Opt_Length nat nat
  | Opt_LengthAndIndex
  | Opt_LengthMinusOne nat nat
  | Opt_LengthMinusOneAndIndexMinusOne
  | Opt_LengthMinusTwoAndIndex
  | Opt_Pargs nat nat
  | Opt_Rargs nat nat
  | Opt_Bitstring nat nat nat nat
  | Opt_StackRegister nat nat
  | Opt_StackRegisterPair where_to_get_params
  | Opt_StackRegisterTrio where_to_get_params

record register_pair = pair_ra :: nat  pair_rb :: nat
record register_trio = trio_ra :: nat  trio_rb :: nat  trio_rc :: nat
record length_and_index = li_length :: nat  li_index :: nat

datatype 's instruction_parameter =
    Par_BigInteger integer_data
  | Par_ControlRegister nat
  | Par_DivisionMode div_mode
  | Par_Integer int
  | Par_Length nat
  | Par_LengthAndIndex length_and_index
  | Par_Nargs int
  | Par_Pargs nat
  | Par_Rargs nat
  | Par_Slice 's
  | Par_StackRegister nat
  | Par_StackRegisterPair register_pair
  | Par_StackRegisterTrio register_trio

record instruction =
  instr_name :: string
  instr_prefix :: "string option"
  instr_opts :: "instruction_options option"

definition instr_new :: "string \<Rightarrow> instruction" where
  "instr_new name = \<lparr> instr_name = name, instr_prefix = None, instr_opts = None \<rparr>"

definition set_name_prefix :: "string option \<Rightarrow> instruction \<Rightarrow> instruction" where
  "set_name_prefix prefix i = i \<lparr> instr_prefix := prefix \<rparr>"

definition set_opts :: "instruction_options \<Rightarrow> instruction \<Rightarrow> instruction" where
  "set_opts opts i = i \<lparr> instr_opts := Some opts \<rparr>"

record ('c, 's, 'b) instruction_ext =
  proto :: instruction
  params :: "'s instruction_parameter list"
  vars :: "('c, 's, 'b) stack_item list"

definition instr_ext_new :: "string \<Rightarrow> ('c, 's, 'b) instruction_ext" where
  "instr_ext_new name = \<lparr> proto = instr_new name, params = [], vars = [] \<rparr>"

primrec first_param :: "('s instruction_parameter \<Rightarrow> 'a option) \<Rightarrow> 's instruction_parameter list \<Rightarrow> 'a option" where
  "first_param f [] = None"
| "first_param f (p # ps) = (case f p of Some x \<Rightarrow> Some x | None \<Rightarrow> first_param f ps)"

fun par_creg where "par_creg (Par_ControlRegister x) = Some x" | "par_creg _ = None"
fun par_division_mode where "par_division_mode (Par_DivisionMode x) = Some x" | "par_division_mode _ = None"
fun par_integer where "par_integer (Par_Integer x) = Some x" | "par_integer _ = None"
fun par_biginteger where "par_biginteger (Par_BigInteger x) = Some x" | "par_biginteger _ = None"
fun par_length where "par_length (Par_Length x) = Some x" | "par_length _ = None"
fun par_nargs where "par_nargs (Par_Nargs x) = Some x" | "par_nargs _ = None"
fun par_pargs where "par_pargs (Par_Pargs x) = Some x" | "par_pargs _ = None"
fun par_rargs where "par_rargs (Par_Rargs x) = Some x" | "par_rargs _ = None"
fun par_slice where "par_slice (Par_Slice x) = Some x" | "par_slice _ = None"
fun par_sreg where "par_sreg (Par_StackRegister x) = Some x" | "par_sreg _ = None"
fun par_sregs where "par_sregs (Par_StackRegisterPair x) = Some x" | "par_sregs _ = None"
fun par_sregs3 where "par_sregs3 (Par_StackRegisterTrio x) = Some x" | "par_sregs3 _ = None"
fun par_length_and_index where
  "par_length_and_index (Par_LengthAndIndex x) = Some x" | "par_length_and_index _ = None"

section \<open>Storage addresses\<close>

definition CC :: u16 where "CC = 0x0000"
definition CTRL :: u16 where "CTRL = 0x0100"
definition STACK :: u16 where "STACK = 0x0200"
definition VAR :: u16 where "VAR = 0x0300"
definition SAVELIST :: u16 where "SAVELIST = 0x0800"
definition CC_SAVELIST :: u16 where "CC_SAVELIST = CC OR SAVELIST"
definition CTRL_SAVELIST :: u16 where "CTRL_SAVELIST = CTRL OR SAVELIST"
definition VAR_SAVELIST :: u16 where "VAR_SAVELIST = VAR OR SAVELIST"

datatype data_tag = BUILDER | CELL | CONTINUATION | SLICE

definition address_tag :: "u16 \<Rightarrow> u16" where "address_tag c = c AND 0x0F00"
definition ctrl_addr :: "nat \<Rightarrow> u16" where "ctrl_addr index = CTRL OR word_of_nat index"
definition savelist_addr :: "u16 \<Rightarrow> nat \<Rightarrow> u16" where
  "savelist_addr storage index = storage OR SAVELIST OR push_bit 12 (word_of_nat index)"
definition savelist_index :: "u16 \<Rightarrow> nat" where
  "savelist_index c = unat (drop_bit 12 (c AND 0xF000))"
definition storage_index :: "u16 \<Rightarrow> nat" where "storage_index c = unat (c AND 0x000F)"
definition stack_addr :: "nat \<Rightarrow> u16" where "stack_addr index = STACK OR word_of_nat (index AND 0xFF)"
definition stack_index :: "u16 \<Rightarrow> nat" where "stack_index c = unat (c AND 0x00FF)"
definition var_addr :: "nat \<Rightarrow> u16" where "var_addr index = VAR OR word_of_nat index"

section \<open>Lemmas on modes and addresses\<close>

named_theorems address \<open>decoding of the addresses the handlers build\<close>

lemmas mode_defs = PRE_MULTIPLICATION_def MULTIPLICATION_REPLACED_BY_LEFT_SHIFT_def
  DIVISION_REPLACED_BY_RIGHT_SHIFT_def SHIFT_OPERATION_PARAMETER_PASSED_def
  REMAINDER_RESULT_REQUIRED_def QUOTIENT_RESULT_REQUIRED_def ROUNDING_MODE_CEILING_def
  ROUNDING_MODE_NEAREST_INTEGER_def mode_contains_def mode_div_by_shift_def mode_mul_by_shift_def
  need_quotient_def need_remainder_def premultiply_def shift_parameter_def

lemma tags_distinct [address]:
  "CTRL \<noteq> CC" "VAR \<noteq> CC" "VAR \<noteq> CTRL" "CC \<noteq> CTRL" "CC \<noteq> VAR" "CTRL \<noteq> VAR" "STACK \<noteq> CC" "STACK \<noteq> CTRL"
  "CC_SAVELIST \<noteq> CC" "CC_SAVELIST \<noteq> CTRL" "CC_SAVELIST \<noteq> VAR" "CC_SAVELIST \<noteq> CTRL_SAVELIST"
  "CTRL_SAVELIST \<noteq> CC" "CTRL_SAVELIST \<noteq> CTRL" "CTRL_SAVELIST \<noteq> VAR" "CTRL_SAVELIST \<noteq> CC_SAVELIST"
  "VAR_SAVELIST \<noteq> CC" "VAR_SAVELIST \<noteq> CTRL" "VAR_SAVELIST \<noteq> VAR" "VAR_SAVELIST \<noteq> CC_SAVELIST"
  "VAR_SAVELIST \<noteq> CTRL_SAVELIST" "VAR \<noteq> CC_SAVELIST" "VAR \<noteq> CTRL_SAVELIST" "VAR \<noteq> VAR_SAVELIST"
  "CTRL \<noteq> CC_SAVELIST" "CTRL \<noteq> CTRL_SAVELIST" "CTRL \<noteq> VAR_SAVELIST"
  "CC \<noteq> CC_SAVELIST" "CC \<noteq> CTRL_SAVELIST" "CC \<noteq> VAR_SAVELIST"
  by (simp_all add: CC_def CTRL_def STACK_def VAR_def CC_SAVELIST_def CTRL_SAVELIST_def VAR_SAVELIST_def
      SAVELIST_def)

lemma index_field_table:
  "list_all (\<lambda>i. (word_of_nat i :: u16) AND 0x0F00 = 0 \<and> (word_of_nat i :: u16) AND 0xF000 = 0 \<and>
     unat ((word_of_nat i :: u16) AND 0x000F) = i \<and>
     push_bit 12 (word_of_nat i :: u16) AND 0x0F00 = 0 \<and> push_bit 12 (word_of_nat i :: u16) AND 0x000F = 0 \<and>
     unat (drop_bit 12 (push_bit 12 (word_of_nat i :: u16) AND 0xF000)) = i) [0..<16]"
  by code_simp

lemma index_field:
  assumes "i < 16"
  shows "(word_of_nat i :: u16) AND 0x0F00 = 0" "(word_of_nat i :: u16) AND 0xF000 = 0"
    "unat ((word_of_nat i :: u16) AND 0x000F) = i"
    "push_bit 12 (word_of_nat i :: u16) AND 0x0F00 = 0" "push_bit 12 (word_of_nat i :: u16) AND 0x000F = 0"
    "unat (drop_bit 12 (push_bit 12 (word_of_nat i :: u16) AND 0xF000)) = i"
  using index_field_table assms by (auto simp: list_all_iff)

lemmas address_defs = address_tag_def ctrl_addr_def var_addr_def storage_index_def savelist_addr_def
  savelist_index_def CC_def CTRL_def STACK_def VAR_def SAVELIST_def CC_SAVELIST_def CTRL_SAVELIST_def
  VAR_SAVELIST_def bit.conj_disj_distrib2

lemma addr_tag [address]:
  assumes "i < 16"
  shows "address_tag (ctrl_addr i) = CTRL" "address_tag (var_addr i) = VAR"
    "storage_index (ctrl_addr i) = i" "storage_index (var_addr i) = i"
  using index_field [OF assms] by (simp_all add: address_defs)

lemma savelist_addr_tag [address]:
  assumes "i < 16" "j < 16"
  shows "address_tag (savelist_addr (ctrl_addr i) j) = CTRL_SAVELIST"
    "address_tag (savelist_addr (var_addr i) j) = VAR_SAVELIST"
    "storage_index (savelist_addr (ctrl_addr i) j) = i"
    "storage_index (savelist_addr (var_addr i) j) = i"
    "savelist_index (savelist_addr (ctrl_addr i) j) = j"
    "savelist_index (savelist_addr (var_addr i) j) = j"
  using index_field [OF assms(1)] index_field [OF assms(2)]
  by (simp_all add: address_defs del: drop_bit_and)

lemma cc_savelist_addr_tag [address]:
  assumes "j < 16"
  shows "address_tag (savelist_addr CC j) = CC_SAVELIST" "savelist_index (savelist_addr CC j) = j"
  using index_field [OF assms] by (simp_all add: address_defs del: drop_bit_and)

lemma addr_tag_CC [address]: "address_tag CC = CC" "storage_index CC = 0"
  by (simp_all add: address_tag_def storage_index_def CC_def)

end
