(* ===== verification/Gas_State.thy ===== *)
theory Gas_State
  imports Stack_Items
begin

text \<open>
  The gas account (\<open>executor/gas/gas_state.rs\<close>).  Every amount is a 64-bit word read as a
  signed integer: sums and differences wrap as they do in a release build of the source.
\<close>

type_synonym i64 = "64 word"

record gas =
  gas_limit_max :: i64
  gas_limit :: i64
  gas_credit :: i64
  gas_remaining :: i64
  gas_price :: i64
  gas_base :: i64

definition CELL_LOAD_GAS_PRICE :: i64 where "CELL_LOAD_GAS_PRICE = 100"
definition CELL_RELOAD_GAS_PRICE :: i64 where "CELL_RELOAD_GAS_PRICE = 25"
definition CELL_CREATE_GAS_PRICE :: i64 where "CELL_CREATE_GAS_PRICE = 500"
definition EXCEPTION_GAS_PRICE :: i64 where "EXCEPTION_GAS_PRICE = 50"
definition TUPLE_ENTRY_GAS_PRICE :: i64 where "TUPLE_ENTRY_GAS_PRICE = 1"
definition IMPLICIT_JMPREF_GAS_PRICE :: i64 where "IMPLICIT_JMPREF_GAS_PRICE = 10"
definition IMPLICIT_RET_GAS_PRICE :: i64 where "IMPLICIT_RET_GAS_PRICE = 5"
definition FREE_STACK_DEPTH :: nat where "FREE_STACK_DEPTH = 32"
definition STACK_ENTRY_GAS_PRICE :: i64 where "STACK_ENTRY_GAS_PRICE = 1"
definition I64_MAX :: i64 where "I64_MAX = 0x7FFFFFFFFFFFFFFF"

definition signed_max :: "i64 \<Rightarrow> i64 \<Rightarrow> i64" where
  "signed_max a b = (if sint a \<le> sint b then b else a)"

definition signed_min :: "i64 \<Rightarrow> i64 \<Rightarrow> i64" where
  "signed_min a b = (if sint a \<le> sint b then a else b)"

definition gas_empty :: gas where
  "gas_empty = \<lparr> gas_limit_max = 0, gas_limit = 0, gas_credit = 0, gas_remaining = 0,
     gas_price = 0, gas_base = 0 \<rparr>"

definition gas_test :: gas where
  "gas_test = \<lparr> gas_limit_max = 1000000000, gas_limit = 1000000000, gas_credit = 0,
     gas_remaining = 1000000000, gas_price = 10, gas_base = 1000000000 \<rparr>"

definition gas_new :: "i64 \<Rightarrow> i64 \<Rightarrow> i64 \<Rightarrow> i64 \<Rightarrow> gas" where
  "gas_new limit credit limit_max price =
     (let remaining = limit + credit in
      \<lparr> gas_limit_max = limit_max, gas_limit = limit, gas_credit = credit,
        gas_remaining = remaining, gas_price = price, gas_base = remaining \<rparr>)"

definition new_gas_limit :: "i64 \<Rightarrow> gas \<Rightarrow> gas" where
  "new_gas_limit limit g =
     (let l = signed_max 0 (signed_min limit (gas_limit_max g)) in
      g \<lparr> gas_limit := l, gas_credit := 0,
          gas_remaining := gas_remaining g + (l - gas_base g), gas_base := l \<rparr>)"

definition gas_test_with_limit :: "i64 \<Rightarrow> gas" where
  "gas_test_with_limit limit = new_gas_limit limit gas_test"

definition gas_test_with_credit :: "i64 \<Rightarrow> gas" where
  "gas_test_with_credit credit = gas_new 0 credit 1000000000 10"

definition use_gas :: "i64 \<Rightarrow> gas \<Rightarrow> gas" where
  "use_gas n g = g \<lparr> gas_remaining := gas_remaining g - n \<rparr>"

definition check_gas_remaining :: "gas \<Rightarrow> ('c, 's, 'b) tvm_error + int option" where
  "check_gas_remaining g =
     (if 0 \<le> sint (gas_remaining g) then Inr None
      else Inl (TvmExceptionFull
             (from_code_and_value OutOfGas (Value (sint (gas_base g - gas_remaining g))))))"

definition gas_try_use_gas :: "i64 \<Rightarrow> gas \<Rightarrow> (('c, 's, 'b) tvm_error + int option) \<times> gas" where
  "gas_try_use_gas n g = (let g' = use_gas n g in (check_gas_remaining g', g'))"

definition basic_gas_price :: "nat \<Rightarrow> nat \<Rightarrow> i64" where
  "basic_gas_price instruction_length refs = word_of_nat (10 + instruction_length)"

definition consume_basic :: "nat \<Rightarrow> nat \<Rightarrow> gas \<Rightarrow> gas" where
  "consume_basic instruction_length refs = use_gas (word_of_nat (10 + instruction_length))"

definition exception_price :: i64 where "exception_price = EXCEPTION_GAS_PRICE"
definition consume_exception :: "gas \<Rightarrow> gas" where "consume_exception = use_gas EXCEPTION_GAS_PRICE"
definition finalize_price :: i64 where "finalize_price = CELL_CREATE_GAS_PRICE"
definition consume_finalize :: "gas \<Rightarrow> gas" where "consume_finalize = use_gas CELL_CREATE_GAS_PRICE"
definition implicit_jmp_price :: i64 where "implicit_jmp_price = IMPLICIT_JMPREF_GAS_PRICE"
definition consume_implicit_jmp :: "gas \<Rightarrow> gas" where
  "consume_implicit_jmp = use_gas IMPLICIT_JMPREF_GAS_PRICE"
definition implicit_ret_price :: i64 where "implicit_ret_price = IMPLICIT_RET_GAS_PRICE"
definition consume_implicit_ret :: "gas \<Rightarrow> gas" where
  "consume_implicit_ret = use_gas IMPLICIT_RET_GAS_PRICE"

definition load_cell_price :: "bool \<Rightarrow> i64" where
  "load_cell_price first = (if first then CELL_LOAD_GAS_PRICE else CELL_RELOAD_GAS_PRICE)"

definition consume_load_cell :: "bool \<Rightarrow> gas \<Rightarrow> gas" where
  "consume_load_cell first = use_gas (if first then CELL_LOAD_GAS_PRICE else CELL_RELOAD_GAS_PRICE)"

definition stack_price :: "nat \<Rightarrow> i64" where
  "stack_price stack_depth =
     (let depth = (if stack_depth > FREE_STACK_DEPTH then stack_depth else FREE_STACK_DEPTH) in
      STACK_ENTRY_GAS_PRICE * word_of_nat (depth - FREE_STACK_DEPTH))"

definition consume_stack :: "nat \<Rightarrow> gas \<Rightarrow> gas" where
  "consume_stack stack_depth =
     use_gas (STACK_ENTRY_GAS_PRICE * word_of_nat (max stack_depth FREE_STACK_DEPTH - FREE_STACK_DEPTH))"

definition tuple_gas_price :: "nat \<Rightarrow> i64" where
  "tuple_gas_price tuple_length = TUPLE_ENTRY_GAS_PRICE * word_of_nat tuple_length"

definition consume_tuple_gas :: "nat \<Rightarrow> gas \<Rightarrow> gas" where
  "consume_tuple_gas tuple_length = use_gas (TUPLE_ENTRY_GAS_PRICE * word_of_nat tuple_length)"

definition get_gas_used_full :: "gas \<Rightarrow> i64" where
  "get_gas_used_full g = gas_base g - gas_remaining g"

definition get_gas_used :: "gas \<Rightarrow> i64" where
  "get_gas_used g =
     (if 0 < sint (gas_remaining g) then gas_base g - gas_remaining g else gas_base g)"

end
