(* ===== verification/Integer_Octets.thy ===== *)
theory Integer_Octets
  imports Integer_Data
begin

text \<open>
  Decoding of the operand of the long \<open>PUSHINT\<close> (\<open>from_big_endian_octet_stream\<close>
  of \<open>stack/integer/conversion.rs\<close>) with the in-place two's complement of
  \<open>stack/integer/mod.rs\<close>.  The byte source is an argument, a computation on any
  state; digits are 32-bit words and wrap as in the source.
\<close>

unbundle bit_operations_syntax

type_synonym digit = "32 word"
type_synonym octet = "8 word"

datatype sign = Minus | NoSign | Plus

primrec digits_value :: "digit list \<Rightarrow> int" where
  "digits_value [] = 0"
| "digits_value (d # ds) = uint d + 2 ^ 32 * digits_value ds"

primrec int_new :: "sign \<Rightarrow> digit list \<Rightarrow> int" where
  "int_new Minus ds = - digits_value ds"
| "int_new NoSign ds = 0"
| "int_new Plus ds = digits_value ds"

definition from_vec_le_unchecked :: "sign \<Rightarrow> digit list \<Rightarrow> integer_data" where
  "from_vec_le_unchecked sign digits = Value (int_new sign digits)"

definition from_vec_le :: "sign \<Rightarrow> digit list \<Rightarrow> exception_code + integer_data" where
  "from_vec_le sign digits =
     (let bigint = int_new sign digits in
      if \<not> check_overflow bigint then Inl IntegerOverflow else Inr (Value bigint))"

fun twos_complement_from :: "bool \<Rightarrow> digit list \<Rightarrow> digit list" where
  "twos_complement_from carry [] = []"
| "twos_complement_from carry (d # ds) =
     (let d1 = NOT d in
      if carry then let d2 = d1 + 1 in d2 # twos_complement_from (d2 = 0) ds
      else d1 # twos_complement_from False ds)"

definition twos_complement :: "digit list \<Rightarrow> digit list" where
  "twos_complement digits = twos_complement_from True digits"

definition push_octet :: "('e, 's, octet) exec \<Rightarrow> digit \<Rightarrow> ('e, 's, digit) exec" where
  "push_octet get_next_byte value =
     bindE get_next_byte (\<lambda>b. returnE (push_bit 8 value OR ucast b))"

definition read_digit :: "('e, 's, octet) exec \<Rightarrow> ('e, 's, digit) exec" where
  "read_digit get_next_byte =
     bindE get_next_byte (\<lambda>b3. bindE get_next_byte (\<lambda>b2.
     bindE get_next_byte (\<lambda>b1. bindE get_next_byte (\<lambda>b0.
       returnE (push_bit 24 (ucast b3) OR push_bit 16 (ucast b2) OR push_bit 8 (ucast b1) OR ucast b0)))))"

primrec read_digits :: "('e, 's, octet) exec \<Rightarrow> nat \<Rightarrow> ('e, 's, digit list) exec" where
  "read_digits get_next_byte 0 = returnE []"
| "read_digits get_next_byte (Suc i) =
     bindE (read_digit get_next_byte) (\<lambda>d.
     bindE (read_digits get_next_byte i) (\<lambda>ds. returnE (ds @ [d])))"

definition from_big_endian_octet_stream :: "('e, 's, octet) exec \<Rightarrow> ('e, 's, integer_data) exec" where
  "from_big_endian_octet_stream get_next_byte =
     bindE get_next_byte (\<lambda>first_byte.
       let byte_len = unat (drop_bit 3 (first_byte AND 0xF8)) + 3;
           greatest3bits = ucast (first_byte AND 7);
           digit_count = drop_bit 2 (byte_len + 3);
           (sign, value) = (if greatest3bits AND 4 = 0 then (Plus, greatest3bits)
                            else (Minus, 0xFFFFFFF8 OR greatest3bits));
           upper = (if byte_len AND 3 = 0 then 4 else byte_len AND 3);
           last_index = digit_count - 1
       in bindE (repeatE (upper - 1) (push_octet get_next_byte) value) (\<lambda>value.
          bindE (read_digits get_next_byte last_index) (\<lambda>low.
            let digits = low @ [value];
                digits = (if sign = Minus then twos_complement digits else digits)
            in returnE (from_vec_le_unchecked sign digits))))"

text \<open>A byte source over a list, for stating what is decoded.\<close>

fun next_octet :: "(exception_code, octet list, octet) exec" where
  "next_octet [] = (Inl CellUnderflow, [])"
| "next_octet (b # bs) = (Inr b, bs)"

definition octets_value :: "octet list \<Rightarrow> int" where
  "octets_value bs = foldl (\<lambda>acc b. acc * 256 + uint b) 0 bs"

section \<open>Digits and octets\<close>

lemma digits_value_append [simp]:
  "digits_value (ds @ es) = digits_value ds + 2 ^ (32 * length ds) * digits_value es"
  by (induction ds) (simp_all add: power_add algebra_simps)

lemma positional_bounds:
  fixes d v w l :: int
  assumes "0 \<le> d" "d < w" "0 \<le> v" "v < l"
  shows "0 \<le> d + w * v \<and> d + w * v < w * l"
proof -
  have "w * (v + 1) \<le> w * l" using assms by (intro mult_left_mono) simp_all
  moreover have "0 \<le> w * v" using assms by simp
  ultimately show ?thesis using assms by (simp add: distrib_left)
qed

lemma power_length_Cons: "(2 :: int) ^ (32 * length (d # ds)) = 2 ^ 32 * 2 ^ (32 * length ds)"
  by (simp add: power_add)

lemma digits_value_bounds: "0 \<le> digits_value ds \<and> digits_value ds < 2 ^ (32 * length ds)"
proof (induction ds)
  case (Cons d ds)
  have "0 \<le> uint d" "uint d < 2 ^ 32" using uint_lt2p [of d] by simp_all
  then show ?case
    unfolding power_length_Cons digits_value.simps using Cons.IH by (intro positional_bounds) auto
qed simp

lemma octets_value_snoc: "octets_value (bs @ [b]) = octets_value bs * 256 + uint b"
  by (simp add: octets_value_def)

lemma foldl_octets: "foldl (\<lambda>acc b. acc * 256 + uint b) a bs = a * 256 ^ length bs + octets_value bs"
proof (induction bs rule: rev_induct)
  case (snoc b bs)
  then show ?case by (simp add: octets_value_snoc algebra_simps)
qed (simp add: octets_value_def)

lemma octets_value_simps [simp]:
  "octets_value [] = 0"
  "octets_value (b # bs) = uint b * 256 ^ length bs + octets_value bs"
  "octets_value (bs @ cs) = octets_value bs * 256 ^ length cs + octets_value cs"
proof -
  show "octets_value [] = 0" by (simp add: octets_value_def)
  show "octets_value (b # bs) = uint b * 256 ^ length bs + octets_value bs"
    using foldl_octets [of "uint b" bs] by (simp add: octets_value_def [of "b # bs"])
  show "octets_value (bs @ cs) = octets_value bs * 256 ^ length cs + octets_value cs"
    using foldl_octets [of "octets_value bs" cs]
    by (simp add: octets_value_def [of "bs @ cs"] octets_value_def [of bs])
qed

lemma octets_value_bounds: "0 \<le> octets_value bs \<and> octets_value bs < 256 ^ length bs"
proof (induction bs)
  case (Cons b bs)
  have "0 \<le> uint b" "uint b < 256" using uint_lt2p [of b] by simp_all
  then show ?case
    using Cons.IH positional_bounds [of "octets_value bs" "256 ^ length bs" "uint b" 256]
    by (simp add: mult.commute add.commute)
qed simp

lemma mod_below_zero: "- m \<le> x \<Longrightarrow> x < 0 \<Longrightarrow> x mod m = x + m" for x m :: int
  using mod_pos_pos_trivial [of "x + m" m] by simp

lemma complement_digit: "uint (NOT d) = 2 ^ 32 - 1 - uint d" for d :: digit
proof -
  have "uint (NOT d) = (- uint d - 1) mod 2 ^ 32"
    unfolding unsigned_not_eq by (simp add: take_bit_eq_mod not_eq_complement)
  also have "\<dots> = 2 ^ 32 - 1 - uint d"
    using mod_below_zero [of "2 ^ 32" "- uint d - 1"] uint_lt2p [of d] uint_ge_0 [of d] by simp
  finally show ?thesis .
qed

lemma digit_pos: "d \<noteq> 0 \<Longrightarrow> 0 < uint d" for d :: digit
  using uint_ge_0 [of d] by (simp add: uint_0_iff le_less)

lemma negate_digit: "uint (NOT d + 1) = (if d = 0 then 0 else 2 ^ 32 - uint d)" for d :: digit
proof (cases "d = 0")
  case False
  then have "0 < uint d" by (rule digit_pos)
  then have "uint (NOT d) + 1 < 2 ^ 32" by (simp add: complement_digit)
  then show ?thesis using False by (simp add: uint_plus_if' complement_digit)
qed simp

lemma length_twos_complement_from [simp]: "length (twos_complement_from c ds) = length ds"
  by (induction ds arbitrary: c) (simp_all add: Let_def)

lemma complement_digits:
  "digits_value (twos_complement_from False ds) = 2 ^ (32 * length ds) - 1 - digits_value ds"
  by (induction ds) (simp_all add: complement_digit power_add algebra_simps)

lemma twos_complement_value:
  "digits_value (twos_complement ds) = (2 ^ (32 * length ds) - digits_value ds) mod 2 ^ (32 * length ds)"
  unfolding twos_complement_def
proof (induction ds)
  case (Cons d ds)
  let ?L = "2 ^ (32 * length ds) :: int" and ?V = "digits_value ds"
  show ?case
  proof (cases "d = 0")
    case True
    have "2 ^ 32 * ((?L - ?V) mod ?L) = (2 ^ 32 * ?L - 2 ^ 32 * ?V) mod (2 ^ 32 * ?L)"
      by (simp add: mult_mod_right right_diff_distrib)
    then show ?thesis using True Cons.IH unfolding power_length_Cons by (simp add: negate_digit)
  next
    case False
    then have d: "0 < uint d" "uint d < 2 ^ 32" using uint_lt2p [of d] by (simp_all add: digit_pos)
    have "NOT d + 1 \<noteq> 0" using negate_digit [of d] False d by (metis diff_gt_0_iff_gt less_irrefl uint_0_eq)
    then have "digits_value (twos_complement_from True (d # ds)) = 2 ^ 32 * ?L - (uint d + 2 ^ 32 * ?V)"
      using False by (simp add: Let_def negate_digit complement_digits right_diff_distrib)
    moreover have "0 \<le> uint d + 2 ^ 32 * ?V \<and> uint d + 2 ^ 32 * ?V < 2 ^ 32 * ?L"
      using d digits_value_bounds [of ds] by (intro positional_bounds) auto
    moreover have "0 \<le> 2 ^ 32 * ?V" using digits_value_bounds [of ds] by simp
    ultimately show ?thesis using d(1) unfolding power_length_Cons digits_value.simps
      by (subst mod_pos_pos_trivial) linarith+
  qed
qed simp

section \<open>Reading octets\<close>

lemma bit_ucast_octet: "bit (ucast b :: digit) n \<Longrightarrow> n < 8" for b :: octet
  using bit_imp_le_length by (fastforce simp: bit_ucast_iff)

lemma push_octet_eq: "push_bit 8 v OR ucast b = v * 256 + (ucast b :: digit)" for b :: octet
proof -
  have "push_bit 8 v + (ucast b :: digit) = push_bit 8 v OR ucast b"
    by (rule disjunctive_add) (fastforce simp: bit_push_bit_iff dest: bit_ucast_octet)
  then show ?thesis by (simp add: push_bit_eq_mult)
qed

lemma four_octets_eq:
  "push_bit 24 (ucast b3) OR push_bit 16 (ucast b2) OR push_bit 8 (ucast b1) OR ucast b0 =
     (word_of_int (octets_value [b3, b2, b1, b0]) :: digit)" for b0 b1 b2 b3 :: octet
proof -
  have "push_bit 24 (ucast b3) OR push_bit 16 (ucast b2) OR push_bit 8 (ucast b1) OR (ucast b0 :: digit) =
      push_bit 8 (push_bit 8 (push_bit 8 (ucast b3) OR ucast b2) OR ucast b1) OR ucast b0"
    by (simp add: push_bit_or or.assoc)
  also have "\<dots> = word_of_int (octets_value [b3, b2, b1, b0])"
    unfolding push_octet_eq by (simp add: algebra_simps)
  finally show ?thesis .
qed

lemma uint_digit_of_octets:
  "length bs = 4 \<Longrightarrow> uint (word_of_int (octets_value bs) :: digit) = octets_value bs"
  using octets_value_bounds [of bs] by (simp add: uint_word_of_int mod_pos_pos_trivial)

lemma repeat_push_octet:
  "repeatE (length bs) (push_octet next_octet) v (bs @ rest) =
     (Inr (v * 256 ^ length bs + word_of_int (octets_value bs)), rest)"
proof (induction bs arbitrary: v)
  case (Cons b bs)
  show ?case using Cons.IH [of "v * 256 + ucast b"]
    by (simp add: bindE_unfold push_octet_def push_octet_eq algebra_simps)
qed simp

lemma read_digits_octets:
  "length bs = 4 * n \<Longrightarrow>
     \<exists>ds. read_digits next_octet n (bs @ rest) = (Inr ds, rest) \<and> length ds = n \<and>
          digits_value ds = octets_value bs"
proof (induction n arbitrary: bs)
  case (Suc n)
  then obtain b3 b2 b1 b0 cs where bs: "bs = [b3, b2, b1, b0] @ cs" and "length cs = 4 * n"
    by (auto simp: eval_nat_numeral length_Suc_conv)
  with Suc.IH obtain ds where ds: "read_digits next_octet n (cs @ rest) = (Inr ds, rest)"
    "length ds = n" "digits_value ds = octets_value cs" by blast
  let ?d = "word_of_int (octets_value [b3, b2, b1, b0]) :: digit"
  have "read_digits next_octet (Suc n) (bs @ rest) = (Inr (ds @ [?d]), rest)"
    using ds(1) by (simp add: bs bindE_unfold read_digit_def four_octets_eq del: octets_value_simps)
  moreover have "octets_value bs = octets_value [b3, b2, b1, b0] * (2 ^ 32) ^ n + octets_value cs"
    unfolding bs octets_value_simps(3) using \<open>length cs = 4 * n\<close> by (simp add: power_mult)
  then have "digits_value (ds @ [?d]) = octets_value bs"
    using ds(2,3) uint_digit_of_octets [of "[b3, b2, b1, b0]"]
    by (simp add: power_mult del: octets_value_simps)
  ultimately show ?case using ds(2) by auto
qed simp

section \<open>The decoded integer\<close>

lemma signed_take_bit_prefix:
  fixes a b :: int
  assumes "0 \<le> b" "b < 2 ^ m"
  shows "signed_take_bit (m + 2) (a * 2 ^ m + b) = signed_take_bit 2 a * 2 ^ m + b"
proof -
  have "(a * 2 ^ m + b + 2 ^ (m + 2)) mod 2 ^ Suc (m + 2) = (b + 2 ^ m * (a + 4)) mod (2 ^ m * 8)"
    by (simp add: power_add algebra_simps)
  also have "\<dots> = b + 2 ^ m * ((a + 4) mod 8)"
    using assms by (simp add: zmod_zmult2_eq div_pos_pos_trivial mod_pos_pos_trivial)
  finally show ?thesis
    by (simp add: signed_take_bit_eq_take_bit_shift take_bit_eq_mod power_add algebra_simps)
qed

lemma octet_length_field: "drop_bit 3 (b AND 0xF8) = drop_bit 3 b" for b :: octet
proof (rule bit_word_eqI)
  fix n assume "n < LENGTH(8)"
  then have "n < 8" by simp
  then consider "n = 0" | "n = 1" | "n = 2" | "n = 3" | "n = 4" | "n = 5" | "n = 6" | "n = 7" by linarith
  then show "bit (drop_bit 3 (b AND 0xF8)) n = bit (drop_bit 3 b) n"
    using bit_imp_le_length [of b 8] bit_imp_le_length [of b 9] bit_imp_le_length [of b 10]
    by cases (auto simp: bit_drop_bit_eq bit_and_iff bit_numeral_rec)
qed

lemma sign_field:
  fixes b :: octet
  defines "g \<equiv> ucast (b AND 7) :: digit"
  shows "(if g AND 4 = 0 then (Plus, g) else (Minus, 0xFFFFFFF8 OR g)) =
     (if signed_take_bit 2 (uint b) < 0 then Minus else Plus, word_of_int (signed_take_bit 2 (uint b)))"
proof -
  define m where "m = uint b mod 8"
  have "uint (b AND 7) = m"
    using take_bit_eq_mask [of 3 "uint b"]
    by (simp add: m_def uint_and take_bit_eq_mod mask_eq_exp_minus_1)
  moreover have "g = word_of_int (uint (b AND 7))" by (simp add: g_def)
  ultimately have g: "g = word_of_int m" by simp
  have s: "signed_take_bit 2 (uint b) = (m + 4) mod 8 - 4"
    by (simp add: m_def signed_take_bit_eq_take_bit_shift take_bit_eq_mod mod_simps)
  have "0 \<le> m" "m < 8" by (simp_all add: m_def)
  then consider "m = 0" | "m = 1" | "m = 2" | "m = 3" | "m = 4" | "m = 5" | "m = 6" | "m = 7" by linarith
  then show ?thesis unfolding s g by cases simp_all
qed

lemma digits_of_negative:
  assumes "- (2 ^ (32 * length ds)) < x" "x < 0" "digits_value ds = x + 2 ^ (32 * length ds)"
  shows "int_new Minus (twos_complement ds) = x"
  using assms by (simp add: twos_complement_value mod_pos_pos_trivial)

lemma negative_bounds:
  fixes l t v :: int
  assumes "- (2 ^ 31) \<le> t" "t < 0" "0 \<le> v" "v < l"
  shows "- (l * 2 ^ 32) < v + l * t" "v + l * t < 0"
proof -
  have "l * t \<le> l * (- 1)" "l * (- (2 ^ 31)) \<le> l * t"
    using assms by (intro mult_left_mono; simp)+
  then show "- (l * 2 ^ 32) < v + l * t" "v + l * t < 0" using assms(3,4) by simp_all
qed

lemma decoded_digits:
  fixes t s :: int
  assumes "- (2 ^ 31) \<le> t" "t < 2 ^ 31"
  shows "int_new (if t < 0 then Minus else Plus)
      (if t < 0 then twos_complement (ds @ [word_of_int t]) else ds @ [word_of_int t]) =
    digits_value ds + 2 ^ (32 * length ds) * t"
proof (cases "t < 0")
  case True
  let ?w = "word_of_int t :: digit" and ?L = "2 ^ (32 * length ds) :: int"
  have w: "uint ?w = t + 2 ^ 32" using assms(1) True mod_below_zero [of "2 ^ 32" t]
    by (simp add: uint_word_of_int)
  have b: "0 \<le> digits_value ds" "digits_value ds < ?L" using digits_value_bounds [of ds] by auto
  have full: "2 ^ (32 * length (ds @ [?w])) = ?L * 2 ^ 32" by (simp add: power_add)
  note negative_bounds [OF assms(1) True b]
  moreover have "digits_value (ds @ [?w]) = digits_value ds + ?L * t + ?L * 2 ^ 32"
    using w by (simp add: distrib_left)
  ultimately have "int_new Minus (twos_complement (ds @ [?w])) = digits_value ds + ?L * t"
    using digits_of_negative [of "ds @ [?w]", unfolded full] by blast
  then show ?thesis using True by simp
next
  case False
  then have "uint (word_of_int t :: digit) = t"
    using assms(2) by (simp add: uint_word_of_int mod_pos_pos_trivial)
  then show ?thesis using False by simp
qed

lemma decoded_layout:
  assumes "j < (4 :: nat)"
  shows "drop_bit 2 (j + 4 * k + 1 + 3) - 1 = k"
    "(if (j + 4 * k + 1) AND 3 = 0 then 4 else (j + 4 * k + 1) AND 3) - 1 = j"
proof -
  have "(j + 4 * k + 1) AND 3 = (j + 1) mod 4"
    using take_bit_eq_mask [of 2 "j + 4 * k + 1"] by (simp add: take_bit_eq_mod mask_eq_exp_minus_1 mod_simps)
  then show "(if (j + 4 * k + 1) AND 3 = 0 then 4 else (j + 4 * k + 1) AND 3) - 1 = j"
    using assms by (cases "j = 3") simp_all
  show "drop_bit 2 (j + 4 * k + 1 + 3) - 1 = k" using assms by (simp add: drop_bit_eq_div)
qed

lemma signed_3_bounds: "- 4 \<le> signed_take_bit 2 x \<and> signed_take_bit 2 x < (4 :: int)"
  using signed_take_bit_int_greater_eq_minus_exp [of 2 x] signed_take_bit_int_less_exp [of 2 x] by simp

lemma top_digit_bounds:
  fixes s :: int
  assumes "- 4 \<le> s" "s < 4" "length hi < 4"
  defines "t \<equiv> s * 256 ^ length hi + octets_value hi"
  shows "- (2 ^ 31) \<le> t" "t < 2 ^ 31" "t < 0 \<longleftrightarrow> s < 0"
proof -
  let ?p = "256 ^ length hi :: int"
  have b: "0 \<le> octets_value hi" "octets_value hi < ?p" using octets_value_bounds [of hi] by auto
  have "?p \<le> 256 ^ 3" using assms(3) by (intro power_increasing) simp_all
  then have p: "0 < ?p" "?p \<le> 16777216" by simp_all
  have "(- 4) * ?p \<le> s * ?p" "s * ?p \<le> 3 * ?p" using assms(1,2) by (intro mult_right_mono; simp)+
  then have "- 2147483648 \<le> t" "t < 2147483648" using b p(2) unfolding t_def by linarith+
  then show "- (2 ^ 31) \<le> t" "t < 2 ^ 31" by simp_all
  have neg: "s * ?p \<le> (- 1) * ?p" if "s < 0" using that by (intro mult_right_mono) simp_all
  have pos: "0 \<le> s * ?p" if "0 \<le> s" using that by simp
  show "t < 0 \<longleftrightarrow> s < 0"
  proof (cases "s < 0")
    case True
    then show ?thesis using b neg unfolding t_def by linarith
  next
    case False
    then show ?thesis using b pos unfolding t_def by linarith
  qed
qed

lemma decode_split:
  fixes b :: octet
  defines "s \<equiv> signed_take_bit 2 (uint b)"
  assumes l: "unat (drop_bit 3 b) + 2 = length hi + 4 * k" and top: "length hi < 4" and low: "length low = 4 * k"
  shows "from_big_endian_octet_stream next_octet (b # hi @ low @ rest) =
    (Inr (Value (s * 256 ^ length (hi @ low) + octets_value (hi @ low))), rest)"
proof -
  define t where "t = s * 256 ^ length hi + octets_value hi"
  have t: "- (2 ^ 31) \<le> t" "t < 2 ^ 31" "t < 0 \<longleftrightarrow> s < 0"
    using top_digit_bounds [OF _ _ top, of s] signed_3_bounds [of "uint b"] by (auto simp: s_def t_def)
  obtain ds where ds: "read_digits next_octet k (low @ rest) = (Inr ds, rest)"
    "length ds = k" "digits_value ds = octets_value low"
    using read_digits_octets [OF low, of rest] by blast
  have word: "repeatE (length hi) (push_octet next_octet) (word_of_int s) (hi @ low @ rest) =
      (Inr (word_of_int t), low @ rest)"
    unfolding repeat_push_octet by (simp add: t_def)
  have bytes: "unat (drop_bit 3 (b AND 0xF8)) + 3 = length hi + 4 * k + 1"
    unfolding octet_length_field using l by simp
  have "(256 :: int) ^ length low = 2 ^ (32 * k)" by (simp add: low power_mult)
  then have decoded: "int_new (if s < 0 then Minus else Plus)
      (if s < 0 then twos_complement (ds @ [word_of_int t]) else ds @ [word_of_int t]) =
      s * 256 ^ length (hi @ low) + octets_value (hi @ low)"
    using decoded_digits [OF t(1,2), of ds] t(3) ds(2,3)
    by (simp add: t_def power_add algebra_simps)
  have "from_big_endian_octet_stream next_octet (b # hi @ low @ rest) =
    bindE (repeatE (length hi) (push_octet next_octet) (word_of_int s)) (\<lambda>value.
      bindE (read_digits next_octet k) (\<lambda>low.
        returnE (from_vec_le_unchecked (if s < 0 then Minus else Plus)
          (if (if s < 0 then Minus else Plus) = Minus then twos_complement (low @ [value]) else low @ [value]))))
      (hi @ low @ rest)"
    unfolding from_big_endian_octet_stream_def bindE_def [of next_octet]
    by (simp only: next_octet.simps prod.case sum.case Let_def bytes sign_field decoded_layout [OF top] s_def)
  then show ?thesis
    using decoded word ds(1) by (cases "s < 0") (simp_all add: bindE_unfold from_vec_le_unchecked_def)
qed

text \<open>The value decoded: the three bits of the first byte, with their sign, above the other bytes.\<close>

lemma decode_value:
  assumes "length bs = unat (drop_bit 3 b) + 2"
  shows "from_big_endian_octet_stream next_octet (b # bs @ rest) =
    (Inr (Value (signed_take_bit 2 (uint b) * 256 ^ length bs + octets_value bs)), rest)"
proof -
  let ?n = "length bs"
  let ?top = "take (?n mod 4) bs" and ?low = "drop (?n mod 4) bs"
  have "from_big_endian_octet_stream next_octet (b # ?top @ ?low @ rest) =
      (Inr (Value (signed_take_bit 2 (uint b) * 256 ^ length (?top @ ?low) + octets_value (?top @ ?low))), rest)"
    by (rule decode_split [where k = "?n div 4"]) (use assms in \<open>auto simp: minus_mod_eq_mult_div\<close>)
  then show ?thesis by (simp only: append_take_drop_id append_assoc [symmetric])
qed

text \<open>C16: the operand of the long \<open>PUSHINT\<close> is decoded as the two's complement value of all its
  bits: with a first byte whose upper five bits announce \<open>l\<close> and \<open>l + 2\<close> bytes behind it, the
  decoder reads exactly those bytes and returns the signed value of the remaining \<open>8 l + 19\<close> bits,
  whatever the division of the bytes into 32-bit digits.\<close>

theorem from_big_endian_octet_stream_decodes:
  assumes "length bs = unat (drop_bit 3 b) + 2"
  shows "from_big_endian_octet_stream next_octet (b # bs @ rest) =
    (Inr (Value (signed_take_bit (8 * length bs + 2) (octets_value (b # bs)))), rest)"
proof -
  have "signed_take_bit (8 * length bs + 2) (octets_value (b # bs)) =
      signed_take_bit 2 (uint b) * 256 ^ length bs + octets_value bs"
    using signed_take_bit_prefix [of "octets_value bs" "8 * length bs" "uint b"] octets_value_bounds [of bs]
    by (simp add: power_mult)
  then show ?thesis by (simp only: decode_value [OF assms])
qed

theorem from_big_endian_octet_stream_decodes_witness:
  "from_big_endian_octet_stream next_octet ([0x0F, 0xFF, 0xFF, 0x9C] @ [7]) = (Inr (Value (- 100)), [7])"
  using from_big_endian_octet_stream_decodes [of "[0xFF, 0xFF, 0x9C]" "0x0F" "[7]"]
  by (simp add: signed_take_bit_eq_take_bit_shift take_bit_eq_mod)

lemma and_mask_eq_mod_8: "(v :: int) AND 7 = v mod 8"
  using take_bit_eq_mask [of 3 v] by (simp add: take_bit_eq_mod mask_numeral)

text \<open>C18: a literal of the long \<open>PUSHINT\<close> is not checked against the range of the machine's integers.  One
  that announces \<open>l \<le> 29\<close> is always a 257-bit number, but with \<open>l = 30\<close>, the longest the description of the
  machine allows, it is one only if the three bits in the first byte are equal, and the decoder returns the number
  all the same.\<close>

theorem literal_range:
  assumes "length bs = unat (drop_bit 3 b) + 2"
  shows "\<exists>v. from_big_endian_octet_stream next_octet (b # bs @ rest) = (Inr (Value v), rest) \<and>
    (unat (drop_bit 3 b) \<le> 29 \<longrightarrow> integer_ok (Value v)) \<and>
    (unat (drop_bit 3 b) = 30 \<longrightarrow> (integer_ok (Value v) \<longleftrightarrow> b AND 7 = 0 \<or> b AND 7 = 7))"
proof -
  let ?s = "signed_take_bit 2 (uint b)" and ?n = "length bs" and ?o = "octets_value bs"
  have o: "0 \<le> ?o" "?o < 256 ^ ?n" using octets_value_bounds [of bs] by (simp_all add: power_mult)
  have s: "- 4 \<le> ?s" "?s < 4"
    using signed_take_bit_int_greater_eq_minus_exp [of 2 "uint b"] signed_take_bit_int_less_exp [of 2 "uint b"] by simp_all
  have small: "integer_ok (Value (?s * 256 ^ ?n + ?o))" if "unat (drop_bit 3 b) \<le> 29"
  proof -
    have "(256 :: int) ^ ?n \<le> 256 ^ 31" using that assms by (intro power_increasing) simp_all
    moreover have "- 4 * 256 ^ ?n \<le> ?s * 256 ^ ?n" "?s * 256 ^ ?n \<le> 3 * 256 ^ ?n"
      using s by (intro mult_right_mono; simp)+
    moreover have "(2 :: int) ^ 256 = 256 * 256 ^ 31" by simp
    ultimately show ?thesis using o unfolding integer_ok.simps by linarith
  qed
  have top: "integer_ok (Value (?s * 256 ^ ?n + ?o)) \<longleftrightarrow> ?s = 0 \<or> ?s = - 1" if "unat (drop_bit 3 b) = 30"
    using that assms s o by auto
  have "uint (b AND 7) = uint b mod 8" by (simp add: uint_and and_mask_eq_mod_8)
  then have "b AND 7 = 0 \<longleftrightarrow> uint b mod 8 = 0" "b AND 7 = 7 \<longleftrightarrow> uint b mod 8 = 7" by (simp_all add: word_uint_eq_iff)
  moreover have "?s = (uint b + 4) mod 8 - 4" by (simp add: signed_take_bit_eq_take_bit_shift take_bit_eq_mod)
  ultimately have "?s = 0 \<or> ?s = - 1 \<longleftrightarrow> b AND 7 = 0 \<or> b AND 7 = 7" by presburger
  then show ?thesis using decode_value [OF assms, of rest] small top by auto
qed

theorem literal_range_witness:
  "\<exists>v. from_big_endian_octet_stream next_octet ((0xF1 # replicate 32 0) @ []) = (Inr (Value v), []) \<and> \<not> integer_ok (Value v)"
  using literal_range [of "replicate 32 0" "0xF1" "[]"] by simp

end
