(* ===== verification/Integer_Serialization.thy ===== *)
theory Integer_Serialization
  imports Integer_Octets
begin

text \<open>
  The encodings of integers as bit strings (\<open>stack/integer/serialization\<close>).  An encoder makes
  the buffer and the number of bits that become a builder; a decoder takes the bytes read from a
  slice.

  \<open>bigint_ops\<close> holds the conversions of the crate of big integers between numbers and
  bytes; what is documented of them is \<open>bigint_ok\<close>.
\<close>

unbundle bit_operations_syntax

record bigint_ops =
  to_bytes_be :: "int \<Rightarrow> octet list"
  to_bytes_le :: "int \<Rightarrow> octet list"
  to_signed_bytes_be :: "int \<Rightarrow> octet list"
  to_signed_bytes_le :: "int \<Rightarrow> octet list"
  from_bytes_be :: "octet list \<Rightarrow> int"
  from_bytes_le :: "octet list \<Rightarrow> int"
  from_signed_bytes_be :: "octet list \<Rightarrow> int"
  from_signed_bytes_le :: "octet list \<Rightarrow> int"

section \<open>Buffers (\<open>common.rs\<close>)\<close>

definition bits_to_bytes :: "nat \<Rightarrow> nat" where
  "bits_to_bytes length_in_bits = drop_bit 3 (length_in_bits + 7)"

definition calc_excess_bits :: "nat \<Rightarrow> nat" where
  "calc_excess_bits length_in_bits = length_in_bits AND 7"

definition get_fill :: "bool \<Rightarrow> octet" where
  "get_fill is_negative = (if is_negative then 0xFF else 0)"

definition extend_buffer_be :: "octet list \<Rightarrow> nat \<Rightarrow> bool \<Rightarrow> octet list" where
  "extend_buffer_be buffer length_in_bits is_negative =
     (let new_len = bits_to_bytes length_in_bits in
      if new_len > length buffer
      then replicate (new_len - length buffer) (get_fill is_negative) @ buffer else buffer)"

definition resize :: "nat \<Rightarrow> octet \<Rightarrow> octet list \<Rightarrow> octet list" where
  "resize n x xs = take n xs @ replicate (n - length xs) x"

definition extend_buffer_le :: "octet list \<Rightarrow> nat \<Rightarrow> bool \<Rightarrow> octet list" where
  "extend_buffer_le buffer length_in_bits is_negative =
     (let new_len = bits_to_bytes length_in_bits in
      if new_len > length buffer then resize new_len (get_fill is_negative) buffer else buffer)"

section \<open>Encodings\<close>

definition to_biguint :: "int \<Rightarrow> int option" where
  "to_biguint v = (if 0 \<le> v then Some v else None)"

text \<open>\<open>value <<= 8 - excess_bits\<close> and \<open>value >>= 8 - excess_bits\<close> where the length is not
  a number of bytes.\<close>

definition align_left :: "nat \<Rightarrow> int \<Rightarrow> int" where
  "align_left n v = (let excess = calc_excess_bits n in if excess \<noteq> 0 then push_bit (8 - excess) v else v)"

definition align_right :: "nat \<Rightarrow> int \<Rightarrow> int" where
  "align_right n v = (let excess = calc_excess_bits n in if excess \<noteq> 0 then drop_bit (8 - excess) v else v)"

definition signed_be_serialize :: "bigint_ops \<Rightarrow> nat \<Rightarrow> integer_data \<Rightarrow> exception_code + octet list" where
  "signed_be_serialize N n x = bindR (fits_in x n) (\<lambda>ok.
     if \<not> ok then Inl RangeCheckError
     else bindR (take_value_of Some x) (\<lambda>v.
       let v = align_left n v in Inr (extend_buffer_be (to_signed_bytes_be N v) n (v < 0))))"

definition signed_be_deserialize :: "bigint_ops \<Rightarrow> nat \<Rightarrow> octet list \<Rightarrow> exception_code + integer_data" where
  "signed_be_deserialize N n data = integer_from (align_right n (from_signed_bytes_be N data))"

definition unsigned_be_serialize :: "bigint_ops \<Rightarrow> nat \<Rightarrow> integer_data \<Rightarrow> exception_code + octet list" where
  "unsigned_be_serialize N n x = bindR (check_neg x) (\<lambda>_. bindR (ufits_in x n) (\<lambda>ok.
     if \<not> ok then Inl RangeCheckError
     else bindR (take_value_of to_biguint x) (\<lambda>v.
       Inr (extend_buffer_be (to_bytes_be N (align_left n v)) n False))))"

definition unsigned_be_deserialize :: "bigint_ops \<Rightarrow> nat \<Rightarrow> octet list \<Rightarrow> exception_code + integer_data" where
  "unsigned_be_deserialize N n data = integer_from (align_right n (from_bytes_be N data))"

definition signed_le_serialize :: "bigint_ops \<Rightarrow> nat \<Rightarrow> integer_data \<Rightarrow> exception_code + octet list" where
  "signed_le_serialize N n x = bindR (fits_in x n) (\<lambda>ok.
     if \<not> ok then Inl RangeCheckError
     else bindR (take_value_of Some x) (\<lambda>v.
       Inr (extend_buffer_le (to_signed_bytes_le N v) n (v < 0))))"

definition signed_le_deserialize :: "bigint_ops \<Rightarrow> nat \<Rightarrow> octet list \<Rightarrow> exception_code + integer_data" where
  "signed_le_deserialize N n data = integer_from (from_signed_bytes_le N data)"

definition unsigned_le_serialize :: "bigint_ops \<Rightarrow> nat \<Rightarrow> integer_data \<Rightarrow> exception_code + octet list" where
  "unsigned_le_serialize N n x = bindR (if is_neg x then Inr False else ufits_in x n) (\<lambda>ok.
     if \<not> ok then Inl RangeCheckError
     else bindR (take_value_of to_biguint x) (\<lambda>v.
       Inr (resize (bits_to_bytes n) 0 (to_bytes_le N v))))"

definition unsigned_le_deserialize :: "bigint_ops \<Rightarrow> nat \<Rightarrow> octet list \<Rightarrow> exception_code + integer_data" where
  "unsigned_le_deserialize N n data =
     (case integer_from (from_bytes_le N data) of Inr x \<Rightarrow> Inr x | Inl _ \<Rightarrow> Inr zero_int)"

datatype encoding = SignedIntegerBigEndianEncoding | UnsignedIntegerBigEndianEncoding
  | SignedIntegerLittleEndianEncoding | UnsignedIntegerLittleEndianEncoding

primrec try_serialize :: "encoding \<Rightarrow> bigint_ops \<Rightarrow> nat \<Rightarrow> integer_data \<Rightarrow> exception_code + octet list" where
  "try_serialize SignedIntegerBigEndianEncoding = signed_be_serialize"
| "try_serialize UnsignedIntegerBigEndianEncoding = unsigned_be_serialize"
| "try_serialize SignedIntegerLittleEndianEncoding = signed_le_serialize"
| "try_serialize UnsignedIntegerLittleEndianEncoding = unsigned_le_serialize"

text \<open>The error stands for the panic of \<open>expect\<close>.\<close>

primrec deserialize :: "encoding \<Rightarrow> bigint_ops \<Rightarrow> nat \<Rightarrow> octet list \<Rightarrow> exception_code + integer_data" where
  "deserialize SignedIntegerBigEndianEncoding = signed_be_deserialize"
| "deserialize UnsignedIntegerBigEndianEncoding = unsigned_be_deserialize"
| "deserialize SignedIntegerLittleEndianEncoding = signed_le_deserialize"
| "deserialize UnsignedIntegerLittleEndianEncoding = unsigned_le_deserialize"

text \<open>\<open>as_builder\<close> up to the construction of the builder from the buffer.\<close>

definition integer_as_buffer ::
  "encoding \<Rightarrow> bigint_ops \<Rightarrow> nat \<Rightarrow> integer_data \<Rightarrow> exception_code + octet list" where
  "integer_as_buffer enc N n x =
     bindR (if is_nan x then on_nan_parameter Signaling else Inr ()) (\<lambda>_. try_serialize enc N n x)"

definition from_unsigned_bytes_be :: "bigint_ops \<Rightarrow> octet list \<Rightarrow> integer_data" where
  "from_unsigned_bytes_be N data = Value (from_bytes_be N data)"

section \<open>What the crate of big integers promises\<close>

text \<open>\<open>octets_of n v\<close>: the last \<open>n\<close> octets of the two's complement representation
  of \<open>v\<close>, the most significant one first.\<close>

primrec octets_of :: "nat \<Rightarrow> int \<Rightarrow> octet list" where
  "octets_of 0 v = []"
| "octets_of (Suc n) v = octets_of n (v div 256) @ [word_of_int v]"

definition signed_octets :: "nat \<Rightarrow> int \<Rightarrow> bool" where
  "signed_octets k v \<longleftrightarrow> 0 < k \<and> - (2 ^ (8 * k - 1)) \<le> v \<and> v < 2 ^ (8 * k - 1)"

definition signed_octets_value :: "octet list \<Rightarrow> int" where
  "signed_octets_value bs = (if bs = [] then 0 else signed_take_bit (8 * length bs - 1) (octets_value bs))"

text \<open>Numbers are written in the fewest octets, at least one, that hold them.\<close>

definition bigint_ok :: "bigint_ops \<Rightarrow> bool" where
  "bigint_ok N \<longleftrightarrow>
     (\<forall>v \<ge> 0. octets_value (to_bytes_be N v) = v \<and> to_bytes_be N v \<noteq> [] \<and>
        (\<forall>k > 0. v < 256 ^ k \<longrightarrow> length (to_bytes_be N v) \<le> k)) \<and>
     (\<forall>v. signed_octets (length (to_signed_bytes_be N v)) v \<and>
        octets_value (to_signed_bytes_be N v) = v mod 256 ^ length (to_signed_bytes_be N v) \<and>
        (\<forall>k. signed_octets k v \<longrightarrow> length (to_signed_bytes_be N v) \<le> k)) \<and>
     (\<forall>v. to_bytes_le N v = rev (to_bytes_be N v) \<and> to_signed_bytes_le N v = rev (to_signed_bytes_be N v)) \<and>
     (\<forall>bs. from_bytes_be N bs = octets_value bs \<and> from_bytes_le N bs = octets_value (rev bs) \<and>
        from_signed_bytes_be N bs = signed_octets_value bs \<and> from_signed_bytes_le N bs = signed_octets_value (rev bs))"

definition schoolbook_bigint :: bigint_ops where
  "schoolbook_bigint =
     (let unsigned = (\<lambda>v. octets_of (max 1 (bits_to_bytes (bits v))) v);
          signed = (\<lambda>v. octets_of (bits_to_bytes (bitsize v)) v)
      in \<lparr> to_bytes_be = unsigned, to_bytes_le = (\<lambda>v. rev (unsigned v)),
           to_signed_bytes_be = signed, to_signed_bytes_le = (\<lambda>v. rev (signed v)),
           from_bytes_be = octets_value, from_bytes_le = (\<lambda>bs. octets_value (rev bs)),
           from_signed_bytes_be = signed_octets_value, from_signed_bytes_le = (\<lambda>bs. signed_octets_value (rev bs)) \<rparr>)"

section \<open>Octets\<close>

lemma length_octets_of [simp]: "length (octets_of n v) = n"
  by (induction n arbitrary: v) simp_all

lemma octets_of_numeral [simp]:
  "octets_of (numeral k) v = octets_of (pred_numeral k) (v div 256) @ [word_of_int v]"
  by (simp add: numeral_eq_Suc)

lemma octets_value_of [simp]: "octets_value (octets_of n v) = v mod 256 ^ n"
proof (induction n arbitrary: v)
  case (Suc n)
  have "octets_value (octets_of (Suc n) v) = (v div 256 mod 256 ^ n) * 256 + v mod 256"
    by (simp add: octets_value_snoc Suc uint_word_of_int)
  also have "\<dots> = v mod (256 * 256 ^ n)" by (simp add: zmod_zmult2_eq)
  finally show ?case by simp
qed simp

lemma octets_of_value: "octets_of (length bs) (octets_value bs) = bs"
proof (induction bs rule: rev_induct)
  case (snoc b bs)
  have "uint b < 256" using uint_lt2p [of b] by simp
  then have "octets_value (bs @ [b]) div 256 = octets_value bs" by (simp add: octets_value_snoc)
  moreover have "word_of_int (octets_value bs * 256 + uint b) = word_of_int (octets_value bs) * (256 :: octet) + b"
    by simp
  moreover have "(256 :: octet) = 0" by simp
  ultimately have "word_of_int (octets_value (bs @ [b])) = b" by (simp only: octets_value_snoc mult_zero_right add_0)
  with \<open>octets_value (bs @ [b]) div 256 = octets_value bs\<close> show ?case using snoc by simp
qed simp

lemma octets_eqI: "length bs = n \<Longrightarrow> octets_value bs = v mod 256 ^ n \<Longrightarrow> bs = octets_of n v"
  by (metis length_octets_of octets_of_value octets_value_of)

lemma octets_value_zeros [simp]: "octets_value (replicate n 0) = 0"
  by (induction n) simp_all

lemma octets_value_ones: "octets_value (replicate n 0xFF) = 256 ^ n - 1"
proof (induction n)
  case (Suc n)
  have "uint (0xFF :: octet) = 255" by simp
  then show ?case using Suc by (simp only: replicate_Suc octets_value_simps length_replicate power_Suc)
qed simp

lemma pow256: "(256 :: int) ^ k = 2 ^ (8 * k)"
  by (simp add: power_mult)

lemma signed_octets_of:
  assumes "signed_octets k v"
  shows "v mod 256 ^ k = (if v < 0 then v + 256 ^ k else v)"
proof -
  obtain j where k: "8 * k = Suc j" "8 * k - 1 = j" using assms by (cases "8 * k") (auto simp: signed_octets_def)
  have "- (256 ^ k) \<le> v" "v < 256 ^ k"
    using assms unfolding signed_octets_def pow256 k by (auto intro: order_trans less_le_trans)
  then show ?thesis by (simp add: mod_below_zero)
qed

lemma signed_octets_value_of:
  assumes "signed_octets k v"
  shows "signed_octets_value (octets_of k v) = v"
proof -
  have k: "0 < k" "Suc (8 * k - 1) = 8 * k" using assms by (auto simp: signed_octets_def)
  have "signed_octets_value (octets_of k v) = signed_take_bit (8 * k - 1) (take_bit (8 * k) v)"
    using k by (simp add: signed_octets_value_def pow256 take_bit_eq_mod flip: length_0_conv)
  also have "\<dots> = signed_take_bit (8 * k - 1) v" using k signed_take_bit_take_bit [of "8 * k - 1" "8 * k" v] by simp
  also have "\<dots> = v" using assms by (intro signed_take_bit_int_eq_self) (auto simp: signed_octets_def)
  finally show ?thesis .
qed

section \<open>Layout of the buffers\<close>

text \<open>\<open>padding\<close>: the bits of the last octet that the length leaves unused.\<close>

definition padding :: "nat \<Rightarrow> nat" where
  "padding n = 8 * bits_to_bytes n - n"

lemma bits_to_bytes_eq: "bits_to_bytes n = (n + 7) div 8"
  by (simp add: bits_to_bytes_def drop_bit_eq_div)

lemma bits_to_bytes_pad: "8 * bits_to_bytes n = n + padding n"
  unfolding padding_def bits_to_bytes_eq by simp

lemma excess_padding: "padding n = (if calc_excess_bits n = 0 then 0 else 8 - calc_excess_bits n)"
proof -
  have "calc_excess_bits n = n mod 8"
    using take_bit_eq_mask [of 3 n] by (simp add: calc_excess_bits_def take_bit_eq_mod mask_eq_exp_minus_1)
  moreover have "(n + 7) div 8 = n div 8 + (if n mod 8 = 0 then 0 else 1)"
    using div_add1_eq [of n 7 8] by (auto intro: div_nat_eqI)
  moreover have "8 * (n div 8) + 8 - n = 8 - n mod 8" using mult_div_mod_eq [of 8 n] by linarith
  ultimately show ?thesis unfolding padding_def bits_to_bytes_eq by auto
qed

lemma align_eq: "align_left n v = v * 2 ^ padding n" "align_right n v = v div 2 ^ padding n"
  by (auto simp: align_left_def align_right_def excess_padding Let_def push_bit_eq_mult drop_bit_eq_div)

definition fits :: "encoding \<Rightarrow> nat \<Rightarrow> int \<Rightarrow> bool" where
  "fits enc n v =
     (if enc = SignedIntegerBigEndianEncoding \<or> enc = SignedIntegerLittleEndianEncoding
      then 0 < n \<and> - (2 ^ (n - 1)) \<le> v \<and> v < 2 ^ (n - 1) else 0 \<le> v \<and> v < 2 ^ n)"

primrec encoded :: "encoding \<Rightarrow> nat \<Rightarrow> int \<Rightarrow> octet list" where
  "encoded SignedIntegerBigEndianEncoding n v = octets_of (bits_to_bytes n) (push_bit (padding n) v)"
| "encoded UnsignedIntegerBigEndianEncoding n v = octets_of (max 1 (bits_to_bytes n)) (push_bit (padding n) v)"
| "encoded SignedIntegerLittleEndianEncoding n v = rev (octets_of (bits_to_bytes n) v)"
| "encoded UnsignedIntegerLittleEndianEncoding n v = rev (octets_of (bits_to_bytes n) v)"

lemma aligned_signed:
  assumes "0 < n" "- (2 ^ (n - 1)) \<le> v" "v < 2 ^ (n - 1)"
  shows "signed_octets (bits_to_bytes n) (v * 2 ^ padding n)"
proof -
  have m: "8 * bits_to_bytes n - 1 = n - 1 + padding n" "0 < bits_to_bytes n"
    using assms(1) bits_to_bytes_pad [of n] by simp_all
  have "- (2 ^ (n - 1)) * 2 ^ padding n \<le> v * 2 ^ padding n" "v * 2 ^ padding n < 2 ^ (n - 1) * 2 ^ padding n"
    using assms by (intro mult_right_mono mult_strict_right_mono; simp)+
  then show ?thesis unfolding signed_octets_def m(1) power_add using m(2) by simp
qed

lemma signed_octets_mono: "0 < n \<Longrightarrow> - (2 ^ (n - 1)) \<le> v \<Longrightarrow> v < 2 ^ (n - 1) \<Longrightarrow> signed_octets (bits_to_bytes n) v"
proof -
  assume n: "0 < n" and v: "- (2 ^ (n - 1)) \<le> v" "v < 2 ^ (n - 1)"
  have "n - 1 \<le> 8 * bits_to_bytes n - 1" "0 < bits_to_bytes n" using n bits_to_bytes_pad [of n] by simp_all
  then have "(2 :: int) ^ (n - 1) \<le> 2 ^ (8 * bits_to_bytes n - 1)" by (intro power_increasing) simp_all
  then show ?thesis using v \<open>0 < bits_to_bytes n\<close> unfolding signed_octets_def by linarith
qed

lemma signed_buffer:
  assumes N: "bigint_ok N" and v: "signed_octets (bits_to_bytes n) v"
  shows "extend_buffer_be (to_signed_bytes_be N v) n (v < 0) = octets_of (bits_to_bytes n) v"
proof (rule octets_eqI)
  define bs where "bs = to_signed_bytes_be N v"
  define j where "j = bits_to_bytes n - length bs"
  have bs: "signed_octets (length bs) v" "octets_value bs = v mod 256 ^ length bs" "length bs \<le> bits_to_bytes n"
    using N v unfolding bigint_ok_def bs_def by simp_all
  then have m: "bits_to_bytes n = j + length bs" by (simp add: j_def)
  have ext: "extend_buffer_be bs n (v < 0) = replicate j (get_fill (v < 0)) @ bs"
    using bs(3) by (auto simp: extend_buffer_be_def j_def Let_def)
  show "length (extend_buffer_be (to_signed_bytes_be N v) n (v < 0)) = bits_to_bytes n"
    unfolding bs_def [symmetric] ext m by simp
  show "octets_value (extend_buffer_be (to_signed_bytes_be N v) n (v < 0)) = v mod 256 ^ bits_to_bytes n"
    unfolding bs_def [symmetric] ext octets_value_simps bs(2) signed_octets_of [OF bs(1)] signed_octets_of [OF v]
    by (simp add: m get_fill_def octets_value_ones power_add algebra_simps)
qed

lemma unsigned_bytes:
  assumes N: "bigint_ok N" and v: "0 \<le> v" "v < 256 ^ m"
  shows "octets_value (to_bytes_be N v) = v" "to_bytes_be N v \<noteq> []" "length (to_bytes_be N v) \<le> max 1 m"
proof -
  have "v < 256 ^ max 1 m" using v(2) power_increasing [of m "max 1 m" "256 :: int"] by linarith
  then show "octets_value (to_bytes_be N v) = v" "to_bytes_be N v \<noteq> []" "length (to_bytes_be N v) \<le> max 1 m"
    using N v(1) unfolding bigint_ok_def by simp_all
qed

lemma unsigned_buffer:
  assumes N: "bigint_ok N" and v: "0 \<le> v" "v < 256 ^ bits_to_bytes n"
  shows "extend_buffer_be (to_bytes_be N v) n False = octets_of (max 1 (bits_to_bytes n)) v"
proof (rule octets_eqI)
  note bs = unsigned_bytes [OF N v]
  show "length (extend_buffer_be (to_bytes_be N v) n False) = max 1 (bits_to_bytes n)"
    using bs(2,3) by (cases "to_bytes_be N v") (auto simp: extend_buffer_be_def Let_def)
  have "v < 256 ^ max 1 (bits_to_bytes n)"
    using v(2) power_increasing [of "bits_to_bytes n" "max 1 (bits_to_bytes n)" "256 :: int"] by linarith
  then show "octets_value (extend_buffer_be (to_bytes_be N v) n False) = v mod 256 ^ max 1 (bits_to_bytes n)"
    using v(1) by (simp add: extend_buffer_be_def Let_def get_fill_def bs(1))
qed

lemma extend_le_be: "extend_buffer_le (rev bs) n b = rev (extend_buffer_be bs n b)"
  by (simp add: extend_buffer_le_def extend_buffer_be_def resize_def Let_def)

lemma unsigned_le_buffer:
  assumes N: "bigint_ok N" and v: "0 \<le> v" "v < 256 ^ bits_to_bytes n"
  shows "resize (bits_to_bytes n) 0 (rev (to_bytes_be N v)) = rev (octets_of (bits_to_bytes n) v)"
proof (cases "bits_to_bytes n = 0")
  case False
  note bs = unsigned_bytes [OF N v]
  have "resize (bits_to_bytes n) 0 (rev (to_bytes_be N v)) = rev (extend_buffer_be (to_bytes_be N v) n False)"
    using bs(3) False by (simp add: resize_def extend_buffer_be_def get_fill_def Let_def)
  then show ?thesis using unsigned_buffer [OF N v] False by simp
qed (simp add: resize_def)

lemma padded_bound: "v < 2 ^ n \<Longrightarrow> v * 2 ^ padding n < (256 :: int) ^ bits_to_bytes n"
  unfolding pow256 bits_to_bytes_pad power_add by simp

lemma bitsize_pos: "0 < bitsize v"
  using bits_le_iff [of v 0] by (auto simp: bitsize_def Let_def)

lemma fits_in_eq:
  "fits_in (Value v) n = Inr (0 < n \<and> - (2 ^ (n - 1)) \<le> v \<and> v < 2 ^ (n - 1))"
  "ufits_in (Value v) n = Inr (0 \<le> v \<and> v < 2 ^ n)"
  using bitsize_pos [of v] bits_le_iff [of v n] bitsize_le_iff [of n v]
  by (cases "n = 0"; auto simp: fits_in_def ufits_in_def integer_bitsize_def ubitsize_def)+

lemma serialize_layout:
  assumes N: "bigint_ok N"
  shows "integer_as_buffer enc N n (Value v) = (if fits enc n v then Inr (encoded enc n v) else Inl RangeCheckError)"
proof -
  note [simp] = integer_as_buffer_def is_nan_def fits_in_eq align_eq fits_def push_bit_eq_mult to_biguint_def Let_def
  have le: "to_bytes_le N v = rev (to_bytes_be N v)" "to_signed_bytes_le N v = rev (to_signed_bytes_be N v)"
    using N by (simp_all add: bigint_ok_def)
  show ?thesis
  proof (cases enc)
    case SignedIntegerBigEndianEncoding
    then show ?thesis using signed_buffer [OF N aligned_signed [of n v]] by (auto simp: signed_be_serialize_def)
  next
    case UnsignedIntegerBigEndianEncoding
    then show ?thesis using unsigned_buffer [OF N _ padded_bound [of v n]] by (auto simp: unsigned_be_serialize_def)
  next
    case SignedIntegerLittleEndianEncoding
    then show ?thesis using signed_buffer [OF N signed_octets_mono [of n v]]
      by (auto simp: signed_le_serialize_def le extend_le_be)
  next
    case UnsignedIntegerLittleEndianEncoding
    have "v < 2 ^ n \<Longrightarrow> v < 256 ^ bits_to_bytes n"
      unfolding pow256 using bits_to_bytes_pad [of n] power_increasing [of n "8 * bits_to_bytes n" "2 :: int"] by linarith
    then show ?thesis using UnsignedIntegerLittleEndianEncoding unsigned_le_buffer [OF N, of v n]
      by (auto simp: unsigned_le_serialize_def le)
  qed
qed

section \<open>Decoding\<close>

definition signed_encoding :: "encoding \<Rightarrow> bool" where
  "signed_encoding enc \<longleftrightarrow> enc = SignedIntegerBigEndianEncoding \<or> enc = SignedIntegerLittleEndianEncoding"

definition whole_octets :: "encoding \<Rightarrow> nat \<Rightarrow> bool" where
  "whole_octets enc n \<longleftrightarrow>
     (enc = SignedIntegerLittleEndianEncoding \<or> enc = UnsignedIntegerLittleEndianEncoding) \<longrightarrow> n mod 8 = 0"

lemma padding_0: "n mod 8 = 0 \<Longrightarrow> padding n = 0"
  unfolding padding_def bits_to_bytes_eq by (auto elim!: dvdE simp: mod_eq_0_iff_dvd)

lemma div_between:
  fixes a b p x :: int
  assumes "0 < p" "a * p \<le> x" "x < b * p"
  shows "a \<le> x div p" "x div p < b"
proof -
  have d: "x div p * p \<le> x" "x < (x div p + 1) * p"
    using div_mult_mod_eq [of x p] pos_mod_bound [OF assms(1), of x] pos_mod_sign [OF assms(1), of x]
    unfolding distrib_right mult_1 by linarith+
  then have "a * p < (x div p + 1) * p" "x div p * p < b * p" using assms by linarith+
  then show "a \<le> x div p" "x div p < b" using assms(1) by (simp_all add: mult_less_cancel_right_pos)
qed

lemma signed_value_bounds:
  assumes "length bs = bits_to_bytes n" "0 < n"
  shows "- (2 ^ (n - 1)) \<le> signed_octets_value bs div 2 ^ padding n" "signed_octets_value bs div 2 ^ padding n < 2 ^ (n - 1)"
proof -
  have m: "8 * length bs - 1 = (n - 1) + padding n" "bs \<noteq> []"
    using assms bits_to_bytes_pad [of n] by auto
  have b: "signed_octets_value bs \<ge> - (2 ^ (n - 1)) * 2 ^ padding n" "signed_octets_value bs < 2 ^ (n - 1) * 2 ^ padding n"
    using signed_take_bit_int_greater_eq_minus_exp [of "8 * length bs - 1" "octets_value bs"]
      signed_take_bit_int_less_exp [of "8 * length bs - 1" "octets_value bs"] m(2)
    unfolding signed_octets_value_def m(1) power_add by simp_all
  show "- (2 ^ (n - 1)) \<le> signed_octets_value bs div 2 ^ padding n" "signed_octets_value bs div 2 ^ padding n < 2 ^ (n - 1)"
    by (rule div_between [OF _ b]; simp)+
qed

lemma unsigned_value_bounds:
  assumes "length bs = bits_to_bytes n"
  shows "0 \<le> octets_value bs div 2 ^ padding n" "octets_value bs div 2 ^ padding n < 2 ^ n"
proof -
  have "octets_value bs < 2 ^ n * 2 ^ padding n"
    using octets_value_bounds [of bs] unfolding assms pow256 bits_to_bytes_pad power_add by simp
  then show "0 \<le> octets_value bs div 2 ^ padding n" "octets_value bs div 2 ^ padding n < 2 ^ n"
    using octets_value_bounds [of bs] by (intro div_between [of "2 ^ padding n" 0 "octets_value bs" "2 ^ n"]; simp)+
qed

lemma fits_integer_ok:
  assumes "fits enc n v" "n \<le> (if signed_encoding enc then 257 else 256)"
  shows "integer_from v = Inr (Value v)"
proof -
  have "(2 :: int) ^ (n - 1) \<le> 2 ^ 256" if "n \<le> 257" using that by (intro power_increasing) auto
  moreover have "(2 :: int) ^ n \<le> 2 ^ 256" if "n \<le> 256" using that by (intro power_increasing) auto
  ultimately have "- (2 ^ 256) \<le> v \<and> v < 2 ^ 256"
    using assms by (cases "signed_encoding enc") (auto simp: fits_def signed_encoding_def)
  then show ?thesis unfolding integer_from_def check_overflow_iff by (simp only: if_True simp_thms)
qed

lemmas decoders = signed_be_deserialize_def unsigned_be_deserialize_def signed_le_deserialize_def
  unsigned_le_deserialize_def

definition decoded :: "encoding \<Rightarrow> nat \<Rightarrow> octet list \<Rightarrow> int" where
  "decoded enc n bs =
     (let le = enc = SignedIntegerLittleEndianEncoding \<or> enc = UnsignedIntegerLittleEndianEncoding;
          bs' = if le then rev bs else bs
      in (if signed_encoding enc then signed_octets_value bs' else octets_value bs') div 2 ^ padding n)"

lemma decoded_fits:
  assumes "length bs = bits_to_bytes n" "0 < n"
  shows "fits enc n (decoded enc n bs)"
  using signed_value_bounds [of bs n] signed_value_bounds [of "rev bs" n] unsigned_value_bounds [of bs n]
    unsigned_value_bounds [of "rev bs" n] assms
  by (cases enc) (simp_all add: decoded_def fits_def signed_encoding_def)

lemma deserialize_eq:
  assumes N: "bigint_ok N" and w: "whole_octets enc n" and i: "integer_from (decoded enc n bs) = Inr x"
  shows "deserialize enc N n bs = Inr x"
  using assms padding_0 [of n]
  by (cases enc) (auto simp: bigint_ok_def decoders align_eq decoded_def signed_encoding_def whole_octets_def)

lemma decoded_encoded:
  assumes f: "fits enc n v" and w: "whole_octets enc n"
  shows "decoded enc n (encoded enc n v) = v"
proof -
  have u: "v * 2 ^ padding n < (256 :: int) ^ max 1 (bits_to_bytes n)" if "v < 2 ^ n"
    using padded_bound [OF that] power_increasing [of "bits_to_bytes n" "max 1 (bits_to_bytes n)" "256 :: int"] by linarith
  show ?thesis
    using f w padding_0 [of n] signed_octets_value_of [OF aligned_signed [of n v]] u padded_bound [of v n]
    by (cases enc) (auto simp: decoded_def fits_def signed_encoding_def whole_octets_def push_bit_eq_mult)
qed

lemma bigint_ok_schoolbook: "bigint_ok schoolbook_bigint"
proof -
  have u: "length (octets_of (max 1 (bits_to_bytes (bits v))) v) \<le> k" if "0 \<le> v" "v < 256 ^ k" "0 < k" for v k
    using that bits_le_iff [of v "8 * k"] unfolding pow256 by (simp add: bits_to_bytes_eq)
  have v: "v < 256 ^ max 1 (bits_to_bytes (bits v))" if "0 \<le> v" for v
  proof -
    have "bits v \<le> 8 * max 1 (bits_to_bytes (bits v))" unfolding bits_to_bytes_eq by linarith
    then show ?thesis using that bits_le_iff [of v "8 * max 1 (bits_to_bytes (bits v))"] unfolding pow256 by simp
  qed
  have s: "signed_octets k v \<longleftrightarrow> bits_to_bytes (bitsize v) \<le> k" for k v
    using bitsize_le_iff [of "8 * k" v] bitsize_pos [of v]
    by (cases "k = 0") (auto simp: signed_octets_def bits_to_bytes_eq)
  show ?thesis unfolding bigint_ok_def schoolbook_bigint_def Let_def
    using u v by (auto simp: s simp flip: length_0_conv)
qed

section \<open>The encodings\<close>

text \<open>C20: \<open>as_builder\<close> of a number succeeds exactly when the number is in the range of the
  encoding and the length, with a range check error otherwise; the buffer then holds, for the
  big-endian encodings, the \<open>n\<close> bits of the two's complement representation followed by zero
  bits up to a whole octet, and for the little-endian ones the octets of the representation, the
  least significant one first.  Not-a-number is an integer overflow.\<close>

theorem integer_as_buffer_layout:
  assumes "bigint_ok N"
  shows "integer_as_buffer enc N n x =
    (case x of NaN \<Rightarrow> Inl IntegerOverflow
     | Value v \<Rightarrow> if fits enc n v then Inr (encoded enc n v) else Inl RangeCheckError)"
  using serialize_layout [OF assms, of enc n] by (cases x) (simp_all add: integer_as_buffer_def is_nan_def)

theorem integer_as_buffer_layout_witness:
  "integer_as_buffer SignedIntegerBigEndianEncoding schoolbook_bigint 12 (Value (- 3)) = Inr [0xFF, 0xD0]"
  using integer_as_buffer_layout [OF bigint_ok_schoolbook, of SignedIntegerBigEndianEncoding 12 "Value (- 3)"]
  by (simp add: fits_def bits_to_bytes_eq padding_def)

text \<open>C21: numbers are read back.  For the big-endian encodings at every width, and for the little-endian ones at
  a whole number of octets, what a number of the machine was encoded to decodes to that number.  Up to the widths
  of the machine's integers, 257 bits with a sign and 256 without, decoding is total besides: any octets
  of the length of the encoding decode, without the panic of \<open>expect\<close>, to a number in the range of the encoding.\<close>

theorem integer_encoding_roundtrip:
  assumes "bigint_ok N" "whole_octets enc n" "0 < n" "length bs = bits_to_bytes n"
  shows "(\<forall>v. integer_ok (Value v) \<and> integer_as_buffer enc N n (Value v) = Inr bs \<longrightarrow>
      deserialize enc N n bs = Inr (Value v)) \<and>
    (n \<le> (if signed_encoding enc then 257 else 256) \<longrightarrow>
      deserialize enc N n bs = Inr (Value (decoded enc n bs)) \<and> fits enc n (decoded enc n bs))"
proof (intro conjI allI impI)
  fix v assume v: "integer_ok (Value v) \<and> integer_as_buffer enc N n (Value v) = Inr bs"
  then have "decoded enc n bs = v"
    using decoded_encoded [OF _ assms(2), of v] unfolding serialize_layout [OF assms(1)] by (auto split: if_splits)
  moreover have "integer_from v = Inr (Value v)" using v by (simp add: integer_from_eq)
  ultimately show "deserialize enc N n bs = Inr (Value v)" using deserialize_eq [OF assms(1,2)] by simp
next
  show f: "fits enc n (decoded enc n bs)" by (rule decoded_fits) (use assms in simp_all)
  assume "n \<le> (if signed_encoding enc then 257 else 256)"
  then show "deserialize enc N n bs = Inr (Value (decoded enc n bs))"
    by (intro deserialize_eq [OF assms(1,2)] fits_integer_ok [OF f])
qed

theorem integer_encoding_roundtrip_witness:
  "deserialize UnsignedIntegerLittleEndianEncoding schoolbook_bigint 32 [0x78, 0x56, 0x34, 0x12] = Inr (Value 0x12345678) \<and>
   deserialize SignedIntegerBigEndianEncoding schoolbook_bigint 12 [0xFF, 0xD0] = Inr (Value (- 3))"
proof
  show "deserialize UnsignedIntegerLittleEndianEncoding schoolbook_bigint 32 [0x78, 0x56, 0x34, 0x12] = Inr (Value 0x12345678)"
    using integer_encoding_roundtrip [OF bigint_ok_schoolbook, of UnsignedIntegerLittleEndianEncoding 32 "[0x78, 0x56, 0x34, 0x12]"]
    by (simp add: whole_octets_def signed_encoding_def bits_to_bytes_eq decoded_def padding_def)
  have "integer_as_buffer SignedIntegerBigEndianEncoding schoolbook_bigint 12 (Value (- 3)) = Inr [0xFF, 0xD0]"
    unfolding serialize_layout [OF bigint_ok_schoolbook] by (simp add: fits_def bits_to_bytes_eq padding_def)
  then show "deserialize SignedIntegerBigEndianEncoding schoolbook_bigint 12 [0xFF, 0xD0] = Inr (Value (- 3))"
    by (intro integer_encoding_roundtrip [THEN conjunct1, THEN spec, THEN mp, of schoolbook_bigint] bigint_ok_schoolbook conjI)
      (simp_all add: whole_octets_def bits_to_bytes_eq)
qed

end
