(* ===== verification/Engine_State.thy ===== *)
theory Engine_State
  imports Instructions Gas_State Integer_Serialization
begin

text \<open>
  The state of the machine (\<open>Engine\<close> of \<open>executor/engine/core.rs\<close>), the interface of the
  crates it is built on, and the primitives every handler uses: gas, capabilities, control
  registers, the code slice and the decoding of an instruction.

  \<open>ton\<close> is the interface to the code outside the repository: cells, slices, builders and
  dictionaries with the operations the sources call, the numeric values of exception codes
  and capability bits.  A value of it is an argument \<open>T\<close> of the definitions; nothing is
  assumed of it here.  An operation with \<open>&mut self\<close> returns the new object beside its result.

  Tracing, the debug buffer, the account index provider and the behaviour modifiers of the
  signature checks have no effect on the rest of the state and are left out.
\<close>

unbundle bit_operations_syntax

type_synonym hash = "256 word"
type_synonym u32 = "32 word"
type_synonym u64 = "64 word"

datatype capability =
    CapCopyleft | CapDelections | CapDiff | CapFastStorageStat | CapFastStorageStatBugfix
  | CapFixTupleIndexBug | CapIndexAccounts | CapInitCodeHash | CapMycode | CapResolveMerkleCell
  | CapSetLibCode | CapSignatureWithId | CapStcontNewFormat | CapStorageFeeToTvm | CapsTvmBugfixes2022

datatype cell_type = OrdinaryCell | LibraryReference | MerkleProof | MerkleUpdate | OtherCellType

section \<open>The state\<close>

record ('c, 's, 'b) committed_state =
  c4 :: "('c, 's, 'b) stack_item"
  c5 :: "('c, 's, 'b) stack_item"
  committed :: bool

text \<open>The windows of a slice in its cell: first bit, end, first reference, end.\<close>

record slice_proto =
  data_start :: nat
  data_stop :: nat
  refs_start :: nat
  refs_stop :: nat

record ('c, 's, 'b, 'h) engine =
  cc :: "('c, 's, 'b) continuation_data"
  cmd :: "('c, 's, 'b) instruction_ext"
  ctrls :: "('c, 's, 'b) save_list"
  libraries :: "'h list"
  visited_cells :: "hash set"
  visited_exotic_cells :: "hash \<rightharpoonup> 's"
  cstate :: "('c, 's, 'b) committed_state"
  time :: u64
  egas :: gas
  code_page :: int
  debug_on :: int
  step :: u32
  cmd_code_proto :: slice_proto
  last_cmd :: u8
  engine_flags :: u64
  capabilities :: u64
  block_version :: u32

type_synonym ('c, 's, 'b, 'h, 'a) action = "(('c, 's, 'b) tvm_error, ('c, 's, 'b, 'h) engine, 'a) exec"
type_synonym ('c, 's, 'b, 'h) handler = "('c, 's, 'b, 'h, unit) action"
type_synonym ('c, 's, 'b, 'h) named_handlers = "(string \<times> ('c, 's, 'b, 'h) handler) list"
type_synonym ('c, 's, 'b, 'a) ext_result = "('c, 's, 'b) tvm_error + 'a"

record ('c, 's, 'b) builder_ops =
  builder_new :: 'b
  bits_free :: "'b \<Rightarrow> nat"
  references_free :: "'b \<Rightarrow> nat"
  bits_used :: "'b \<Rightarrow> nat"
  references_used :: "'b \<Rightarrow> nat"
  length_in_bits :: "'b \<Rightarrow> nat"
  builder_data :: "'b \<Rightarrow> u8 list"
  builder_references :: "'b \<Rightarrow> 'c list"
  builder_set_type :: "cell_type \<Rightarrow> 'b \<Rightarrow> 'b"
  can_append :: "'b \<Rightarrow> 'b \<Rightarrow> bool"
  check_enough_space :: "'b \<Rightarrow> nat \<Rightarrow> bool"
  check_enough_refs :: "'b \<Rightarrow> nat \<Rightarrow> bool"
  with_raw :: "u8 list \<Rightarrow> nat \<Rightarrow> ('c, 's, 'b, 'b) ext_result"
  with_raw_and_refs :: "u8 list \<Rightarrow> nat \<Rightarrow> 'c list \<Rightarrow> ('c, 's, 'b, 'b) ext_result"
  append_builder :: "'b \<Rightarrow> 'b \<Rightarrow> ('c, 's, 'b, unit) ext_result \<times> 'b"
  append_raw :: "u8 list \<Rightarrow> nat \<Rightarrow> 'b \<Rightarrow> ('c, 's, 'b, unit) ext_result \<times> 'b"
  append_bits :: "nat \<Rightarrow> nat \<Rightarrow> 'b \<Rightarrow> ('c, 's, 'b, unit) ext_result \<times> 'b"
  checked_append_reference :: "'c \<Rightarrow> 'b \<Rightarrow> ('c, 's, 'b, unit) ext_result \<times> 'b"
  checked_append_references_and_data :: "'s \<Rightarrow> 'b \<Rightarrow> ('c, 's, 'b, unit) ext_result \<times> 'b"
  builder_into_cell :: "'b \<Rightarrow> ('c, 's, 'b, 'c) ext_result"

record ('c, 's, 'b) slice_ops =
  get_next_bit :: "'s \<Rightarrow> ('c, 's, 'b, bool) ext_result \<times> 's"
  get_next_bits :: "nat \<Rightarrow> 's \<Rightarrow> ('c, 's, 'b, u8 list) ext_result \<times> 's"
  get_next_bytes :: "nat \<Rightarrow> 's \<Rightarrow> ('c, 's, 'b, u8 list) ext_result \<times> 's"
  get_next_slice :: "nat \<Rightarrow> 's \<Rightarrow> ('c, 's, 'b, 's) ext_result \<times> 's"
  get_bit_opt :: "'s \<Rightarrow> nat \<Rightarrow> bool option"
  get_bytestring :: "nat \<Rightarrow> 's \<Rightarrow> u8 list"
  slice_is_empty :: "'s \<Rightarrow> bool"
  is_empty_root :: "'s \<Rightarrow> bool"
  shrunk_data :: "nat \<Rightarrow> nat option \<Rightarrow> 's \<Rightarrow> 's"
  common_prefix :: "'s \<Rightarrow> 's \<Rightarrow> 's option \<times> 's option \<times> 's option"
  slice_as_builder :: "'s \<Rightarrow> 'b"
  load_builder :: "'b \<Rightarrow> ('c, 's, 'b, 's) ext_result"
  load_bitstring :: "'b \<Rightarrow> ('c, 's, 'b, 's) ext_result"

record ('c, 's, 'b) cell_ops =
  max_level :: nat
  cell_depth :: "nat \<Rightarrow> 'c \<Rightarrow> nat"
  references_count :: "'c \<Rightarrow> nat"
  tree_cell_count :: "'c \<Rightarrow> u64"
  tree_bits_count :: "'c \<Rightarrow> u64"
  cell_type_try_from :: "u8 \<Rightarrow> ('c, 's, 'b, cell_type) ext_result"

record crypto_ops =
  calc_file_hash :: "u8 list \<Rightarrow> hash"
  public_key_ok :: "u8 list \<Rightarrow> bool"
  signature_ok :: "u8 list \<Rightarrow> bool"
  signature_verify :: "u8 list \<Rightarrow> u8 list \<Rightarrow> u8 list \<Rightarrow> bool"

text \<open>What a dictionary needs of the machine, the trait \<open>GasConsumer\<close>: to load a cell and to
  finalize a builder, both paid for.\<close>

record ('c, 's, 'b, 'h) gas_consumer =
  consumer_load :: "'c \<Rightarrow> ('c, 's, 'b, 'h, 's) action"
  consumer_finalize :: "'b \<Rightarrow> ('c, 's, 'b, 'h, 'c) action"

type_synonym ('c, 's, 'b, 'h, 'v) dict_update =
  "'h \<Rightarrow> 's \<Rightarrow> 'v \<Rightarrow> ('c, 's, 'b, 'h) gas_consumer \<Rightarrow> ('c, 's, 'b, 'h, 's option \<times> 'h) action"

text \<open>\<open>'h\<close> stands for both kinds of dictionary, \<open>HashmapE\<close> and \<open>PfxHashmapE\<close>.\<close>

record ('c, 's, 'b, 'h) update_ops =
  set_with_gas :: "('c, 's, 'b, 'h, 's) dict_update"
  add_with_gas :: "('c, 's, 'b, 'h, 's) dict_update"
  replace_with_gas :: "('c, 's, 'b, 'h, 's) dict_update"
  set_builder_with_gas :: "('c, 's, 'b, 'h, 'b) dict_update"
  add_builder_with_gas :: "('c, 's, 'b, 'h, 'b) dict_update"
  replace_builder_with_gas :: "('c, 's, 'b, 'h, 'b) dict_update"
  setref_with_gas :: "('c, 's, 'b, 'h, 'c) dict_update"
  addref_with_gas :: "('c, 's, 'b, 'h, 'c) dict_update"
  replaceref_with_gas :: "('c, 's, 'b, 'h, 'c) dict_update"
  remove_with_gas :: "('c, 's, 'b, 'h, unit) dict_update"

record ('c, 's, 'b, 'h) search_ops =
  hashmap_data :: "'h \<Rightarrow> 'c option"
  find_leaf :: "'h \<Rightarrow> 's \<Rightarrow> bool \<Rightarrow> bool \<Rightarrow> bool \<Rightarrow> ('c, 's, 'b, 'h) gas_consumer \<Rightarrow>
    ('c, 's, 'b, 'h, ('b \<times> 's) option) action"
  get_min :: "'h \<Rightarrow> bool \<Rightarrow> ('c, 's, 'b, 'h) gas_consumer \<Rightarrow> ('c, 's, 'b, 'h, ('b \<times> 's) option) action"
  get_max :: "'h \<Rightarrow> bool \<Rightarrow> ('c, 's, 'b, 'h) gas_consumer \<Rightarrow> ('c, 's, 'b, 'h, ('b \<times> 's) option) action"
  into_subtree_with_prefix :: "'h \<Rightarrow> 's \<Rightarrow> ('c, 's, 'b, 'h) gas_consumer \<Rightarrow> ('c, 's, 'b, 'h, 'h) action"
  into_subtree_without_prefix :: "'h \<Rightarrow> 's \<Rightarrow> ('c, 's, 'b, 'h) gas_consumer \<Rightarrow> ('c, 's, 'b, 'h, 'h) action"

record ('c, 's, 'b, 'h) pfx_ops =
  pfx_with_hashmap :: "nat \<Rightarrow> 'c option \<Rightarrow> 'h"
  pfx_is_prefix :: "'h \<Rightarrow> 's \<Rightarrow> ('c, 's, 'b, bool) ext_result"
  pfx_get :: "'h \<Rightarrow> 's \<Rightarrow> ('c, 's, 'b, 's option) ext_result"
  pfx_get_with_gas :: "'h \<Rightarrow> 's \<Rightarrow> ('c, 's, 'b, 'h) gas_consumer \<Rightarrow> ('c, 's, 'b, 'h, 's option) action"
  pfx_get_prefix_leaf_with_gas ::
    "'h \<Rightarrow> 's \<Rightarrow> ('c, 's, 'b, 'h) gas_consumer \<Rightarrow> ('c, 's, 'b, 'h, 's \<times> 's option \<times> 's) action"
  pfx_set_with_gas :: "('c, 's, 'b, 'h, 's) dict_update"
  pfx_replace_with_gas :: "('c, 's, 'b, 'h, 's) dict_update"
  pfx_remove_with_gas :: "('c, 's, 'b, 'h, unit) dict_update"

text \<open>The crate of blocks and messages: the numbers of the actions, the address of a contract and
  the two digests.\<close>

record ('c, 's, 'b) block_ops =
  ACTION_SEND_MSG :: nat
  ACTION_SET_CODE :: nat
  ACTION_RESERVE :: nat
  ACTION_CHANGE_LIB :: nat
  ACTION_COPYLEFT :: nat
  is_masterchain :: "'s \<Rightarrow> ('c, 's, 'b, bool) ext_result"
  append_u32 :: "nat \<Rightarrow> 'b \<Rightarrow> ('c, 's, 'b, unit) ext_result \<times> 'b"
  append_bytestring :: "'s \<Rightarrow> 'b \<Rightarrow> ('c, 's, 'b, unit) ext_result \<times> 'b"
  shrink_by_remainder :: "'s \<Rightarrow> 's \<Rightarrow> 's"
  get_next_i32 :: "'s \<Rightarrow> ('c, 's, 'b, int) ext_result \<times> 's"
  sha256 :: "u8 list \<Rightarrow> u8 list"
  sha512 :: "u8 list \<Rightarrow> u8 list"

text \<open>What the cell format of continuations needs: the dictionary of a save list, with the entries
  the walk of \<open>iterate_slices\<close> reaches and the error that stops it.\<close>

record ('c, 's, 'b, 'h) format_ops =
  hashmap_default :: 'h
  with_bit_len :: "nat \<Rightarrow> 'h"
  set_builder :: "'h \<Rightarrow> 's \<Rightarrow> 'b \<Rightarrow> ('c, 's, 'b, 'h) ext_result"
  hashmap_root :: "'h \<Rightarrow> 'c option"
  write_hashmap_data :: "'h \<Rightarrow> 'b \<Rightarrow> ('c, 's, 'b, unit) ext_result \<times> 'b"
  hashmap_slices :: "'h \<Rightarrow> ('s \<times> 's) list \<times> ('c, 's, 'b) tvm_error option"
  builder_from_cell :: "'c \<Rightarrow> ('c, 's, 'b, 'b) ext_result"
  get_next_u32 :: "'s \<Rightarrow> ('c, 's, 'b, nat) ext_result \<times> 's"

record ('c, 's, 'b, 'h) ton =
  bigint :: bigint_ops
  builders :: "('c, 's, 'b) builder_ops"
  slices :: "('c, 's, 'b) slice_ops"
  cells :: "('c, 's, 'b) cell_ops"
  crypto :: crypto_ops
  updates :: "('c, 's, 'b, 'h) update_ops"
  searches :: "('c, 's, 'b, 'h) search_ops"
  pfx :: "('c, 's, 'b, 'h) pfx_ops"
  blocks :: "('c, 's, 'b) block_ops"
  formats :: "('c, 's, 'b, 'h) format_ops"
  code_number :: "exception_code \<Rightarrow> int"
  code_from_usize :: "nat \<Rightarrow> exception_code option"
  capability_bits :: "capability \<Rightarrow> u64"
  slice_default :: 's
  builder_default :: 'b
  cell_default :: 'c
  remaining_bits :: "'s \<Rightarrow> nat"
  remaining_references :: "'s \<Rightarrow> nat"
  slice_pos :: "'s \<Rightarrow> nat"
  get_references :: "'s \<Rightarrow> nat \<times> nat"
  reference_opt :: "'s \<Rightarrow> nat \<Rightarrow> 'c option"
  slice_reference :: "'s \<Rightarrow> nat \<Rightarrow> ('c, 's, 'b, 'c) ext_result"
  checked_drain_reference :: "'s \<Rightarrow> ('c, 's, 'b, 'c) ext_result \<times> 's"
  get_next_byte :: "'s \<Rightarrow> ('c, 's, 'b, u8) ext_result \<times> 's"
  get_next_int :: "nat \<Rightarrow> 's \<Rightarrow> ('c, 's, 'b, nat) ext_result \<times> 's"
  get_next_hash :: "'s \<Rightarrow> ('c, 's, 'b, hash) ext_result \<times> 's"
  move_by :: "nat \<Rightarrow> 's \<Rightarrow> ('c, 's, 'b, unit) ext_result \<times> 's"
  shrink_data :: "nat \<Rightarrow> nat option \<Rightarrow> 's \<Rightarrow> 's"
  shrink_references :: "nat \<Rightarrow> nat option \<Rightarrow> 's \<Rightarrow> 's"
  trim_right :: "'s \<Rightarrow> 's"
  get_dictionary_opt :: "'s \<Rightarrow> 's option \<times> 's"
  cell_opt :: "'s \<Rightarrow> 'c option"
  slice_load_cell :: "'c \<Rightarrow> ('c, 's, 'b, 's) ext_result"
  slice_load_cell_ref :: "'c \<Rightarrow> ('c, 's, 'b, 's) ext_result"
  into_cell :: "'s \<Rightarrow> 'c"
  slice_hash_eq :: "hash \<Rightarrow> 's \<Rightarrow> bool"
  repr_hash :: "'c \<Rightarrow> hash"
  cell_type_of :: "'c \<Rightarrow> cell_type"
  cell_reference :: "'c \<Rightarrow> nat \<Rightarrow> ('c, 's, 'b, 'c) ext_result"
  virtualize :: "nat \<Rightarrow> 'c \<Rightarrow> 'c"
  builder_finalize :: "nat \<Rightarrow> 'b \<Rightarrow> ('c, 's, 'b, 'c) ext_result"
  with_hashmap :: "nat \<Rightarrow> 'c option \<Rightarrow> 'h"
  key_i32 :: "int \<Rightarrow> ('c, 's, 'b, 's) ext_result"
  hashmap_get_with_gas ::
    "'h \<Rightarrow> 's \<Rightarrow> ('c \<Rightarrow> ('c, 's, 'b, 'h, 's) action) \<Rightarrow> ('c, 's, 'b, 'h, 's option) action"

definition slice_proto_default :: slice_proto where
  "slice_proto_default = \<lparr> data_start = 0, data_stop = 0, refs_start = 0, refs_stop = 0 \<rparr>"

definition slice_proto_from :: "('c, 's, 'b, 'h) ton \<Rightarrow> 's \<Rightarrow> slice_proto" where
  "slice_proto_from T sl =
     \<lparr> data_start = slice_pos T sl, data_stop = slice_pos T sl + remaining_bits T sl,
       refs_start = fst (get_references T sl), refs_stop = snd (get_references T sl) \<rparr>"

definition committed_new_empty :: "('c, 's, 'b) committed_state" where
  "committed_new_empty = \<lparr> c4 = Item_None, c5 = Item_None, committed = False \<rparr>"

definition committed_with_params ::
  "('c, 's, 'b) stack_item \<Rightarrow> ('c, 's, 'b) stack_item \<Rightarrow> ('c, 's, 'b) committed_state" where
  "committed_with_params x4 x5 =
     (if can_put 4 x4 \<and> can_put 5 x5 then \<lparr> c4 = x4, c5 = x5, committed = True \<rparr>
      else committed_new_empty)"

definition with_capabilities :: "('c, 's, 'b, 'h) ton \<Rightarrow> u64 \<Rightarrow> ('c, 's, 'b, 'h) engine" where
  "with_capabilities T caps =
     \<lparr> cc = new_empty (slice_default T), cmd = instr_ext_new ''NOP'', ctrls = savelist_new,
       libraries = [], visited_cells = {}, visited_exotic_cells = Map.empty,
       cstate = committed_new_empty, time = 0, egas = gas_empty, code_page = 0, debug_on = 1,
       step = 0, cmd_code_proto = slice_proto_default, last_cmd = 0, engine_flags = 0,
       capabilities = caps, block_version = 0 \<rparr>"

section \<open>Access to the parts of the state\<close>

definition upd_stack ::
  "(('c, 's, 'b) item_stack \<Rightarrow> ('c, 's, 'b) item_stack) \<Rightarrow> ('c, 's, 'b, 'h) engine \<Rightarrow> ('c, 's, 'b, 'h) engine" where
  "upd_stack f e = e \<lparr> cc := set_stack (f (stack_of (cc e))) (cc e) \<rparr>"

definition cc_stack :: "('c, 's, 'b, 'h) engine \<Rightarrow> ('c, 's, 'b) item_stack" where
  "cc_stack e = stack_of (cc e)"

definition stack_depth :: "('c, 's, 'b, 'h, nat) action" where
  "stack_depth = getE (\<lambda>e. depth (cc_stack e))"

definition push_item :: "('c, 's, 'b) stack_item \<Rightarrow> ('c, 's, 'b, 'h) handler" where
  "push_item x = modifyE (upd_stack (push x))"

text \<open>A fallible operation on the stack of the current continuation; on an error the stack stays.\<close>

definition on_stack ::
  "(('c, 's, 'b) item_stack \<Rightarrow> ('c, 's, 'b) tvm_error + ('c, 's, 'b) item_stack) \<Rightarrow> ('c, 's, 'b, 'h) handler" where
  "on_stack f = (\<lambda>e. case f (cc_stack e) of
     Inl x \<Rightarrow> (Inl x, e) | Inr st \<Rightarrow> (Inr (), upd_stack (\<lambda>_. st) e))"

definition from_stack ::
  "(('c, 's, 'b) item_stack \<Rightarrow> ('c, 's, 'b) tvm_error + 'a \<times> ('c, 's, 'b) item_stack) \<Rightarrow>
   ('c, 's, 'b, 'h, 'a) action" where
  "from_stack f = (\<lambda>e. case f (cc_stack e) of
     Inl x \<Rightarrow> (Inl x, e) | Inr (v, st) \<Rightarrow> (Inr v, upd_stack (\<lambda>_. st) e))"

definition set_stack_item :: "nat \<Rightarrow> ('c, 's, 'b) stack_item \<Rightarrow> ('c, 's, 'b, 'h) handler" where
  "set_stack_item i x = on_stack (\<lambda>st.
     if i < depth st then Inr (st[depth st - i - 1 := x]) else Inl Panic)"

definition errE :: "exception_code \<Rightarrow> ('c, 's, 'b, 'h, 'a) action" where
  "errE code = throwE (exc code)"

definition guardE :: "bool \<Rightarrow> exception_code \<Rightarrow> ('c, 's, 'b, 'h) handler" where
  "guardE ok code = (if ok then returnE () else errE code)"

definition unwrapE :: "'a option \<Rightarrow> ('c, 's, 'b, 'h, 'a) action" where
  "unwrapE x = (case x of Some y \<Rightarrow> returnE y | None \<Rightarrow> throwE Panic)"

section \<open>Instruction parameters and variables\<close>

definition cmd_param :: "('s instruction_parameter \<Rightarrow> 'a option) \<Rightarrow> ('c, 's, 'b, 'h, 'a option) action" where
  "cmd_param f = getE (\<lambda>e. first_param f (params (cmd e)))"

definition cmd_creg :: "('c, 's, 'b, 'h, nat) action" where
  "cmd_creg = bindE (cmd_param par_creg) unwrapE"

definition cmd_division_mode :: "('c, 's, 'b, 'h, div_mode) action" where
  "cmd_division_mode = bindE (cmd_param par_division_mode) unwrapE"

definition cmd_integer :: "('c, 's, 'b, 'h, int) action" where
  "cmd_integer = bindE (cmd_param par_integer) unwrapE"

definition cmd_has_length :: "('c, 's, 'b, 'h, bool) action" where
  "cmd_has_length = bindE (cmd_param par_length) (\<lambda>x. returnE (x \<noteq> None))"

definition cmd_length :: "('c, 's, 'b, 'h, nat) action" where
  "cmd_length = bindE (cmd_param par_length) unwrapE"

definition cmd_nargs :: "('c, 's, 'b, 'h, int) action" where
  "cmd_nargs = bindE (cmd_param par_nargs) (\<lambda>x. returnE (case x of Some n \<Rightarrow> n | None \<Rightarrow> - 1))"

definition cmd_pargs :: "('c, 's, 'b, 'h, nat) action" where
  "cmd_pargs = bindE (cmd_param par_pargs) (\<lambda>x. returnE (case x of Some n \<Rightarrow> n | None \<Rightarrow> 0))"

definition cmd_rargs :: "('c, 's, 'b, 'h, nat) action" where
  "cmd_rargs = bindE (cmd_param par_rargs) (\<lambda>x. returnE (case x of Some n \<Rightarrow> n | None \<Rightarrow> 0))"

definition cmd_slice :: "('c, 's, 'b, 'h, 's) action" where
  "cmd_slice = bindE (cmd_param par_slice) unwrapE"

definition cmd_sreg :: "('c, 's, 'b, 'h, nat) action" where
  "cmd_sreg = bindE (cmd_param par_sreg) unwrapE"

definition cmd_sregs :: "('c, 's, 'b, 'h, register_pair) action" where
  "cmd_sregs = bindE (cmd_param par_sregs) unwrapE"

definition cmd_sregs3 :: "('c, 's, 'b, 'h, register_trio) action" where
  "cmd_sregs3 = bindE (cmd_param par_sregs3) unwrapE"

definition cmd_length_and_index :: "('c, 's, 'b, 'h, length_and_index) action" where
  "cmd_length_and_index = bindE (cmd_param par_length_and_index) unwrapE"

definition cmd_var :: "nat \<Rightarrow> ('c, 's, 'b, 'h, ('c, 's, 'b) stack_item) action" where
  "cmd_var i = (\<lambda>e. if i < length (vars (cmd e)) then (Inr (vars (cmd e) ! i), e) else (Inl Panic, e))"

definition set_var :: "nat \<Rightarrow> ('c, 's, 'b) stack_item \<Rightarrow> ('c, 's, 'b, 'h) handler" where
  "set_var i x = (\<lambda>e. if i < length (vars (cmd e))
     then (Inr (), e \<lparr> cmd := (cmd e) \<lparr> vars := (vars (cmd e))[i := x] \<rparr> \<rparr>) else (Inl Panic, e))"

definition push_var :: "('c, 's, 'b) stack_item \<Rightarrow> ('c, 's, 'b, 'h) handler" where
  "push_var x = modifyE (\<lambda>e. e \<lparr> cmd := (cmd e) \<lparr> vars := vars (cmd e) @ [x] \<rparr> \<rparr>)"

definition var_count :: "('c, 's, 'b, 'h, nat) action" where
  "var_count = getE (\<lambda>e. length (vars (cmd e)))"

definition last_var :: "('c, 's, 'b, 'h, ('c, 's, 'b) stack_item) action" where
  "last_var = (\<lambda>e. if vars (cmd e) = [] then (Inl OtherError, e) else (Inr (last (vars (cmd e))), e))"

definition pop_var :: "('c, 's, 'b, 'h, ('c, 's, 'b) stack_item) action" where
  "pop_var = (\<lambda>e. if vars (cmd e) = [] then (Inl OtherError, e)
     else (Inr (last (vars (cmd e))), e \<lparr> cmd := (cmd e) \<lparr> vars := butlast (vars (cmd e)) \<rparr> \<rparr>))"

definition push_param :: "'s instruction_parameter \<Rightarrow> ('c, 's, 'b, 'h) handler" where
  "push_param p = modifyE (\<lambda>e. e \<lparr> cmd := (cmd e) \<lparr> params := params (cmd e) @ [p] \<rparr> \<rparr>)"

section \<open>Gas and capabilities\<close>

definition engine_use_gas :: "i64 \<Rightarrow> ('c, 's, 'b, 'h) handler" where
  "engine_use_gas n = modifyE (\<lambda>e. e \<lparr> egas := use_gas n (egas e) \<rparr>)"

definition try_use_gas :: "i64 \<Rightarrow> ('c, 's, 'b, 'h) handler" where
  "try_use_gas n = (\<lambda>e. let (r, g) = gas_try_use_gas n (egas e) in
     (case r of Inl x \<Rightarrow> Inl x | Inr _ \<Rightarrow> Inr (), e \<lparr> egas := g \<rparr>))"

definition gas_used :: "('c, 's, 'b, 'h) engine \<Rightarrow> i64" where
  "gas_used e = get_gas_used_full (egas e)"

definition check_capabilities :: "u64 \<Rightarrow> ('c, 's, 'b, 'h) engine \<Rightarrow> bool" where
  "check_capabilities caps e = (capabilities e AND caps = caps)"

definition check_capability :: "('c, 's, 'b, 'h) ton \<Rightarrow> capability \<Rightarrow> ('c, 's, 'b, 'h) handler" where
  "check_capability T cap =
     (\<lambda>e. if capabilities e AND capability_bits T cap = 0 then (err InvalidOpcode, e) else (Inr (), e))"

definition bugfixes2022 :: "('c, 's, 'b, 'h) ton \<Rightarrow> ('c, 's, 'b, 'h) engine \<Rightarrow> bool" where
  "bugfixes2022 T e = check_capabilities (capability_bits T CapsTvmBugfixes2022) e"

definition check_or_set_flags :: "u64 \<Rightarrow> ('c, 's, 'b, 'h, bool) action" where
  "check_or_set_flags flags = (\<lambda>e.
     if engine_flags e AND flags = flags then (Inr True, e)
     else (Inr False, e \<lparr> engine_flags := engine_flags e OR flags \<rparr>))"

section \<open>Control registers\<close>

definition ctrl_get :: "nat \<Rightarrow> ('c, 's, 'b, 'h, ('c, 's, 'b) stack_item option) action" where
  "ctrl_get i = (\<lambda>e. (savelist_get i (ctrls e), e))"

definition engine_ctrl :: "nat \<Rightarrow> ('c, 's, 'b, 'h, ('c, 's, 'b) stack_item) action" where
  "engine_ctrl i = bindE (ctrl_get i)
     (\<lambda>x. case x of Some v \<Rightarrow> returnE v | None \<Rightarrow> errE RangeCheckError)"

definition set_ctrl :: "nat \<Rightarrow> ('c, 's, 'b) stack_item \<Rightarrow> ('c, 's, 'b, 'h) handler" where
  "set_ctrl i x = modifyE (\<lambda>e. e \<lparr> ctrls := (ctrls e)[adjust i := Some x] \<rparr>)"

definition ctrls_put ::
  "nat \<Rightarrow> ('c, 's, 'b) stack_item \<Rightarrow> ('c, 's, 'b, 'h, ('c, 's, 'b) stack_item option) action" where
  "ctrls_put i x = (\<lambda>e. case savelist_put i x (ctrls e) of
     Inl err' \<Rightarrow> (Inl err', e) | Inr (old, sl) \<Rightarrow> (Inr old, e \<lparr> ctrls := sl \<rparr>))"

definition ctrls_put_opt :: "nat \<Rightarrow> ('c, 's, 'b) stack_item \<Rightarrow> ('c, 's, 'b, 'h) handler" where
  "ctrls_put_opt i x = modifyE (\<lambda>e. e \<lparr> ctrls := snd (put_opt i x (ctrls e)) \<rparr>)"

definition ctrls_remove :: "nat \<Rightarrow> ('c, 's, 'b, 'h, ('c, 's, 'b) stack_item option) action" where
  "ctrls_remove i = (\<lambda>e. (Inr (fst (savelist_remove i (ctrls e))),
     e \<lparr> ctrls := snd (savelist_remove i (ctrls e)) \<rparr>))"

definition get_root :: "('c, 's, 'b, 'h) engine \<Rightarrow> ('c, 's, 'b) stack_item" where
  "get_root e = (case ctrls e ! adjust 4 of Some x \<Rightarrow> x | None \<Rightarrow> Item_None)"

definition get_actions :: "('c, 's, 'b, 'h) engine \<Rightarrow> ('c, 's, 'b) stack_item" where
  "get_actions e = (case ctrls e ! adjust 5 of Some x \<Rightarrow> x | None \<Rightarrow> Item_None)"

definition commit :: "('c, 's, 'b, 'h) handler" where
  "commit = modifyE (\<lambda>e. e \<lparr> cstate := committed_with_params (get_root e) (get_actions e) \<rparr>)"

definition set_cc_code :: "'s \<Rightarrow> ('c, 's, 'b, 'h) handler" where
  "set_cc_code c = modifyE (\<lambda>e. e \<lparr> cc := set_code c (cc e) \<rparr>)"

definition upd_cc ::
  "(('c, 's, 'b) continuation_data \<Rightarrow> ('c, 's, 'b) continuation_data) \<Rightarrow> ('c, 's, 'b, 'h) handler" where
  "upd_cc f = modifyE (\<lambda>e. e \<lparr> cc := f (cc e) \<rparr>)"

end
