(* ===== verification/Decoding.thy ===== *)
theory Decoding
  imports Engine_State
begin

text \<open>
  Reading the code: \<open>next_cmd\<close>, \<open>cmd_code\<close>, \<open>extract_slice\<close>, \<open>extract_instruction\<close> and
  \<open>load_instruction\<close> of \<open>executor/engine/core.rs\<close>.
\<close>

unbundle bit_operations_syntax

section \<open>Bytes of the code\<close>

definition next_cmd :: "('c, 's, 'b, 'h) ton \<Rightarrow> ('c, 's, 'b, 'h, u8) action" where
  "next_cmd T = (\<lambda>e. case get_next_byte T (code_of (cc e)) of
     (Inr b, sl) \<Rightarrow> (Inr b, e \<lparr> cc := set_code sl (cc e), last_cmd := b \<rparr>)
   | (Inl _, sl) \<Rightarrow> (err InvalidOpcode, e \<lparr> cc := set_code sl (cc e) \<rparr>))"

definition get_last_cmd :: "('c, 's, 'b, 'h, u8) action" where
  "get_last_cmd = getE last_cmd"

definition cmd_code :: "('c, 's, 'b, 'h) ton \<Rightarrow> ('c, 's, 'b, 'h, 's) action" where
  "cmd_code T = (\<lambda>e. (bindR
      (case cell_opt T (code_of (cc e)) of
         Some cell \<Rightarrow> slice_load_cell_ref T cell
       | None \<Rightarrow> slice_load_cell T (into_cell T (code_of (cc e))))
      (\<lambda>sl. let w = cmd_code_proto e;
                sl = shrink_data T (data_start w) (Some (data_stop w)) sl
            in Inr (shrink_references T (refs_start w) (Some (refs_stop w)) sl)), e))"

definition basic_use_gas :: "('c, 's, 'b, 'h) ton \<Rightarrow> nat \<Rightarrow> ('c, 's, 'b, 'h) handler" where
  "basic_use_gas T n = (\<lambda>e. engine_use_gas
     (basic_gas_price (n + (slice_pos T (code_of (cc e)) - data_start (cmd_code_proto e))) 0) e)"

definition slice_next_int ::
  "('c, 's, 'b, 'h) ton \<Rightarrow> nat \<Rightarrow> 's \<Rightarrow> ('c, 's, 'b) tvm_error + nat \<times> 's" where
  "slice_next_int T n sl =
     (if n = 0 then Inr (0, sl)
      else case get_next_int T n sl of (Inr v, sl') \<Rightarrow> Inr (v, sl') | (Inl x, _) \<Rightarrow> Inl x)"

definition extract_slice ::
  "('c, 's, 'b, 'h) ton \<Rightarrow> nat \<Rightarrow> nat \<Rightarrow> nat \<Rightarrow> nat \<Rightarrow> nat \<Rightarrow> ('c, 's, 'b, 'h, 's) action" where
  "extract_slice T offset r x refs bytes =
     bindE (cmd_code T) (\<lambda>code.
       if offset \<ge> remaining_bits T code then errE InvalidOpcode
       else
         bindE (liftE (slice_next_int T r (shrink_data T offset None code))) (\<lambda>(dr, sl).
         bindE (liftE (slice_next_int T x sl)) (\<lambda>(dx, sl).
           let refs = refs + dr; bytes = bytes + dx;
               shift = 8 * bytes + offset + r + x + 7;
               shift = shift - shift mod 8
           in if remaining_bits T sl < shift - r - x - offset \<or> remaining_references T sl < refs
              then errE InvalidOpcode
              else thenE (set_cc_code (shrink_references T refs None (shrink_data T shift None code)))
                (returnE (shrink_references T 0 (Some refs)
                   (shrink_data T 0 (Some (shift - r - x - offset)) sl))))))"

section \<open>Parameters\<close>

definition nibble_hi :: "u8 \<Rightarrow> nat" where "nibble_hi b = unat (drop_bit 4 b)"
definition nibble_lo :: "u8 \<Rightarrow> nat" where "nibble_lo b = unat (b AND 0x0F)"

definition low_int :: "u8 \<Rightarrow> u8 \<Rightarrow> int" where
  "low_int m b = int (unat (b AND m))"

text \<open>\<open>hi * 256 + lo\<close> on 16-bit integers.\<close>

definition hi_lo_int :: "u8 \<Rightarrow> u8 \<Rightarrow> u8 \<Rightarrow> int" where
  "hi_lo_int m hi lo = sint ((ucast hi AND ucast m) * 256 + ucast lo :: 16 word)"

definition extract_integer :: "('c, 's, 'b, 'h) ton \<Rightarrow> int \<Rightarrow> int \<Rightarrow> ('c, 's, 'b, 'h, int) action" where
  "extract_integer T lo hi =
     (if (lo, hi) = (- 32768, 32768) then
        thenE (basic_use_gas T 16) (bindE (next_cmd T) (\<lambda>b1. bindE (next_cmd T) (\<lambda>b0.
          returnE (sint (push_bit 8 (ucast b1) OR ucast b0 :: 16 word)))))
      else if (lo, hi) = (- 128, 128) then
        thenE (basic_use_gas T 8) (bindE (next_cmd T) (\<lambda>b. returnE (sint b)))
      else if (lo, hi) = (- 5, 11) then
        thenE (basic_use_gas T 0) (bindE get_last_cmd (\<lambda>b.
          let v = low_int 0x0F b in returnE (if v \<le> 10 then v else v - 16)))
      else if (lo, hi) = (0, 32) then
        thenE (basic_use_gas T 0) (bindE get_last_cmd (\<lambda>b. returnE (low_int 0x1F b)))
      else if (lo, hi) = (0, 64) then
        thenE (basic_use_gas T 0) (bindE get_last_cmd (\<lambda>b. returnE (int (unat (b mod 64)))))
      else if (lo, hi) = (0, 2048) then
        thenE (basic_use_gas T 8) (bindE get_last_cmd (\<lambda>h. bindE (next_cmd T) (\<lambda>l.
          returnE (hi_lo_int 0x07 h l))))
      else if (lo, hi) = (0, 16384) then
        thenE (basic_use_gas T 8) (bindE get_last_cmd (\<lambda>h. bindE (next_cmd T) (\<lambda>l.
          returnE (hi_lo_int 0x3F h l))))
      else if (lo, hi) = (0, 256) then
        thenE (basic_use_gas T 8) (bindE (next_cmd T) (\<lambda>b. returnE (int (unat b))))
      else if (lo, hi) = (0, 15) then
        thenE (basic_use_gas T 0) (bindE get_last_cmd (\<lambda>b.
          let v = low_int 0x0F b in if v = 15 then errE RangeCheckError else returnE v))
      else if (lo, hi) = (1, 15) then
        thenE (basic_use_gas T 0) (bindE get_last_cmd (\<lambda>b.
          let v = low_int 0x0F b in if v = 0 \<or> v = 15 then errE RangeCheckError else returnE v))
      else if (lo, hi) = (- 15, 240) then
        thenE (basic_use_gas T 0) (bindE get_last_cmd (\<lambda>b.
          returnE (if unat b \<le> 240 then int (unat b) else int (unat b) - 256)))
      else errE RangeCheckError)"

definition push_length :: "('c, 's, 'b, 'h) ton \<Rightarrow> nat \<Rightarrow> ('c, 's, 'b, 'h) handler" where
  "push_length T n = thenE (push_param (Par_Length n)) (basic_use_gas T 0)"

definition extract_length :: "('c, 's, 'b, 'h) ton \<Rightarrow> nat \<Rightarrow> nat \<Rightarrow> ('c, 's, 'b, 'h) handler" where
  "extract_length T lo hi =
     bindE get_last_cmd (\<lambda>b.
       if (lo, hi) = (0, 16) then push_length T (nibble_lo b)
       else if (lo, hi) = (0, 4) then push_length T (unat (b AND 3))
       else if (lo, hi) = (1, 32) then push_length T (unat (b AND 0x1F))
       else errE RangeCheckError)"

definition extract_length_minus_one :: "('c, 's, 'b, 'h) ton \<Rightarrow> nat \<Rightarrow> nat \<Rightarrow> ('c, 's, 'b, 'h) handler" where
  "extract_length_minus_one T lo hi =
     (if (lo, hi) = (0, 8) then bindE get_last_cmd (\<lambda>b. push_length T (unat (b AND 0x07) + 1))
      else if (lo, hi) = (0, 256) then bindE (next_cmd T) (\<lambda>b. push_length T (unat b + 1))
      else errE RangeCheckError)"

definition extract_stack_register :: "('c, 's, 'b, 'h) ton \<Rightarrow> nat \<Rightarrow> nat \<Rightarrow> ('c, 's, 'b, 'h) handler" where
  "extract_stack_register T lo hi =
     (if (lo, hi) = (0, 16) then
        bindE get_last_cmd (\<lambda>b. thenE (push_param (Par_StackRegister (nibble_lo b))) (basic_use_gas T 0))
      else if (lo, hi) = (0, 256) then
        bindE (next_cmd T) (\<lambda>b. thenE (push_param (Par_StackRegister (unat b))) (basic_use_gas T 0))
      else errE RangeCheckError)"

definition push_pair :: "('c, 's, 'b, 'h) ton \<Rightarrow> nat \<Rightarrow> nat \<Rightarrow> ('c, 's, 'b, 'h) handler" where
  "push_pair T ra rb = thenE (basic_use_gas T 0)
     (push_param (Par_StackRegisterPair \<lparr> pair_ra = ra, pair_rb = rb \<rparr>))"

definition extract_pair :: "('c, 's, 'b, 'h) ton \<Rightarrow> where_to_get_params \<Rightarrow> ('c, 's, 'b, 'h) handler" where
  "extract_pair T place = (case place of
      GetFromLastByte2Bits \<Rightarrow>
        bindE get_last_cmd (\<lambda>b. push_pair T (unat (drop_bit 2 b AND 0x03)) (unat (b AND 0x03)))
    | GetFromLastByte \<Rightarrow> bindE get_last_cmd (\<lambda>b. push_pair T (unat (drop_bit 4 (b AND 0xF0))) (nibble_lo b))
    | GetFromNextByte \<Rightarrow> bindE (next_cmd T) (\<lambda>b. push_pair T (unat (drop_bit 4 (b AND 0xF0))) (nibble_lo b))
    | GetFromNextByteLong \<Rightarrow> bindE (next_cmd T) (\<lambda>b. push_pair T 0 (unat b))
    | _ \<Rightarrow> push_pair T 0 0)"

definition push_trio :: "('c, 's, 'b, 'h) ton \<Rightarrow> nat \<Rightarrow> nat \<Rightarrow> nat \<Rightarrow> ('c, 's, 'b, 'h) handler" where
  "push_trio T ra rb rc = thenE (basic_use_gas T 0)
     (push_param (Par_StackRegisterTrio \<lparr> trio_ra = ra, trio_rb = rb, trio_rc = rc \<rparr>))"

definition extract_trio :: "('c, 's, 'b, 'h) ton \<Rightarrow> where_to_get_params \<Rightarrow> ('c, 's, 'b, 'h) handler" where
  "extract_trio T place =
     bindE get_last_cmd (\<lambda>last.
       if place = GetFromLastByte2Bits
       then push_trio T (unat (drop_bit 4 last AND 0x03)) (unat (drop_bit 2 last AND 0x03)) (unat (last AND 0x03))
       else bindE (next_cmd T) (\<lambda>b. push_trio T (nibble_lo last) (nibble_hi b) (nibble_lo b)))"

definition push_length_and_index :: "nat \<Rightarrow> nat \<Rightarrow> ('c, 's, 'b, 'h) handler" where
  "push_length_and_index l i = push_param (Par_LengthAndIndex \<lparr> li_length = l, li_index = i \<rparr>)"

definition set_proto_name :: "string \<Rightarrow> ('c, 's, 'b, 'h) handler" where
  "set_proto_name name =
     modifyE (\<lambda>e. e \<lparr> cmd := (cmd e) \<lparr> proto := (proto (cmd e)) \<lparr> instr_name := name \<rparr> \<rparr> \<rparr>)"

definition extract_division_mode :: "('c, 's, 'b, 'h) ton \<Rightarrow> ('c, 's, 'b, 'h) handler" where
  "extract_division_mode T =
     bindE (next_cmd T) (\<lambda>b.
       let mode = with_flags b in
       seqE [
         whenE (shift_parameter mode) (bindE (next_cmd T) (\<lambda>l. push_param (Par_Length (unat l + 1)))),
         basic_use_gas T 0,
         bindE (liftE (command_name mode)) set_proto_name,
         push_param (Par_DivisionMode mode)])"

definition extract_dictionary :: "('c, 's, 'b, 'h) ton \<Rightarrow> nat \<Rightarrow> nat \<Rightarrow> ('c, 's, 'b, 'h) handler" where
  "extract_dictionary T offset n =
     thenE (engine_use_gas (basic_gas_price (offset + 1 + n) 0))
     (bindE (cmd_code T) (\<lambda>code.
        let (dict, code) = get_dictionary_opt T (shrink_data T offset None code);
            sl = (case dict of Some d \<Rightarrow> d | None \<Rightarrow> slice_default T)
        in thenE (push_param (Par_Slice sl))
           (case get_next_int T n code of
              (Inl x, _) \<Rightarrow> throwE x
            | (Inr l, code) \<Rightarrow> thenE (set_cc_code code) (push_param (Par_Length l)))))"

definition extract_options :: "('c, 's, 'b, 'h) ton \<Rightarrow> instruction_options \<Rightarrow> ('c, 's, 'b, 'h) handler" where
  "extract_options T opts = (case opts of
      Opt_ArgumentConstraints \<Rightarrow>
        bindE (next_cmd T) (\<lambda>p. seqE [
          basic_use_gas T 0,
          push_param (Par_Pargs (nibble_hi p)),
          push_param (Par_Nargs (if nibble_lo p = 15 then - 1 else int (nibble_lo p)))])
    | Opt_ArgumentAndReturnConstraints \<Rightarrow>
        bindE (next_cmd T) (\<lambda>p. seqE [
          basic_use_gas T 0,
          push_param (Par_Pargs (nibble_hi p)),
          push_param (Par_Rargs (nibble_lo p))])
    | Opt_BigInteger \<Rightarrow>
        thenE (basic_use_gas T 5)
          (bindE (from_big_endian_octet_stream (next_cmd T)) (\<lambda>v. push_param (Par_BigInteger v)))
    | Opt_ControlRegister \<Rightarrow>
        thenE (basic_use_gas T 0)
          (bindE get_last_cmd (\<lambda>b.
             if nibble_lo b \<notin> set REGS then errE RangeCheckError
             else push_param (Par_ControlRegister (nibble_lo b))))
    | Opt_DivisionMode \<Rightarrow> extract_division_mode T
    | Opt_Integer lo hi \<Rightarrow> bindE (extract_integer T lo hi) (\<lambda>v. push_param (Par_Integer v))
    | Opt_Length lo hi \<Rightarrow> extract_length T lo hi
    | Opt_LengthAndIndex \<Rightarrow>
        thenE (basic_use_gas T 0)
          (bindE get_last_cmd (\<lambda>b. push_length_and_index (nibble_hi b) (nibble_lo b)))
    | Opt_LengthMinusOne lo hi \<Rightarrow> extract_length_minus_one T lo hi
    | Opt_LengthMinusOneAndIndexMinusOne \<Rightarrow>
        bindE (next_cmd T) (\<lambda>b. thenE (basic_use_gas T 0)
          (push_length_and_index (nibble_hi b + 1) (nibble_lo b + 1)))
    | Opt_LengthMinusTwoAndIndex \<Rightarrow>
        bindE (next_cmd T) (\<lambda>b. thenE (basic_use_gas T 0)
          (push_length_and_index (nibble_hi b + 2) (nibble_lo b)))
    | Opt_Pargs lo hi \<Rightarrow>
        (if (lo, hi) = (0, 16)
         then bindE get_last_cmd (\<lambda>b. thenE (push_param (Par_Pargs (nibble_lo b))) (basic_use_gas T 0))
         else errE RangeCheckError)
    | Opt_Rargs lo hi \<Rightarrow>
        (if (lo, hi) = (0, 16)
         then bindE get_last_cmd (\<lambda>b. thenE (push_param (Par_Rargs (nibble_lo b))) (basic_use_gas T 0))
         else errE RangeCheckError)
    | Opt_StackRegister lo hi \<Rightarrow> extract_stack_register T lo hi
    | Opt_StackRegisterPair place \<Rightarrow> extract_pair T place
    | Opt_StackRegisterTrio place \<Rightarrow> extract_trio T place
    | Opt_Dictionary offset n \<Rightarrow> extract_dictionary T offset n
    | Opt_Bytestring offset r x bytes \<Rightarrow>
        thenE (engine_use_gas (basic_gas_price (offset + r + x) 0))
          (bindE (extract_slice T offset r x 0 bytes) (\<lambda>sl.
             if remaining_bits T sl mod 8 \<noteq> 0 then errE InvalidOpcode else push_param (Par_Slice sl)))
    | Opt_Bitstring offset r x refs \<Rightarrow>
        thenE (engine_use_gas (basic_gas_price (offset + r + x) 0))
          (bindE (extract_slice T offset r x refs 0) (\<lambda>sl. push_param (Par_Slice (trim_right T sl)))))"

definition extract_instruction :: "('c, 's, 'b, 'h) ton \<Rightarrow> ('c, 's, 'b, 'h) handler" where
  "extract_instruction T = (\<lambda>e. case instr_opts (proto (cmd e)) of
     Some opts \<Rightarrow> extract_options T opts e | None \<Rightarrow> basic_use_gas T 0 e)"

definition load_instruction :: "('c, 's, 'b, 'h) ton \<Rightarrow> instruction \<Rightarrow> ('c, 's, 'b, 'h) handler" where
  "load_instruction T p =
     thenE (modifyE (\<lambda>e. e \<lparr> cmd := \<lparr> proto = p, params = [], vars = [] \<rparr>, step := step e + 1 \<rparr>))
       (extract_instruction T)"

end
