(* ===== verification/Storage.thy ===== *)
theory Storage
  imports Decoding
begin

text \<open>
  The microfunctions: moving items between the stack, the instruction's variables, the control
  registers and the save lists (\<open>executor/engine/storage.rs\<close>), and loading cells
  (\<open>load_library_cell\<close>, \<open>load_hashed_cell\<close> and the gas consumer of
  \<open>executor/engine/core.rs\<close>).

  Loading an exotic cell loops until it reaches an ordinary one and may load cells of a library
  dictionary on the way.  Every round but the last pays for a cell first, so the gas left bounds
  the rounds: it is the fuel of the model.
\<close>

section \<open>Cells\<close>

definition finalize_cell :: "('c, 's, 'b, 'h) ton \<Rightarrow> 'b \<Rightarrow> ('c, 's, 'b, 'h, 'c) action" where
  "finalize_cell T b = thenE (engine_use_gas finalize_price)
     (liftE (map_err (\<lambda>_. exc CellOverflow) (builder_finalize T 1024 b)))"

text \<open>An operation of an external object that is local to the function, with the machine and without it.\<close>

definition with_object ::
  "('o \<Rightarrow> ('c, 's, 'b, 'a) ext_result \<times> 'o) \<Rightarrow> 'o \<Rightarrow> ('c, 's, 'b, 'h, 'a \<times> 'o) action" where
  "with_object f x = (case f x of (Inl er, _) \<Rightarrow> throwE er | (Inr v, x') \<Rightarrow> returnE (v, x'))"

definition step_object :: "('o \<Rightarrow> ('c, 's, 'b, 'a) ext_result \<times> 'o) \<Rightarrow> 'o \<Rightarrow> ('c, 's, 'b, 'a \<times> 'o) ext_result" where
  "step_object f x = (case f x of (Inl er, _) \<Rightarrow> Inl er | (Inr v, x') \<Rightarrow> Inr (v, x'))"

primrec find_library ::
  "('c, 's, 'b, 'h) ton \<Rightarrow> ('c \<Rightarrow> ('c, 's, 'b, 'h, 's) action) \<Rightarrow> 's \<Rightarrow> 'h list \<Rightarrow> ('c, 's, 'b, 'h, 'c) action" where
  "find_library T load key [] = errE CellUnderflow"
| "find_library T load key (l # ls) =
     bindE (hashmap_get_with_gas T l key load) (\<lambda>bucket.
       case bucket of
         None \<Rightarrow> find_library T load key ls
       | Some b \<Rightarrow>
           bindE (liftE (slice_reference T b 0)) (\<lambda>lib.
             if \<not> slice_hash_eq T (repr_hash T lib) key then errE DictionaryError else returnE lib))"

definition load_library_cell ::
  "('c, 's, 'b, 'h) ton \<Rightarrow> ('c \<Rightarrow> ('c, 's, 'b, 'h, 's) action) \<Rightarrow> 'c \<Rightarrow> ('c, 's, 'b, 'h, 'c) action" where
  "load_library_cell T load cell =
     thenE (check_capability T CapSetLibCode)
     (bindE (liftE (slice_load_cell T cell)) (\<lambda>sl.
      bindE (with_object (move_by T 8) sl) (\<lambda>(_, key).
      bindE (getE libraries) (find_library T load key))))"

definition resolve_merkle_proof :: "('c, 's, 'b, 'h) ton \<Rightarrow> 'c \<Rightarrow> ('c, 's, 'b, 'h, 'c) action" where
  "resolve_merkle_proof T cell =
     thenE (try_use_gas (load_cell_price True))
     (bindE (liftE (slice_load_cell T cell)) (\<lambda>sl.
      bindE (with_object (move_by T 8) sl) (\<lambda>(_, sl).
      bindE (with_object (get_next_hash T) sl) (\<lambda>(h, sl).
      bindE (liftE (cell_reference T cell 0)) (\<lambda>child.
        let child = virtualize T 1 child in
        if repr_hash T child \<noteq> h then errE CellUnderflow else returnE child)))))"

definition resolve_merkle_update :: "('c, 's, 'b, 'h) ton \<Rightarrow> 'c \<Rightarrow> ('c, 's, 'b, 'h, 'c) action" where
  "resolve_merkle_update T cell =
     thenE (try_use_gas (load_cell_price True))
     (bindE (liftE (slice_load_cell T cell)) (\<lambda>sl.
      bindE (with_object (move_by T 8) sl) (\<lambda>(_, sl).
      bindE (with_object (get_next_hash T) sl) (\<lambda>(h, sl).
      bindE (liftE (cell_reference T cell 0)) (\<lambda>old.
        if repr_hash T (virtualize T 1 old) \<noteq> h then errE CellUnderflow
        else
          bindE (with_object (move_by T 16) sl) (\<lambda>(_, sl).
          bindE (with_object (get_next_hash T) sl) (\<lambda>(h, sl).
          bindE (liftE (cell_reference T cell 1)) (\<lambda>child.
            let child = virtualize T 1 child in
            if repr_hash T child \<noteq> h then errE CellUnderflow else returnE child))))))))"

definition load_plain_cell :: "('c, 's, 'b, 'h) ton \<Rightarrow> 'c \<Rightarrow> ('c, 's, 'b, 'h, 's) action" where
  "load_plain_cell T cell = (\<lambda>e.
     if repr_hash T cell \<in> visited_cells e
     then thenE (try_use_gas (load_cell_price False)) (liftE (slice_load_cell T cell)) e
     else thenE (try_use_gas (load_cell_price True))
        (thenE (modifyE (\<lambda>e. e \<lparr> visited_cells := insert (repr_hash T cell) (visited_cells e) \<rparr>))
           (liftE (slice_load_cell T cell))) e)"

definition remember_exotic :: "hash list \<Rightarrow> 's \<Rightarrow> ('c, 's, 'b, 'h, 's) action" where
  "remember_exotic hs sl = thenE
     (modifyE (\<lambda>e. e \<lparr> visited_exotic_cells :=
        fold (\<lambda>h m. m(h \<mapsto> sl)) hs (visited_exotic_cells e) \<rparr>))
     (returnE sl)"

text \<open>The next cell of the loop, or the error of a cell that cannot be resolved.\<close>

definition resolve_exotic ::
  "('c, 's, 'b, 'h) ton \<Rightarrow> ('c \<Rightarrow> ('c, 's, 'b, 'h, 's) action) \<Rightarrow> 'c \<Rightarrow> ('c, 's, 'b, 'h, 'c) action" where
  "resolve_exotic T load cell = (\<lambda>e. case cell_type_of T cell of
      LibraryReference \<Rightarrow>
        thenE (try_use_gas (load_cell_price True)) (load_library_cell T load cell) e
    | MerkleProof \<Rightarrow>
        (if check_capabilities (capability_bits T CapResolveMerkleCell) e
         then resolve_merkle_proof T cell e else errE CellUnderflow e)
    | MerkleUpdate \<Rightarrow>
        (if check_capabilities (capability_bits T CapResolveMerkleCell) e
         then resolve_merkle_update T cell e else errE CellUnderflow e)
    | _ \<Rightarrow> errE CellUnderflow e)"

primrec load_cell_loop ::
  "nat \<Rightarrow> ('c, 's, 'b, 'h) ton \<Rightarrow> bool \<Rightarrow> hash list \<Rightarrow> 'c \<Rightarrow> ('c, 's, 'b, 'h, 's) action" where
  "load_cell_loop 0 T resolve_special hashes cell = throwE OutOfFuel"
| "load_cell_loop (Suc n) T resolve_special hashes cell = (\<lambda>e.
     if \<not> resolve_special \<or> cell_type_of T cell = OrdinaryCell
     then bindE (load_plain_cell T cell) (remember_exotic hashes) e
     else case visited_exotic_cells e (repr_hash T cell) of
         Some sl \<Rightarrow> thenE (try_use_gas (load_cell_price False)) (remember_exotic hashes sl) e
       | None \<Rightarrow>
           bindE (resolve_exotic T (load_cell_loop n T True []) cell)
             (load_cell_loop n T resolve_special (hashes @ [repr_hash T cell])) e)"

definition load_fuel :: "('c, 's, 'b, 'h) engine \<Rightarrow> nat" where
  "load_fuel e = nat (sint (gas_remaining (egas e))) + 2"

definition load_hashed_cell :: "('c, 's, 'b, 'h) ton \<Rightarrow> 'c \<Rightarrow> bool \<Rightarrow> ('c, 's, 'b, 'h, 's) action" where
  "load_hashed_cell T cell resolve_special =
     (\<lambda>e. load_cell_loop (load_fuel e) T resolve_special [] cell e)"

definition load_cell :: "('c, 's, 'b, 'h) ton \<Rightarrow> 'c \<Rightarrow> ('c, 's, 'b, 'h, 's) action" where
  "load_cell T cell = load_hashed_cell T cell True"

section \<open>Continuations by address\<close>

definition item_by_address :: "u16 \<Rightarrow> ('c, 's, 'b, 'h, ('c, 's, 'b) stack_item) action" where
  "item_by_address a =
     (if address_tag a = VAR then cmd_var (storage_index a)
      else if address_tag a = CTRL then
        bindE (ctrl_get (storage_index a)) (\<lambda>x. case x of
          Some v \<Rightarrow> returnE v | None \<Rightarrow> throwE (CodeError TypeCheckError))
      else throwE OtherError)"

definition continuation_by_address :: "u16 \<Rightarrow> ('c, 's, 'b, 'h, ('c, 's, 'b) continuation_data) action" where
  "continuation_by_address a = bindE (item_by_address a) (\<lambda>x. liftE (as_continuation x))"

definition set_continuation_by_address ::
  "u16 \<Rightarrow> ('c, 's, 'b) continuation_data \<Rightarrow> ('c, 's, 'b, 'h) handler" where
  "set_continuation_by_address a k =
     (if address_tag a = VAR then set_var (storage_index a) (Item_Continuation k)
      else set_ctrl (storage_index a) (Item_Continuation k))"

text \<open>The two ways the source moves the top of the stack, the swap of the whole stack and the
  drain, have the same effect; so has \<open>drop_range_straight\<close> for the other ranges.\<close>

definition move_items ::
  "nat \<Rightarrow> nat \<Rightarrow> ('c, 's, 'b) item_stack \<Rightarrow> ('c, 's, 'b) item_stack \<Rightarrow>
   ('c, 's, 'b) tvm_error + ('c, 's, 'b) item_stack \<times> ('c, 's, 'b) item_stack" where
  "move_items start stop src peer =
     (if start = 0 then
        if depth src < stop then err StackUnderflow
        else if peer = [] \<and> stop = depth src then Inr (peer, src)
        else Inr (take (depth src - stop) src, peer @ drop (depth src - stop) src)
      else bindR (drop_range_straight start stop src) (\<lambda>(popped, src). Inr (src, peer @ popped)))"

definition move_stack_from_cc :: "u16 \<Rightarrow> nat \<Rightarrow> nat \<Rightarrow> ('c, 's, 'b, 'h) handler" where
  "move_stack_from_cc dst start stop =
     (let save = stop - start in
      bindE (continuation_by_address dst) (\<lambda>peer.
        if nargs_of peer \<ge> 0 \<and> save > nat (nargs_of peer) then errE StackOverflow
        else
          let peer = (if nargs_of peer \<ge> 0 then set_nargs (nargs_of peer - int save) peer else peer) in
          thenE (set_continuation_by_address dst peer)
          (bindE (getE cc_stack) (\<lambda>src.
           bindE (liftE (move_items start stop src (stack_of peer))) (\<lambda>(src', peer').
             thenE (modifyE (upd_stack (\<lambda>_. src')))
               (set_continuation_by_address dst (set_stack peer' peer)))))))"

section \<open>Swapping\<close>

text \<open>An address with the index it stands for: \<open>Info\<close> of the source.  The index of a save list
  is set when the list is first reached.\<close>

record info = info_flags :: u16  info_index :: nat

definition info_of :: "u16 \<Rightarrow> info" where
  "info_of a = \<lparr> info_flags = a, info_index = storage_index a \<rparr>"

definition info_item :: "info \<Rightarrow> ('c, 's, 'b, 'h, ('c, 's, 'b) stack_item) action" where
  "info_item i = (if address_tag (info_flags i) = VAR then cmd_var (info_index i) else throwE OtherError)"

definition info_set_item :: "info \<Rightarrow> ('c, 's, 'b) stack_item \<Rightarrow> ('c, 's, 'b, 'h) handler" where
  "info_set_item i x = set_var (info_index i) x"

definition list_index :: "info \<Rightarrow> nat" where
  "list_index i = (if address_tag (info_flags i) = CTRL then info_index i else savelist_index (info_flags i))"

definition info_list :: "info \<Rightarrow> ('c, 's, 'b, 'h, ('c, 's, 'b) save_list) action" where
  "info_list i =
     (let tag = address_tag (info_flags i) in
      if tag = CC_SAVELIST then getE (\<lambda>e. savelist_of (cc e))
      else if tag = CTRL then getE ctrls
      else if tag = CTRL_SAVELIST then
        bindE (ctrl_get (storage_index (info_flags i))) (\<lambda>x. case x of
           None \<Rightarrow> throwE OtherError
         | Some v \<Rightarrow> bindE (liftE (as_continuation v)) (\<lambda>k. returnE (savelist_of k)))
      else if tag = VAR_SAVELIST then
        bindE (cmd_var (storage_index (info_flags i))) (\<lambda>v.
          bindE (liftE (as_continuation v)) (\<lambda>k. returnE (savelist_of k)))
      else throwE OtherError)"

definition info_set_list :: "info \<Rightarrow> ('c, 's, 'b) save_list \<Rightarrow> ('c, 's, 'b, 'h) handler" where
  "info_set_list i sl =
     (let tag = address_tag (info_flags i) in
      if tag = CC_SAVELIST then upd_cc (set_savelist sl)
      else if tag = CTRL then modifyE (\<lambda>e. e \<lparr> ctrls := sl \<rparr>)
      else if tag = CTRL_SAVELIST then
        bindE (ctrl_get (storage_index (info_flags i))) (\<lambda>x. case x of
           None \<Rightarrow> throwE OtherError
         | Some v \<Rightarrow> bindE (liftE (as_continuation v)) (\<lambda>k.
             set_ctrl (storage_index (info_flags i)) (Item_Continuation (set_savelist sl k))))
      else if tag = VAR_SAVELIST then
        bindE (cmd_var (storage_index (info_flags i))) (\<lambda>v.
          bindE (liftE (as_continuation v)) (\<lambda>k.
             set_var (storage_index (info_flags i)) (Item_Continuation (set_savelist sl k))))
      else throwE OtherError)"

definition info_get :: "info \<Rightarrow> ('c, 's, 'b, 'h, ('c, 's, 'b) stack_item option) action" where
  "info_get i = bindE (info_list i) (\<lambda>sl. liftE (savelist_get (list_index i) sl))"

definition put_to_list ::
  "info \<Rightarrow> ('c, 's, 'b) stack_item \<Rightarrow> ('c, 's, 'b, 'h, ('c, 's, 'b) stack_item option) action" where
  "put_to_list x y =
     bindE (info_list x) (\<lambda>sl.
     bindE (liftE (savelist_put (list_index x) y sl)) (\<lambda>(old, sl).
       thenE (info_set_list x sl) (returnE old)))"

definition put_to_list_from_item ::
  "info \<Rightarrow> info \<Rightarrow> ('c, 's, 'b, 'h, ('c, 's, 'b) stack_item option) action" where
  "put_to_list_from_item x y =
     bindE (info_item y) (\<lambda>v.
       if \<not> can_put (list_index x) v then errE TypeCheckError
       else thenE (info_set_item y Item_None) (put_to_list x v))"

definition put_to_list_from_list ::
  "info \<Rightarrow> info \<Rightarrow> ('c, 's, 'b, 'h, ('c, 's, 'b) stack_item option) action" where
  "put_to_list_from_list x y =
     thenE (info_list x)
     (bindE (info_get y) (\<lambda>new. case new of
        Some v \<Rightarrow>
          (if can_put (list_index x) v
           then bindE (info_list y) (\<lambda>sl.
                  thenE (info_set_list y (snd (savelist_remove (list_index y) sl))) (put_to_list x v))
           else errE TypeCheckError)
      | None \<Rightarrow> errE TypeCheckError))"

definition swap_with_list :: "info \<Rightarrow> info \<Rightarrow> ('c, 's, 'b, 'h) handler" where
  "swap_with_list x y =
     bindE (info_get x) (\<lambda>old.
     bindE (if old \<noteq> None then returnE True else bindE (info_item y) (\<lambda>v. returnE (\<not> is_null v))) (\<lambda>go.
       whenE go
         (bindE (put_to_list_from_item x y) (\<lambda>old.
            info_set_item y (case old of Some v \<Rightarrow> v | None \<Rightarrow> Item_None)))))"

definition swap_between_lists :: "info \<Rightarrow> info \<Rightarrow> ('c, 's, 'b, 'h) handler" where
  "swap_between_lists x y =
     bindE (info_get y) (\<lambda>vy.
       if vy \<noteq> None then
         bindE (put_to_list_from_list x y) (\<lambda>old. case old of
            Some v \<Rightarrow> thenE (put_to_list y v) (returnE ())
          | None \<Rightarrow> returnE ())
       else bindE (info_get x) (\<lambda>vx.
         whenE (vx \<noteq> None) (thenE (put_to_list_from_list y x) (returnE ()))))"

definition is_list_tag :: "u16 \<Rightarrow> bool" where
  "is_list_tag tag = (tag = CC_SAVELIST \<or> tag = CTRL \<or> tag = CTRL_SAVELIST \<or> tag = VAR_SAVELIST)"

definition swap_cc_with :: "u16 \<Rightarrow> ('c, 's, 'b, 'h) handler" where
  "swap_cc_with a =
     bindE (continuation_by_address a) (\<lambda>k.
     bindE (getE cc) (\<lambda>old.
       thenE (modifyE (\<lambda>e. e \<lparr> cc := k \<rparr>)) (set_continuation_by_address a old)))"

definition swap_vars :: "nat \<Rightarrow> nat \<Rightarrow> ('c, 's, 'b, 'h) handler" where
  "swap_vars i j = (\<lambda>e.
     if i < length (vars (cmd e)) \<and> j < length (vars (cmd e))
     then (Inr (), e \<lparr> cmd := (cmd e) \<lparr> vars := list_swap i j (vars (cmd e)) \<rparr> \<rparr>)
     else (Inl Panic, e))"

definition swap_ordered :: "u16 \<Rightarrow> u16 \<Rightarrow> ('c, 's, 'b, 'h) handler" where
  "swap_ordered x y =
     (let tx = address_tag x; ty = address_tag y in
      if is_list_tag tx then
        if is_list_tag ty then swap_between_lists (info_of x) (info_of y)
        else if ty = VAR then swap_with_list (info_of x) (info_of y)
        else throwE OtherError
      else if tx = CC then
        if ty = CTRL then
          bindE (ctrl_get (storage_index y)) (\<lambda>c. case c of
            Some _ \<Rightarrow> swap_cc_with y | None \<Rightarrow> errE TypeCheckError)
        else if ty = VAR then swap_cc_with y
        else throwE OtherError
      else if tx = VAR then
        if ty = CC_SAVELIST \<or> ty = CTRL_SAVELIST \<or> ty = VAR_SAVELIST
        then swap_with_list (info_of y) (info_of x)
        else if ty = VAR then swap_vars (storage_index x) (storage_index y)
        else throwE OtherError
      else throwE OtherError)"

definition swap :: "u16 \<Rightarrow> u16 \<Rightarrow> ('c, 's, 'b, 'h) handler" where
  "swap x y = (if address_tag x > address_tag y then swap_ordered y x else swap_ordered x y)"

section \<open>Microfunctions\<close>

definition apply_savelist :: "('c, 's, 'b, 'h) handler" where
  "apply_savelist = modifyE (\<lambda>e.
     let (self, other) = savelist_apply (ctrls e) (savelist_of (cc e))
     in e \<lparr> ctrls := self, cc := set_savelist other (cc e) \<rparr>)"

definition apply_savelist_excluding_c0_c1 :: "('c, 's, 'b, 'h) handler" where
  "apply_savelist_excluding_c0_c1 =
     thenE (upd_cc (\<lambda>k. set_savelist
       (snd (savelist_remove 1 (snd (savelist_remove 0 (savelist_of k))))) k)) apply_savelist"

definition copy_to_var :: "u16 \<Rightarrow> ('c, 's, 'b, 'h) handler" where
  "copy_to_var src =
     bindE
       (let tag = address_tag src in
        if tag = CC then getE (\<lambda>e. Item_Continuation (copy_without_stack (cc e)))
        else if tag = CTRL then
          bindE (ctrl_get (storage_index src)) (\<lambda>x. returnE (case x of Some v \<Rightarrow> v | None \<Rightarrow> Item_None))
        else if tag = STACK then bindE (getE cc_stack) (\<lambda>st. liftE (stack_get (stack_index src) st))
        else if tag = VAR then cmd_var (storage_index src)
        else throwE OtherError)
       push_var"

definition drain_reference :: "('c, 's, 'b, 'h) ton \<Rightarrow> ('c, 's, 'b, 'h, 'c) action" where
  "drain_reference T = (\<lambda>e. case checked_drain_reference T (code_of (cc e)) of
     (Inr c, sl) \<Rightarrow> (Inr c, e \<lparr> cc := set_code sl (cc e) \<rparr>)
   | (Inl _, sl) \<Rightarrow> (err InvalidOpcode, e \<lparr> cc := set_code sl (cc e) \<rparr>))"

definition fetch_reference :: "('c, 's, 'b, 'h) ton \<Rightarrow> u16 \<Rightarrow> ('c, 's, 'b, 'h) handler" where
  "fetch_reference T src =
     (if address_tag src = CC then bindE (drain_reference T) (\<lambda>c. push_var (Item_Cell c))
      else throwE OtherError)"

definition append_vars :: "('c, 's, 'b) stack_item list \<Rightarrow> ('c, 's, 'b, 'h) handler" where
  "append_vars xs = modifyE (\<lambda>e. e \<lparr> cmd := (cmd e) \<lparr> vars := vars (cmd e) @ xs \<rparr> \<rparr>)"

definition fetch_stack :: "nat \<Rightarrow> ('c, 's, 'b, 'h) handler" where
  "fetch_stack n =
     bindE stack_depth (\<lambda>d.
       if d < n then errE StackUnderflow
       else bindE (from_stack (drop_range 0 n)) append_vars)"

definition pop_range :: "nat \<Rightarrow> nat \<Rightarrow> u16 \<Rightarrow> ('c, 's, 'b, 'h) handler" where
  "pop_range start stop dst =
     (let save = stop - start in
      bindE stack_depth (\<lambda>d.
      thenE (whenE (d > save) (try_use_gas (stack_price save)))
      (bindE (continuation_by_address dst) (\<lambda>k.
       thenE (whenE (depth (stack_of k) \<noteq> 0 \<and> save \<noteq> 0) (try_use_gas (stack_price (save + depth (stack_of k)))))
        (move_stack_from_cc dst start stop)))))"

definition pop_all :: "u16 \<Rightarrow> ('c, 's, 'b, 'h) handler" where
  "pop_all dst =
     bindE (continuation_by_address dst) (\<lambda>k.
     bindE stack_depth (\<lambda>d.
     bindE (cmd_param par_pargs) (\<lambda>pargs.
     bindE
       (if nargs_of k < 0 then returnE (case pargs of Some p \<Rightarrow> p | None \<Rightarrow> d)
        else case pargs of
            Some p \<Rightarrow> (if p < nat (nargs_of k) then errE StackUnderflow else returnE p)
          | None \<Rightarrow> returnE (nat (nargs_of k)))
       (\<lambda>n. whenE (n > 0) (pop_range 0 n dst)))))"

section \<open>Conversions (\<open>executor/engine/data.rs\<close>)\<close>

text \<open>The new contents of the variable.  A builder is taken out of it before its cell is made.\<close>

definition converted ::
  "('c, 's, 'b, 'h) ton \<Rightarrow> nat \<Rightarrow> data_tag \<Rightarrow> data_tag \<Rightarrow> ('c, 's, 'b) stack_item \<Rightarrow>
   ('c, 's, 'b, 'h, ('c, 's, 'b) stack_item) action" where
  "converted T i to from v = (case from of
      BUILDER \<Rightarrow>
        bindE (liftE (as_builder v)) (\<lambda>b.
        thenE (set_var i (Item_Builder (builder_default T)))
        (bindE (finalize_cell T b) (\<lambda>c. case to of
            CONTINUATION \<Rightarrow> bindE (load_cell T c) (\<lambda>sl. returnE (Item_Continuation (with_code sl)))
          | CELL \<Rightarrow> returnE (Item_Cell c)
          | SLICE \<Rightarrow> bindE (load_cell T c) (\<lambda>sl. returnE (Item_Slice sl))
          | BUILDER \<Rightarrow> throwE OtherError)))
    | CELL \<Rightarrow>
        bindE (liftE (as_cell v)) (\<lambda>c.
        bindE (load_cell T c) (\<lambda>sl. case to of
            CONTINUATION \<Rightarrow> returnE (Item_Continuation (with_code sl))
          | SLICE \<Rightarrow> returnE (Item_Slice sl)
          | _ \<Rightarrow> throwE OtherError))
    | SLICE \<Rightarrow>
        bindE (liftE (as_slice v)) (\<lambda>sl. case to of
            CONTINUATION \<Rightarrow> returnE (Item_Continuation (with_code sl))
          | _ \<Rightarrow> throwE OtherError)
    | CONTINUATION \<Rightarrow> throwE OtherError)"

definition convert ::
  "('c, 's, 'b, 'h) ton \<Rightarrow> u16 \<Rightarrow> data_tag \<Rightarrow> data_tag \<Rightarrow> ('c, 's, 'b, 'h) handler" where
  "convert T x to from =
     (let i = storage_index x in
      bindE var_count (\<lambda>n.
        if n \<le> i then throwE OtherError
        else if address_tag x \<noteq> VAR then throwE OtherError
        else bindE (cmd_var i) (\<lambda>v. bindE (converted T i to from v) (set_var i))))"

end
