(* ===== verification/Exec_Stack.thy ===== *)
theory Exec_Stack
  imports Storage
begin

text \<open>
  The stack manipulation and constant instructions (\<open>executor/stack.rs\<close>).  An instruction
  with register operands is the decoding followed by its body on the decoded registers; the
  bodies are definitions of their own.
\<close>

unbundle bit_operations_syntax

section \<open>Shared shapes\<close>

definition load :: "('c, 's, 'b, 'h) ton \<Rightarrow> string \<Rightarrow> ('c, 's, 'b, 'h) handler" where
  "load T name = load_instruction T (instr_new name)"

definition load_opts ::
  "('c, 's, 'b, 'h) ton \<Rightarrow> string \<Rightarrow> instruction_options \<Rightarrow> ('c, 's, 'b, 'h) handler" where
  "load_opts T name opts = load_instruction T (set_opts opts (instr_new name))"

definition need_depth :: "nat \<Rightarrow> ('c, 's, 'b, 'h) handler \<Rightarrow> ('c, 's, 'b, 'h) handler" where
  "need_depth n m = bindE stack_depth (\<lambda>d. if d < n then errE StackUnderflow else m)"

definition with_pair :: "(nat \<Rightarrow> nat \<Rightarrow> ('c, 's, 'b, 'h) handler) \<Rightarrow> ('c, 's, 'b, 'h) handler" where
  "with_pair f = bindE cmd_sregs (\<lambda>r. f (pair_ra r) (pair_rb r))"

definition with_trio :: "(nat \<Rightarrow> nat \<Rightarrow> nat \<Rightarrow> ('c, 's, 'b, 'h) handler) \<Rightarrow> ('c, 's, 'b, 'h) handler" where
  "with_trio f = bindE cmd_sregs3 (\<lambda>r. f (trio_ra r) (trio_rb r) (trio_rc r))"

definition with_length_and_index :: "(nat \<Rightarrow> nat \<Rightarrow> ('c, 's, 'b, 'h) handler) \<Rightarrow> ('c, 's, 'b, 'h) handler" where
  "with_length_and_index f = bindE cmd_length_and_index (\<lambda>r. f (li_length r) (li_index r))"

definition small_var :: "nat \<Rightarrow> ('c, 's, 'b, 'h, nat) action" where
  "small_var i = bindE (cmd_var i) (\<lambda>x. liftE (as_small_integer x))"

definition int_var :: "nat \<Rightarrow> ('c, 's, 'b, 'h, integer_data) action" where
  "int_var i = bindE (cmd_var i) (\<lambda>x. liftE (as_integer x))"

definition ranged_var :: "int_type \<Rightarrow> int \<Rightarrow> int \<Rightarrow> nat \<Rightarrow> ('c, 's, 'b, 'h, int) action" where
  "ranged_var t lo hi i = bindE (cmd_var i) (\<lambda>x. liftE (as_int_in t lo hi x))"

definition drop_items :: "nat \<Rightarrow> nat \<Rightarrow> ('c, 's, 'b, 'h) handler" where
  "drop_items start stop = bindE (from_stack (drop_range start stop)) (\<lambda>_. returnE ())"

definition drop_item :: "nat \<Rightarrow> ('c, 's, 'b, 'h) handler" where
  "drop_item i = bindE (from_stack (stack_drop i)) (\<lambda>_. returnE ())"

definition PUSH :: "nat \<Rightarrow> ('c, 's, 'b, 'h) handler" where
  "PUSH i = on_stack (push_copy i)"

definition XCHG :: "nat \<Rightarrow> nat \<Rightarrow> ('c, 's, 'b, 'h) handler" where
  "XCHG i j = on_stack (stack_swap i j)"

section \<open>Blocks and depth\<close>

definition execute_blkdrop :: "('c, 's, 'b, 'h) ton \<Rightarrow> ('c, 's, 'b, 'h) handler" where
  "execute_blkdrop T = thenE (load_opts T ''BLKDROP'' (Opt_Length 0 16))
     (bindE cmd_length (drop_items 0))"

definition execute_blkdrop2 :: "('c, 's, 'b, 'h) ton \<Rightarrow> ('c, 's, 'b, 'h) handler" where
  "execute_blkdrop2 T = thenE (load_opts T ''BLKDROP2'' Opt_LengthAndIndex)
     (with_length_and_index (\<lambda>l i. drop_items i (i + l)))"

definition blkpush :: "nat \<Rightarrow> nat \<Rightarrow> ('c, 's, 'b, 'h) handler" where
  "blkpush l i = bindE stack_depth (\<lambda>d.
     if d \<le> i then errE StackUnderflow else repeatE l (\<lambda>_. PUSH i) ())"

definition execute_blkpush :: "('c, 's, 'b, 'h) ton \<Rightarrow> ('c, 's, 'b, 'h) handler" where
  "execute_blkpush T = thenE (load_opts T ''BLKPUSH'' Opt_LengthAndIndex) (with_length_and_index blkpush)"

definition execute_blkswap :: "('c, 's, 'b, 'h) ton \<Rightarrow> ('c, 's, 'b, 'h) handler" where
  "execute_blkswap T = thenE (load_opts T ''BLKSWAP'' Opt_LengthMinusOneAndIndexMinusOne)
     (with_length_and_index (\<lambda>i j. on_stack (block_swap i j)))"

definition execute_blkswx :: "('c, 's, 'b, 'h) ton \<Rightarrow> ('c, 's, 'b, 'h) handler" where
  "execute_blkswx T = thenE (load T ''BLKSWX'') (thenE (fetch_stack 2)
     (bindE (ranged_var Usize 1 255 0) (\<lambda>j. bindE (ranged_var Usize 1 255 1) (\<lambda>i.
        on_stack (block_swap (nat i) (nat j))))))"

definition execute_chkdepth :: "('c, 's, 'b, 'h) ton \<Rightarrow> ('c, 's, 'b, 'h) handler" where
  "execute_chkdepth T = thenE (load T ''CHKDEPTH'') (thenE (fetch_stack 1)
     (bindE (small_var 0) (\<lambda>i. need_depth i (returnE ()))))"

definition execute_depth :: "('c, 's, 'b, 'h) ton \<Rightarrow> ('c, 's, 'b, 'h) handler" where
  "execute_depth T = thenE (load T ''DEPTH'') (bindE stack_depth (\<lambda>d. push_item (item_int (int d))))"

definition execute_dropx :: "('c, 's, 'b, 'h) ton \<Rightarrow> ('c, 's, 'b, 'h) handler" where
  "execute_dropx T = thenE (load T ''DROPX'') (thenE (fetch_stack 1)
     (bindE (small_var 0) (\<lambda>i. need_depth i (modifyE (upd_stack (drop_top i))))))"

definition execute_drop2 :: "('c, 's, 'b, 'h) ton \<Rightarrow> ('c, 's, 'b, 'h) handler" where
  "execute_drop2 T = thenE (load T ''DROP2'') (need_depth 2 (modifyE (upd_stack (drop_top 2))))"

definition execute_dup2 :: "('c, 's, 'b, 'h) ton \<Rightarrow> ('c, 's, 'b, 'h) handler" where
  "execute_dup2 T = thenE (load T ''DUP2'') (need_depth 2 (seqE [PUSH 1, PUSH 1]))"

definition execute_onlytopx :: "('c, 's, 'b, 'h) ton \<Rightarrow> ('c, 's, 'b, 'h) handler" where
  "execute_onlytopx T = thenE (load T ''ONLYTOPX'') (thenE (fetch_stack 1)
     (bindE (small_var 0) (\<lambda>i. bindE stack_depth (\<lambda>d.
        if d < i then errE StackUnderflow else drop_items i d))))"

definition execute_onlyx :: "('c, 's, 'b, 'h) ton \<Rightarrow> ('c, 's, 'b, 'h) handler" where
  "execute_onlyx T = thenE (load T ''ONLYX'') (thenE (fetch_stack 1)
     (bindE (small_var 0) (\<lambda>i. bindE stack_depth (\<lambda>d.
        if d < i then errE StackUnderflow else modifyE (upd_stack (drop_top (d - i)))))))"

definition execute_over2 :: "('c, 's, 'b, 'h) ton \<Rightarrow> ('c, 's, 'b, 'h) handler" where
  "execute_over2 T = thenE (load T ''OVER2'') (need_depth 4 (seqE [PUSH 3, PUSH 3]))"

definition execute_pick :: "('c, 's, 'b, 'h) ton \<Rightarrow> ('c, 's, 'b, 'h) handler" where
  "execute_pick T = thenE (load T ''PICK'') (thenE (fetch_stack 1)
     (bindE (small_var 0) (\<lambda>i. bindE stack_depth (\<lambda>d.
        if d \<le> i then errE StackUnderflow else PUSH i))))"

section \<open>Control registers\<close>

definition execute_pop :: "('c, 's, 'b, 'h) ton \<Rightarrow> ('c, 's, 'b, 'h) handler" where
  "execute_pop T = bindE get_last_cmd (\<lambda>c.
     let body = (\<lambda>hi. thenE (load_opts T ''POP'' (Opt_StackRegister 0 hi))
           (bindE cmd_sreg (\<lambda>r. thenE (XCHG 0 r) (drop_item 0)))) in
     if c AND 0xF0 = 0x30 then body 16 else if c = 0x57 then body 256 else throwE OtherError)"

definition execute_popctr :: "('c, 's, 'b, 'h) ton \<Rightarrow> ('c, 's, 'b, 'h) handler" where
  "execute_popctr T = thenE (load_opts T ''POPCTR'' Opt_ControlRegister) (thenE (fetch_stack 1)
     (bindE cmd_creg (\<lambda>creg. swap (var_addr 0) (ctrl_addr creg))))"

definition execute_popctrx :: "('c, 's, 'b, 'h) ton \<Rightarrow> ('c, 's, 'b, 'h) handler" where
  "execute_popctrx T = thenE (load T ''POPCTRX'') (thenE (fetch_stack 2)
     (bindE (small_var 0) (\<lambda>creg.
        if creg \<notin> set REGS then errE RangeCheckError
        else swap (var_addr 0) (ctrl_addr creg))))"

definition c0_saved :: "nat \<Rightarrow> ('c, 's, 'b, 'h) engine \<Rightarrow> bool" where
  "c0_saved creg e = (case ctrls e ! adjust 0 of
      Some (Item_Continuation k) \<Rightarrow> savelist_of k ! adjust creg \<noteq> None
    | _ \<Rightarrow> False)"

definition execute_popsave :: "('c, 's, 'b, 'h) ton \<Rightarrow> ('c, 's, 'b, 'h) handler" where
  "execute_popsave T = thenE (load_opts T ''POPSAVE'' Opt_ControlRegister) (thenE (fetch_stack 1)
     (bindE cmd_creg (\<lambda>creg. thenE (swap (var_addr 0) (ctrl_addr creg)) (\<lambda>e.
        if bugfixes2022 T e then
          if c0_saved creg e then (Inr (), e)
          else swap (var_addr 0) (savelist_addr (ctrl_addr 0) creg) e
        else swap (var_addr 0) (savelist_addr (ctrl_addr 0) 0) e))))"

definition execute_pushctr :: "('c, 's, 'b, 'h) ton \<Rightarrow> ('c, 's, 'b, 'h) handler" where
  "execute_pushctr T = thenE (load_opts T ''PUSHCTR'' Opt_ControlRegister)
     (bindE cmd_creg (\<lambda>creg. thenE (copy_to_var (ctrl_addr creg)) (bindE pop_var push_item)))"

definition execute_pushctrx :: "('c, 's, 'b, 'h) ton \<Rightarrow> ('c, 's, 'b, 'h) handler" where
  "execute_pushctrx T = thenE (load T ''PUSHCTRX'') (thenE (fetch_stack 1)
     (bindE (small_var 0) (\<lambda>creg.
        if creg \<notin> set REGS then errE RangeCheckError
        else thenE (copy_to_var (ctrl_addr creg)) (bindE pop_var push_item))))"

section \<open>Exchanges and pushes of registers\<close>

definition pu2xc :: "nat \<Rightarrow> nat \<Rightarrow> nat \<Rightarrow> ('c, 's, 'b, 'h) handler" where
  "pu2xc ra rb rc = bindE stack_depth (\<lambda>d.
     if d + 1 < max rc (max (ra + 2) (rb + 1)) then errE StackUnderflow
     else seqE [PUSH ra, XCHG 0 1, PUSH rb, XCHG 0 1, XCHG 0 rc])"

definition execute_pu2xc :: "('c, 's, 'b, 'h) ton \<Rightarrow> ('c, 's, 'b, 'h) handler" where
  "execute_pu2xc T =
     thenE (load_opts T ''PU2XC'' (Opt_StackRegisterTrio GetFromNextByteMinusOneMinusTwo)) (with_trio pu2xc)"

definition push_reg :: "nat \<Rightarrow> ('c, 's, 'b, 'h) handler" where
  "push_reg ra = bindE stack_depth (\<lambda>d. if d \<le> ra then errE StackUnderflow else PUSH ra)"

definition execute_push :: "('c, 's, 'b, 'h) ton \<Rightarrow> ('c, 's, 'b, 'h) handler" where
  "execute_push T = bindE get_last_cmd (\<lambda>c.
     let body = (\<lambda>hi. thenE (load_opts T ''PUSH'' (Opt_StackRegister 0 hi)) (bindE cmd_sreg push_reg)) in
     if c AND 0xF0 = 0x20 then body 16 else if c = 0x56 then body 256 else throwE OtherError)"

definition push2 :: "nat \<Rightarrow> nat \<Rightarrow> ('c, 's, 'b, 'h) handler" where
  "push2 ra rb = bindE stack_depth (\<lambda>d.
     if d \<le> max ra rb then errE StackUnderflow else seqE [PUSH ra, PUSH (rb + 1)])"

definition execute_push2 :: "('c, 's, 'b, 'h) ton \<Rightarrow> ('c, 's, 'b, 'h) handler" where
  "execute_push2 T = thenE (load_opts T ''PUSH2'' (Opt_StackRegisterPair GetFromNextByte)) (with_pair push2)"

definition push3 :: "nat \<Rightarrow> nat \<Rightarrow> nat \<Rightarrow> ('c, 's, 'b, 'h) handler" where
  "push3 ra rb rc = bindE stack_depth (\<lambda>d.
     if d \<le> max (max ra rb) rc then errE StackUnderflow
     else seqE [PUSH ra, PUSH (rb + 1), PUSH (rc + 2)])"

definition execute_push3 :: "('c, 's, 'b, 'h) ton \<Rightarrow> ('c, 's, 'b, 'h) handler" where
  "execute_push3 T = thenE (load_opts T ''PUSH3'' (Opt_StackRegisterTrio GetFromNextByte)) (with_trio push3)"

definition puxc :: "nat \<Rightarrow> nat \<Rightarrow> ('c, 's, 'b, 'h) handler" where
  "puxc ra rb = bindE stack_depth (\<lambda>d.
     if d < max (ra + 1) rb then errE StackUnderflow
     else seqE [PUSH ra, XCHG 0 1, XCHG 0 rb])"

definition execute_puxc :: "('c, 's, 'b, 'h) ton \<Rightarrow> ('c, 's, 'b, 'h) handler" where
  "execute_puxc T = thenE (load_opts T ''PUXC'' (Opt_StackRegisterPair GetFromNextByte)) (with_pair puxc)"

definition puxc2 :: "nat \<Rightarrow> nat \<Rightarrow> nat \<Rightarrow> ('c, 's, 'b, 'h) handler" where
  "puxc2 ra rb rc = bindE stack_depth (\<lambda>d.
     if d < max 2 (max (max (ra + 1) rb) rc) then errE StackUnderflow
     else seqE [PUSH ra, XCHG 2 0, XCHG 1 rb, XCHG 0 rc])"

definition execute_puxc2 :: "('c, 's, 'b, 'h) ton \<Rightarrow> ('c, 's, 'b, 'h) handler" where
  "execute_puxc2 T =
     thenE (load_opts T ''PUXC2'' (Opt_StackRegisterTrio GetFromNextByteMinusOneMinusOne)) (with_trio puxc2)"

definition puxcpu :: "nat \<Rightarrow> nat \<Rightarrow> nat \<Rightarrow> ('c, 's, 'b, 'h) handler" where
  "puxcpu ra rb rc = bindE stack_depth (\<lambda>d.
     if d < max rc (max (ra + 1) rb) then errE StackUnderflow
     else seqE [PUSH ra, XCHG 0 1, XCHG 0 rb, PUSH rc])"

definition execute_puxcpu :: "('c, 's, 'b, 'h) ton \<Rightarrow> ('c, 's, 'b, 'h) handler" where
  "execute_puxcpu T =
     thenE (load_opts T ''PUXCPU'' (Opt_StackRegisterTrio GetFromNextByteMinusOneMinusOne)) (with_trio puxcpu)"

definition xc2pu :: "nat \<Rightarrow> nat \<Rightarrow> nat \<Rightarrow> ('c, 's, 'b, 'h) handler" where
  "xc2pu ra rb rc = bindE stack_depth (\<lambda>d.
     if d \<le> max 1 (max ra (max rb rc)) then errE StackUnderflow
     else seqE [XCHG 1 ra, XCHG 0 rb, PUSH rc])"

definition execute_xc2pu :: "('c, 's, 'b, 'h) ton \<Rightarrow> ('c, 's, 'b, 'h) handler" where
  "execute_xc2pu T = thenE (load_opts T ''XC2PU'' (Opt_StackRegisterTrio GetFromNextByte)) (with_trio xc2pu)"

definition execute_xchg ::
  "('c, 's, 'b, 'h) ton \<Rightarrow> string \<Rightarrow> instruction_options \<Rightarrow> ('c, 's, 'b, 'h) handler" where
  "execute_xchg T name opts = thenE (load_opts T name opts) (with_pair XCHG)"

definition xchg_handlers :: "('c, 's, 'b, 'h) ton \<Rightarrow> ('c, 's, 'b, 'h) named_handlers" where
  "xchg_handlers T = [
     (''execute_swap'', execute_xchg T ''SWAP'' (Opt_StackRegisterPair GetFromLastByte)),
     (''execute_xchg_simple'', execute_xchg T ''XCHG'' (Opt_StackRegisterPair GetFromLastByte)),
     (''execute_xchg_std'', execute_xchg T ''XCHG'' (Opt_StackRegisterPair GetFromNextByte)),
     (''execute_xchg_long'', execute_xchg T ''XCHG'' (Opt_StackRegisterPair GetFromNextByteLong))]"

definition xchg2 :: "nat \<Rightarrow> nat \<Rightarrow> ('c, 's, 'b, 'h) handler" where
  "xchg2 ra rb = bindE stack_depth (\<lambda>d.
     if d \<le> max 1 (max ra rb) then errE StackUnderflow else seqE [XCHG 1 ra, XCHG 0 rb])"

definition execute_xchg2 :: "('c, 's, 'b, 'h) ton \<Rightarrow> ('c, 's, 'b, 'h) handler" where
  "execute_xchg2 T = thenE (load_opts T ''XCHG2'' (Opt_StackRegisterPair GetFromNextByte)) (with_pair xchg2)"

definition xchg3 :: "nat \<Rightarrow> nat \<Rightarrow> nat \<Rightarrow> ('c, 's, 'b, 'h) handler" where
  "xchg3 ra rb rc = bindE stack_depth (\<lambda>d.
     if d \<le> max 2 (max rc (max ra rb)) then errE StackUnderflow
     else seqE [XCHG 2 ra, XCHG 1 rb, XCHG 0 rc])"

definition execute_xchg3 :: "('c, 's, 'b, 'h) ton \<Rightarrow> ('c, 's, 'b, 'h) handler" where
  "execute_xchg3 T = thenE (load_opts T ''XCHG3'' (Opt_StackRegisterTrio GetFromNextByte)) (with_trio xchg3)"

definition execute_xchgx :: "('c, 's, 'b, 'h) ton \<Rightarrow> ('c, 's, 'b, 'h) handler" where
  "execute_xchgx T = thenE (load T ''XCHGX'') (thenE (fetch_stack 1) (bindE (small_var 0) (XCHG 0)))"

definition xcpu :: "nat \<Rightarrow> nat \<Rightarrow> ('c, 's, 'b, 'h) handler" where
  "xcpu ra rb = bindE stack_depth (\<lambda>d.
     if d \<le> max ra rb then errE StackUnderflow else seqE [XCHG 0 ra, PUSH rb])"

definition execute_xcpu :: "('c, 's, 'b, 'h) ton \<Rightarrow> ('c, 's, 'b, 'h) handler" where
  "execute_xcpu T = thenE (load_opts T ''XCPU'' (Opt_StackRegisterPair GetFromNextByte)) (with_pair xcpu)"

definition xcpu2 :: "nat \<Rightarrow> nat \<Rightarrow> nat \<Rightarrow> ('c, 's, 'b, 'h) handler" where
  "xcpu2 ra rb rc = bindE stack_depth (\<lambda>d.
     if d \<le> max 1 (max ra (max rb rc)) then errE StackUnderflow
     else seqE [XCHG 0 ra, PUSH rb, PUSH (rc + 1)])"

definition execute_xcpu2 :: "('c, 's, 'b, 'h) ton \<Rightarrow> ('c, 's, 'b, 'h) handler" where
  "execute_xcpu2 T = thenE (load_opts T ''XCPU2'' (Opt_StackRegisterTrio GetFromNextByte)) (with_trio xcpu2)"

definition xcpuxc :: "nat \<Rightarrow> nat \<Rightarrow> nat \<Rightarrow> ('c, 's, 'b, 'h) handler" where
  "xcpuxc ra rb rc = bindE stack_depth (\<lambda>d.
     if d < max 2 (max rc (max ra rb + 1)) then errE StackUnderflow
     else seqE [XCHG 1 ra, PUSH rb, XCHG 0 1, XCHG 0 rc])"

definition execute_xcpuxc :: "('c, 's, 'b, 'h) ton \<Rightarrow> ('c, 's, 'b, 'h) handler" where
  "execute_xcpuxc T =
     thenE (load_opts T ''XCPUXC'' (Opt_StackRegisterTrio GetFromNextByteMinusOne)) (with_trio xcpuxc)"

section \<open>Reversals and rotations\<close>

definition execute_reverse :: "('c, 's, 'b, 'h) ton \<Rightarrow> ('c, 's, 'b, 'h) handler" where
  "execute_reverse T = thenE (load_opts T ''REVERSE'' Opt_LengthMinusTwoAndIndex)
     (with_length_and_index (\<lambda>i j. on_stack (reverse_range j (j + i))))"

definition execute_revx :: "('c, 's, 'b, 'h) ton \<Rightarrow> ('c, 's, 'b, 'h) handler" where
  "execute_revx T = thenE (load T ''REVX'') (thenE (fetch_stack 2)
     (bindE (small_var 0) (\<lambda>j. bindE (small_var 1) (\<lambda>i. on_stack (reverse_range j (j + i))))))"

definition roll :: "nat \<Rightarrow> ('c, 's, 'b, 'h) handler" where
  "roll i = bindE (from_stack (stack_drop i)) push_item"

definition rollrev :: "nat \<Rightarrow> ('c, 's, 'b, 'h) handler" where
  "rollrev i = bindE stack_depth (\<lambda>d.
     if d \<le> i then errE StackUnderflow
     else bindE (from_stack (stack_drop 0)) (\<lambda>x. on_stack (stack_insert i x)))"

definition execute_roll :: "('c, 's, 'b, 'h) ton \<Rightarrow> ('c, 's, 'b, 'h) handler" where
  "execute_roll T = thenE (load T ''ROLLX'') (thenE (fetch_stack 1) (bindE (small_var 0) roll))"

definition execute_rollrev :: "('c, 's, 'b, 'h) ton \<Rightarrow> ('c, 's, 'b, 'h) handler" where
  "execute_rollrev T = thenE (load T ''ROLLREVX'') (thenE (fetch_stack 1) (bindE (small_var 0) rollrev))"

definition execute_rot :: "('c, 's, 'b, 'h) ton \<Rightarrow> ('c, 's, 'b, 'h) handler" where
  "execute_rot T = thenE (load T ''ROT'') (roll 2)"

definition execute_rotrev :: "('c, 's, 'b, 'h) ton \<Rightarrow> ('c, 's, 'b, 'h) handler" where
  "execute_rotrev T = thenE (load T ''ROTREV'')
     (need_depth 3 (bindE (from_stack (stack_drop 0)) (\<lambda>x. on_stack (stack_insert 2 x))))"

definition execute_swap2 :: "('c, 's, 'b, 'h) ton \<Rightarrow> ('c, 's, 'b, 'h) handler" where
  "execute_swap2 T = thenE (load T ''SWAP2'') (need_depth 4 (on_stack (block_swap 2 2)))"

definition execute_tuck :: "('c, 's, 'b, 'h) ton \<Rightarrow> ('c, 's, 'b, 'h) handler" where
  "execute_tuck T = thenE (load T ''TUCK'') (need_depth 2 (seqE [PUSH 0, XCHG 1 2]))"

section \<open>Constants\<close>

definition execute_pushcont ::
  "('c, 's, 'b, 'h) ton \<Rightarrow> instruction_options \<Rightarrow> ('c, 's, 'b, 'h) handler" where
  "execute_pushcont T opts = thenE (load_opts T ''PUSHCONT'' opts)
     (bindE cmd_slice (\<lambda>sl. push_item (Item_Continuation (with_code sl))))"

definition pushcont_handlers :: "('c, 's, 'b, 'h) ton \<Rightarrow> ('c, 's, 'b, 'h) named_handlers" where
  "pushcont_handlers T = [
     (''execute_pushcont_short'', execute_pushcont T (Opt_Bytestring 7 2 7 0)),
     (''execute_pushcont_long'', execute_pushcont T (Opt_Bytestring 4 0 4 0))]"

definition execute_pushint :: "('c, 's, 'b, 'h) ton \<Rightarrow> ('c, 's, 'b, 'h) handler" where
  "execute_pushint T = bindE get_last_cmd (\<lambda>c.
     let body = (\<lambda>lo hi. thenE (load_opts T ''PUSHINT'' (Opt_Integer lo hi))
           (bindE cmd_integer (\<lambda>n. push_item (item_int n)))) in
     if c AND 0xF0 = 0x70 then body (- 5) 11
     else if c = 0x80 then body (- 128) 128
     else if c = 0x81 then body (- 32768) 32768
     else errE InvalidOpcode)"

text \<open>The big integer parameter is withdrawn: zero is left in its place.\<close>

primrec withdraw_biginteger :: "'s instruction_parameter list \<Rightarrow> 's instruction_parameter list" where
  "withdraw_biginteger [] = []"
| "withdraw_biginteger (p # ps) = (case p of
     Par_BigInteger _ \<Rightarrow> Par_BigInteger zero_int # ps | _ \<Rightarrow> p # withdraw_biginteger ps)"

definition execute_pushint_big :: "('c, 's, 'b, 'h) ton \<Rightarrow> ('c, 's, 'b, 'h) handler" where
  "execute_pushint_big T = thenE (load_opts T ''PUSHINT'' Opt_BigInteger)
     (bindE (bindE (cmd_param par_biginteger) unwrapE) (\<lambda>v.
        thenE (modifyE (\<lambda>e. e \<lparr> cmd := (cmd e) \<lparr> params := withdraw_biginteger (params (cmd e)) \<rparr> \<rparr>))
          (push_item (Item_Integer v))))"

definition execute_pushnan :: "('c, 's, 'b, 'h) ton \<Rightarrow> ('c, 's, 'b, 'h) handler" where
  "execute_pushnan T = thenE (load T ''PUSHNAN'') (push_item (Item_Integer NaN))"

definition push_result :: "exception_code + integer_data \<Rightarrow> ('c, 's, 'b, 'h) handler" where
  "push_result r = bindE (liftE (lift_code r)) (\<lambda>v. push_item (Item_Integer v))"

definition execute_pushnegpow2 :: "('c, 's, 'b, 'h) ton \<Rightarrow> ('c, 's, 'b, 'h) handler" where
  "execute_pushnegpow2 T = thenE (load_opts T ''PUSHNEGPOW2'' (Opt_LengthMinusOne 0 256))
     (bindE cmd_length (\<lambda>pw. push_result (shl Signaling minus_one_int pw)))"

definition execute_pushpow2 :: "('c, 's, 'b, 'h) ton \<Rightarrow> ('c, 's, 'b, 'h) handler" where
  "execute_pushpow2 T = bindE get_last_cmd (\<lambda>pw.
     thenE (load T ''PUSHPOW2'') (push_result (shl Signaling one_int (unat pw + 1))))"

definition pow2dec :: "nat \<Rightarrow> exception_code + integer_data" where
  "pow2dec pw =
     bindR (shl Signaling one_int (pw - 1)) (\<lambda>a.
     bindR (sub Signaling a one_int) (\<lambda>b.
     bindR (shl Signaling b 1) (\<lambda>c. add Signaling c one_int)))"

definition execute_pushpow2dec :: "('c, 's, 'b, 'h) ton \<Rightarrow> ('c, 's, 'b, 'h) handler" where
  "execute_pushpow2dec T = thenE (load_opts T ''PUSHPOW2DEC'' (Opt_LengthMinusOne 0 256))
     (bindE cmd_length (\<lambda>pw. push_result (pow2dec pw)))"

definition remove_var :: "nat \<Rightarrow> ('c, 's, 'b, 'h, ('c, 's, 'b) stack_item) action" where
  "remove_var i = (\<lambda>e. if i < length (vars (cmd e))
     then (Inr (vars (cmd e) ! i),
           e \<lparr> cmd := (cmd e) \<lparr> vars := take i (vars (cmd e)) @ drop (Suc i) (vars (cmd e)) \<rparr> \<rparr>)
     else (Inl Panic, e))"

definition fetch_ref :: "('c, 's, 'b, 'h) ton \<Rightarrow> string \<Rightarrow> data_tag \<Rightarrow> ('c, 's, 'b, 'h) handler" where
  "fetch_ref T name to = thenE (load T name) (thenE (fetch_reference T CC)
     (thenE (whenE (to \<noteq> CELL) (convert T (var_addr 0) to CELL)) (bindE (remove_var 0) push_item)))"

definition pushref_handlers :: "('c, 's, 'b, 'h) ton \<Rightarrow> ('c, 's, 'b, 'h) named_handlers" where
  "pushref_handlers T = [
     (''execute_pushref'', fetch_ref T ''PUSHREF'' CELL),
     (''execute_pushrefcont'', fetch_ref T ''PUSHREFCONT'' CONTINUATION),
     (''execute_pushrefslice'', fetch_ref T ''PUSHREFSLICE'' SLICE)]"

definition execute_pushslice ::
  "('c, 's, 'b, 'h) ton \<Rightarrow> instruction_options \<Rightarrow> ('c, 's, 'b, 'h) handler" where
  "execute_pushslice T opts = thenE (load_opts T ''PUSHSLICE'' opts)
     (bindE cmd_slice (\<lambda>sl. push_item (Item_Slice sl)))"

definition pushslice_handlers :: "('c, 's, 'b, 'h) ton \<Rightarrow> ('c, 's, 'b, 'h) named_handlers" where
  "pushslice_handlers T = [
     (''execute_pushslice_short'', execute_pushslice T (Opt_Bitstring 8 0 4 0)),
     (''execute_pushslice_mid'', execute_pushslice T (Opt_Bitstring 8 2 5 1)),
     (''execute_pushslice_long'', execute_pushslice T (Opt_Bitstring 8 3 7 0))]"

end
