(* ===== verification/Stack_Theorems.thy ===== *)
theory Stack_Theorems
  imports Exec_Stack
begin

text \<open>
  The compound stack instructions against the sequences of primitive exchanges and pushes that
  the machine's description gives for them.  The description says nothing of a sequence that
  fails half way; the code tests the depth first, so a failing instruction changes nothing.
  \<open>atomically\<close> is that reading of a sequence.
\<close>

definition atomically :: "('c, 's, 'b, 'h) handler \<Rightarrow> ('c, 's, 'b, 'h) handler" where
  "atomically m = (\<lambda>e. case m e of (Inl er, _) \<Rightarrow> (Inl er, e) | (Inr x, e') \<Rightarrow> (Inr x, e'))"

section \<open>The primitives\<close>

lemma cc_stack_upd [simp]: "cc_stack (upd_stack f e) = f (cc_stack e)"
  by (cases "cc e") (simp add: cc_stack_def upd_stack_def)

lemma upd_stack_upd [simp]: "upd_stack f (upd_stack g e) = upd_stack (\<lambda>st. f (g st)) e"
  by (cases "cc e") (simp add: upd_stack_def)

lemma upd_stack_const: "f (cc_stack e) = g (cc_stack e) \<Longrightarrow> upd_stack f e = upd_stack g e"
  by (simp add: cc_stack_def upd_stack_def)

lemma depth_list_swap [simp]: "depth (list_swap a b st) = depth st"
  by (simp add: depth_def)

definition copied :: "nat \<Rightarrow> ('c, 's, 'b) item_stack \<Rightarrow> ('c, 's, 'b) item_stack" where
  "copied i st = push (view st ! i) st"

definition exchanged :: "nat \<Rightarrow> nat \<Rightarrow> ('c, 's, 'b) item_stack \<Rightarrow> ('c, 's, 'b) item_stack" where
  "exchanged i j st = list_swap (depth st - i - 1) (depth st - j - 1) st"

lemma depth_copied [simp]: "depth (copied i st) = Suc (depth st)"
  by (simp add: copied_def)

lemma depth_exchanged [simp]: "depth (exchanged i j st) = depth st"
  by (simp add: exchanged_def)

lemma exchanged_commute: "exchanged i j st = exchanged j i st"
  unfolding exchanged_def list_swap_def
  by (cases "depth st - i - 1 = depth st - j - 1") (simp_all add: list_update_swap)

lemma PUSH_eq:
  "PUSH i e = (if i < depth (cc_stack e) then (Inr (), upd_stack (copied i) e) else (err StackUnderflow, e))"
  by (auto simp: PUSH_def on_stack_def push_copy_view copied_def err_def intro: upd_stack_const)

lemma XCHG_eq:
  "XCHG i j e = (if i < depth (cc_stack e) \<and> j < depth (cc_stack e)
     then (Inr (), upd_stack (exchanged i j) e) else (err StackUnderflow, e))"
  by (auto simp: XCHG_def on_stack_def stack_swap_def exchanged_def err_def intro: upd_stack_const)

lemmas compound_simps = atomically_def seqE.simps thenE_unfold bindE_unfold stack_depth_def errE_def
  err_def PUSH_eq XCHG_eq

section \<open>The compound instructions\<close>

lemma pu2xc_refines:
  "pu2xc ra rb rc = atomically (seqE [PUSH ra, XCHG 0 1, PUSH rb, XCHG 0 1, XCHG 0 rc])"
  by (rule ext) (auto simp: pu2xc_def compound_simps)

lemma push2_refines: "push2 ra rb = atomically (seqE [PUSH ra, PUSH (rb + 1)])"
  by (rule ext) (auto simp: push2_def compound_simps)

lemma push3_refines: "push3 ra rb rc = atomically (seqE [PUSH ra, PUSH (rb + 1), PUSH (rc + 2)])"
  by (rule ext) (auto simp: push3_def compound_simps)

lemma puxc_refines: "puxc ra rb = atomically (seqE [PUSH ra, XCHG 0 1, XCHG 0 rb])"
  by (rule ext) (auto simp: puxc_def compound_simps)

lemma puxc2_refines:
  "puxc2 ra rb rc = atomically (seqE [PUSH ra, XCHG 0 2, XCHG 1 rb, XCHG 0 rc])"
  by (rule ext) (auto simp: puxc2_def compound_simps exchanged_commute [of 2])

lemma puxcpu_refines: "puxcpu ra rb rc = atomically (seqE [PUSH ra, XCHG 0 1, XCHG 0 rb, PUSH rc])"
  by (rule ext) (auto simp: puxcpu_def compound_simps)

lemma xc2pu_refines: "xc2pu ra rb rc = atomically (seqE [XCHG 1 ra, XCHG 0 rb, PUSH rc])"
  by (rule ext) (auto simp: xc2pu_def compound_simps)

lemma xchg2_refines: "xchg2 ra rb = atomically (seqE [XCHG 1 ra, XCHG 0 rb])"
  by (rule ext) (auto simp: xchg2_def compound_simps)

lemma xchg3_refines: "xchg3 ra rb rc = atomically (seqE [XCHG 2 ra, XCHG 1 rb, XCHG 0 rc])"
  by (rule ext) (auto simp: xchg3_def compound_simps)

lemma xcpu_refines: "xcpu ra rb = atomically (seqE [XCHG 0 ra, PUSH rb])"
  by (rule ext) (auto simp: xcpu_def compound_simps)

lemma xcpuxc_refines: "xcpuxc ra rb rc = atomically (seqE [XCHG 1 ra, PUSH rb, XCHG 0 1, XCHG 0 rc])"
  by (rule ext) (auto simp: xcpuxc_def compound_simps)

text \<open>C13: the instructions \<open>PUSH2\<close>, \<open>PUSH3\<close>, \<open>PUXC\<close>, \<open>PUXC2\<close>, \<open>PUXCPU\<close>, \<open>PU2XC\<close>,
  \<open>XCHG2\<close>, \<open>XCHG3\<close>, \<open>XCPU\<close>, \<open>XC2PU\<close> and \<open>XCPUXC\<close> do, for all registers and
  on every stack, exactly what their sequences of primitive pushes and exchanges do; they fail
  exactly when the sequence would fail at some point, with the same error, and then leave the
  machine as it was.\<close>

theorem compound_instructions_refine:
  "push2 ra rb = atomically (seqE [PUSH ra, PUSH (rb + 1)]) \<and>
   push3 ra rb rc = atomically (seqE [PUSH ra, PUSH (rb + 1), PUSH (rc + 2)]) \<and>
   puxc ra rb = atomically (seqE [PUSH ra, XCHG 0 1, XCHG 0 rb]) \<and>
   puxc2 ra rb rc = atomically (seqE [PUSH ra, XCHG 0 2, XCHG 1 rb, XCHG 0 rc]) \<and>
   puxcpu ra rb rc = atomically (seqE [PUSH ra, XCHG 0 1, XCHG 0 rb, PUSH rc]) \<and>
   pu2xc ra rb rc = atomically (seqE [PUSH ra, XCHG 0 1, PUSH rb, XCHG 0 1, XCHG 0 rc]) \<and>
   xchg2 ra rb = atomically (seqE [XCHG 1 ra, XCHG 0 rb]) \<and>
   xchg3 ra rb rc = atomically (seqE [XCHG 2 ra, XCHG 1 rb, XCHG 0 rc]) \<and>
   xcpu ra rb = atomically (seqE [XCHG 0 ra, PUSH rb]) \<and>
   xc2pu ra rb rc = atomically (seqE [XCHG 1 ra, XCHG 0 rb, PUSH rc]) \<and>
   xcpuxc ra rb rc = atomically (seqE [XCHG 1 ra, PUSH rb, XCHG 0 1, XCHG 0 rc])"
  by (intro conjI push2_refines push3_refines puxc_refines puxc2_refines puxcpu_refines pu2xc_refines
    xchg2_refines xchg3_refines xcpu_refines xc2pu_refines xcpuxc_refines)

end
