(* ===== verification/Safety.thy ===== *)
theory Safety
  imports Storage
begin

text \<open>
  The invariant of the machine's state.  Every save list, in the control registers, in the current
  continuation and in every continuation inside any item the machine can reach, holds in each slot
  an item its register admits; a committed state consists of cells.  The second half of the
  judgement is a frame: capabilities, block version, time and libraries stay, and the sets of
  visited cells only grow.

  \<open>safe\<close> is the judgement of the prelude for this invariant.  This theory proves it for the
  primitives of the engine and for the micro-operations; the instructions follow by composition.
\<close>

section \<open>The invariant\<close>

fun item_ok :: "('c, 's, 'b) stack_item \<Rightarrow> bool"
  and cont_ok :: "('c, 's, 'b) continuation_data \<Rightarrow> bool" where
  "item_ok (Item_Continuation k) = cont_ok k"
| "item_ok (Item_Tuple xs) = (\<forall>x\<in>set xs. item_ok x)"
| "item_ok Item_None = True"
| "item_ok (Item_Builder b) = True"
| "item_ok (Item_Cell c) = True"
| "item_ok (Item_Integer i) = True"
| "item_ok (Item_Slice s) = True"
| "cont_ok (ContinuationData c n sl st ty) =
     (savelist_ok sl \<and> (\<forall>v\<in>set sl. \<forall>x\<in>set_option v. item_ok x) \<and> (\<forall>x\<in>set st. item_ok x))"

definition items_ok :: "('c, 's, 'b) stack_item list \<Rightarrow> bool" where
  "items_ok xs = (\<forall>x\<in>set xs. item_ok x)"

definition option_ok :: "('c, 's, 'b) stack_item option \<Rightarrow> bool" where
  "option_ok v = (\<forall>x\<in>set_option v. item_ok x)"

definition list_ok :: "('c, 's, 'b) save_list \<Rightarrow> bool" where
  "list_ok sl = (savelist_ok sl \<and> (\<forall>v\<in>set sl. option_ok v))"

definition committed_ok :: "('c, 's, 'b) committed_state \<Rightarrow> bool" where
  "committed_ok s = (committed s \<longrightarrow> is_ok (as_cell (c4 s)) \<and> is_ok (as_cell (c5 s)))"

definition engine_ok :: "('c, 's, 'b, 'h) engine \<Rightarrow> bool" where
  "engine_ok e = (cont_ok (cc e) \<and> list_ok (ctrls e) \<and> items_ok (vars (cmd e)) \<and> committed_ok (cstate e))"

definition frame :: "('c, 's, 'b, 'h) engine \<Rightarrow> ('c, 's, 'b, 'h) engine \<Rightarrow> bool" where
  "frame e e' = (capabilities e' = capabilities e \<and> block_version e' = block_version e \<and> time e' = time e \<and>
     libraries e' = libraries e \<and> visited_cells e \<subseteq> visited_cells e' \<and>
     dom (visited_exotic_cells e) \<subseteq> dom (visited_exotic_cells e'))"

fun error_ok :: "('c, 's, 'b) tvm_error \<Rightarrow> bool" where
  "error_ok (TvmExceptionFull ex) = item_ok (exc_value ex)"
| "error_ok _ = True"

definition result_ok :: "('a \<Rightarrow> bool) \<Rightarrow> ('c, 's, 'b) tvm_error + 'a \<Rightarrow> bool" where
  "result_ok V r = (case r of Inl er \<Rightarrow> error_ok er | Inr x \<Rightarrow> V x)"

abbreviation safe :: "('c, 's, 'b, 'h, 'a) action \<Rightarrow> ('a \<Rightarrow> bool) \<Rightarrow> bool" where
  "safe m V \<equiv> sound engine_ok frame error_ok m V"

abbreviation any :: "'a \<Rightarrow> bool" where
  "any \<equiv> \<lambda>_. True"

text \<open>What is asked of the crates: their errors carry no item of the machine, and dictionaries
  touch the machine only through the callbacks that load cells and finalize builders.\<close>

definition builders_ok :: "('c, 's, 'b) builder_ops \<Rightarrow> bool" where
  "builders_ok B \<longleftrightarrow>
     (\<forall>bytes n. result_ok any (with_raw B bytes n)) \<and>
     (\<forall>bytes n cs. result_ok any (with_raw_and_refs B bytes n cs)) \<and>
     (\<forall>x b. result_ok any (fst (append_builder B x b))) \<and>
     (\<forall>bytes n b. result_ok any (fst (append_raw B bytes n b))) \<and>
     (\<forall>v n b. result_ok any (fst (append_bits B v n b))) \<and>
     (\<forall>c b. result_ok any (fst (checked_append_reference B c b))) \<and>
     (\<forall>s b. result_ok any (fst (checked_append_references_and_data B s b))) \<and>
     (\<forall>b. result_ok any (builder_into_cell B b))"

definition slices_ok :: "('c, 's, 'b) slice_ops \<Rightarrow> bool" where
  "slices_ok S \<longleftrightarrow>
     (\<forall>s. result_ok any (fst (get_next_bit S s))) \<and>
     (\<forall>n s. result_ok any (fst (get_next_bits S n s))) \<and>
     (\<forall>n s. result_ok any (fst (get_next_bytes S n s))) \<and>
     (\<forall>n s. result_ok any (fst (get_next_slice S n s))) \<and>
     (\<forall>b. result_ok any (load_builder S b)) \<and>
     (\<forall>b. result_ok any (load_bitstring S b))"

definition consumer_ok :: "('c, 's, 'b, 'h) gas_consumer \<Rightarrow> bool" where
  "consumer_ok g \<longleftrightarrow> (\<forall>c. safe (consumer_load g c) any) \<and> (\<forall>b. safe (consumer_finalize g b) any)"

definition update_ok :: "('c, 's, 'b, 'h, 'v) dict_update \<Rightarrow> bool" where
  "update_ok upd \<longleftrightarrow> (\<forall>d k v g. consumer_ok g \<longrightarrow> safe (upd d k v g) any)"

definition updates_ok :: "('c, 's, 'b, 'h) update_ops \<Rightarrow> bool" where
  "updates_ok U \<longleftrightarrow>
     update_ok (set_with_gas U) \<and> update_ok (add_with_gas U) \<and> update_ok (replace_with_gas U) \<and>
     update_ok (set_builder_with_gas U) \<and> update_ok (add_builder_with_gas U) \<and> update_ok (replace_builder_with_gas U) \<and>
     update_ok (setref_with_gas U) \<and> update_ok (addref_with_gas U) \<and> update_ok (replaceref_with_gas U) \<and>
     update_ok (remove_with_gas U)"

definition searches_ok :: "('c, 's, 'b, 'h) search_ops \<Rightarrow> bool" where
  "searches_ok F \<longleftrightarrow> (\<forall>g. consumer_ok g \<longrightarrow>
     (\<forall>d k a b c. safe (find_leaf F d k a b c g) any) \<and>
     (\<forall>d a. safe (get_min F d a g) any) \<and>
     (\<forall>d a. safe (get_max F d a g) any) \<and>
     (\<forall>d k. safe (into_subtree_with_prefix F d k g) any) \<and>
     (\<forall>d k. safe (into_subtree_without_prefix F d k g) any))"

definition pfx_ok :: "('c, 's, 'b, 'h) pfx_ops \<Rightarrow> bool" where
  "pfx_ok P \<longleftrightarrow>
     (\<forall>d k. result_ok any (pfx_is_prefix P d k)) \<and>
     (\<forall>d k. result_ok any (pfx_get P d k)) \<and>
     (\<forall>d k g. consumer_ok g \<longrightarrow> safe (pfx_get_with_gas P d k g) any) \<and>
     (\<forall>d k g. consumer_ok g \<longrightarrow> safe (pfx_get_prefix_leaf_with_gas P d k g) any) \<and>
     update_ok (pfx_set_with_gas P) \<and> update_ok (pfx_replace_with_gas P) \<and> update_ok (pfx_remove_with_gas P)"

definition blocks_ok :: "('c, 's, 'b) block_ops \<Rightarrow> bool" where
  "blocks_ok K \<longleftrightarrow>
     (\<forall>s. result_ok any (is_masterchain K s)) \<and>
     (\<forall>n b. result_ok any (fst (append_u32 K n b))) \<and>
     (\<forall>s b. result_ok any (fst (append_bytestring K s b)))"

definition formats_ok :: "('c, 's, 'b, 'h) format_ops \<Rightarrow> bool" where
  "formats_ok F \<longleftrightarrow>
     (\<forall>h k b. result_ok any (set_builder F h k b)) \<and>
     (\<forall>h b. result_ok any (fst (write_hashmap_data F h b))) \<and>
     (\<forall>h. \<forall>er\<in>set_option (snd (hashmap_slices F h)). error_ok er) \<and>
     (\<forall>c. result_ok any (builder_from_cell F c)) \<and>
     (\<forall>s. result_ok any (fst (get_next_u32 F s)))"

definition ton_ok :: "('c, 's, 'b, 'h) ton \<Rightarrow> bool" where
  "ton_ok T \<longleftrightarrow>
     builders_ok (builders T) \<and> slices_ok (slices T) \<and> updates_ok (updates T) \<and> searches_ok (searches T) \<and>
     pfx_ok (pfx T) \<and> blocks_ok (blocks T) \<and> formats_ok (formats T) \<and>
     (\<forall>s i. result_ok any (slice_reference T s i)) \<and>
     (\<forall>s. result_ok any (fst (get_next_byte T s))) \<and>
     (\<forall>n s. result_ok any (fst (get_next_int T n s))) \<and>
     (\<forall>s. result_ok any (fst (get_next_hash T s))) \<and>
     (\<forall>n s. result_ok any (fst (move_by T n s))) \<and>
     (\<forall>c. result_ok any (slice_load_cell T c)) \<and>
     (\<forall>c. result_ok any (slice_load_cell_ref T c)) \<and>
     (\<forall>c i. result_ok any (cell_reference T c i)) \<and>
     (\<forall>n. result_ok any (key_i32 T n)) \<and>
     (\<forall>s. result_ok any (fst (checked_drain_reference T s))) \<and>
     (\<forall>h k load. (\<forall>c. safe (load c) any) \<longrightarrow> safe (hashmap_get_with_gas T h k load) any)"

section \<open>Items, save lists and results\<close>

named_theorems ok_simps \<open>the invariant on the data of the machine\<close>

lemma item_ok_simps [simp]:
  "item_ok (Item_Tuple xs) = items_ok xs"
  "cont_ok (ContinuationData c n sl st ty) = (list_ok sl \<and> items_ok st)"
  by (simp_all add: items_ok_def list_ok_def option_ok_def)

declare item_ok.simps(2) [simp del] cont_ok.simps [simp del]

lemma items_ok_simps [simp]:
  "items_ok []" "items_ok (x # xs) = (item_ok x \<and> items_ok xs)"
  "items_ok (xs @ ys) = (items_ok xs \<and> items_ok ys)" "items_ok (rev xs) = items_ok xs"
  by (auto simp: items_ok_def)

lemma items_ok_parts:
  "items_ok xs \<Longrightarrow> items_ok (take n xs)" "items_ok xs \<Longrightarrow> items_ok (drop n xs)"
  "items_ok xs \<Longrightarrow> items_ok (butlast xs)"
  "items_ok xs \<Longrightarrow> xs \<noteq> [] \<Longrightarrow> item_ok (last xs)" "items_ok xs \<Longrightarrow> xs \<noteq> [] \<Longrightarrow> item_ok (hd xs)"
  "items_ok xs \<Longrightarrow> i < length xs \<Longrightarrow> item_ok (xs ! i)"
  "items_ok xs \<Longrightarrow> item_ok x \<Longrightarrow> items_ok (xs[i := x])"
  "items_ok xs \<Longrightarrow> i < length xs \<Longrightarrow> j < length xs \<Longrightarrow> items_ok (list_swap i j xs)"
  "items_ok (view xs) = items_ok xs"
  unfolding items_ok_def list_swap_def view_def
  by (auto dest: in_set_takeD in_set_dropD in_set_butlastD dest!: subsetD [OF set_update_subset_insert])

lemma option_ok_simps [simp]: "option_ok None" "option_ok (Some x) = item_ok x"
  by (simp_all add: option_ok_def)

lemma list_ok_length: "list_ok sl \<Longrightarrow> length sl = 7"
  by (simp add: list_ok_def savelist_ok_def NUMREGS_def)

lemma list_ok_nth: "list_ok sl \<Longrightarrow> k < 7 \<Longrightarrow> option_ok (sl ! k)"
  using list_ok_length [of sl] by (simp add: list_ok_def)

lemma list_ok_new [simp]: "list_ok savelist_new"
  by (simp add: list_ok_def) (simp add: savelist_new_def)

lemma list_ok_update:
  assumes "list_ok sl" "i \<in> set REGS" "v = None \<or> (\<exists>x. v = Some x \<and> can_put i x \<and> item_ok x)"
  shows "list_ok (sl[adjust i := v])"
  using assms savelist_ok_update [of sl v i] unfolding list_ok_def
  by (auto dest!: subsetD [OF set_update_subset_insert])

lemma list_ok_beyond: "list_ok sl \<Longrightarrow> \<not> k < 7 \<Longrightarrow> sl[k := v] = sl"
  using list_ok_length [of sl] by (simp add: list_update_beyond)

lemma list_ok_remove: "list_ok sl \<Longrightarrow> list_ok (snd (savelist_remove i sl))"
proof -
  assume l: "list_ok sl"
  have "i \<in> set REGS \<or> i = 6 \<or> \<not> adjust i < 7" by (cases "i = 7") (auto simp: REGS_iff adjust_def)
  then show ?thesis
    using l list_ok_update [OF l, of i None] list_ok_update [OF l, of 7 None] list_ok_beyond [OF l, of "adjust i" None]
    by (elim disjE) (simp_all add: savelist_remove_def adjust_def REGS_iff)
qed

lemma list_ok_removed: "list_ok sl \<Longrightarrow> adjust i < 7 \<Longrightarrow> option_ok (fst (savelist_remove i sl))"
  by (simp add: savelist_remove_def list_ok_nth)

lemma list_ok_put:
  assumes "list_ok sl" "item_ok x" "savelist_put i x sl = Inr (old, sl')"
  shows "option_ok old" "list_ok sl'"
proof -
  have p: "can_put i x" "old = sl ! adjust i" "sl' = sl[adjust i := Some x]"
    using assms(3) by (auto simp: savelist_put_def check_can_put_def put_opt_def split: if_splits)
  then show "option_ok old" using assms(1) by (simp add: list_ok_nth adjust_less can_put_REGS)
  show "list_ok sl'" using p list_ok_update [OF assms(1) can_put_REGS [OF p(1)]] assms(2) by auto
qed

lemma savelist_put_error: "savelist_put i x sl = Inl er \<Longrightarrow> er = exc TypeCheckError"
  by (auto simp: savelist_put_def check_can_put_def err_def split: if_splits)

lemma list_ok_apply:
  assumes "list_ok a" "list_ok b"
  shows "list_ok (fst (savelist_apply a b))" "list_ok (snd (savelist_apply a b))"
proof -
  have "\<forall>v\<in>set (fst (savelist_apply a b)). option_ok v"
    using list_ok_length [OF assms(1)] list_ok_length [OF assms(2)] list_ok_nth [OF assms(1)] list_ok_nth [OF assms(2)]
    by (auto simp: savelist_apply_eq set_zip split: option.splits) (metis option_ok_simps(2))
  then show "list_ok (fst (savelist_apply a b))" "list_ok (snd (savelist_apply a b))"
    using assms savelist_apply_ok [of a b] by (auto simp: list_ok_def) (auto simp: savelist_new_def)
qed

lemma cont_ok_iff: "cont_ok k = (list_ok (savelist_of k) \<and> items_ok (stack_of k))"
  by (cases k) simp

lemma cont_ok_set [simp]:
  "cont_ok (set_code c k) = cont_ok k" "cont_ok (set_nargs n k) = cont_ok k"
  "cont_ok (set_type ty k) = cont_ok k"
  "cont_ok k \<Longrightarrow> cont_ok (set_stack st k) = items_ok st"
  "cont_ok k \<Longrightarrow> cont_ok (set_savelist sl k) = list_ok sl"
  "cont_ok (with_type s ty)" "cont_ok (new_empty s)" "cont_ok (with_code s)"
  "cont_ok k \<Longrightarrow> cont_ok (copy_without_stack k)"
  by (simp_all add: cont_ok_iff with_type_def new_empty_def with_code_def copy_without_stack_def)

lemma result_ok_simps [simp]: "result_ok V (Inl er) = error_ok er" "result_ok V (Inr x) = V x"
  by (simp_all add: result_ok_def)

lemma error_ok_exc [simp]: "error_ok (exc c)" "result_ok V (err c)" "result_ok any (lift_code r)"
  by (auto simp: exc_def from_code_def from_code_and_value_def err_def lift_code_def map_err_def result_ok_def
    split: sum.splits)

lemma as_ok [simp]:
  "result_ok any (as_bool x)" "result_ok any (as_builder x)" "result_ok any (as_cell x)"
  "result_ok any (as_dict x)" "result_ok any (as_integer x)" "result_ok any (as_slice x)"
  "item_ok x \<Longrightarrow> result_ok cont_ok (as_continuation x)"
  "item_ok x \<Longrightarrow> result_ok items_ok (as_tuple x)"
  by (cases x; simp)+

lemma result_ok_bind:
  "result_ok U r \<Longrightarrow> (\<And>x. U x \<Longrightarrow> result_ok V (f x)) \<Longrightarrow> result_ok V (bindR r f)"
  by (cases r) auto

lemma result_ok_weaken: "result_ok U r \<Longrightarrow> (\<And>x. U x \<Longrightarrow> V x) \<Longrightarrow> result_ok V r"
  by (cases r) auto

section \<open>The judgement\<close>

interpretation machine: judgement engine_ok frame error_ok
  by unfold_locales (simp_all add: frame_def, blast)

lemma frame_refl [simp]: "frame e e"
  by (rule machine.R_refl)

named_theorems safe \<open>instructions and micro-operations keep the invariant\<close>

text \<open>The rules are applied backwards: the rule of a computation determines what is known of its
  result, and a result of which nothing is needed has the trivial predicate.\<close>

lemma safe_bind [safe]: "safe m U \<Longrightarrow> (\<And>x. U x \<Longrightarrow> safe (f x) V) \<Longrightarrow> safe (bindE m f) V"
  by (rule machine.sound_bind)

lemma safe_then [safe]: "safe m U \<Longrightarrow> safe n V \<Longrightarrow> safe (thenE m n) V"
  by (rule machine.sound_then)

lemma safe_when [safe]: "(b \<Longrightarrow> safe m any) \<Longrightarrow> safe (whenE b m) any"
  by (rule machine.sound_when) simp_all

lemma safe_if [safe]: "(b \<Longrightarrow> safe m V) \<Longrightarrow> (\<not> b \<Longrightarrow> safe n V) \<Longrightarrow> safe (if b then m else n) V"
  by simp

lemma safe_seq [safe]: "safe (seqE []) any" "safe m any \<Longrightarrow> safe (seqE ms) any \<Longrightarrow> safe (seqE (m # ms)) any"
  by (auto intro: machine.sound_return machine.sound_then)

lemma safe_return [safe]: "safe (returnE x) any"
  by (rule machine.sound_return) simp

lemma safe_returnI: "V x \<Longrightarrow> safe (returnE x) V"
  by (rule machine.sound_return)

lemma safe_throw: "error_ok er \<Longrightarrow> safe (throwE er) V"
  by (rule machine.sound_throw)

lemma safe_throws [safe]:
  "safe (throwE OtherError) V" "safe (throwE Panic) V" "safe (throwE OutOfFuel) V" "safe (throwE FatalError) V"
  "safe (throwE (CodeError c)) V" "safe (errE c) V"
  by (auto intro!: safe_throw simp: errE_def)

lemma safe_guard [safe]: "safe (guardE b c) any"
  by (simp add: guardE_def safe_return safe_throws)

lemma safe_lift: "result_ok V r \<Longrightarrow> safe (liftE r) V"
  by (rule machine.sound_lift) (simp add: result_ok_def)

lemma safe_weaken: "safe m U \<Longrightarrow> (\<And>x. U x \<Longrightarrow> V x) \<Longrightarrow> safe m V"
  by (rule machine.sound_weaken)

lemma safe_any: "safe m U \<Longrightarrow> safe m any"
  by (rule machine.sound_weaken) simp_all

lemma safe_repeat: "(\<And>x. safe (f x) any) \<Longrightarrow> safe (repeatE n f x) any"
  by (rule machine.sound_repeat) simp_all

lemma safe_modify:
  assumes "\<And>e. engine_ok e \<Longrightarrow> engine_ok (g e)" "\<And>e. frame e (g e)"
  shows "safe (modifyE g) any"
  by (rule machine.sound_modify) (simp_all add: assms)

lemma safe_state:
  assumes "\<And>e. engine_ok e \<Longrightarrow> result_ok V (fst (m e)) \<and> engine_ok (snd (m e)) \<and> frame e (snd (m e))"
  shows "safe m V"
  using assms unfolding sound_def result_ok_def by blast

lemma safe_case_option [safe]:
  "(x = None \<Longrightarrow> safe m V) \<Longrightarrow> (\<And>y. x = Some y \<Longrightarrow> safe (f y) V) \<Longrightarrow> safe (case x of None \<Rightarrow> m | Some y \<Rightarrow> f y) V"
  by (cases x) simp_all

lemma safe_case_prod [safe]: "(\<And>a b. p = (a, b) \<Longrightarrow> safe (f a b) V) \<Longrightarrow> safe (case p of (a, b) \<Rightarrow> f a b) V"
  by (cases p) simp

lemma safe_Let [safe]: "safe (f x) V \<Longrightarrow> safe (let y = x in f y) V"
  by simp

lemma safe_ext:
  "result_ok U (fst p) \<Longrightarrow> (\<And>x s. U x \<Longrightarrow> safe (f x s) V) \<Longrightarrow>
   safe (case p of (Inl er, _) \<Rightarrow> throwE er | (Inr x, s) \<Rightarrow> f x s) V"
  by (cases p; cases "fst p") (auto intro: safe_throw)

lemma safe_unwrap [safe]: "safe (unwrapE x) any"
  by (simp add: unwrapE_def safe_throws safe_return split: option.split)

lemmas engine_simps = engine_ok_def frame_def

section \<open>Primitives of the engine\<close>

lemma engine_ok_upd_stack: "engine_ok e \<Longrightarrow> items_ok st \<Longrightarrow> engine_ok (upd_stack (\<lambda>_. st) e)"
  by (simp add: engine_ok_def upd_stack_def)

lemma frame_upd_stack [simp]: "frame e (upd_stack f e)"
  by (simp add: frame_def upd_stack_def)

lemma upd_stack_value: "upd_stack f e = upd_stack (\<lambda>_. f (cc_stack e)) e"
  by (simp add: upd_stack_def cc_stack_def)

lemma cc_stack_ok: "engine_ok e \<Longrightarrow> items_ok (cc_stack e)"
  by (simp add: engine_ok_def cc_stack_def cont_ok_iff)

lemma safe_upd_stack [safe]:
  assumes "\<And>st. items_ok st \<Longrightarrow> items_ok (f st)"
  shows "safe (modifyE (upd_stack f) :: ('c, 's, 'b, 'h) handler) any"
proof (rule safe_state)
  fix e :: "('c, 's, 'b, 'h) engine"
  assume e: "engine_ok e"
  then have "engine_ok (upd_stack f e)"
    unfolding upd_stack_value [of f] by (intro engine_ok_upd_stack assms cc_stack_ok)
  then show "result_ok any (fst (modifyE (upd_stack f) e)) \<and> engine_ok (snd (modifyE (upd_stack f) e)) \<and>
      frame e (snd (modifyE (upd_stack f) e))" by simp
qed

lemma safe_from_stack:
  assumes "\<And>st. items_ok st \<Longrightarrow> result_ok (\<lambda>(x, st'). V x \<and> items_ok st') (f st)"
  shows "safe (from_stack f :: ('c, 's, 'b, 'h, 'a) action) V"
proof (rule safe_state)
  fix e :: "('c, 's, 'b, 'h) engine"
  assume e: "engine_ok e"
  then show "result_ok V (fst (from_stack f e)) \<and> engine_ok (snd (from_stack f e)) \<and> frame e (snd (from_stack f e))"
    using assms [OF cc_stack_ok [OF e]]
    by (cases "f (cc_stack e)") (auto simp: from_stack_def engine_ok_upd_stack)
qed

lemma safe_on_stack:
  assumes "\<And>st. items_ok st \<Longrightarrow> result_ok items_ok (f st)"
  shows "safe (on_stack f :: ('c, 's, 'b, 'h) handler) any"
proof (rule safe_state)
  fix e :: "('c, 's, 'b, 'h) engine"
  assume e: "engine_ok e"
  then show "result_ok any (fst (on_stack f e)) \<and> engine_ok (snd (on_stack f e)) \<and> frame e (snd (on_stack f e))"
    using assms [OF cc_stack_ok [OF e]]
    by (cases "f (cc_stack e)") (auto simp: on_stack_def engine_ok_upd_stack)
qed

lemma items_ok_push [simp]: "items_ok (push x st) = (items_ok st \<and> item_ok x)"
  by (auto simp: push_def)

lemma items_ok_drop_top [simp]: "items_ok st \<Longrightarrow> items_ok (drop_top n st)"
  by (simp add: drop_top_def items_ok_parts)

lemma stack_results_ok [simp]:
  assumes "items_ok st"
  shows "result_ok (\<lambda>(x, st'). item_ok x \<and> items_ok st') (stack_drop i st)"
    "result_ok (\<lambda>(xs, st'). items_ok xs \<and> items_ok st') (drop_range a b st)"
    "result_ok (\<lambda>(xs, st'). items_ok xs \<and> items_ok st') (drop_range_straight a b st)"
    "result_ok items_ok (block_swap i j st)"
    "result_ok item_ok (stack_get i st)"
    "result_ok items_ok (push_copy i st)"
    "result_ok items_ok (stack_swap i j st)"
proof -
  show drop: "result_ok (\<lambda>(x, st'). item_ok x \<and> items_ok st') (stack_drop i st)"
    using assms by (simp add: stack_drop_def Let_def depth_def items_ok_parts)
  show range: "result_ok (\<lambda>(xs, st'). items_ok xs \<and> items_ok st') (drop_range a b st)" for a b
    using assms by (simp add: drop_range_def items_ok_parts)
  show "result_ok (\<lambda>(xs, st'). items_ok xs \<and> items_ok st') (drop_range_straight a b st)"
    using assms by (simp add: drop_range_straight_def Let_def items_ok_parts)
  show "result_ok items_ok (block_swap i j st)"
    unfolding block_swap_def using range [of j "j + i"]
    by (auto intro!: result_ok_bind [OF range] simp: push_popped_eq)
  show "result_ok items_ok (stack_swap i j st)"
    using assms by (auto simp: stack_swap_def depth_def intro!: items_ok_parts(8))
qed (use assms in \<open>simp_all add: stack_get_def push_copy_def depth_def items_ok_parts\<close>)

lemma fold_swap_ok:
  "items_ok xs \<Longrightarrow> \<forall>i\<in>set ns. f i < length xs \<and> g i < length xs \<Longrightarrow>
   items_ok (fold (\<lambda>i. list_swap (f i) (g i)) ns xs)"
  by (induction ns arbitrary: xs) (simp_all add: items_ok_parts)

lemma reverse_range_ok [simp]: "items_ok st \<Longrightarrow> result_ok items_ok (reverse_range a b st)"
  by (auto simp: reverse_range_def depth_def intro!: fold_swap_ok)

lemma push_copies_ok [simp]: "items_ok st \<Longrightarrow> result_ok items_ok (push_copies n i st)"
  by (induction n arbitrary: st) (auto intro!: result_ok_bind [of items_ok])

lemma safe_stack_depth [safe]: "safe stack_depth any"
  by (simp add: stack_depth_def machine.sound_get)

lemma safe_push_item [safe]: "item_ok x \<Longrightarrow> safe (push_item x) any"
  unfolding push_item_def by (rule safe_upd_stack) simp

lemma safe_set_stack_item [safe]: "item_ok x \<Longrightarrow> safe (set_stack_item i x) any"
  unfolding set_stack_item_def by (rule safe_on_stack) (simp add: items_ok_parts)

lemma safe_getE: "(\<And>e. engine_ok e \<Longrightarrow> V (f e)) \<Longrightarrow> safe (getE f) V"
  by (rule machine.sound_get)

lemma safe_get_cc_stack [safe]: "safe (getE cc_stack) items_ok"
  by (rule safe_getE) (rule cc_stack_ok)

lemma safe_get_cc [safe]: "safe (getE cc) cont_ok"
  by (rule safe_getE) (simp add: engine_ok_def)

lemma safe_get_any: "safe (getE f) any"
  by (rule safe_getE) simp

section \<open>Parameters, variables, gas and registers\<close>

lemma safe_cmd_params [safe]:
  "safe (cmd_param f) any" "safe cmd_creg any" "safe cmd_division_mode any" "safe cmd_integer any"
  "safe cmd_has_length any" "safe cmd_length any" "safe cmd_nargs any" "safe cmd_pargs any"
  "safe cmd_rargs any" "safe cmd_slice any" "safe cmd_sreg any" "safe cmd_sregs any" "safe cmd_sregs3 any"
  "safe cmd_length_and_index any" "safe var_count any"
  unfolding cmd_param_def cmd_creg_def cmd_division_mode_def cmd_integer_def cmd_has_length_def
    cmd_length_def cmd_nargs_def cmd_pargs_def cmd_rargs_def cmd_slice_def cmd_sreg_def cmd_sregs_def
    cmd_sregs3_def cmd_length_and_index_def var_count_def
  by (rule safe safe_get_any)+

lemma safe_vars [safe]:
  "safe (cmd_var i) item_ok" "safe last_var item_ok" "safe pop_var item_ok"
  "item_ok x \<Longrightarrow> safe (set_var i x) any" "item_ok x \<Longrightarrow> safe (push_var x) any"
  "items_ok xs \<Longrightarrow> safe (append_vars xs) any" "safe (push_param p) any" "safe (set_proto_name n) any"
  unfolding cmd_var_def last_var_def pop_var_def set_var_def push_var_def append_vars_def push_param_def
    set_proto_name_def
  by (rule safe_state; simp add: engine_simps items_ok_parts)+

lemma safe_gas [safe]: "safe (engine_use_gas n) any" "safe (try_use_gas n) any"
  unfolding engine_use_gas_def try_use_gas_def gas_try_use_gas_def check_gas_remaining_def
  by (rule safe_state; simp add: engine_simps from_code_and_value_def Let_def)+

lemma safe_capability [safe]: "safe (check_capability T c) any" "safe (check_or_set_flags f) any"
  unfolding check_capability_def check_or_set_flags_def by (rule safe_state; simp add: engine_simps)+

text \<open>Index 6 reads the slot of the register 7.\<close>

definition slot_ok :: "nat \<Rightarrow> ('c, 's, 'b) stack_item option \<Rightarrow> bool" where
  "slot_ok i v = (option_ok v \<and> (\<forall>x. v = Some x \<longrightarrow> can_put (if i = 6 then 7 else i) x))"

lemma savelist_put_result:
  "list_ok sl \<Longrightarrow> item_ok x \<Longrightarrow> result_ok (\<lambda>(old, sl'). option_ok old \<and> list_ok sl') (savelist_put i x sl)"
  by (cases "savelist_put i x sl") (auto dest: list_ok_put savelist_put_error)

lemma slot_ok_nth:
  assumes "list_ok sl" "adjust i < 7"
  shows "slot_ok i (sl ! adjust i)"
proof -
  let ?r = "if i = 6 then 7 else i"
  have "?r \<in> set REGS" "adjust ?r = adjust i" using assms(2) by (auto simp: adjust_def REGS_iff split: if_splits)
  then show ?thesis
    using savelist_okD(2) [of sl ?r] assms list_ok_nth [OF assms] by (simp add: slot_ok_def list_ok_def)
qed

lemma savelist_get_ok: "list_ok sl \<Longrightarrow> result_ok (slot_ok i) (savelist_get i sl)"
  using list_ok_length [of sl] slot_ok_nth [of sl i] by (simp add: savelist_get_def)

lemma safe_ctrl_get [safe]: "safe (ctrl_get i) (slot_ok i)"
  unfolding ctrl_get_def by (rule safe_state) (simp add: savelist_get_ok engine_ok_def)

lemma safe_engine_ctrl [safe]: "safe (engine_ctrl i) (\<lambda>x. slot_ok i (Some x))"
  unfolding engine_ctrl_def by (rule safe | rule safe_returnI | simp)+

lemma safe_set_ctrl: "item_ok x \<Longrightarrow> can_put i x \<Longrightarrow> safe (set_ctrl i x) any"
  unfolding set_ctrl_def using list_ok_update [OF _ can_put_REGS [of i x], of _ "Some x"]
  by (intro safe_modify) (auto simp: engine_simps)

lemma safe_ctrls_put_opt: "item_ok x \<Longrightarrow> can_put i x \<Longrightarrow> safe (ctrls_put_opt i x) any"
  using safe_set_ctrl [of x i] by (simp add: ctrls_put_opt_def set_ctrl_def put_opt_def)

lemma safe_ctrls_put [safe]: "item_ok x \<Longrightarrow> safe (ctrls_put i x) option_ok"
  unfolding ctrls_put_def
proof (rule safe_state, goal_cases)
  case (1 e)
  then show ?case using savelist_put_result [of "ctrls e" x i]
    by (cases "savelist_put i x (ctrls e)") (auto simp: engine_simps)
qed

lemma safe_ctrls_remove [safe]: "adjust i < 7 \<Longrightarrow> safe (ctrls_remove i) (slot_ok i)"
  unfolding ctrls_remove_def
  by (rule safe_state) (simp add: engine_simps list_ok_remove, simp add: savelist_remove_def slot_ok_nth)

lemma safe_commit [safe]: "safe commit any"
  unfolding commit_def
  by (rule safe_modify)
    (auto simp: engine_simps committed_ok_def committed_with_params_def committed_new_empty_def can_put_def)

lemma safe_cc_code [safe]: "safe (set_cc_code c) any"
  unfolding set_cc_code_def by (rule safe_modify) (simp_all add: engine_simps)

lemma safe_upd_cc: "(\<And>k. cont_ok k \<Longrightarrow> cont_ok (f k)) \<Longrightarrow> safe (upd_cc f) any"
  unfolding upd_cc_def by (rule safe_modify) (simp_all add: engine_simps)

section \<open>Decoding\<close>

lemma ton_ok_results:
  assumes "ton_ok T"
  shows "result_ok any (slice_reference T s i)" "result_ok any (fst (get_next_byte T s))"
    "result_ok any (fst (get_next_int T n s))" "result_ok any (fst (get_next_hash T s))"
    "result_ok any (fst (move_by T n s))" "result_ok any (slice_load_cell T c)"
    "result_ok any (slice_load_cell_ref T c)" "result_ok any (cell_reference T c i)" "result_ok any (key_i32 T j)"
    "result_ok any (fst (checked_drain_reference T s))"
  using assms by (simp_all add: ton_ok_def)

lemma safe_hashmap: "ton_ok T \<Longrightarrow> (\<And>c. safe (load c) any) \<Longrightarrow> safe (hashmap_get_with_gas T h k load) any"
  by (simp add: ton_ok_def)

lemma safe_next_cmd [safe]: "safe (next_cmd T) any"
  unfolding next_cmd_def
  by (rule safe_state) (auto simp: engine_simps split: prod.split sum.split)

lemma safe_get_last_cmd [safe]: "safe get_last_cmd any"
  unfolding get_last_cmd_def by (rule safe_get_any)

lemma safe_cmd_code [safe]: "ton_ok T \<Longrightarrow> safe (cmd_code T) any"
  unfolding cmd_code_def
  by (rule safe_state) (auto intro!: result_ok_bind [of any] simp: ton_ok_results Let_def split: option.split)

lemma safe_basic_use_gas [safe]: "safe (basic_use_gas T n) any"
  unfolding basic_use_gas_def engine_use_gas_def by (rule safe_state) (simp add: engine_simps)

lemma slice_next_int_ok: "ton_ok T \<Longrightarrow> result_ok any (slice_next_int T n sl)"
  using ton_ok_results(3) [of T n sl] by (auto simp: slice_next_int_def split: prod.split sum.split)

lemma safe_extract_slice [safe]: "ton_ok T \<Longrightarrow> safe (extract_slice T a b c d f) any"
  unfolding extract_slice_def by (rule safe safe_lift slice_next_int_ok | assumption)+

lemma safe_octets [safe]: "safe m any \<Longrightarrow> safe (from_big_endian_octet_stream m) any"
proof -
  assume m: "safe m any"
  have digits: "safe (read_digits m n) any" for n
    by (induction n; unfold read_digits.simps read_digit_def; (rule safe m | assumption)+)
  show ?thesis unfolding from_big_endian_octet_stream_def push_octet_def
    by (rule safe safe_repeat m digits)+
qed

lemma command_name_ok [simp]: "result_ok any (command_name mode)"
  by (auto simp: command_name_def Let_def intro!: result_ok_bind [of any])

lemma safe_extract [safe]:
  "safe (extract_integer T lo hi) any" "safe (extract_length T lo' hi') any"
  "safe (extract_length_minus_one T lo' hi') any" "safe (extract_stack_register T lo' hi') any"
  "safe (push_pair T i j) any" "safe (push_trio T i j k) any" "safe (extract_trio T place) any"
  "safe (push_length_and_index i j) any" "safe (extract_division_mode T) any"
  unfolding extract_integer_def extract_length_def push_length_def extract_length_minus_one_def
    extract_stack_register_def push_pair_def push_trio_def extract_trio_def push_length_and_index_def
    extract_division_mode_def
  by (rule safe safe_lift command_name_ok)+

lemma safe_extract_pair [safe]: "safe (extract_pair T place) any"
  unfolding extract_pair_def by (cases place) (simp_all, (rule safe)+)

lemma safe_extract_dictionary [safe]: "ton_ok T \<Longrightarrow> safe (extract_dictionary T offset n) any"
  unfolding extract_dictionary_def by (rule safe safe_ext ton_ok_results | assumption)+

lemma safe_extract_options [safe]: "ton_ok T \<Longrightarrow> safe (extract_options T opts) any"
  unfolding extract_options_def by (cases opts; simp only: instruction_options.case; (rule safe | assumption)+)

lemma safe_load_instruction [safe]: "ton_ok T \<Longrightarrow> safe (load_instruction T p) any"
  unfolding load_instruction_def
proof (rule safe_then, rule safe_modify)
  assume T: "ton_ok T"
  show "safe (extract_instruction T) any"
    by (rule safe_state)
      (use safe_extract_options [OF T] safe_basic_use_gas [of T 0] in
        \<open>auto simp: extract_instruction_def sound_def result_ok_def split: option.split\<close>)
qed (simp_all add: engine_simps)

section \<open>Loading cells\<close>

lemma safe_with_object: "result_ok any (fst (f sl)) \<Longrightarrow> safe (with_object f sl) any"
  unfolding with_object_def by (rule safe_ext) (assumption, rule safe)

lemma safe_finalize_cell [safe]: "safe (finalize_cell T b) any"
  unfolding finalize_cell_def map_err_def by (rule safe safe_lift | simp split: sum.split)+

lemmas cell_rules = safe_lift safe_with_object ton_ok_results safe_hashmap safe_get_any

lemma safe_find_library:
  assumes "ton_ok T" "\<And>c. safe (load c) any"
  shows "safe (find_library T load key ls) any"
  by (induction ls; unfold find_library.simps; (rule safe cell_rules assms | assumption)+)

lemma safe_load_library_cell: "ton_ok T \<Longrightarrow> (\<And>c. safe (load c) any) \<Longrightarrow> safe (load_library_cell T load cell) any"
  unfolding load_library_cell_def by (rule safe cell_rules safe_find_library | assumption)+

lemma safe_resolve_merkle [safe]:
  "ton_ok T \<Longrightarrow> safe (resolve_merkle_proof T cell) any" "ton_ok T \<Longrightarrow> safe (resolve_merkle_update T cell) any"
  unfolding resolve_merkle_proof_def resolve_merkle_update_def by (rule safe cell_rules | assumption)+

lemma safe_if_state [safe]: "safe m V \<Longrightarrow> safe n V \<Longrightarrow> safe (\<lambda>e. if P e then m e else n e) V"
  unfolding sound_def by simp

lemma safe_option_state [safe]:
  "safe m V \<Longrightarrow> (\<And>y. safe (f y) V) \<Longrightarrow> safe (\<lambda>e. case h e of None \<Rightarrow> m e | Some y \<Rightarrow> f y e) V"
  unfolding sound_def by (auto split: option.split)

lemma safe_resolve_exotic:
  "ton_ok T \<Longrightarrow> (\<And>c. safe (load c) any) \<Longrightarrow> safe (resolve_exotic T load cell) any"
  unfolding resolve_exotic_def
  by (cases "cell_type_of T cell"; simp only: cell_type.case; (rule safe safe_load_library_cell | assumption)+)

lemma safe_visit: "safe (modifyE (\<lambda>e. e \<lparr> visited_cells := insert h (visited_cells e) \<rparr>)) any"
  by (rule safe_modify) (auto simp: engine_simps)

lemma safe_load_plain_cell [safe]: "ton_ok T \<Longrightarrow> safe (load_plain_cell T cell) any"
  unfolding load_plain_cell_def by (rule safe safe_visit cell_rules | assumption)+

lemma dom_fold_update: "dom m \<subseteq> dom (fold (\<lambda>h m. m(h \<mapsto> sl)) hs m)"
proof (induction hs arbitrary: m)
  case (Cons h hs)
  have "dom m \<subseteq> dom (m(h \<mapsto> sl))" by auto
  also have "\<dots> \<subseteq> dom (fold (\<lambda>h m. m(h \<mapsto> sl)) hs (m(h \<mapsto> sl)))" by (rule Cons.IH)
  finally show ?case by (simp only: fold_Cons comp_def)
qed simp

lemma safe_remember_exotic [safe]: "safe (remember_exotic hs sl) any"
  unfolding remember_exotic_def
  by (rule safe_then, rule safe_modify) (simp_all add: engine_simps dom_fold_update safe_return)

lemma safe_load_cell_loop: "ton_ok T \<Longrightarrow> safe (load_cell_loop n T special hashes cell) any"
  by (induction n arbitrary: special hashes cell; unfold load_cell_loop.simps;
    (rule safe safe_resolve_exotic | assumption)+)

lemma safe_load_cell [safe]: "ton_ok T \<Longrightarrow> safe (load_hashed_cell T cell special) any" "ton_ok T \<Longrightarrow> safe (load_cell T cell) any"
  using safe_load_cell_loop [of T] unfolding load_cell_def load_hashed_cell_def sound_def by simp_all

section \<open>Micro-operations\<close>

text \<open>A register that was seen to hold a continuation may hold any other.\<close>

definition cont_address :: "u16 \<Rightarrow> bool" where
  "cont_address a = (address_tag a = VAR \<or> storage_index a \<in> {0, 1, 2, 3})"

lemma slot_cont: "slot_ok i (Some (Item_Continuation k)) \<Longrightarrow> i \<in> {0, 1, 2, 3} \<and> cont_ok k"
  by (auto simp: slot_ok_def can_put_def split: if_splits)

lemma can_put_cont [simp]: "can_put i (Item_Continuation k) = (i \<in> {0, 1, 2, 3})"
  by (simp add: can_put_def)

lemma safe_continuation_by_address [safe]:
  "safe (continuation_by_address a) (\<lambda>k. cont_ok k \<and> cont_address a)"
proof -
  have cast: "safe (liftE (as_continuation x)) (\<lambda>k. cont_ok k \<and> cont_address a)"
    if "item_ok x" "address_tag a = VAR \<or> slot_ok (storage_index a) (Some x)" for x
    using that by (intro safe_lift, cases x) (auto simp: cont_address_def dest: slot_cont)
  have item: "safe (item_by_address a) (\<lambda>x. item_ok x \<and> (address_tag a = VAR \<or> slot_ok (storage_index a) (Some x)))"
    unfolding item_by_address_def
    by (rule safe_if, rule safe_weaken, rule safe)
      ((rule safe safe_returnI | simp add: slot_ok_def)+)
  show ?thesis unfolding continuation_by_address_def by (rule safe_bind [OF item]) (auto intro: cast)
qed

lemma safe_set_continuation_by_address [safe]:
  "cont_ok k \<Longrightarrow> cont_address a \<Longrightarrow> safe (set_continuation_by_address a k) any"
  unfolding set_continuation_by_address_def cont_address_def
  by (rule safe safe_set_ctrl | auto)+

lemma move_items_ok:
  "items_ok src \<Longrightarrow> items_ok peer \<Longrightarrow> result_ok (\<lambda>(a, b). items_ok a \<and> items_ok b) (move_items x y src peer)"
  by (auto simp: move_items_def items_ok_parts intro!: result_ok_bind [OF stack_results_ok(3)])

lemma safe_lift_cont [safe]: "item_ok x \<Longrightarrow> safe (liftE (as_continuation x)) cont_ok"
  by (rule safe_lift) simp

lemma safe_lift_tuple [safe]: "item_ok x \<Longrightarrow> safe (liftE (as_tuple x)) items_ok"
  by (rule safe_lift) simp

lemma safe_lift_as [safe]:
  "safe (liftE (as_bool x)) any" "safe (liftE (as_builder x)) any" "safe (liftE (as_cell x)) any"
  "safe (liftE (as_dict x)) any" "safe (liftE (as_integer x)) any" "safe (liftE (as_slice x)) any"
  "safe (liftE (lift_code r)) any" "safe (liftE (as_int_in t lo hi x)) any" "safe (liftE (as_small_integer x)) any"
  by (rule safe_lift; auto simp: as_int_in_def as_small_integer_def intro!: result_ok_bind [of any])+

lemma safe_move_stack_from_cc [safe]: "safe (move_stack_from_cc dst start stop) any"
  unfolding move_stack_from_cc_def Let_def
  by (rule safe safe_lift move_items_ok | auto simp: cont_ok_iff)+

lemma safe_info_item [safe]: "safe (info_item i) item_ok" "item_ok x \<Longrightarrow> safe (info_set_item i x) any"
  unfolding info_item_def info_set_item_def by (rule safe | assumption)+

lemma slot_ok_item: "slot_ok i v \<Longrightarrow> option_ok v"
  by (simp add: slot_ok_def)

lemma safe_info_list [safe]: "safe (info_list i) list_ok"
  unfolding info_list_def Let_def
  by (rule safe safe_getE safe_returnI | auto simp: engine_ok_def cont_ok_iff slot_ok_def)+

lemma safe_set_cont_ctrl:
  assumes "slot_ok i (Some x)" "\<And>k. cont_ok k \<Longrightarrow> cont_ok (f k)"
  shows "safe (bindE (liftE (as_continuation x)) (\<lambda>k. set_ctrl i (Item_Continuation (f k)))) any"
proof (cases x)
  case (Item_Continuation k)
  then show ?thesis using assms slot_cont [of i k] by (auto intro!: safe_set_ctrl)
qed (auto simp: err_def intro: safe_throw)

lemma safe_info_set_list [safe]: "list_ok sl \<Longrightarrow> safe (info_set_list i sl) any"
  unfolding info_set_list_def Let_def
  by (rule safe_set_cont_ctrl safe safe_upd_cc safe_modify | auto simp: engine_simps)+

lemma safe_info_get [safe]: "safe (info_get i) option_ok"
  unfolding info_get_def by (rule safe safe_lift result_ok_weaken [OF savelist_get_ok] slot_ok_item | assumption)+

lemma safe_put_to_list [safe]: "item_ok y \<Longrightarrow> safe (put_to_list x y) option_ok"
  unfolding put_to_list_def by (rule safe safe_lift savelist_put_result safe_returnI | auto)+

lemma safe_put_to_list_from [safe]:
  "safe (put_to_list_from_item x y) option_ok" "safe (put_to_list_from_list x y) option_ok"
  unfolding put_to_list_from_item_def put_to_list_from_list_def
  by (rule safe | auto simp: list_ok_remove)+

lemma safe_swap_with_list [safe]: "safe (swap_with_list x y) any" "safe (swap_between_lists x y) any"
  unfolding swap_with_list_def swap_between_lists_def
  by (rule safe | auto split: option.splits)+

lemma safe_swap_cc_with [safe]: "safe (swap_cc_with a) any"
  unfolding swap_cc_with_def by (rule safe safe_modify | auto simp: engine_simps)+

lemma safe_swap_vars [safe]: "safe (swap_vars i j) any"
  unfolding swap_vars_def by (rule safe_state) (simp add: engine_simps items_ok_parts)

lemma safe_swap [safe]: "safe (swap a b) any"
  unfolding swap_def swap_ordered_def Let_def by (rule safe)+

lemma safe_apply_savelist [safe]: "safe apply_savelist any"
  unfolding apply_savelist_def
proof (rule safe_modify, goal_cases)
  case (1 e)
  then show ?case
    using list_ok_apply [of "ctrls e" "savelist_of (cc e)"]
    by (auto simp: engine_ok_def cont_ok_iff split: prod.split)
qed (simp add: engine_simps split: prod.split)

lemma safe_apply_savelist_excluding [safe]: "safe apply_savelist_excluding_c0_c1 any"
  unfolding apply_savelist_excluding_c0_c1_def
  by (rule safe safe_upd_cc | simp add: cont_ok_iff list_ok_remove)+

lemma safe_copy_to_var [safe]: "safe (copy_to_var src) any"
proof -
  have a: "safe (bindE (ctrl_get i) (\<lambda>x. returnE (case x of Some v \<Rightarrow> v | None \<Rightarrow> Item_None))) item_ok" for i
    by (rule safe safe_returnI | auto simp: slot_ok_def split: option.split)+
  have b: "safe (bindE (getE cc_stack) (\<lambda>st. liftE (stack_get i st))) item_ok" for i
    by (rule safe safe_lift stack_results_ok | assumption)+
  have c: "safe (getE (\<lambda>e. Item_Continuation (copy_without_stack (cc e)))) item_ok"
    by (rule safe_getE) (simp add: engine_ok_def)
  show ?thesis unfolding copy_to_var_def Let_def
    by (rule safe_bind [where U = item_ok], (rule safe_if a b c safe_vars(1) safe_throws)+) (rule safe)
qed

lemma safe_drain_reference [safe]: "safe (drain_reference T) any"
  unfolding drain_reference_def by (rule safe_state) (auto simp: engine_simps split: prod.split sum.split)

lemma safe_fetch [safe]: "safe (fetch_reference T src) any" "safe (fetch_stack n) any"
  unfolding fetch_reference_def fetch_stack_def by (rule safe safe_from_stack stack_results_ok | simp)+

lemma safe_pop_range [safe]: "safe (pop_range start stop dst) any"
  unfolding pop_range_def Let_def by (rule safe)+

lemma safe_pop_all [safe]: "safe (pop_all dst) any"
  unfolding pop_all_def by (rule safe)+

lemma safe_converted [safe]: "ton_ok T \<Longrightarrow> safe (converted T i dest src v) item_ok"
  unfolding converted_def
  by (cases src; cases dest; simp only: data_tag.case; (rule safe_returnI safe | simp)+)

lemma safe_convert [safe]: "ton_ok T \<Longrightarrow> safe (convert T x dest src) any"
  unfolding convert_def Let_def by (rule safe | assumption)+

end
