(* ===== verification/Handlers.thy ===== *)
theory Handlers
  imports Decoding
begin

text \<open>
  Dispatch on opcodes (\<open>executor/engine/handlers.rs\<close>).  The registrations of the source are
  data, a list of \<open>table_op\<close>; \<open>build\<close> runs them on the table, \<open>None\<close> being a panic, and
  \<open>get_handler\<close> walks the table.  A handler is named by the path of its function.

  The specification is a search in the registrations themselves: \<open>entry_of\<close> looks for the
  operation that covers a code and \<open>find_handler\<close> follows it.  The lemmas show that operations
  that overlap nowhere are registered without a panic and that the table then finds what the
  search finds.
\<close>

section \<open>The table\<close>

datatype handler_slot = Direct string | Subset nat

datatype handlers = Handlers (directs: "handler_slot option list") (subsets: "handlers list")

definition handlers_new :: handlers where
  "handlers_new = Handlers (replicate 256 None) []"

definition execute_unknown_name :: string where
  "execute_unknown_name = ''execute_unknown''"

text \<open>The same test serves \<open>register_handler\<close> and \<open>add_subset\<close>: the slot must be free
  or hold the handler of unknown codes.\<close>

definition slot_free :: "handler_slot option \<Rightarrow> bool" where
  "slot_free s = (case s of None \<Rightarrow> True | Some (Direct x) \<Rightarrow> x = execute_unknown_name | Some (Subset _) \<Rightarrow> False)"

fun register_handler :: "nat \<Rightarrow> string \<Rightarrow> handlers \<Rightarrow> handlers option" where
  "register_handler code name (Handlers ds ss) =
     (if slot_free (ds ! code) then Some (Handlers (ds[code := Some (Direct name)]) ss) else None)"

fun add_subset :: "nat \<Rightarrow> handlers \<Rightarrow> handlers \<Rightarrow> handlers option" where
  "add_subset code subs (Handlers ds ss) =
     (if slot_free (ds ! code)
      then Some (Handlers (ds[code := Some (Subset (length ss))]) (ss @ [subs])) else None)"

fun set_range :: "nat list \<Rightarrow> string \<Rightarrow> handlers \<Rightarrow> handlers option" where
  "set_range [] name h = Some h"
| "set_range (code # codes) name h = Option.bind (register_handler code name h) (set_range codes name)"

datatype table_op = Set nat string | SetRange nat nat string | AddSubset nat "table_op list"

fun build :: "table_op list \<Rightarrow> handlers \<Rightarrow> handlers option" where
  "build [] h = Some h"
| "build (Set code name # ops) h = Option.bind (register_handler code name h) (build ops)"
| "build (SetRange lo hi name # ops) h = Option.bind (set_range [lo..<hi] name h) (build ops)"
| "build (AddSubset code subs # ops) h =
     Option.bind (build subs handlers_new) (\<lambda>s. Option.bind (add_subset code s h) (build ops))"

lemma size_subset: "i < length (subsets h) \<Longrightarrow> size (subsets h ! i) < size h"
  by (cases h) (auto dest!: nth_mem simp: less_Suc_eq_le intro: size_list_estimation' [where f = size])

text \<open>A subset number beyond the vector would panic.\<close>

function get_handler :: "('c, 's, 'b, 'h) ton \<Rightarrow> handlers \<Rightarrow> ('c, 's, 'b, 'h, string) action" where
  "get_handler T h e = (case next_cmd T e of
     (Inl er, e) \<Rightarrow> (Inl er, e)
   | (Inr code, e) \<Rightarrow> (case directs h ! unat code of
         Some (Direct name) \<Rightarrow> (Inr name, e)
       | Some (Subset i) \<Rightarrow>
           if i < length (subsets h) then get_handler T (subsets h ! i) e else (Inl Panic, e)
       | None \<Rightarrow> (Inr execute_unknown_name, e)))"
  by pat_completeness auto

termination
  by (relation "measure (\<lambda>(T, h, e). size h)") (auto simp: size_subset)

declare get_handler.simps [simp del]

section \<open>The search\<close>

datatype entry = Leaf string | Node "table_op list"

fun first_code :: "table_op \<Rightarrow> nat" where
  "first_code (Set c n) = c" | "first_code (SetRange lo hi n) = lo" | "first_code (AddSubset c s) = c"

fun end_code :: "table_op \<Rightarrow> nat" where
  "end_code (Set c n) = c + 1" | "end_code (SetRange lo hi n) = hi" | "end_code (AddSubset c s) = c + 1"

definition covers :: "table_op \<Rightarrow> nat \<Rightarrow> bool" where
  "covers op c = (first_code op \<le> c \<and> c < end_code op)"

fun op_entry :: "table_op \<Rightarrow> entry" where
  "op_entry (Set c n) = Leaf n" | "op_entry (SetRange lo hi n) = Leaf n" | "op_entry (AddSubset c s) = Node s"

definition entry_of :: "table_op list \<Rightarrow> nat \<Rightarrow> entry option" where
  "entry_of ops c = map_option op_entry (find (\<lambda>op. covers op c) ops)"

definition apart :: "table_op \<Rightarrow> table_op \<Rightarrow> bool" where
  "apart x y = (end_code x \<le> first_code y \<or> end_code y \<le> first_code x)"

fun well_formed :: "table_op list \<Rightarrow> bool" where
  "well_formed [] = True"
| "well_formed (op # ops) =
     ((case op of AddSubset c subs \<Rightarrow> well_formed subs | _ \<Rightarrow> True) \<and> end_code op \<le> 256 \<and>
      list_all (apart op) ops \<and> well_formed ops)"

lemma entry_size: "entry_of ops c = Some (Node subs) \<Longrightarrow> size_list size subs < size_list size ops"
proof (induction ops)
  case (Cons op ops)
  then show ?case by (cases op) (auto simp: entry_of_def covers_def split: if_splits)
qed (simp add: entry_of_def)

function find_handler :: "('c, 's, 'b, 'h) ton \<Rightarrow> table_op list \<Rightarrow> ('c, 's, 'b, 'h, string) action" where
  "find_handler T ops e = (case next_cmd T e of
     (Inl er, e) \<Rightarrow> (Inl er, e)
   | (Inr code, e) \<Rightarrow> (case entry_of ops (unat code) of
         Some (Leaf name) \<Rightarrow> (Inr name, e)
       | Some (Node subs) \<Rightarrow> find_handler T subs e
       | None \<Rightarrow> (Inr execute_unknown_name, e)))"
  by pat_completeness auto

termination
  by (relation "measure (\<lambda>(T, ops, e). size_list size ops)") (auto dest: entry_size)

declare find_handler.simps [simp del]

section \<open>The table against the search\<close>

inductive agrees :: "handlers \<Rightarrow> (nat \<Rightarrow> entry option) \<Rightarrow> bool" where
  agreesI: "\<lbrakk>length ds = 256;
    \<And>c. c < 256 \<Longrightarrow> ds ! c = None \<Longrightarrow> f c = None;
    \<And>c n. c < 256 \<Longrightarrow> ds ! c = Some (Direct n) \<Longrightarrow> f c = Some (Leaf n);
    \<And>c i. c < 256 \<Longrightarrow> ds ! c = Some (Subset i) \<Longrightarrow>
      i < length ss \<and> (\<exists>ops. f c = Some (Node ops) \<and> agrees (ss ! i) (entry_of ops))\<rbrakk>
   \<Longrightarrow> agrees (Handlers ds ss) f"

inductive_cases agreesE: "agrees (Handlers ds ss) f"

lemma agrees_new: "agrees handlers_new (\<lambda>c. None)"
  unfolding handlers_new_def by (rule agreesI) auto

lemma agrees_free: "agrees (Handlers ds ss) f \<Longrightarrow> c < 256 \<Longrightarrow> f c = None \<Longrightarrow> slot_free (ds ! c)"
  by (erule agreesE) (force simp: slot_free_def split: option.splits handler_slot.splits)

lemma register_agrees:
  assumes "agrees h f" "c < 256" "f c = None"
  shows "\<exists>h'. register_handler c n h = Some h' \<and> agrees h' (f(c \<mapsto> Leaf n))"
proof (cases h)
  case (Handlers ds ss)
  then have "agrees (Handlers (ds[c := Some (Direct n)]) ss) (f(c \<mapsto> Leaf n))"
    using assms by (auto elim!: agreesE intro!: agreesI simp: nth_list_update split: if_splits)
  then show ?thesis using assms agrees_free Handlers by auto
qed

lemma agrees_append: "agrees (Handlers ds ss) f \<Longrightarrow> agrees (Handlers ds (ss @ [s])) f"
  by (erule agreesE, rule agreesI) (auto simp: nth_append less_Suc_eq)

lemma add_subset_agrees:
  assumes "agrees h f" "c < 256" "f c = None" "agrees s (entry_of ops)"
  shows "\<exists>h'. add_subset c s h = Some h' \<and> agrees h' (f(c \<mapsto> Node ops))"
proof (cases h)
  case (Handlers ds ss)
  then have "agrees (Handlers ds (ss @ [s])) f" using assms(1) agrees_append by simp
  then have "agrees (Handlers (ds[c := Some (Subset (length ss))]) (ss @ [s])) (f(c \<mapsto> Node ops))"
    using assms(2-4) by (auto elim!: agreesE intro!: agreesI simp: nth_list_update split: if_splits)
  then show ?thesis using assms agrees_free Handlers by auto
qed

lemma set_range_agrees:
  assumes "agrees h f" "hi \<le> 256" "\<And>c. lo \<le> c \<Longrightarrow> c < hi \<Longrightarrow> f c = None"
  shows "\<exists>h'. set_range [lo..<hi] n h = Some h' \<and>
    agrees h' (\<lambda>c. if lo \<le> c \<and> c < hi then Some (Leaf n) else f c)"
  using assms
proof (induction "hi - lo" arbitrary: lo h f)
  case 0
  then have "(\<lambda>c. if lo \<le> c \<and> c < hi then Some (Leaf n) else f c) = f" by (auto simp: fun_eq_iff)
  then show ?case using 0 by simp
next
  case (Suc k)
  then have "lo < hi" by simp
  then obtain h1 where h1: "register_handler lo n h = Some h1" "agrees h1 (f(lo \<mapsto> Leaf n))"
    using Suc.prems register_agrees [of h f lo n] by auto
  have "(\<lambda>c. if Suc lo \<le> c \<and> c < hi then Some (Leaf n) else (f(lo \<mapsto> Leaf n)) c) =
    (\<lambda>c. if lo \<le> c \<and> c < hi then Some (Leaf n) else f c)"
    using \<open>lo < hi\<close> by (auto simp: fun_eq_iff)
  then show ?case
    using Suc.hyps(1) [of "Suc lo" h1 "f(lo \<mapsto> Leaf n)"] Suc.prems Suc.hyps(2) h1 \<open>lo < hi\<close>
    by (auto simp: upt_conv_Cons)
qed

definition over :: "(nat \<Rightarrow> entry option) \<Rightarrow> table_op list \<Rightarrow> nat \<Rightarrow> entry option" where
  "over f ops c = (case f c of Some x \<Rightarrow> Some x | None \<Rightarrow> entry_of ops c)"

lemma entry_of_simps [simp]:
  "entry_of [] c = None"
  "entry_of (op # ops) c = (if covers op c then Some (op_entry op) else entry_of ops c)"
  by (simp_all add: entry_of_def)

lemma over_Nil [simp]: "over f [] = f"
  by (auto simp: over_def fun_eq_iff split: option.splits)

lemma over_new [simp]: "over (\<lambda>c. None) ops = entry_of ops"
  by (simp add: over_def fun_eq_iff)

lemma over_Cons:
  assumes "\<And>c. covers op c \<Longrightarrow> f c = None"
  shows "over (\<lambda>c. if covers op c then Some (op_entry op) else f c) ops = over f (op # ops)"
  using assms by (auto simp: over_def fun_eq_iff split: option.splits)

lemma covers_apart: "list_all (apart op) ops \<Longrightarrow> covers op c \<Longrightarrow> op' \<in> set ops \<Longrightarrow> \<not> covers op' c"
  by (auto simp: list_all_iff apart_def covers_def)

definition covered :: "table_op \<Rightarrow> (nat \<Rightarrow> entry option) \<Rightarrow> nat \<Rightarrow> entry option" where
  "covered op f c = (if covers op c then Some (op_entry op) else f c)"

lemma build_rest:
  assumes "well_formed (op # ops)" and free: "\<And>c op'. op' \<in> set (op # ops) \<Longrightarrow> covers op' c \<Longrightarrow> f c = None"
    and h1: "agrees h1 (covered op f)"
    and rest: "\<And>f. \<lbrakk>agrees h1 f; well_formed ops; \<And>c op. op \<in> set ops \<Longrightarrow> covers op c \<Longrightarrow> f c = None\<rbrakk>
      \<Longrightarrow> \<exists>h'. build ops h1 = Some h' \<and> agrees h' (over f ops)"
  shows "\<exists>h'. build ops h1 = Some h' \<and> agrees h' (over f (op # ops))"
proof -
  have "over (covered op f) ops = over f (op # ops)"
    unfolding covered_def [abs_def] by (rule over_Cons) (auto intro: free)
  moreover have "covered op f c = None" if "op' \<in> set ops" "covers op' c" for c op'
    using that assms(1) free covers_apart [of op ops c op'] by (auto simp: covered_def)
  ultimately show ?thesis using rest [OF h1] assms(1) by auto
qed

lemma build_agrees:
  assumes "agrees h f" "well_formed ops" "\<And>c op. op \<in> set ops \<Longrightarrow> covers op c \<Longrightarrow> f c = None"
  shows "\<exists>h'. build ops h = Some h' \<and> agrees h' (over f ops)"
  using assms
proof (induction ops h arbitrary: f rule: build.induct)
  case (2 code name ops h)
  have f: "covered (Set code name) f = f(code \<mapsto> Leaf name)"
    by (auto simp: covered_def covers_def fun_eq_iff)
  have "f code = None" using 2(4) [of "Set code name" code] by (simp add: covers_def)
  moreover have "code < 256" using 2(3) by simp
  ultimately obtain h1 where
    h1: "register_handler code name h = Some h1" "agrees h1 (covered (Set code name) f)"
    unfolding f using register_agrees [OF 2(2)] by blast
  show ?case unfolding build.simps h1(1) Option.bind.simps
    by (rule build_rest [OF 2(3,4) h1(2) 2(1) [OF h1(1)]])
next
  case (3 lo hi name ops h)
  have f: "covered (SetRange lo hi name) f = (\<lambda>c. if lo \<le> c \<and> c < hi then Some (Leaf name) else f c)"
    by (auto simp: covered_def covers_def fun_eq_iff)
  have "f c = None" if "lo \<le> c" "c < hi" for c
    using that 3(4) [of "SetRange lo hi name" c] by (simp add: covers_def)
  moreover have "hi \<le> 256" using 3(3) by simp
  ultimately obtain h1 where
    h1: "set_range [lo..<hi] name h = Some h1" "agrees h1 (covered (SetRange lo hi name) f)"
    unfolding f using set_range_agrees [OF 3(2)] by blast
  show ?case unfolding build.simps h1(1) Option.bind.simps
    by (rule build_rest [OF 3(3,4) h1(2) 3(1) [OF h1(1)]])
next
  case (4 code subs ops h)
  have f: "covered (AddSubset code subs) f = f(code \<mapsto> Node subs)"
    by (auto simp: covered_def covers_def fun_eq_iff)
  have "f code = None" using 4(5) [of "AddSubset code subs" code] by (simp add: covers_def)
  moreover have "code < 256" and sub: "well_formed subs" using 4(4) by simp_all
  moreover obtain s where s: "build subs handlers_new = Some s" "agrees s (entry_of subs)"
    using 4(1) [OF agrees_new sub] unfolding over_new by blast
  ultimately obtain h1 where
    h1: "add_subset code s h = Some h1" "agrees h1 (covered (AddSubset code subs) f)"
    unfolding f using add_subset_agrees [OF 4(3)] by blast
  show ?case unfolding build.simps s(1) h1(1) Option.bind.simps
    by (rule build_rest [OF 4(4,5) h1(2) 4(2) [OF s(1) h1(1)]])
qed simp

lemma get_handler_agrees: "agrees h (entry_of ops) \<Longrightarrow> get_handler T h e = find_handler T ops e"
proof (induction T ops e arbitrary: h rule: find_handler.induct)
  case (1 T ops e)
  obtain ds ss where h: "h = Handlers ds ss" by (cases h)
  show ?case
  proof (cases "next_cmd T e")
    case (Pair r e')
    show ?thesis
    proof (cases r)
      case (Inl er)
      then show ?thesis using Pair by (simp add: get_handler.simps find_handler.simps)
    next
      case (Inr code)
      have "unat code < 256" using unsigned_less [of code] by simp
      with 1(2) h have slot: "case ds ! unat code of
          None \<Rightarrow> entry_of ops (unat code) = None
        | Some (Direct n) \<Rightarrow> entry_of ops (unat code) = Some (Leaf n)
        | Some (Subset i) \<Rightarrow> i < length ss \<and>
            (\<exists>subs. entry_of ops (unat code) = Some (Node subs) \<and> agrees (ss ! i) (entry_of subs))"
        by (auto elim!: agreesE split: option.splits handler_slot.splits)
      note unfold = get_handler.simps [of T "Handlers ds ss" e] find_handler.simps [of T ops e] h Pair Inr
      consider "ds ! unat code = None" | n where "ds ! unat code = Some (Direct n)"
        | i where "ds ! unat code = Some (Subset i)"
        by (metis handler_slot.exhaust option.exhaust)
      then show ?thesis
      proof cases
        case (3 i)
        then obtain subs where subs: "i < length ss" "entry_of ops (unat code) = Some (Node subs)"
          "agrees (ss ! i) (entry_of subs)" using slot by auto
        have "get_handler T (ss ! i) e' = find_handler T subs e'"
          using 1(1) [OF Pair [symmetric] Inr subs(2) refl subs(3)] .
        then show ?thesis unfolding unfold using 3 subs by simp
      qed (use slot in \<open>simp_all add: unfold\<close>)
    qed
  qed
qed

lemma build_get_handler:
  assumes "well_formed ops"
  shows "\<exists>h. build ops handlers_new = Some h \<and> (\<forall>T e. get_handler T h e = find_handler T ops e)"
  using build_agrees [OF agrees_new assms] by (auto intro: get_handler_agrees)

section \<open>Checking a long list of registrations\<close>

text \<open>\<open>chain lo ops hi\<close>: the operations go up from \<open>lo\<close> to \<open>hi\<close>, and so do those of
  every subset.  \<open>spans lo hi ops\<close>: they are well formed and stay between the bounds.\<close>

fun chain :: "nat \<Rightarrow> table_op list \<Rightarrow> nat \<Rightarrow> bool" where
  "chain lo [] hi = (lo \<le> hi)"
| "chain lo (Set c n # ops) hi = (lo \<le> c \<and> chain (Suc c) ops hi)"
| "chain lo (SetRange c d n # ops) hi = (lo \<le> c \<and> c \<le> d \<and> chain d ops hi)"
| "chain lo (AddSubset c subs # ops) hi = (lo \<le> c \<and> chain 0 subs 256 \<and> chain (Suc c) ops hi)"

definition spans :: "nat \<Rightarrow> nat \<Rightarrow> table_op list \<Rightarrow> bool" where
  "spans lo hi ops = (well_formed ops \<and> list_all (\<lambda>op. lo \<le> first_code op \<and> end_code op \<le> hi) ops)"

lemma spans_Cons:
  assumes "spans (end_code op) hi ops" "lo \<le> first_code op" "first_code op \<le> end_code op" "end_code op \<le> hi" "hi \<le> 256"
    and "case op of AddSubset c subs \<Rightarrow> well_formed subs | _ \<Rightarrow> True"
  shows "spans lo hi (op # ops)"
  using assms by (fastforce simp: spans_def list_all_iff apart_def)

lemma chain_le: "chain lo ops hi \<Longrightarrow> lo \<le> hi"
  by (induction lo ops hi rule: chain.induct) auto

lemma chain_spans: "chain lo ops hi \<Longrightarrow> hi \<le> 256 \<Longrightarrow> spans lo hi ops"
proof (induction lo ops hi rule: chain.induct)
  case (2 lo c n ops hi)
  then show ?case using chain_le [of "Suc c" ops hi] by (intro spans_Cons) auto
next
  case (3 lo c d n ops hi)
  then show ?case using chain_le [of d ops hi] by (intro spans_Cons) auto
next
  case (4 lo c subs ops hi)
  then show ?case using chain_le [of "Suc c" ops hi] by (intro spans_Cons) (auto simp: spans_def)
qed (simp add: spans_def)

lemma well_formed_append:
  "well_formed (xs @ ys) \<longleftrightarrow> well_formed xs \<and> well_formed ys \<and> list_all (\<lambda>x. list_all (apart x) ys) xs"
  by (induction xs) auto

lemma spans_append:
  assumes "spans a b xs" "spans c d ys" "b \<le> c \<or> d \<le> a"
  shows "spans (min a c) (max b d) (xs @ ys)"
  using assms unfolding spans_def well_formed_append
  by (fastforce simp: list_all_iff apart_def)

end
