(* ===== verification/Code_Page.thy ===== *)
theory Code_Page
  imports Handlers
begin

text \<open>
  The opcodes of code page 0: the registrations of \<open>Handlers::new_code_page_0\<close>
  (\<open>executor/engine/handlers.rs\<close>) as data, one list per function of the source, without the
  opcodes of the optional feature \<open>gosh\<close>.
\<close>

definition add_code_page_0_part_stack :: "table_op list" where
  "add_code_page_0_part_stack = [
    Set 0x00 ''execute_nop'',
    Set 0x01 ''execute_swap'',
    SetRange 0x02 0x10 ''execute_xchg_simple'',
    Set 0x10 ''execute_xchg_std'',
    Set 0x11 ''execute_xchg_long'',
    SetRange 0x12 0x20 ''execute_xchg_simple'',
    SetRange 0x20 0x30 ''execute_push'',
    SetRange 0x30 0x40 ''execute_pop'',
    SetRange 0x40 0x50 ''execute_xchg3'',
    Set 0x50 ''execute_xchg2'',
    Set 0x51 ''execute_xcpu'',
    Set 0x52 ''execute_puxc'',
    Set 0x53 ''execute_push2'',
    AddSubset 0x54 [
      SetRange 0x00 0x10 ''execute_xchg3'',
      SetRange 0x10 0x20 ''execute_xc2pu'',
      SetRange 0x20 0x30 ''execute_xcpuxc'',
      SetRange 0x30 0x40 ''execute_xcpu2'',
      SetRange 0x40 0x50 ''execute_puxc2'',
      SetRange 0x50 0x60 ''execute_puxcpu'',
      SetRange 0x60 0x70 ''execute_pu2xc'',
      SetRange 0x70 0x80 ''execute_push3''],
    Set 0x55 ''execute_blkswap'',
    Set 0x56 ''execute_push'',
    Set 0x57 ''execute_pop'',
    Set 0x58 ''execute_rot'',
    Set 0x59 ''execute_rotrev'',
    Set 0x5A ''execute_swap2'',
    Set 0x5B ''execute_drop2'',
    Set 0x5C ''execute_dup2'',
    Set 0x5D ''execute_over2'',
    Set 0x5E ''execute_reverse'',
    AddSubset 0x5F [
      SetRange 0x00 0x10 ''execute_blkdrop'',
      SetRange 0x10 0xFF ''execute_blkpush'',
      Set 0xFF ''execute_blkpush''],
    Set 0x60 ''execute_pick'',
    Set 0x61 ''execute_roll'',
    Set 0x62 ''execute_rollrev'',
    Set 0x63 ''execute_blkswx'',
    Set 0x64 ''execute_revx'',
    Set 0x65 ''execute_dropx'',
    Set 0x66 ''execute_tuck'',
    Set 0x67 ''execute_xchgx'',
    Set 0x68 ''execute_depth'',
    Set 0x69 ''execute_chkdepth'',
    Set 0x6A ''execute_onlytopx'',
    Set 0x6B ''execute_onlyx'',
    AddSubset 0x6C [
      SetRange 0x10 0xFF ''execute_blkdrop2'',
      Set 0xFF ''execute_blkdrop2'']]"

definition add_code_page_0_tuple :: "table_op list" where
  "add_code_page_0_tuple = [
    Set 0x6D ''execute_null'',
    Set 0x6E ''execute_isnull'',
    AddSubset 0x6F [
      SetRange 0x00 0x10 ''execute_tuple_create'',
      SetRange 0x10 0x20 ''execute_tuple_index'',
      SetRange 0x20 0x30 ''execute_tuple_un'',
      SetRange 0x30 0x40 ''execute_tuple_unpackfirst'',
      SetRange 0x40 0x50 ''execute_tuple_explode'',
      SetRange 0x50 0x60 ''execute_tuple_setindex'',
      SetRange 0x60 0x70 ''execute_tuple_index_quiet'',
      SetRange 0x70 0x80 ''execute_tuple_setindex_quiet'',
      Set 0x80 ''execute_tuple_createvar'',
      Set 0x81 ''execute_tuple_indexvar'',
      Set 0x82 ''execute_tuple_untuplevar'',
      Set 0x83 ''execute_tuple_unpackfirstvar'',
      Set 0x84 ''execute_tuple_explodevar'',
      Set 0x85 ''execute_tuple_setindexvar'',
      Set 0x86 ''execute_tuple_indexvar_quiet'',
      Set 0x87 ''execute_tuple_setindexvar_quiet'',
      Set 0x88 ''execute_tuple_len'',
      Set 0x89 ''execute_tuple_len_quiet'',
      Set 0x8A ''execute_istuple'',
      Set 0x8B ''execute_tuple_last'',
      Set 0x8C ''execute_tuple_push'',
      Set 0x8D ''execute_tuple_pop'',
      Set 0x90 ''execute_zeroswapif'',
      Set 0x91 ''execute_zeroswapifnot'',
      Set 0x92 ''execute_zerorotrif'',
      Set 0x93 ''execute_zerorotrifnot'',
      Set 0x94 ''execute_zeroswapif2'',
      Set 0x95 ''execute_zeroswapifnot2'',
      Set 0x96 ''execute_zerorotrif2'',
      Set 0x97 ''execute_zerorotrifnot2'',
      Set 0xA0 ''execute_nullswapif'',
      Set 0xA1 ''execute_nullswapifnot'',
      Set 0xA2 ''execute_nullrotrif'',
      Set 0xA3 ''execute_nullrotrifnot'',
      Set 0xA4 ''execute_nullswapif2'',
      Set 0xA5 ''execute_nullswapifnot2'',
      Set 0xA6 ''execute_nullrotrif2'',
      Set 0xA7 ''execute_nullrotrifnot2'',
      SetRange 0xB0 0xC0 ''execute_tuple_index2'',
      SetRange 0xC0 0xFF ''execute_tuple_index3'',
      Set 0xFF ''execute_tuple_index3'']]"

definition add_code_page_0_part_constant :: "table_op list" where
  "add_code_page_0_part_constant = [
    SetRange 0x70 0x82 ''execute_pushint'',
    Set 0x82 ''execute_pushint_big'',
    AddSubset 0x83 [
      SetRange 0x00 0xFF ''execute_pushpow2'',
      Set 0xFF ''execute_pushnan''],
    Set 0x84 ''execute_pushpow2dec'',
    Set 0x85 ''execute_pushnegpow2'',
    Set 0x88 ''execute_pushref'',
    Set 0x89 ''execute_pushrefslice'',
    Set 0x8A ''execute_pushrefcont'',
    Set 0x8B ''execute_pushslice_short'',
    Set 0x8C ''execute_pushslice_mid'',
    Set 0x8D ''execute_pushslice_long'',
    SetRange 0x8E 0x90 ''execute_pushcont_short'',
    SetRange 0x90 0xA0 ''execute_pushcont_long'']"

definition add_code_page_0_arithmetic :: "table_op list" where
  "add_code_page_0_arithmetic = [
    Set 0xA0 ''execute_add::<Signaling>'',
    Set 0xA1 ''execute_sub::<Signaling>'',
    Set 0xA2 ''execute_subr::<Signaling>'',
    Set 0xA3 ''execute_negate::<Signaling>'',
    Set 0xA4 ''execute_inc::<Signaling>'',
    Set 0xA5 ''execute_dec::<Signaling>'',
    Set 0xA6 ''execute_addconst::<Signaling>'',
    Set 0xA7 ''execute_mulconst::<Signaling>'',
    Set 0xA8 ''execute_mul::<Signaling>'',
    Set 0xA9 ''execute_divmod::<Signaling>'',
    Set 0xAA ''execute_lshift::<Signaling>'',
    Set 0xAB ''execute_rshift::<Signaling>'',
    Set 0xAC ''execute_lshift::<Signaling>'',
    Set 0xAD ''execute_rshift::<Signaling>'',
    Set 0xAE ''execute_pow2::<Signaling>'',
    Set 0xB0 ''execute_and::<Signaling>'',
    Set 0xB1 ''execute_or::<Signaling>'',
    Set 0xB2 ''execute_xor::<Signaling>'',
    Set 0xB3 ''execute_not::<Signaling>'',
    Set 0xB4 ''execute_fits::<Signaling>'',
    Set 0xB5 ''execute_ufits::<Signaling>'',
    AddSubset 0xB6 [
      Set 0x00 ''execute_fitsx::<Signaling>'',
      Set 0x01 ''execute_ufitsx::<Signaling>'',
      Set 0x02 ''execute_bitsize::<Signaling>'',
      Set 0x03 ''execute_ubitsize::<Signaling>'',
      Set 0x08 ''execute_min::<Signaling>'',
      Set 0x09 ''execute_max::<Signaling>'',
      Set 0x0A ''execute_minmax::<Signaling>'',
      Set 0x0B ''execute_abs::<Signaling>''],
    AddSubset 0xB7 [
      Set 0xA0 ''execute_add::<Quiet>'',
      Set 0xA1 ''execute_sub::<Quiet>'',
      Set 0xA2 ''execute_subr::<Quiet>'',
      Set 0xA3 ''execute_negate::<Quiet>'',
      Set 0xA4 ''execute_inc::<Quiet>'',
      Set 0xA5 ''execute_dec::<Quiet>'',
      Set 0xA6 ''execute_addconst::<Quiet>'',
      Set 0xA7 ''execute_mulconst::<Quiet>'',
      Set 0xA8 ''execute_mul::<Quiet>'',
      Set 0xA9 ''execute_divmod::<Quiet>'',
      Set 0xAA ''execute_lshift::<Quiet>'',
      Set 0xAB ''execute_rshift::<Quiet>'',
      Set 0xAC ''execute_lshift::<Quiet>'',
      Set 0xAD ''execute_rshift::<Quiet>'',
      Set 0xAE ''execute_pow2::<Quiet>'',
      Set 0xB0 ''execute_and::<Quiet>'',
      Set 0xB1 ''execute_or::<Quiet>'',
      Set 0xB2 ''execute_xor::<Quiet>'',
      Set 0xB3 ''execute_not::<Quiet>'',
      Set 0xB4 ''execute_fits::<Quiet>'',
      Set 0xB5 ''execute_ufits::<Quiet>'',
      AddSubset 0xB6 [
        Set 0x00 ''execute_fitsx::<Quiet>'',
        Set 0x01 ''execute_ufitsx::<Quiet>'',
        Set 0x02 ''execute_bitsize::<Quiet>'',
        Set 0x03 ''execute_ubitsize::<Quiet>'',
        Set 0x08 ''execute_min::<Quiet>'',
        Set 0x09 ''execute_max::<Quiet>'',
        Set 0x0A ''execute_minmax::<Quiet>'',
        Set 0x0B ''execute_abs::<Quiet>''],
      Set 0xB8 ''execute_sgn::<Quiet>'',
      Set 0xB9 ''execute_less::<Quiet>'',
      Set 0xBA ''execute_equal::<Quiet>'',
      Set 0xBB ''execute_leq::<Quiet>'',
      Set 0xBC ''execute_greater::<Quiet>'',
      Set 0xBD ''execute_neq::<Quiet>'',
      Set 0xBE ''execute_geq::<Quiet>'',
      Set 0xBF ''execute_cmp::<Quiet>'',
      Set 0xC0 ''execute_eqint::<Quiet>'',
      Set 0xC1 ''execute_lessint::<Quiet>'',
      Set 0xC2 ''execute_gtint::<Quiet>'',
      Set 0xC3 ''execute_neqint::<Quiet>'']]"

definition add_code_page_0_comparsion :: "table_op list" where
  "add_code_page_0_comparsion = [
    Set 0xB8 ''execute_sgn::<Signaling>'',
    Set 0xB9 ''execute_less::<Signaling>'',
    Set 0xBA ''execute_equal::<Signaling>'',
    Set 0xBB ''execute_leq::<Signaling>'',
    Set 0xBC ''execute_greater::<Signaling>'',
    Set 0xBD ''execute_neq::<Signaling>'',
    Set 0xBE ''execute_geq::<Signaling>'',
    Set 0xBF ''execute_cmp::<Signaling>'',
    Set 0xC0 ''execute_eqint::<Signaling>'',
    Set 0xC1 ''execute_lessint::<Signaling>'',
    Set 0xC2 ''execute_gtint::<Signaling>'',
    Set 0xC3 ''execute_neqint::<Signaling>'',
    Set 0xC4 ''execute_isnan'',
    Set 0xC5 ''execute_chknan'',
    AddSubset 0xC7 [
      Set 0x00 ''execute_sempty'',
      Set 0x01 ''execute_sdempty'',
      Set 0x02 ''execute_srempty'',
      Set 0x03 ''execute_sdfirst'',
      Set 0x04 ''execute_sdlexcmp'',
      Set 0x05 ''execute_sdeq'',
      Set 0x08 ''execute_sdpfx'',
      Set 0x09 ''execute_sdpfxrev'',
      Set 0x0A ''execute_sdppfx'',
      Set 0x0B ''execute_sdppfxrev'',
      Set 0x0C ''execute_sdsfx'',
      Set 0x0D ''execute_sdsfxrev'',
      Set 0x0E ''execute_sdpsfx'',
      Set 0x0F ''execute_sdpsfxrev'',
      Set 0x10 ''execute_sdcntlead0'',
      Set 0x11 ''execute_sdcntlead1'',
      Set 0x12 ''execute_sdcnttrail0'',
      Set 0x13 ''execute_sdcnttrail1'']]"

definition add_code_page_0_cell :: "table_op list" where
  "add_code_page_0_cell = [
    Set 0xC8 ''execute_newc'',
    Set 0xC9 ''execute_endc'',
    Set 0xCA ''execute_sti'',
    Set 0xCB ''execute_stu'',
    Set 0xCC ''execute_stref'',
    Set 0xCD ''execute_endcst'',
    Set 0xCE ''execute_stslice'',
    AddSubset 0xCF [
      Set 0x00 ''execute_stix'',
      Set 0x01 ''execute_stux'',
      Set 0x02 ''execute_stixr'',
      Set 0x03 ''execute_stuxr'',
      Set 0x04 ''execute_stixq'',
      Set 0x05 ''execute_stuxq'',
      Set 0x06 ''execute_stixrq'',
      Set 0x07 ''execute_stuxrq'',
      Set 0x08 ''execute_sti'',
      Set 0x09 ''execute_stu'',
      Set 0x0A ''execute_stir'',
      Set 0x0B ''execute_stur'',
      Set 0x0C ''execute_stiq'',
      Set 0x0D ''execute_stuq'',
      Set 0x0E ''execute_stirq'',
      Set 0x0F ''execute_sturq'',
      Set 0x10 ''execute_stref'',
      Set 0x11 ''execute_stbref'',
      Set 0x12 ''execute_stslice'',
      Set 0x13 ''execute_stb'',
      Set 0x14 ''execute_strefr'',
      Set 0x15 ''execute_endcst'',
      Set 0x16 ''execute_stslicer'',
      Set 0x17 ''execute_stbr'',
      Set 0x18 ''execute_strefq'',
      Set 0x19 ''execute_stbrefq'',
      Set 0x1A ''execute_stsliceq'',
      Set 0x1B ''execute_stbq'',
      Set 0x1C ''execute_strefrq'',
      Set 0x1D ''execute_stbrefrq'',
      Set 0x1E ''execute_stslicerq'',
      Set 0x1F ''execute_stbrq'',
      Set 0x20 ''execute_strefconst'',
      Set 0x21 ''execute_stref2const'',
      Set 0x23 ''execute_endxc'',
      Set 0x28 ''execute_stile4'',
      Set 0x29 ''execute_stule4'',
      Set 0x2A ''execute_stile8'',
      Set 0x2B ''execute_stule8'',
      Set 0x30 ''execute_bdepth'',
      Set 0x31 ''execute_bbits'',
      Set 0x32 ''execute_brefs'',
      Set 0x33 ''execute_bbitrefs'',
      Set 0x35 ''execute_brembits'',
      Set 0x36 ''execute_bremrefs'',
      Set 0x37 ''execute_brembitrefs'',
      Set 0x38 ''execute_bchkbits_short'',
      Set 0x39 ''execute_bchkbits_long'',
      Set 0x3A ''execute_bchkrefs'',
      Set 0x3B ''execute_bchkbitrefs'',
      Set 0x3C ''execute_bchkbitsq_short'',
      Set 0x3D ''execute_bchkbitsq_long'',
      Set 0x3E ''execute_bchkrefsq'',
      Set 0x3F ''execute_bchkbitrefsq'',
      Set 0x40 ''execute_stzeroes'',
      Set 0x41 ''execute_stones'',
      Set 0x42 ''execute_stsame'',
      Set 0x43 ''execute_stcont'',
      SetRange 0x80 0xFF ''execute_stsliceconst'',
      Set 0xFF ''execute_stsliceconst''],
    Set 0xD0 ''execute_ctos'',
    Set 0xD1 ''execute_ends'',
    Set 0xD2 ''execute_ldi'',
    Set 0xD3 ''execute_ldu'',
    Set 0xD4 ''execute_ldref'',
    Set 0xD5 ''execute_ldrefrtos'',
    Set 0xD6 ''execute_ldslice'',
    AddSubset 0xD7 [
      Set 0x00 ''execute_ldix'',
      Set 0x01 ''execute_ldux'',
      Set 0x02 ''execute_pldix'',
      Set 0x03 ''execute_pldux'',
      Set 0x04 ''execute_ldixq'',
      Set 0x05 ''execute_lduxq'',
      Set 0x06 ''execute_pldixq'',
      Set 0x07 ''execute_plduxq'',
      Set 0x08 ''execute_ldi'',
      Set 0x09 ''execute_ldu'',
      Set 0x0A ''execute_pldi'',
      Set 0x0B ''execute_pldu'',
      Set 0x0C ''execute_ldiq'',
      Set 0x0D ''execute_lduq'',
      Set 0x0E ''execute_pldiq'',
      Set 0x0F ''execute_plduq'',
      SetRange 0x10 0x18 ''execute_plduz'',
      Set 0x18 ''execute_ldslicex'',
      Set 0x19 ''execute_pldslicex'',
      Set 0x1A ''execute_ldslicexq'',
      Set 0x1B ''execute_pldslicexq'',
      Set 0x1C ''execute_ldslice'',
      Set 0x1D ''execute_pldslice'',
      Set 0x1E ''execute_ldsliceq'',
      Set 0x1F ''execute_pldsliceq'',
      Set 0x20 ''execute_pldslicex'',
      Set 0x21 ''execute_sdskipfirst'',
      Set 0x22 ''execute_sdcutlast'',
      Set 0x23 ''execute_sdskiplast'',
      Set 0x24 ''execute_sdsubstr'',
      Set 0x26 ''execute_sdbeginsx'',
      Set 0x27 ''execute_sdbeginsxq'',
      SetRange 0x28 0x2C ''execute_sdbegins'',
      SetRange 0x2C 0x30 ''execute_sdbeginsq'',
      Set 0x30 ''execute_scutfirst'',
      Set 0x31 ''execute_sskipfirst'',
      Set 0x32 ''execute_scutlast'',
      Set 0x33 ''execute_sskiplast'',
      Set 0x34 ''execute_subslice'',
      Set 0x36 ''execute_split'',
      Set 0x37 ''execute_splitq'',
      Set 0x39 ''execute_xctos'',
      Set 0x3A ''execute_xload'',
      Set 0x3B ''execute_xloadq'',
      Set 0x41 ''execute_schkbits'',
      Set 0x42 ''execute_schkrefs'',
      Set 0x43 ''execute_schkbitrefs'',
      Set 0x45 ''execute_schkbitsq'',
      Set 0x46 ''execute_schkrefsq'',
      Set 0x47 ''execute_schkbitrefsq'',
      Set 0x48 ''execute_pldrefvar'',
      Set 0x49 ''execute_sbits'',
      Set 0x4A ''execute_srefs'',
      Set 0x4B ''execute_sbitrefs'',
      Set 0x4C ''execute_pldref'',
      SetRange 0x4D 0x50 ''execute_pldrefidx'',
      Set 0x50 ''execute_ldile4'',
      Set 0x51 ''execute_ldule4'',
      Set 0x52 ''execute_ldile8'',
      Set 0x53 ''execute_ldule8'',
      Set 0x54 ''execute_pldile4'',
      Set 0x55 ''execute_pldule4'',
      Set 0x56 ''execute_pldile8'',
      Set 0x57 ''execute_pldule8'',
      Set 0x58 ''execute_ldile4q'',
      Set 0x59 ''execute_ldule4q'',
      Set 0x5A ''execute_ldile8q'',
      Set 0x5B ''execute_ldule8q'',
      Set 0x5C ''execute_pldile4q'',
      Set 0x5D ''execute_pldule4q'',
      Set 0x5E ''execute_pldile8q'',
      Set 0x5F ''execute_pldule8q'',
      Set 0x60 ''execute_ldzeroes'',
      Set 0x61 ''execute_ldones'',
      Set 0x62 ''execute_ldsame'',
      Set 0x64 ''execute_sdepth'',
      Set 0x65 ''execute_cdepth'',
      Set 0x66 ''execute_ldcont'']]"

definition add_code_page_0_control_flow :: "table_op list" where
  "add_code_page_0_control_flow = [
    Set 0xD8 ''execute_callx'',
    Set 0xD9 ''execute_jmpx'',
    Set 0xDA ''execute_callxargs'',
    AddSubset 0xDB [
      SetRange 0x00 0x10 ''execute_callxargs'',
      SetRange 0x10 0x20 ''execute_jmpxargs'',
      SetRange 0x20 0x30 ''execute_retargs'',
      Set 0x30 ''execute_ret'',
      Set 0x31 ''execute_retalt'',
      Set 0x32 ''execute_retbool'',
      Set 0x34 ''execute_callcc'',
      Set 0x35 ''execute_jmpxdata'',
      Set 0x36 ''execute_callccargs'',
      Set 0x38 ''execute_callxva'',
      Set 0x39 ''execute_retva'',
      Set 0x3A ''execute_jmpxva'',
      Set 0x3B ''execute_callccva'',
      Set 0x3C ''execute_callref'',
      Set 0x3D ''execute_jmpref'',
      Set 0x3E ''execute_jmprefdata'',
      Set 0x3F ''execute_retdata''],
    Set 0xDE ''execute_if'',
    Set 0xDC ''execute_ifret'',
    Set 0xDD ''execute_ifnotret'',
    Set 0xDF ''execute_ifnot'',
    Set 0xE0 ''execute_ifjmp'',
    Set 0xE1 ''execute_ifnotjmp'',
    Set 0xE2 ''execute_ifelse'',
    AddSubset 0xE3 [
      Set 0x00 ''execute_ifref'',
      Set 0x01 ''execute_ifnotref'',
      Set 0x02 ''execute_ifjmpref'',
      Set 0x03 ''execute_ifnotjmpref'',
      Set 0x04 ''execute_condsel'',
      Set 0x05 ''execute_condselchk'',
      Set 0x08 ''execute_ifretalt'',
      Set 0x09 ''execute_ifnotretalt'',
      Set 0x0D ''execute_ifrefelse'',
      Set 0x0E ''execute_ifelseref'',
      Set 0x0F ''execute_ifrefelseref'',
      Set 0x14 ''execute_repeat_break'',
      Set 0x15 ''execute_repeatend_break'',
      Set 0x16 ''execute_until_break'',
      Set 0x17 ''execute_untilend_break'',
      Set 0x18 ''execute_while_break'',
      Set 0x19 ''execute_whileend_break'',
      Set 0x1A ''execute_again_break'',
      Set 0x1B ''execute_againend_break'',
      SetRange 0x80 0xA0 ''execute_ifbitjmp'',
      SetRange 0xA0 0xC0 ''execute_ifnbitjmp'',
      SetRange 0xC0 0xE0 ''execute_ifbitjmpref'',
      SetRange 0xE0 0xFF ''execute_ifnbitjmpref'',
      Set 0xFF ''execute_ifnbitjmpref''],
    Set 0xE4 ''execute_repeat'',
    Set 0xE5 ''execute_repeatend'',
    Set 0xE6 ''execute_until'',
    Set 0xE7 ''execute_untilend'',
    Set 0xE8 ''execute_while'',
    Set 0xE9 ''execute_whileend'',
    Set 0xEA ''execute_again'',
    Set 0xEB ''execute_againend'',
    Set 0xEC ''execute_setcontargs'',
    AddSubset 0xED [
      SetRange 0x00 0x10 ''execute_returnargs'',
      Set 0x10 ''execute_returnva'',
      Set 0x11 ''execute_setcontva'',
      Set 0x12 ''execute_setnumvarargs'',
      Set 0x1E ''execute_bless'',
      Set 0x1F ''execute_blessva'',
      SetRange 0x40 0x50 ''execute_pushctr'',
      SetRange 0x50 0x60 ''execute_popctr'',
      SetRange 0x60 0x70 ''execute_setcontctr'',
      SetRange 0x70 0x80 ''execute_setretctr'',
      SetRange 0x80 0x90 ''execute_setaltctr'',
      SetRange 0x90 0xA0 ''execute_popsave'',
      SetRange 0xA0 0xB0 ''execute_save'',
      SetRange 0xB0 0xC0 ''execute_savealt'',
      SetRange 0xC0 0xD0 ''execute_saveboth'',
      Set 0xE0 ''execute_pushctrx'',
      Set 0xE1 ''execute_popctrx'',
      Set 0xE2 ''execute_setcontctrx'',
      Set 0xF0 ''execute_compos'',
      Set 0xF1 ''execute_composalt'',
      Set 0xF2 ''execute_composboth'',
      Set 0xF3 ''execute_atexit'',
      Set 0xF4 ''execute_atexitalt'',
      Set 0xF5 ''execute_setexitalt'',
      Set 0xF6 ''execute_thenret'',
      Set 0xF7 ''execute_thenretalt'',
      Set 0xF8 ''execute_invert'',
      Set 0xF9 ''execute_booleval'',
      Set 0xFA ''execute_samealt'',
      Set 0xFB ''execute_samealt_save''],
    Set 0xEE ''execute_blessargs'',
    Set 0xF0 ''execute_call_short'',
    AddSubset 0xF1 [
      SetRange 0x00 0x40 ''execute_call_long'',
      SetRange 0x40 0x80 ''execute_jmp'',
      SetRange 0x80 0xC0 ''execute_prepare'']]"

definition add_code_page_0_exceptions :: "table_op list" where
  "add_code_page_0_exceptions = [
    AddSubset 0xF2 [
      SetRange 0x00 0x40 ''execute_throw_short'',
      SetRange 0x40 0x80 ''execute_throwif_short'',
      SetRange 0x80 0xC0 ''execute_throwifnot_short'',
      SetRange 0xC0 0xC8 ''execute_throw_long'',
      SetRange 0xC8 0xD0 ''execute_throwarg'',
      SetRange 0xD0 0xD8 ''execute_throwif_long'',
      SetRange 0xD8 0xE0 ''execute_throwargif'',
      SetRange 0xE0 0xE8 ''execute_throwifnot_long'',
      SetRange 0xE8 0xF0 ''execute_throwargifnot'',
      Set 0xF0 ''execute_throwany'',
      Set 0xF1 ''execute_throwargany'',
      Set 0xF2 ''execute_throwanyif'',
      Set 0xF3 ''execute_throwarganyif'',
      Set 0xF4 ''execute_throwanyifnot'',
      Set 0xF5 ''execute_throwarganyifnot'',
      Set 0xFE ''execute_trykeep'',
      Set 0xFF ''execute_try''],
    Set 0xF3 ''execute_tryargs'']"

definition add_code_page_0_dictionaries :: "table_op list" where
  "add_code_page_0_dictionaries = [
    AddSubset 0xF4 [
      Set 0x00 ''execute_stdict'',
      Set 0x01 ''execute_skipdict'',
      Set 0x02 ''execute_lddicts'',
      Set 0x03 ''execute_plddicts'',
      Set 0x04 ''execute_lddict'',
      Set 0x05 ''execute_plddict'',
      Set 0x06 ''execute_lddictq'',
      Set 0x07 ''execute_plddictq'',
      Set 0x0A ''execute_dictget'',
      Set 0x0B ''execute_dictgetref'',
      Set 0x0C ''execute_dictiget'',
      Set 0x0D ''execute_dictigetref'',
      Set 0x0E ''execute_dictuget'',
      Set 0x0F ''execute_dictugetref'',
      Set 0x12 ''execute_dictset'',
      Set 0x13 ''execute_dictsetref'',
      Set 0x14 ''execute_dictiset'',
      Set 0x15 ''execute_dictisetref'',
      Set 0x16 ''execute_dictuset'',
      Set 0x17 ''execute_dictusetref'',
      Set 0x1A ''execute_dictsetget'',
      Set 0x1B ''execute_dictsetgetref'',
      Set 0x1C ''execute_dictisetget'',
      Set 0x1D ''execute_dictisetgetref'',
      Set 0x1E ''execute_dictusetget'',
      Set 0x1F ''execute_dictusetgetref'',
      Set 0x22 ''execute_dictreplace'',
      Set 0x23 ''execute_dictreplaceref'',
      Set 0x24 ''execute_dictireplace'',
      Set 0x25 ''execute_dictireplaceref'',
      Set 0x26 ''execute_dictureplace'',
      Set 0x27 ''execute_dictureplaceref'',
      Set 0x2A ''execute_dictreplaceget'',
      Set 0x2B ''execute_dictreplacegetref'',
      Set 0x2C ''execute_dictireplaceget'',
      Set 0x2D ''execute_dictireplacegetref'',
      Set 0x2E ''execute_dictureplaceget'',
      Set 0x2F ''execute_dictureplacegetref'',
      Set 0x32 ''execute_dictadd'',
      Set 0x33 ''execute_dictaddref'',
      Set 0x34 ''execute_dictiadd'',
      Set 0x35 ''execute_dictiaddref'',
      Set 0x36 ''execute_dictuadd'',
      Set 0x37 ''execute_dictuaddref'',
      Set 0x3A ''execute_dictaddget'',
      Set 0x3B ''execute_dictaddgetref'',
      Set 0x3C ''execute_dictiaddget'',
      Set 0x3D ''execute_dictiaddgetref'',
      Set 0x3E ''execute_dictuaddget'',
      Set 0x3F ''execute_dictuaddgetref'',
      Set 0x41 ''execute_dictsetb'',
      Set 0x42 ''execute_dictisetb'',
      Set 0x43 ''execute_dictusetb'',
      Set 0x45 ''execute_dictsetgetb'',
      Set 0x46 ''execute_dictisetgetb'',
      Set 0x47 ''execute_dictusetgetb'',
      Set 0x49 ''execute_dictreplaceb'',
      Set 0x4A ''execute_dictireplaceb'',
      Set 0x4B ''execute_dictureplaceb'',
      Set 0x4D ''execute_dictreplacegetb'',
      Set 0x4E ''execute_dictireplacegetb'',
      Set 0x4F ''execute_dictureplacegetb'',
      Set 0x51 ''execute_dictaddb'',
      Set 0x52 ''execute_dictiaddb'',
      Set 0x53 ''execute_dictuaddb'',
      Set 0x55 ''execute_dictaddgetb'',
      Set 0x56 ''execute_dictiaddgetb'',
      Set 0x57 ''execute_dictuaddgetb'',
      Set 0x59 ''execute_dictdel'',
      Set 0x5A ''execute_dictidel'',
      Set 0x5B ''execute_dictudel'',
      Set 0x62 ''execute_dictdelget'',
      Set 0x63 ''execute_dictdelgetref'',
      Set 0x64 ''execute_dictidelget'',
      Set 0x65 ''execute_dictidelgetref'',
      Set 0x66 ''execute_dictudelget'',
      Set 0x67 ''execute_dictudelgetref'',
      Set 0x69 ''execute_dictgetoptref'',
      Set 0x6A ''execute_dictigetoptref'',
      Set 0x6B ''execute_dictugetoptref'',
      Set 0x6D ''execute_dictsetgetoptref'',
      Set 0x6E ''execute_dictisetgetoptref'',
      Set 0x6F ''execute_dictusetgetoptref'',
      Set 0x70 ''execute_pfxdictset'',
      Set 0x71 ''execute_pfxdictreplace'',
      Set 0x72 ''execute_pfxdictadd'',
      Set 0x73 ''execute_pfxdictdel'',
      Set 0x74 ''execute_dictgetnext'',
      Set 0x75 ''execute_dictgetnexteq'',
      Set 0x76 ''execute_dictgetprev'',
      Set 0x77 ''execute_dictgetpreveq'',
      Set 0x78 ''execute_dictigetnext'',
      Set 0x79 ''execute_dictigetnexteq'',
      Set 0x7A ''execute_dictigetprev'',
      Set 0x7B ''execute_dictigetpreveq'',
      Set 0x7C ''execute_dictugetnext'',
      Set 0x7D ''execute_dictugetnexteq'',
      Set 0x7E ''execute_dictugetprev'',
      Set 0x7F ''execute_dictugetpreveq'',
      Set 0x82 ''execute_dictmin'',
      Set 0x83 ''execute_dictminref'',
      Set 0x84 ''execute_dictimin'',
      Set 0x85 ''execute_dictiminref'',
      Set 0x86 ''execute_dictumin'',
      Set 0x87 ''execute_dictuminref'',
      Set 0x8A ''execute_dictmax'',
      Set 0x8B ''execute_dictmaxref'',
      Set 0x8C ''execute_dictimax'',
      Set 0x8D ''execute_dictimaxref'',
      Set 0x8E ''execute_dictumax'',
      Set 0x8F ''execute_dictumaxref'',
      Set 0x92 ''execute_dictremmin'',
      Set 0x93 ''execute_dictremminref'',
      Set 0x94 ''execute_dictiremmin'',
      Set 0x95 ''execute_dictiremminref'',
      Set 0x96 ''execute_dicturemmin'',
      Set 0x97 ''execute_dicturemminref'',
      Set 0x9A ''execute_dictremmax'',
      Set 0x9B ''execute_dictremmaxref'',
      Set 0x9C ''execute_dictiremmax'',
      Set 0x9D ''execute_dictiremmaxref'',
      Set 0x9E ''execute_dicturemmax'',
      Set 0x9F ''execute_dicturemmaxref'',
      Set 0xA0 ''execute_dictigetjmp'',
      Set 0xA1 ''execute_dictugetjmp'',
      Set 0xA2 ''execute_dictigetexec'',
      Set 0xA3 ''execute_dictugetexec'',
      SetRange 0xA4 0xA8 ''execute_dictpushconst'',
      Set 0xA8 ''execute_pfxdictgetq'',
      Set 0xA9 ''execute_pfxdictget'',
      Set 0xAA ''execute_pfxdictgetjmp'',
      Set 0xAB ''execute_pfxdictgetexec'',
      SetRange 0xAC 0xAF ''execute_pfxdictswitch'',
      Set 0xAF ''execute_pfxdictswitch'',
      Set 0xB1 ''execute_subdictget'',
      Set 0xB2 ''execute_subdictiget'',
      Set 0xB3 ''execute_subdictuget'',
      Set 0xB5 ''execute_subdictrpget'',
      Set 0xB6 ''execute_subdictirpget'',
      Set 0xB7 ''execute_subdicturpget'',
      Set 0xBC ''execute_dictigetjmpz'',
      Set 0xBD ''execute_dictugetjmpz'',
      Set 0xBE ''execute_dictigetexecz'',
      Set 0xBF ''execute_dictugetexecz'']]"

definition add_code_page_0_gas_rand_config :: "table_op list" where
  "add_code_page_0_gas_rand_config = [
    AddSubset 0xF8 [
      Set 0x00 ''execute_accept'',
      Set 0x01 ''execute_setgaslimit'',
      Set 0x02 ''execute_buygas'',
      Set 0x04 ''execute_gramtogas'',
      Set 0x05 ''execute_gastogram'',
      Set 0x06 ''execute_gas_remaining'',
      Set 0x0F ''execute_commit'',
      Set 0x10 ''execute_randu256'',
      Set 0x11 ''execute_rand'',
      Set 0x14 ''execute_setrand'',
      Set 0x15 ''execute_addrand'',
      Set 0x20 ''execute_getparam'',
      Set 0x21 ''execute_getparam'',
      Set 0x22 ''execute_getparam'',
      Set 0x23 ''execute_now'',
      Set 0x24 ''execute_blocklt'',
      Set 0x25 ''execute_ltime'',
      Set 0x26 ''execute_randseed'',
      Set 0x27 ''execute_balance'',
      Set 0x28 ''execute_my_addr'',
      Set 0x29 ''execute_config_root'',
      Set 0x2A ''execute_my_code'',
      Set 0x2B ''execute_init_code_hash'',
      Set 0x2C ''execute_storage_fees_collected'',
      Set 0x2D ''execute_seq_no'',
      Set 0x30 ''execute_config_dict'',
      Set 0x32 ''execute_config_ref_param'',
      Set 0x33 ''execute_config_opt_param'',
      Set 0x40 ''execute_getglobvar'',
      SetRange 0x41 0x5F ''execute_getglob'',
      Set 0x5F ''execute_getglob'',
      Set 0x60 ''execute_setglobvar'',
      SetRange 0x61 0x7F ''execute_setglob'',
      Set 0x7F ''execute_setglob'']]"

definition add_code_page_0_blockchain :: "table_op list" where
  "add_code_page_0_blockchain = [
    AddSubset 0xFA [
      Set 0x00 ''execute_ldgrams'',
      Set 0x01 ''execute_ldvarint16'',
      Set 0x02 ''execute_stgrams'',
      Set 0x03 ''execute_stvarint16'',
      Set 0x04 ''execute_ldvaruint32'',
      Set 0x05 ''execute_ldvarint32'',
      Set 0x06 ''execute_stvaruint32'',
      Set 0x07 ''execute_stvarint32'',
      Set 0x40 ''execute_ldmsgaddr::<Signaling>'',
      Set 0x41 ''execute_ldmsgaddr::<Quiet>'',
      Set 0x42 ''execute_parsemsgaddr::<Signaling>'',
      Set 0x43 ''execute_parsemsgaddr::<Quiet>'',
      Set 0x44 ''execute_rewrite_std_addr::<Signaling>'',
      Set 0x45 ''execute_rewrite_std_addr::<Quiet>'',
      Set 0x46 ''execute_rewrite_var_addr::<Signaling>'',
      Set 0x47 ''execute_rewrite_var_addr::<Quiet>''],
    AddSubset 0xFB [
      Set 0x00 ''execute_sendrawmsg'',
      Set 0x02 ''execute_rawreserve'',
      Set 0x03 ''execute_rawreservex'',
      Set 0x04 ''execute_setcode'',
      Set 0x06 ''execute_setlibcode'',
      Set 0x07 ''execute_changelib'',
      Set 0x0A ''execute_copyleft'']]"

definition add_code_page_0_crypto :: "table_op list" where
  "add_code_page_0_crypto = [
    AddSubset 0xF9 [
      Set 0x00 ''execute_hashcu'',
      Set 0x01 ''execute_hashsu'',
      Set 0x02 ''execute_sha256u'',
      Set 0x10 ''execute_chksignu'',
      Set 0x11 ''execute_chksigns'',
      Set 0x40 ''execute_cdatasizeq'',
      Set 0x41 ''execute_cdatasize'',
      Set 0x42 ''execute_sdatasizeq'',
      Set 0x43 ''execute_sdatasize'',
      Set 0x44 ''execute_find_by_init_code_hash'',
      Set 0x45 ''execute_find_by_code_hash'',
      Set 0x46 ''execute_find_by_data_hash'',
      Set 0x50 ''execute_try_elect'']]"

definition add_code_page_0_debug :: "table_op list" where
  "add_code_page_0_debug = [
    AddSubset 0xFE [
      Set 0x00 ''execute_dump_stack'',
      SetRange 0x01 0x0F ''execute_dump_stack_top'',
      Set 0x10 ''execute_dump_hex'',
      Set 0x11 ''execute_print_hex'',
      Set 0x12 ''execute_dump_bin'',
      Set 0x13 ''execute_print_bin'',
      Set 0x14 ''execute_dump_str'',
      Set 0x15 ''execute_print_str'',
      Set 0x1E ''execute_debug_off'',
      Set 0x1F ''execute_debug_on'',
      SetRange 0x20 0x2F ''execute_dump_var'',
      SetRange 0x30 0x3F ''execute_print_var'',
      SetRange 0xF0 0xFF ''execute_dump_string'',
      Set 0xFF ''execute_dump_string'']]"

definition code_page_0_setcp :: "table_op list" where
  "code_page_0_setcp = [
    AddSubset 0xFF [
      SetRange 0x00 0xF0 ''execute_setcp'',
      Set 0xF0 ''execute_setcpx'',
      SetRange 0xF1 0xFF ''execute_setcp'',
      Set 0xFF ''execute_setcp'']]"

definition new_code_page_0 :: "table_op list" where
  "new_code_page_0 = add_code_page_0_part_stack @
     add_code_page_0_tuple @
     add_code_page_0_part_constant @
     add_code_page_0_arithmetic @
     add_code_page_0_comparsion @
     add_code_page_0_cell @
     add_code_page_0_control_flow @
     add_code_page_0_exceptions @
     add_code_page_0_dictionaries @
     add_code_page_0_gas_rand_config @
     add_code_page_0_blockchain @
     add_code_page_0_crypto @
     add_code_page_0_debug @
     code_page_0_setcp"

text \<open>Each part goes up in its own range of codes, but for the control flow, which registers
  \<open>0xDE\<close> before \<open>0xDC\<close>.\<close>

lemma part_stack_spans: "spans 0 109 add_code_page_0_part_stack"
  by (rule chain_spans) (simp_all add: add_code_page_0_part_stack_def)

lemma tuple_spans: "spans 109 112 add_code_page_0_tuple"
  by (rule chain_spans) (simp_all add: add_code_page_0_tuple_def)

lemma part_constant_spans: "spans 112 160 add_code_page_0_part_constant"
  by (rule chain_spans) (simp_all add: add_code_page_0_part_constant_def)

lemma arithmetic_spans: "spans 160 184 add_code_page_0_arithmetic"
  by (rule chain_spans) (simp_all add: add_code_page_0_arithmetic_def)

lemma comparsion_spans: "spans 184 200 add_code_page_0_comparsion"
  by (rule chain_spans) (simp_all add: add_code_page_0_comparsion_def)

lemma cell_spans: "spans 200 216 add_code_page_0_cell"
  by (rule chain_spans) (simp_all add: add_code_page_0_cell_def)

lemma exceptions_spans: "spans 242 244 add_code_page_0_exceptions"
  by (rule chain_spans) (simp_all add: add_code_page_0_exceptions_def)

lemma dictionaries_spans: "spans 244 245 add_code_page_0_dictionaries"
  by (rule chain_spans) (simp_all add: add_code_page_0_dictionaries_def)

lemma gas_rand_config_spans: "spans 248 249 add_code_page_0_gas_rand_config"
  by (rule chain_spans) (simp_all add: add_code_page_0_gas_rand_config_def)

lemma blockchain_spans: "spans 250 252 add_code_page_0_blockchain"
  by (rule chain_spans) (simp_all add: add_code_page_0_blockchain_def)

lemma crypto_spans: "spans 249 250 add_code_page_0_crypto"
  by (rule chain_spans) (simp_all add: add_code_page_0_crypto_def)

lemma debug_spans: "spans 254 255 add_code_page_0_debug"
  by (rule chain_spans) (simp_all add: add_code_page_0_debug_def)

lemma setcp_spans: "spans 255 256 code_page_0_setcp"
  by (rule chain_spans) (simp_all add: code_page_0_setcp_def)

lemma control_flow_spans: "spans 216 242 add_code_page_0_control_flow"
  by (simp add: add_code_page_0_control_flow_def spans_def apart_def)

lemma new_code_page_0_well_formed: "well_formed new_code_page_0"
proof -
  have a: "spans 254 256 (add_code_page_0_debug @ code_page_0_setcp)"
    using spans_append [OF debug_spans setcp_spans] by simp
  have b: "spans 249 252 (add_code_page_0_blockchain @ add_code_page_0_crypto)"
    using spans_append [OF blockchain_spans crypto_spans] by simp
  have "spans 249 256 (add_code_page_0_blockchain @ add_code_page_0_crypto @
      add_code_page_0_debug @ code_page_0_setcp)"
    using spans_append [OF b a] by simp
  from spans_append [OF gas_rand_config_spans this]
  have "spans 248 256 (add_code_page_0_gas_rand_config @ add_code_page_0_blockchain @ add_code_page_0_crypto @
      add_code_page_0_debug @ code_page_0_setcp)" by simp
  from spans_append [OF dictionaries_spans this]
  have "spans 244 256 (add_code_page_0_dictionaries @ add_code_page_0_gas_rand_config @ add_code_page_0_blockchain
      @ add_code_page_0_crypto @ add_code_page_0_debug @ code_page_0_setcp)" by simp
  from spans_append [OF exceptions_spans this]
  have "spans 242 256 (add_code_page_0_exceptions @ add_code_page_0_dictionaries @ add_code_page_0_gas_rand_config
      @ add_code_page_0_blockchain @ add_code_page_0_crypto @ add_code_page_0_debug @
      code_page_0_setcp)" by simp
  from spans_append [OF control_flow_spans this]
  have "spans 216 256 (add_code_page_0_control_flow @ add_code_page_0_exceptions @ add_code_page_0_dictionaries @
      add_code_page_0_gas_rand_config @ add_code_page_0_blockchain @ add_code_page_0_crypto @
      add_code_page_0_debug @ code_page_0_setcp)" by simp
  from spans_append [OF cell_spans this]
  have "spans 200 256 (add_code_page_0_cell @ add_code_page_0_control_flow @ add_code_page_0_exceptions @
      add_code_page_0_dictionaries @ add_code_page_0_gas_rand_config @ add_code_page_0_blockchain
      @ add_code_page_0_crypto @ add_code_page_0_debug @ code_page_0_setcp)" by simp
  from spans_append [OF comparsion_spans this]
  have "spans 184 256 (add_code_page_0_comparsion @ add_code_page_0_cell @ add_code_page_0_control_flow @
      add_code_page_0_exceptions @ add_code_page_0_dictionaries @ add_code_page_0_gas_rand_config
      @ add_code_page_0_blockchain @ add_code_page_0_crypto @ add_code_page_0_debug @
      code_page_0_setcp)" by simp
  from spans_append [OF arithmetic_spans this]
  have "spans 160 256 (add_code_page_0_arithmetic @ add_code_page_0_comparsion @ add_code_page_0_cell @
      add_code_page_0_control_flow @ add_code_page_0_exceptions @ add_code_page_0_dictionaries @
      add_code_page_0_gas_rand_config @ add_code_page_0_blockchain @ add_code_page_0_crypto @
      add_code_page_0_debug @ code_page_0_setcp)" by simp
  from spans_append [OF part_constant_spans this]
  have "spans 112 256 (add_code_page_0_part_constant @ add_code_page_0_arithmetic @ add_code_page_0_comparsion @
      add_code_page_0_cell @ add_code_page_0_control_flow @ add_code_page_0_exceptions @
      add_code_page_0_dictionaries @ add_code_page_0_gas_rand_config @ add_code_page_0_blockchain
      @ add_code_page_0_crypto @ add_code_page_0_debug @ code_page_0_setcp)" by simp
  from spans_append [OF tuple_spans this]
  have "spans 109 256 (add_code_page_0_tuple @ add_code_page_0_part_constant @ add_code_page_0_arithmetic @
      add_code_page_0_comparsion @ add_code_page_0_cell @ add_code_page_0_control_flow @
      add_code_page_0_exceptions @ add_code_page_0_dictionaries @ add_code_page_0_gas_rand_config
      @ add_code_page_0_blockchain @ add_code_page_0_crypto @ add_code_page_0_debug @
      code_page_0_setcp)" by simp
  from spans_append [OF part_stack_spans this]
  have "spans 0 256 (add_code_page_0_part_stack @ add_code_page_0_tuple @ add_code_page_0_part_constant @
      add_code_page_0_arithmetic @ add_code_page_0_comparsion @ add_code_page_0_cell @
      add_code_page_0_control_flow @ add_code_page_0_exceptions @ add_code_page_0_dictionaries @
      add_code_page_0_gas_rand_config @ add_code_page_0_blockchain @ add_code_page_0_crypto @
      add_code_page_0_debug @ code_page_0_setcp)" by simp
  then show ?thesis by (simp add: new_code_page_0_def spans_def)
qed

end
