(* ===== verification/Exec_Tuple.thy ===== *)
theory Exec_Tuple
  imports Exec_Stack
begin

text \<open>
  The instructions on tuples (\<open>executor/tuple.rs\<close>), on null (\<open>executor/null.rs\<close>) and on
  the global variables in \<open>c7\<close> (\<open>executor/globals.rs\<close>).  The flag byte \<open>how\<close> an
  instruction passes to the shared routine stays a byte.
\<close>

unbundle bit_operations_syntax

section \<open>Flags and operands\<close>

definition bit_set :: "8 word \<Rightarrow> 8 word \<Rightarrow> bool" where
  "bit_set how bs = (how AND bs = bs)"

definition INDEX :: "8 word" where "INDEX = 0x03"
definition COUNT :: "8 word" where "COUNT = 0x01"
definition CMD :: "8 word" where "CMD = 0x04"
definition STACK_ARG :: "8 word" where "STACK_ARG = 0x08"
definition QUIET :: "8 word" where "QUIET = 0x10"
definition CMP :: "8 word" where "CMP = 0xC0"
definition EXACT :: "8 word" where "EXACT = 0x40"
definition FEWER :: "8 word" where "FEWER = 0x80"
definition MORE :: "8 word" where "MORE = 0xC0"

lemmas flag_defs = bit_set_def INDEX_def COUNT_def CMD_def STACK_ARG_def QUIET_def CMP_def
  EXACT_def FEWER_def MORE_def

definition load_with_length ::
  "('c, 's, 'b, 'h) ton \<Rightarrow> string \<Rightarrow> bool \<Rightarrow> nat \<Rightarrow> nat \<Rightarrow> ('c, 's, 'b, 'h) handler" where
  "load_with_length T name wanted lo hi = (if wanted then load_opts T name (Opt_Length lo hi) else load T name)"

definition nat_var :: "nat \<Rightarrow> nat \<Rightarrow> ('c, 's, 'b, 'h, nat) action" where
  "nat_var hi i = bindE (ranged_var Usize 0 (int hi) i) (\<lambda>v. returnE (nat v))"

text \<open>\<open>withdraw\<close> and \<open>as_tuple_mut\<close> of a variable leave what they left in the source.\<close>

definition withdraw_var :: "nat \<Rightarrow> ('c, 's, 'b, 'h, ('c, 's, 'b) stack_item) action" where
  "withdraw_var i = bindE (cmd_var i) (\<lambda>x. thenE (set_var i Item_None) (returnE x))"

definition var_tuple_mut :: "nat \<Rightarrow> ('c, 's, 'b, 'h, ('c, 's, 'b) stack_item list) action" where
  "var_tuple_mut i = bindE (cmd_var i) (\<lambda>x.
     thenE (set_var i (snd (as_tuple_mut x))) (liftE (fst (as_tuple_mut x))))"

definition ctrl_tuple_mut :: "nat \<Rightarrow> ('c, 's, 'b, 'h, ('c, 's, 'b) stack_item list) action" where
  "ctrl_tuple_mut i = bindE (engine_ctrl i) (\<lambda>x.
     thenE (set_ctrl i (snd (as_tuple_mut x))) (liftE (fst (as_tuple_mut x))))"

definition use_tuple_gas :: "nat \<Rightarrow> ('c, 's, 'b, 'h) handler" where
  "use_tuple_gas n = engine_use_gas (tuple_gas_price n)"

section \<open>Creation\<close>

definition split_vars :: "nat \<Rightarrow> ('c, 's, 'b, 'h, ('c, 's, 'b) stack_item list) action" where
  "split_vars n = (\<lambda>e. if n \<le> length (vars (cmd e))
     then (Inr (drop (length (vars (cmd e)) - n) (vars (cmd e))),
           e \<lparr> cmd := (cmd e) \<lparr> vars := take (length (vars (cmd e)) - n) (vars (cmd e)) \<rparr> \<rparr>)
     else (Inl Panic, e))"

definition make_tuple :: "nat \<Rightarrow> ('c, 's, 'b, 'h) handler" where
  "make_tuple n = thenE (fetch_stack n) (bindE (split_vars n) (\<lambda>vs.
     thenE (use_tuple_gas (length vs)) (push_item (Item_Tuple (rev vs)))))"

definition tuple :: "('c, 's, 'b, 'h) ton \<Rightarrow> string \<Rightarrow> 8 word \<Rightarrow> ('c, 's, 'b, 'h) handler" where
  "tuple T name how = thenE (load_with_length T name (bit_set how CMD) 0 16)
     (bindE (if bit_set how CMD then cmd_length else thenE (fetch_stack 1) (nat_var 255 0)) make_tuple)"

definition tuple_create_handlers :: "('c, 's, 'b, 'h) ton \<Rightarrow> ('c, 's, 'b, 'h) named_handlers" where
  "tuple_create_handlers T = [
     (''execute_tuple_create'', tuple T ''TUPLE'' CMD),
     (''execute_tuple_createvar'', tuple T ''TUPLEVAR'' STACK_ARG)]"

section \<open>Reading\<close>

definition item_of_var :: "nat \<Rightarrow> nat \<Rightarrow> bool \<Rightarrow> ('c, 's, 'b, 'h, ('c, 's, 'b) stack_item) action" where
  "item_of_var i n dflt = bindE (cmd_var i) (\<lambda>x. liftE (tuple_item x n dflt))"

definition load_index :: "('c, 's, 'b, 'h) ton \<Rightarrow> 8 word \<Rightarrow> ('c, 's, 'b, 'h) handler" where
  "load_index T index =
     (if index = 0 then load T ''INDEXVAR''
      else if index = 1 then load_opts T ''INDEX'' (Opt_Length 0 16)
      else if index = 2 then load_opts T ''INDEX2'' (Opt_StackRegisterPair GetFromLastByte2Bits)
      else load_opts T ''INDEX3'' (Opt_StackRegisterTrio GetFromLastByte2Bits))"

definition tuple_index :: "('c, 's, 'b, 'h) ton \<Rightarrow> 8 word \<Rightarrow> ('c, 's, 'b, 'h) handler" where
  "tuple_index T how =
     (let index = how AND INDEX; n_params = (if index = 0 then 2 else 1); q = bit_set how QUIET in
      thenE (load_index T index) (thenE (fetch_stack n_params)
        (bindE (if index = 0 then nat_var 254 0 else returnE 0) (\<lambda>n.
         bindE (cmd_var (n_params - 1)) (\<lambda>t.
           if is_null t \<and> q then push_item Item_None
           else bindE
             (if index = 0 then item_of_var 1 n q
              else if index = 1 then bindE cmd_length (\<lambda>n. item_of_var 0 n q)
              else if index = 2 then bindE cmd_sregs (\<lambda>r.
                bindE (item_of_var 0 (pair_ra r) False) (\<lambda>v. liftE (tuple_item v (pair_rb r) False)))
              else bindE cmd_sregs3 (\<lambda>r.
                bindE (item_of_var 0 (trio_ra r) False) (\<lambda>v.
                bindE (liftE (tuple_item v (trio_rb r) False)) (\<lambda>w.
                  liftE (tuple_item w (trio_rc r) False)))))
             push_item)))))"

definition tuple_index_handlers :: "('c, 's, 'b, 'h) ton \<Rightarrow> ('c, 's, 'b, 'h) named_handlers" where
  "tuple_index_handlers T = [
     (''execute_tuple_index'', tuple_index T (1 OR CMD)),
     (''execute_tuple_index_quiet'', tuple_index T (1 OR CMD OR QUIET)),
     (''execute_tuple_index2'', tuple_index T (2 OR CMD)),
     (''execute_tuple_index3'', tuple_index T (3 OR CMD)),
     (''execute_tuple_indexvar'', tuple_index T STACK_ARG),
     (''execute_tuple_indexvar_quiet'', tuple_index T (STACK_ARG OR QUIET))]"

definition tuple_length :: "('c, 's, 'b, 'h) ton \<Rightarrow> string \<Rightarrow> 8 word \<Rightarrow> ('c, 's, 'b, 'h) handler" where
  "tuple_length T name how = thenE (load T name) (thenE (fetch_stack 1)
     (bindE (cmd_var 0) (\<lambda>x. case as_tuple x of
        Inr t \<Rightarrow> push_item (item_int (int (length t)))
      | Inl er \<Rightarrow> if bit_set how QUIET then push_item (item_int (- 1)) else throwE er)))"

definition tuple_length_handlers :: "('c, 's, 'b, 'h) ton \<Rightarrow> ('c, 's, 'b, 'h) named_handlers" where
  "tuple_length_handlers T = [
     (''execute_tuple_len'', tuple_length T ''TLEN'' 0),
     (''execute_tuple_len_quiet'', tuple_length T ''QTLEN'' QUIET)]"

definition execute_tuple_last :: "('c, 's, 'b, 'h) ton \<Rightarrow> ('c, 's, 'b, 'h) handler" where
  "execute_tuple_last T = thenE (load T ''LAST'') (thenE (fetch_stack 1)
     (bindE (cmd_var 0) (\<lambda>x. bindE (liftE (as_tuple x)) (\<lambda>t.
        if t = [] then errE TypeCheckError else push_item (last t)))))"

definition execute_istuple :: "('c, 's, 'b, 'h) ton \<Rightarrow> ('c, 's, 'b, 'h) handler" where
  "execute_istuple T = thenE (load T ''ISTUPLE'') (thenE (fetch_stack 1)
     (bindE (cmd_var 0) (\<lambda>x. push_item (item_boolean (is_ok (as_tuple x))))))"

section \<open>Unpacking\<close>

definition push_items :: "('c, 's, 'b) stack_item list \<Rightarrow> ('c, 's, 'b, 'h) handler" where
  "push_items xs = seqE (map push_item xs)"

definition unpack :: "8 word \<Rightarrow> nat \<Rightarrow> nat \<Rightarrow> ('c, 's, 'b, 'h) handler" where
  "unpack how n_params n = bindE (cmd_var (n_params - 1)) (\<lambda>x. bindE (liftE (as_tuple x)) (\<lambda>t.
     let len = length t; m = how AND CMP in
     if m = EXACT \<and> len \<noteq> n \<or> m = FEWER \<and> len < n \<or> m = MORE \<and> len > n then errE TypeCheckError
     else let n' = (if m = MORE then len else n) in
       thenE (use_tuple_gas n') (bindE (cmd_var (n_params - 1)) (\<lambda>x.
         thenE (set_var (n_params - 1) (snd (withdraw_tuple_part n' x)))
           (bindE (liftE (fst (withdraw_tuple_part n' x))) (\<lambda>vs.
             thenE (push_items vs)
               (whenE (bit_set how COUNT) (push_item (item_int (int len))))))))))"

definition untuple :: "('c, 's, 'b, 'h) ton \<Rightarrow> string \<Rightarrow> 8 word \<Rightarrow> ('c, 's, 'b, 'h) handler" where
  "untuple T name how =
     (let n_params = (if bit_set how STACK_ARG then 2 else 1) in
      thenE (load_with_length T name (bit_set how CMD) 0 16) (thenE (fetch_stack n_params)
        (bindE (if bit_set how CMD then cmd_length
                else if bit_set how STACK_ARG then nat_var 255 0 else returnE 0) (unpack how n_params))))"

definition untuple_handlers :: "('c, 's, 'b, 'h) ton \<Rightarrow> ('c, 's, 'b, 'h) named_handlers" where
  "untuple_handlers T = [
     (''execute_tuple_unpackfirst'', untuple T ''UNPACKFIRST'' (CMD OR FEWER)),
     (''execute_tuple_unpackfirstvar'', untuple T ''UNPACKFIRSTVAR'' (STACK_ARG OR FEWER)),
     (''execute_tuple_un'', untuple T ''UNTUPLE'' (CMD OR EXACT)),
     (''execute_tuple_untuplevar'', untuple T ''UNTUPLEVAR'' (STACK_ARG OR EXACT)),
     (''execute_tuple_explode'', untuple T ''EXPLODE'' (CMD OR MORE OR COUNT)),
     (''execute_tuple_explodevar'', untuple T ''EXPLODEVAR'' (STACK_ARG OR MORE OR COUNT))]"

section \<open>Writing\<close>

definition set_index_operands ::
  "('c, 's, 'b, 'h) ton \<Rightarrow> string \<Rightarrow> 8 word \<Rightarrow> ('c, 's, 'b, 'h, nat) action \<Rightarrow>
   (nat \<Rightarrow> nat \<Rightarrow> ('c, 's, 'b, 'h) handler) \<Rightarrow> ('c, 's, 'b, 'h) handler" where
  "set_index_operands T name how neither body =
     (let n_params = (if bit_set how STACK_ARG then 3 else 2) in
      thenE (load_with_length T name (bit_set how CMD) 0 16) (thenE (fetch_stack n_params)
        (bindE (if bit_set how CMD then cmd_length
                else if bit_set how STACK_ARG then nat_var 254 0 else neither) (body n_params))))"

definition taken_tuple :: "8 word \<Rightarrow> nat \<Rightarrow> ('c, 's, 'b, 'h, ('c, 's, 'b) stack_item list) action" where
  "taken_tuple how i = bindE (cmd_var i) (\<lambda>x.
     if bit_set how QUIET \<and> is_null x then returnE [] else var_tuple_mut i)"

definition set_index_v2_body :: "8 word \<Rightarrow> nat \<Rightarrow> nat \<Rightarrow> ('c, 's, 'b, 'h) handler" where
  "set_index_v2_body how n_params n = bindE (taken_tuple how (n_params - 1)) (\<lambda>t.
     bindE (withdraw_var (n_params - 2)) (\<lambda>v.
       let len = length t in
       if n < len then thenE (use_tuple_gas len) (push_item (Item_Tuple (t[n := v])))
       else if bit_set how QUIET then
         (if \<not> is_null v
          then thenE (use_tuple_gas (n + 1)) (push_item (Item_Tuple (t @ replicate (n - len) Item_None @ [v])))
          else push_item (Item_Tuple t))
       else errE RangeCheckError))"

definition set_index_v1_body :: "8 word \<Rightarrow> nat \<Rightarrow> nat \<Rightarrow> ('c, 's, 'b, 'h) handler" where
  "set_index_v1_body how n_params n = bindE (taken_tuple how (n_params - 1)) (\<lambda>t.
     bindE (withdraw_var (n_params - 2)) (\<lambda>v.
       let len = length t in
       if \<not> n < len \<and> \<not> bit_set how QUIET then errE RangeCheckError
       else let t' = (if n < len then t[n := v] else t @ replicate (n - len) Item_None @ [v]) in
         thenE (whenE (\<not> is_null v) (use_tuple_gas (length t'))) (push_item (Item_Tuple t'))))"

definition set_index_v2 :: "('c, 's, 'b, 'h) ton \<Rightarrow> string \<Rightarrow> 8 word \<Rightarrow> ('c, 's, 'b, 'h) handler" where
  "set_index_v2 T name how = set_index_operands T name how (throwE Panic) (set_index_v2_body how)"

definition set_index_v1 :: "('c, 's, 'b, 'h) ton \<Rightarrow> string \<Rightarrow> 8 word \<Rightarrow> ('c, 's, 'b, 'h) handler" where
  "set_index_v1 T name how = set_index_operands T name how (returnE 0) (set_index_v1_body how)"

definition set_index :: "('c, 's, 'b, 'h) ton \<Rightarrow> string \<Rightarrow> 8 word \<Rightarrow> ('c, 's, 'b, 'h) handler" where
  "set_index T name how = (\<lambda>e.
     if check_capabilities (capability_bits T CapFixTupleIndexBug) e
     then set_index_v2 T name how e else set_index_v1 T name how e)"

definition set_index_handlers :: "('c, 's, 'b, 'h) ton \<Rightarrow> ('c, 's, 'b, 'h) named_handlers" where
  "set_index_handlers T = [
     (''execute_tuple_setindex'', set_index T ''SETINDEX'' CMD),
     (''execute_tuple_setindex_quiet'', set_index T ''SETINDEXQ'' (CMD OR QUIET)),
     (''execute_tuple_setindexvar'', set_index T ''SETINDEXVAR'' STACK_ARG),
     (''execute_tuple_setindexvar_quiet'', set_index T ''SETINDEXVARQ'' (STACK_ARG OR QUIET))]"

definition tuple_push_body :: "('c, 's, 'b, 'h) handler" where
  "tuple_push_body = bindE (cmd_var 1) (\<lambda>x. bindE (liftE (as_tuple x)) (\<lambda>t.
     if length t \<ge> 255 then errE TypeCheckError
     else bindE (var_tuple_mut 1) (\<lambda>t. bindE (cmd_var 0) (\<lambda>v.
       thenE (use_tuple_gas (length (t @ [v]))) (push_item (Item_Tuple (t @ [v])))))))"

definition execute_tuple_push :: "('c, 's, 'b, 'h) ton \<Rightarrow> ('c, 's, 'b, 'h) handler" where
  "execute_tuple_push T = thenE (load T ''TPUSH'') (thenE (fetch_stack 2) tuple_push_body)"

text \<open>Popping an empty tuple is reported with the bare code, not as an exception.\<close>

definition tuple_pop_body :: "('c, 's, 'b, 'h) handler" where
  "tuple_pop_body = bindE (var_tuple_mut 0) (\<lambda>t.
     if t = [] then throwE (CodeError TypeCheckError)
     else thenE (use_tuple_gas (length (butlast t)))
       (thenE (push_item (Item_Tuple (butlast t))) (push_item (last t))))"

definition execute_tuple_pop :: "('c, 's, 'b, 'h) ton \<Rightarrow> ('c, 's, 'b, 'h) handler" where
  "execute_tuple_pop T = thenE (load T ''TPOP'') (thenE (fetch_stack 1) tuple_pop_body)"

section \<open>Null\<close>

definition execute_null :: "('c, 's, 'b, 'h) ton \<Rightarrow> ('c, 's, 'b, 'h) handler" where
  "execute_null T = thenE (load T ''NULL'') (push_item Item_None)"

definition execute_isnull :: "('c, 's, 'b, 'h) ton \<Rightarrow> ('c, 's, 'b, 'h) handler" where
  "execute_isnull T = thenE (load T ''ISNULL'') (thenE (fetch_stack 1)
     (bindE (cmd_var 0) (\<lambda>x. push_item (item_boolean (is_null x)))))"

definition ARG :: "8 word" where "ARG = 0x03"
definition DBL :: "8 word" where "DBL = 0x04"
definition INV :: "8 word" where "INV = 0x08"
definition ZERO :: "8 word" where "ZERO = 0x10"

definition nullzeroswapif :: "('c, 's, 'b, 'h) ton \<Rightarrow> string \<Rightarrow> 8 word \<Rightarrow> ('c, 's, 'b, 'h) handler" where
  "nullzeroswapif T name how =
     (let args = unat (how AND ARG); new_element = (if bit_set how ZERO then item_int 0 else Item_None) in
      thenE (load T name) (thenE (fetch_stack args)
        (bindE (cmd_var 0) (\<lambda>x. bindE (liftE (as_bool x)) (\<lambda>b.
          thenE (whenE (b \<noteq> bit_set how INV)
                   (thenE (whenE (bit_set how DBL) (push_item new_element)) (push_item new_element)))
            (thenE (whenE (args > 1) (bindE (remove_var 1) push_item))
              (bindE (remove_var 0) push_item)))))))"

definition nullzero_handlers :: "('c, 's, 'b, 'h) ton \<Rightarrow> ('c, 's, 'b, 'h) named_handlers" where
  "nullzero_handlers T = [
     (''execute_nullswapif'', nullzeroswapif T ''NULLSWAPIF'' 1),
     (''execute_nullswapif2'', nullzeroswapif T ''NULLSWAPIF2'' (1 OR DBL)),
     (''execute_nullswapifnot'', nullzeroswapif T ''NULLSWAPIFNOT'' (1 OR INV)),
     (''execute_nullswapifnot2'', nullzeroswapif T ''NULLSWAPIFNOT2'' (1 OR INV OR DBL)),
     (''execute_nullrotrif'', nullzeroswapif T ''NULLROTRIF'' 2),
     (''execute_nullrotrif2'', nullzeroswapif T ''NULLROTRIF2'' (2 OR DBL)),
     (''execute_nullrotrifnot'', nullzeroswapif T ''NULLROTRIFNOT'' (2 OR INV)),
     (''execute_nullrotrifnot2'', nullzeroswapif T ''NULLROTRIFNOT2'' (2 OR INV OR DBL)),
     (''execute_zeroswapif'', nullzeroswapif T ''ZEROSWAPIF'' (1 OR ZERO)),
     (''execute_zeroswapif2'', nullzeroswapif T ''ZEROSWAPIF2'' (1 OR DBL OR ZERO)),
     (''execute_zeroswapifnot'', nullzeroswapif T ''ZEROSWAPIFNOT'' (1 OR INV OR ZERO)),
     (''execute_zeroswapifnot2'', nullzeroswapif T ''ZEROSWAPIFNOT2'' (1 OR INV OR DBL OR ZERO)),
     (''execute_zerorotrif'', nullzeroswapif T ''ZEROROTRIF'' (2 OR ZERO)),
     (''execute_zerorotrif2'', nullzeroswapif T ''ZEROROTRIF2'' (2 OR DBL OR ZERO)),
     (''execute_zerorotrifnot'', nullzeroswapif T ''ZEROROTRIFNOT'' (2 OR INV OR ZERO)),
     (''execute_zerorotrifnot2'', nullzeroswapif T ''ZEROROTRIFNOT2'' (2 OR INV OR DBL OR ZERO))]"

section \<open>Global variables\<close>

text \<open>\<open>resize\<close> pads with nulls; it is only reached with \<open>k\<close> at least the length.\<close>

definition set_global :: "nat \<Rightarrow> nat \<Rightarrow> ('c, 's, 'b, 'h) handler" where
  "set_global n_params k = bindE (ctrl_tuple_mut 7) (\<lambda>t. bindE (withdraw_var (n_params - 1)) (\<lambda>x.
     let (len, t') =
       (if k < length t then (length t, t[k := x])
        else if \<not> is_null x
        then (Suc k, t @ replicate (k - length t) Item_None @ [x])
        else (0, t)) in
     thenE (use_tuple_gas len) (bindE (ctrls_put 7 (Item_Tuple t')) (\<lambda>_. returnE ()))))"

definition get_global :: "nat \<Rightarrow> ('c, 's, 'b, 'h) handler" where
  "get_global k = bindE (engine_ctrl 7) (\<lambda>x. bindE (liftE (tuple_item x k True)) push_item)"

text \<open>\<open>from_stack_flag\<close>, \<open>in_cmd\<close> and \<open>setting\<close> are the bits \<open>STACK\<close>,
  \<open>CMD\<close> and \<open>SET\<close> of the source's flag byte.\<close>

definition execute_setget_globalvar ::
  "('c, 's, 'b, 'h) ton \<Rightarrow> string \<Rightarrow> bool \<Rightarrow> bool \<Rightarrow> bool \<Rightarrow> ('c, 's, 'b, 'h) handler" where
  "execute_setget_globalvar T name from_stack_flag in_cmd setting =
     (let n_params = (if from_stack_flag then 1 else 0) + (if setting then 1 else 0) in
      thenE (load_with_length T name in_cmd 1 32) (thenE (fetch_stack n_params)
        (bindE (if from_stack_flag then nat_var 254 0 else cmd_length)
           (if setting then set_global n_params else get_global))))"

definition global_handlers :: "('c, 's, 'b, 'h) ton \<Rightarrow> ('c, 's, 'b, 'h) named_handlers" where
  "global_handlers T = [
     (''execute_getglobvar'', execute_setget_globalvar T ''GETGLOBVAR'' True False False),
     (''execute_getglob'', execute_setget_globalvar T ''GETGLOB'' False True False),
     (''execute_setglobvar'', execute_setget_globalvar T ''SETGLOBVAR'' True False True),
     (''execute_setglob'', execute_setget_globalvar T ''SETGLOB'' False True True)]"

end
