(* ===== verification/Exec_Continuation.thy ===== *)
theory Exec_Continuation
  imports Exec_Tuple
begin

text \<open>
  The control-flow instructions (\<open>executor/continuation.rs\<close>).  They are sequences of the
  micro-operations of \<open>engine/storage.rs\<close> on addresses: \<open>var_addr i\<close>, \<open>ctrl_addr i\<close>
  and \<open>savelist_addr a i\<close> are the macros \<open>var!\<close>, \<open>ctrl!\<close> and \<open>savelist!\<close>.
\<close>

unbundle bit_operations_syntax

section \<open>Shared steps\<close>

definition has_saved :: "nat \<Rightarrow> ('c, 's, 'b) continuation_data \<Rightarrow> bool" where
  "has_saved i k = (savelist_of k ! adjust i \<noteq> None)"

definition cont_var :: "nat \<Rightarrow> ('c, 's, 'b, 'h, ('c, 's, 'b) continuation_data) action" where
  "cont_var i = bindE (cmd_var i) (\<lambda>x. liftE (as_continuation x))"

definition check_cont_var :: "nat \<Rightarrow> ('c, 's, 'b, 'h) handler" where
  "check_cont_var i = bindE (cont_var i) (\<lambda>_. returnE ())"

definition code_var :: "nat \<Rightarrow> ('c, 's, 'b, 'h, 's) action" where
  "code_var i = bindE (cont_var i) (\<lambda>k. returnE (code_of k))"

definition push_typed ::
  "('c, 's, 'b, 'h) ton \<Rightarrow> 's continuation_type \<Rightarrow> ('c, 's, 'b, 'h) handler" where
  "push_typed T ty = push_var (Item_Continuation (with_type (slice_default T) ty))"

definition take_cc_code :: "('c, 's, 'b, 'h) ton \<Rightarrow> ('c, 's, 'b, 'h, 's) action" where
  "take_cc_code T = bindE (getE (\<lambda>e. code_of (cc e))) (\<lambda>c.
     thenE (set_cc_code (slice_default T)) (returnE c))"

definition push_last_var :: "('c, 's, 'b, 'h) handler" where
  "push_last_var = bindE pop_var push_item"

definition push_removed :: "nat \<Rightarrow> ('c, 's, 'b, 'h) handler" where
  "push_removed i = bindE (remove_var i) push_item"

definition counter_var :: "nat \<Rightarrow> ('c, 's, 'b, 'h, int) action" where
  "counter_var i = ranged_var Isize (- 0x80000000) 0x7FFFFFFF i"

section \<open>Switching\<close>

definition switch :: "('c, 's, 'b, 'h) ton \<Rightarrow> u16 \<Rightarrow> ('c, 's, 'b, 'h) handler" where
  "switch T a = thenE (pop_all a) (thenE (swap a CC)
     (bindE (getE cc) (\<lambda>k.
        let drop_c0 = (a = ctrl_addr 0 \<and> \<not> has_saved 0 k);
            drop_c1 = (a = ctrl_addr 1 \<and> \<not> has_saved 1 k) in
        seqE [apply_savelist,
              whenE drop_c0 (bindE (ctrls_remove 0) (\<lambda>_. returnE ())),
              whenE drop_c1 (bindE (ctrls_put 1 (Item_Continuation (with_type (slice_default T) (Quit 1))))
                (\<lambda>_. returnE ()))])))"

definition ret :: "('c, 's, 'b, 'h) ton \<Rightarrow> ('c, 's, 'b, 'h) handler" where
  "ret T = switch T (ctrl_addr 0)"

definition retalt :: "('c, 's, 'b, 'h) ton \<Rightarrow> ('c, 's, 'b, 'h) handler" where
  "retalt T = switch T (ctrl_addr 1)"

definition switch_to_c0 :: "('c, 's, 'b, 'h) handler" where
  "switch_to_c0 = thenE (pop_all (ctrl_addr 0))
     (bindE (ctrl_get 0) (\<lambda>x. case x of
        None \<Rightarrow> throwE (CodeError FatalErrorCode)
      | Some v \<Rightarrow> bindE (liftE (as_continuation v)) (\<lambda>c0.
          bindE (getE cc) (\<lambda>old.
            seqE [set_ctrl 0 (Item_Continuation old), modifyE (\<lambda>e. e \<lparr> cc := c0 \<rparr>), apply_savelist,
                  whenE (\<not> has_saved 0 c0) (bindE (ctrls_remove 0) (\<lambda>_. returnE ()))]))))"

definition callcc :: "('c, 's, 'b, 'h) ton \<Rightarrow> nat \<Rightarrow> ('c, 's, 'b, 'h) handler" where
  "callcc T callee = bindE var_count (\<lambda>n.
     if n < callee then throwE OtherError
     else seqE [whenE (n = callee) (fetch_stack 1), pop_all (var_addr callee), swap (var_addr callee) CC,
       apply_savelist,
       bindE (cont_var callee) (\<lambda>old.
       bindE (cmd_param par_nargs) (\<lambda>nargs.
         thenE (set_var callee (Item_Continuation (new_empty (slice_default T))))
           (push_item (Item_Continuation (case nargs of Some m \<Rightarrow> set_nargs m old | None \<Rightarrow> old)))))])"

definition set_nargs_at :: "u16 \<Rightarrow> int \<Rightarrow> ('c, 's, 'b, 'h) handler" where
  "set_nargs_at a n = bindE (continuation_by_address a) (\<lambda>k. set_continuation_by_address a (set_nargs n k))"

definition callx_switch :: "nat \<Rightarrow> ('c, 's, 'b, 'h) handler" where
  "callx_switch callee = bindE (cont_var callee) (\<lambda>k.
     if has_saved 0 k then swap (var_addr callee) CC
     else seqE [swap (ctrl_addr 0) (savelist_addr CC 0), swap (var_addr callee) CC,
                swap (var_addr callee) (ctrl_addr 0)])"

definition callx_nargs :: "('c, 's, 'b, 'h) handler" where
  "callx_nargs = bindE (cmd_param par_nargs) (\<lambda>nargs. bindE (cmd_param par_rargs) (\<lambda>rargs.
     set_nargs_at (ctrl_addr 0)
       (case nargs of Some n \<Rightarrow> n | None \<Rightarrow> (case rargs of Some r \<Rightarrow> int r | None \<Rightarrow> - 1))))"

definition callx :: "('c, 's, 'b, 'h) ton \<Rightarrow> nat \<Rightarrow> bool \<Rightarrow> ('c, 's, 'b, 'h) handler" where
  "callx T callee need_convert = bindE var_count (\<lambda>n.
     if n < callee then throwE OtherError
     else seqE [
       if n = callee then fetch_stack 1
       else if need_convert then bindE (cmd_var callee) (\<lambda>x.
              whenE (is_ok (as_cell x)) (convert T (var_addr callee) CONTINUATION CELL))
       else returnE (),
       pop_all (var_addr callee), callx_switch callee, apply_savelist, callx_nargs])"

definition jmpx :: "('c, 's, 'b, 'h) ton \<Rightarrow> bool \<Rightarrow> ('c, 's, 'b, 'h) handler" where
  "jmpx T need_convert = seqE [
     if need_convert then bindE (cmd_var 0) (\<lambda>x.
            whenE (is_ok (as_cell x)) (convert T (var_addr 0) CONTINUATION CELL))
     else returnE (),
     pop_all (var_addr 0), swap (var_addr 0) CC, apply_savelist_excluding_c0_c1]"

definition jmpxdata :: "('c, 's, 'b, 'h) handler" where
  "jmpxdata = seqE [pop_all (var_addr 0), swap (var_addr 0) CC, apply_savelist,
     bindE (code_var 0) (\<lambda>sl. push_item (Item_Slice sl))]"

section \<open>Arguments\<close>

definition fetch_nargs :: "nat \<Rightarrow> int \<Rightarrow> int \<Rightarrow> ('c, 's, 'b, 'h) handler" where
  "fetch_nargs i lo hi = bindE (ranged_var Isize lo hi i) (\<lambda>n. push_param (Par_Nargs n))"

definition fetch_pargs :: "nat \<Rightarrow> int \<Rightarrow> int \<Rightarrow> ('c, 's, 'b, 'h) handler" where
  "fetch_pargs i lo hi = bindE (ranged_var Isize lo hi i) (\<lambda>n. whenE (n \<ge> 0) (push_param (Par_Pargs (nat n))))"

definition fetch_nargs_pargs :: "int \<Rightarrow> int \<Rightarrow> int \<Rightarrow> int \<Rightarrow> ('c, 's, 'b, 'h) handler" where
  "fetch_nargs_pargs nlo nhi plo phi = thenE (fetch_nargs 0 nlo nhi) (fetch_pargs 1 plo phi)"

definition setcont :: "('c, 's, 'b, 'h) ton \<Rightarrow> nat \<Rightarrow> bool \<Rightarrow> ('c, 's, 'b, 'h) handler" where
  "setcont T v need_to_convert = seqE [
     fetch_stack (v + 1),
     if v = 0 then returnE ()
     else if v = 1 then fetch_nargs 0 (- 1) 255
     else if v = 2 then fetch_nargs_pargs (- 1) 255 0 255
     else errE FatalErrorCode,
     bindE (cmd_var v) (\<lambda>x.
       if need_to_convert then bindE (liftE (as_slice x)) (\<lambda>_. returnE ())
       else bindE (liftE (as_continuation x)) (\<lambda>_. returnE ())),
     bindE stack_depth (\<lambda>d. bindE cmd_pargs (\<lambda>pargs.
       if d < pargs then errE StackUnderflow
       else whenE need_to_convert (convert T (var_addr v) CONTINUATION SLICE))),
     bindE cmd_pargs (\<lambda>pargs. whenE (pargs \<noteq> 0) (pop_range 0 pargs (var_addr v))),
     bindE cmd_nargs (\<lambda>nargs. whenE (nargs \<ge> 0)
       (bindE (cont_var v) (\<lambda>k. set_var v (Item_Continuation (set_nargs nargs k))))),
     push_last_var]"

definition save :: "nat \<Rightarrow> ('c, 's, 'b, 'h) handler" where
  "save index = bindE cmd_creg (\<lambda>creg. bindE (ctrl_get index) (\<lambda>c. case c of
     None \<Rightarrow> errE TypeCheckError
   | Some x \<Rightarrow> bindE (liftE (as_continuation x)) (\<lambda>k.
       whenE (\<not> has_saved creg k)
         (bindE var_count (\<lambda>v. thenE (copy_to_var (ctrl_addr creg))
            (swap (var_addr v) (savelist_addr (ctrl_addr index) creg)))))))"

section \<open>Calls and jumps\<close>

datatype call_mode = CALLX | SWITCH | PREPARE

definition execute_call ::
  "('c, 's, 'b, 'h) ton \<Rightarrow> string \<Rightarrow> int \<Rightarrow> int \<Rightarrow> call_mode \<Rightarrow> ('c, 's, 'b, 'h) handler" where
  "execute_call T name lo hi how = thenE (load_opts T name (Opt_Integer lo hi))
     (bindE cmd_integer (\<lambda>n. case how of
        PREPARE \<Rightarrow> seqE [copy_to_var (ctrl_addr 3), push_item (item_int n), push_last_var]
      | SWITCH \<Rightarrow> seqE [push_item (item_int n), copy_to_var (ctrl_addr 3), switch T (var_addr 0)]
      | CALLX \<Rightarrow> seqE [push_item (item_int n), copy_to_var (ctrl_addr 3), callx T 0 False]))"

definition call_handlers :: "('c, 's, 'b, 'h) ton \<Rightarrow> ('c, 's, 'b, 'h) named_handlers" where
  "call_handlers T = [
     (''execute_call_short'', execute_call T ''CALLDICT'' 0 256 CALLX),
     (''execute_call_long'', execute_call T ''CALLDICT'' 0 16384 CALLX),
     (''execute_jmp'', execute_call T ''JMP'' 0 16384 SWITCH),
     (''execute_prepare'', execute_call T ''PREPARE'' 0 16384 PREPARE)]"

definition execute_callcc :: "('c, 's, 'b, 'h) ton \<Rightarrow> ('c, 's, 'b, 'h) handler" where
  "execute_callcc T = thenE (load T ''CALLCC'') (callcc T 0)"

definition execute_callccargs :: "('c, 's, 'b, 'h) ton \<Rightarrow> ('c, 's, 'b, 'h) handler" where
  "execute_callccargs T = thenE (load_opts T ''CALLCCARGS'' Opt_ArgumentConstraints) (callcc T 0)"

definition execute_callccva :: "('c, 's, 'b, 'h) ton \<Rightarrow> ('c, 's, 'b, 'h) handler" where
  "execute_callccva T = seqE [load T ''CALLCCVARARGS'', fetch_stack 3,
     fetch_nargs_pargs (- 1) 255 (- 1) 255, callcc T 2]"

definition execute_callref :: "('c, 's, 'b, 'h) ton \<Rightarrow> ('c, 's, 'b, 'h) handler" where
  "execute_callref T = seqE [load T ''CALLREF'', fetch_reference T CC,
     convert T (var_addr 0) CONTINUATION CELL, callx T 0 False]"

definition execute_callx :: "('c, 's, 'b, 'h) ton \<Rightarrow> ('c, 's, 'b, 'h) handler" where
  "execute_callx T = thenE (load T ''CALLX'') (callx T 0 False)"

definition execute_callxargs :: "('c, 's, 'b, 'h) ton \<Rightarrow> ('c, 's, 'b, 'h) handler" where
  "execute_callxargs T = bindE get_last_cmd (\<lambda>c.
     thenE (load_opts T ''CALLXARGS''
       (if c = 0xDA then Opt_ArgumentAndReturnConstraints else Opt_Pargs 0 16)) (callx T 0 False))"

definition execute_callxva :: "('c, 's, 'b, 'h) ton \<Rightarrow> ('c, 's, 'b, 'h) handler" where
  "execute_callxva T = seqE [load T ''CALLXVARARGS'', fetch_stack 3,
     fetch_nargs_pargs (- 1) 254 (- 1) 254, callx T 2 False]"

definition execute_jmpref :: "('c, 's, 'b, 'h) ton \<Rightarrow> ('c, 's, 'b, 'h) handler" where
  "execute_jmpref T = seqE [load T ''JMPREF'', fetch_reference T CC, jmpx T True]"

definition execute_jmprefdata :: "('c, 's, 'b, 'h) ton \<Rightarrow> ('c, 's, 'b, 'h) handler" where
  "execute_jmprefdata T = seqE [load T ''JMPREFDATA'', fetch_reference T CC,
     convert T (var_addr 0) CONTINUATION CELL, jmpxdata]"

definition execute_jmpx :: "('c, 's, 'b, 'h) ton \<Rightarrow> ('c, 's, 'b, 'h) handler" where
  "execute_jmpx T = seqE [load T ''JMPX'', fetch_stack 1, jmpx T False]"

definition execute_jmpxargs :: "('c, 's, 'b, 'h) ton \<Rightarrow> ('c, 's, 'b, 'h) handler" where
  "execute_jmpxargs T = seqE [load_opts T ''JMPXARGS'' (Opt_Pargs 0 16), fetch_stack 1, switch T (var_addr 0)]"

definition execute_jmpxva :: "('c, 's, 'b, 'h) ton \<Rightarrow> ('c, 's, 'b, 'h) handler" where
  "execute_jmpxva T = seqE [load T ''JMPXVARARGS'', fetch_stack 2, fetch_pargs 0 (- 1) 254, switch T (var_addr 1)]"

definition execute_jmpxdata :: "('c, 's, 'b, 'h) ton \<Rightarrow> ('c, 's, 'b, 'h) handler" where
  "execute_jmpxdata T = seqE [load T ''JMPXDATA'', fetch_stack 1, jmpxdata]"

definition execute_ret :: "('c, 's, 'b, 'h) ton \<Rightarrow> ('c, 's, 'b, 'h) handler" where
  "execute_ret T = thenE (load T ''RET'') (ret T)"

definition execute_retalt :: "('c, 's, 'b, 'h) ton \<Rightarrow> ('c, 's, 'b, 'h) handler" where
  "execute_retalt T = thenE (load T ''RETALT'') (retalt T)"

definition execute_retargs :: "('c, 's, 'b, 'h) ton \<Rightarrow> ('c, 's, 'b, 'h) handler" where
  "execute_retargs T = thenE (load_opts T ''RETARGS'' (Opt_Pargs 0 16)) (switch T (ctrl_addr 0))"

definition execute_retva :: "('c, 's, 'b, 'h) ton \<Rightarrow> ('c, 's, 'b, 'h) handler" where
  "execute_retva T = seqE [load T ''RETVARARGS'', fetch_stack 1, fetch_pargs 0 (- 1) 254, switch T (ctrl_addr 0)]"

definition execute_retbool :: "('c, 's, 'b, 'h) ton \<Rightarrow> ('c, 's, 'b, 'h) handler" where
  "execute_retbool T = seqE [load T ''RETBOOL'', fetch_stack 1,
     bindE (cmd_var 0) (\<lambda>x. bindE (liftE (as_bool x)) (\<lambda>b. if b then ret T else retalt T))]"

definition execute_retdata :: "('c, 's, 'b, 'h) ton \<Rightarrow> ('c, 's, 'b, 'h) handler" where
  "execute_retdata T = seqE [load T ''RETDATA'', push_typed T (Quit (code_number T NormalTermination)),
     swap (ctrl_addr 0) (var_addr 0), jmpxdata]"

definition returnargs :: "nat \<Rightarrow> ('c, 's, 'b, 'h) handler" where
  "returnargs rargs = bindE stack_depth (\<lambda>d.
     if d < rargs then errE StackUnderflow else pop_range rargs d (ctrl_addr 0))"

definition execute_returnargs :: "('c, 's, 'b, 'h) ton \<Rightarrow> ('c, 's, 'b, 'h) handler" where
  "execute_returnargs T = thenE (load_opts T ''RETURNARGS'' (Opt_Rargs 0 16)) (bindE cmd_rargs returnargs)"

definition execute_returnva :: "('c, 's, 'b, 'h) ton \<Rightarrow> ('c, 's, 'b, 'h) handler" where
  "execute_returnva T = seqE [load T ''RETURNVARARGS'', fetch_stack 1, bindE (nat_var 255 0) returnargs]"

section \<open>Conditionals\<close>

definition JMP :: "8 word" where "JMP = 0x01"
definition REF2 :: "8 word" where "REF2 = 0x02"
definition RET :: "8 word" where "RET = 0x04"
definition ALT :: "8 word" where "ALT = 0x08"
definition REF :: "8 word" where "REF = 0x10"
definition NEG :: "8 word" where "NEG = 0x20"
definition ELSE :: "8 word" where "ELSE = 0x40"
definition THROW :: "8 word" where "THROW = 0x80"

definition if_params :: "8 word \<Rightarrow> nat" where
  "if_params how = 2 + (if bit_set how ELSE then 1 else 0) - (if bit_set how REF then 1 else 0)
     - (if bit_set how REF2 then 1 else 0) - (if bit_set how RET then 1 else 0)"

definition if_branch :: "('c, 's, 'b, 'h) ton \<Rightarrow> 8 word \<Rightarrow> bool \<Rightarrow> ('c, 's, 'b, 'h) handler" where
  "if_branch T how taken =
     (if \<not> taken then
        if bit_set how ELSE then
          thenE (whenE (\<not> bit_set how REF) (check_cont_var 0)) (callx T 1 (bit_set how REF2))
        else returnE ()
      else if bit_set how ELSE then
        thenE (whenE (\<not> bit_set how REF2) (check_cont_var 1)) (callx T 0 (bit_set how REF))
      else if bit_set how JMP then jmpx T (bit_set how REF)
      else if bit_set how ALT then retalt T
      else if bit_set how RET then ret T
      else callx T 0 (bit_set how REF))"

definition execute_if_mask :: "('c, 's, 'b, 'h) ton \<Rightarrow> string \<Rightarrow> 8 word \<Rightarrow> ('c, 's, 'b, 'h) handler" where
  "execute_if_mask T name how = seqE [
     load T name,
     whenE (bit_set how REF) (fetch_reference T CC),
     whenE (bit_set how REF2) (fetch_reference T CC),
     fetch_stack (if_params how),
     whenE (bit_set how THROW) (bindE last_var (\<lambda>x. bindE (liftE (as_integer x)) (\<lambda>v.
       whenE (is_nan v) (errE IntegerOverflow)))),
     bindE last_var (\<lambda>x. bindE (liftE (as_bool x)) (\<lambda>b. if_branch T how (b \<noteq> bit_set how NEG)))]"

definition if_handlers :: "('c, 's, 'b, 'h) ton \<Rightarrow> ('c, 's, 'b, 'h) named_handlers" where
  "if_handlers T = [
     (''execute_if'', execute_if_mask T ''IF'' 0),
     (''execute_ifelse'', execute_if_mask T ''IFELSE'' (ELSE OR NEG)),
     (''execute_ifelseref'', execute_if_mask T ''IFELSEREF'' (ELSE OR NEG OR REF)),
     (''execute_ifjmp'', execute_if_mask T ''IFJMP'' JMP),
     (''execute_ifnot'', execute_if_mask T ''IFNOT'' NEG),
     (''execute_ifnotjmp'', execute_if_mask T ''IFNOTJMP'' (JMP OR NEG)),
     (''execute_ifnotref'', execute_if_mask T ''IFNOTREF'' (NEG OR REF)),
     (''execute_ifjmpref'', execute_if_mask T ''IFJMPREF'' (JMP OR REF)),
     (''execute_ifnotjmpref'', execute_if_mask T ''IFNOTJMPREF'' (JMP OR NEG OR REF)),
     (''execute_ifnotret'', execute_if_mask T ''IFNOTRET'' (RET OR NEG)),
     (''execute_ifref'', execute_if_mask T ''IFREF'' REF),
     (''execute_ifrefelse'', execute_if_mask T ''IFREFELSE'' (ELSE OR REF)),
     (''execute_ifrefelseref'', execute_if_mask T ''IFREFELSEREF'' (ELSE OR REF OR REF2)),
     (''execute_ifret'', execute_if_mask T ''IFRET'' (RET OR THROW)),
     (''execute_ifretalt'', execute_if_mask T ''IFRETALT'' (RET OR ALT)),
     (''execute_ifnotretalt'', execute_if_mask T ''IFNOTRETALT'' (RET OR ALT OR NEG))]"

definition execute_ifbit_mask :: "('c, 's, 'b, 'h) ton \<Rightarrow> string \<Rightarrow> 8 word \<Rightarrow> ('c, 's, 'b, 'h) handler" where
  "execute_ifbit_mask T name how = seqE [
     load_opts T name (Opt_Integer 0 32),
     if bit_set how REF then fetch_reference T CC else thenE (fetch_stack 1) (check_cont_var 0),
     bindE stack_depth (\<lambda>d. whenE (d < 1) (errE StackUnderflow)),
     bindE (getE cc_stack) (\<lambda>st. bindE (liftE (stack_get 0 st)) (\<lambda>x. bindE (liftE (as_integer x)) (\<lambda>v.
       bindE cmd_integer (\<lambda>nbit.
       bindE (liftE (lift_code (and_int Signaling v (Value (uint (push_bit (nat nbit) (1 :: 32 word)))))))
         (\<lambda>r. if is_zero r \<noteq> bit_set how NEG then returnE () else jmpx T (bit_set how REF))))))]"

definition ifbit_handlers :: "('c, 's, 'b, 'h) ton \<Rightarrow> ('c, 's, 'b, 'h) named_handlers" where
  "ifbit_handlers T = [
     (''execute_ifbitjmp'', execute_ifbit_mask T ''IFBITJMP'' 0),
     (''execute_ifnbitjmp'', execute_ifbit_mask T ''IFNBITJMP'' NEG),
     (''execute_ifbitjmpref'', execute_ifbit_mask T ''IFBITJMPREF'' REF),
     (''execute_ifnbitjmpref'', execute_ifbit_mask T ''IFNBITJMPREF'' (REF OR NEG))]"

definition select_var :: "('c, 's, 'b, 'h) handler" where
  "select_var = bindE (cmd_var 2) (\<lambda>x. bindE (liftE (as_bool x)) (\<lambda>b. push_removed (if \<not> b then 0 else 1)))"

definition execute_condsel :: "('c, 's, 'b, 'h) ton \<Rightarrow> ('c, 's, 'b, 'h) handler" where
  "execute_condsel T = seqE [load T ''CONDSEL'', fetch_stack 3, select_var]"

fun discriminant :: "('c, 's, 'b) stack_item \<Rightarrow> nat" where
  "discriminant Item_None = 0"
| "discriminant (Item_Builder _) = 1"
| "discriminant (Item_Cell _) = 2"
| "discriminant (Item_Continuation _) = 3"
| "discriminant (Item_Integer _) = 4"
| "discriminant (Item_Slice _) = 5"
| "discriminant (Item_Tuple _) = 6"

definition execute_condselchk :: "('c, 's, 'b, 'h) ton \<Rightarrow> ('c, 's, 'b, 'h) handler" where
  "execute_condselchk T = seqE [load T ''CONDSELCHK'', fetch_stack 3,
     bindE (cmd_var 0) (\<lambda>x. bindE (cmd_var 1) (\<lambda>y.
       whenE (discriminant x \<noteq> discriminant y) (errE TypeCheckError))),
     select_var]"

section \<open>Creating and changing continuations\<close>

definition execute_bless :: "('c, 's, 'b, 'h) ton \<Rightarrow> ('c, 's, 'b, 'h) handler" where
  "execute_bless T = thenE (load T ''BLESS'') (setcont T 0 True)"
definition execute_blessargs :: "('c, 's, 'b, 'h) ton \<Rightarrow> ('c, 's, 'b, 'h) handler" where
  "execute_blessargs T = thenE (load_opts T ''BLESSARGS'' Opt_ArgumentConstraints) (setcont T 0 True)"
definition execute_blessva :: "('c, 's, 'b, 'h) ton \<Rightarrow> ('c, 's, 'b, 'h) handler" where
  "execute_blessva T = thenE (load T ''BLESSVARARGS'') (setcont T 2 True)"
definition execute_setcontargs :: "('c, 's, 'b, 'h) ton \<Rightarrow> ('c, 's, 'b, 'h) handler" where
  "execute_setcontargs T = thenE (load_opts T ''SETCONTARGS'' Opt_ArgumentConstraints) (setcont T 0 False)"
definition execute_setcontva :: "('c, 's, 'b, 'h) ton \<Rightarrow> ('c, 's, 'b, 'h) handler" where
  "execute_setcontva T = thenE (load T ''SETCONTVARARGS'') (setcont T 2 False)"
definition execute_setnumvarargs :: "('c, 's, 'b, 'h) ton \<Rightarrow> ('c, 's, 'b, 'h) handler" where
  "execute_setnumvarargs T = thenE (load T ''SETNUMVARARGS'') (setcont T 1 False)"

definition execute_atexit :: "('c, 's, 'b, 'h) ton \<Rightarrow> ('c, 's, 'b, 'h) handler" where
  "execute_atexit T = seqE [load T ''ATEXIT'', fetch_stack 1, swap (var_addr 0) (ctrl_addr 0),
     swap (var_addr 0) (savelist_addr (ctrl_addr 0) 0)]"

definition execute_atexitalt :: "('c, 's, 'b, 'h) ton \<Rightarrow> ('c, 's, 'b, 'h) handler" where
  "execute_atexitalt T = seqE [load T ''ATEXITALT'', fetch_stack 1, swap (var_addr 0) (ctrl_addr 1),
     swap (var_addr 0) (savelist_addr (ctrl_addr 1) 1)]"

definition execute_booleval :: "('c, 's, 'b, 'h) ton \<Rightarrow> ('c, 's, 'b, 'h) handler" where
  "execute_booleval T = seqE [load T ''BOOLEVAL'', fetch_stack 1, check_cont_var 0,
     push_typed T (PushInt (- 1)), push_typed T (PushInt 0), callx T 0 False,
     bindE (getE cc) (\<lambda>k.
       let old_cc_idx = (if \<not> can_put_to_savelist_once 0 k then var_addr 0 else ctrl_addr 0) in
       seqE [copy_to_var old_cc_idx, swap (savelist_addr (var_addr 1) 0) old_cc_idx,
             swap (savelist_addr (var_addr 2) 0) (var_addr 3),
             swap (ctrl_addr 0) (var_addr 1), swap (ctrl_addr 1) (var_addr 2)])]"

definition execute_compos :: "('c, 's, 'b, 'h) ton \<Rightarrow> ('c, 's, 'b, 'h) handler" where
  "execute_compos T = seqE [load T ''COMPOS'', fetch_stack 2, check_cont_var 0, check_cont_var 1,
     swap (var_addr 0) (savelist_addr (var_addr 1) 0), push_last_var]"

definition execute_composalt :: "('c, 's, 'b, 'h) ton \<Rightarrow> ('c, 's, 'b, 'h) handler" where
  "execute_composalt T = seqE [load T ''COMPOSALT'', fetch_stack 2, check_cont_var 0, check_cont_var 1,
     swap (var_addr 0) (savelist_addr (var_addr 1) 1), push_last_var]"

definition execute_composboth :: "('c, 's, 'b, 'h) ton \<Rightarrow> ('c, 's, 'b, 'h) handler" where
  "execute_composboth T = seqE [load T ''COMPOSBOTH'', fetch_stack 2, check_cont_var 0, check_cont_var 1,
     copy_to_var (var_addr 0), swap (var_addr 0) (savelist_addr (var_addr 1) 0),
     swap (var_addr 2) (savelist_addr (var_addr 1) 1), push_removed 1]"

definition execute_invert :: "('c, 's, 'b, 'h) ton \<Rightarrow> ('c, 's, 'b, 'h) handler" where
  "execute_invert T = thenE (load T ''INVERT'') (swap (ctrl_addr 0) (ctrl_addr 1))"

definition execute_samealt :: "('c, 's, 'b, 'h) ton \<Rightarrow> ('c, 's, 'b, 'h) handler" where
  "execute_samealt T = seqE [load T ''SAMEALT'', copy_to_var (ctrl_addr 0), swap (ctrl_addr 1) (var_addr 0)]"

definition execute_samealt_save :: "('c, 's, 'b, 'h) ton \<Rightarrow> ('c, 's, 'b, 'h) handler" where
  "execute_samealt_save T = seqE [load T ''SAMEALTSAV'', swap (savelist_addr (ctrl_addr 0) 1) (ctrl_addr 1),
     copy_to_var (ctrl_addr 0), swap (ctrl_addr 1) (var_addr 0)]"

definition execute_save :: "('c, 's, 'b, 'h) ton \<Rightarrow> ('c, 's, 'b, 'h) handler" where
  "execute_save T = thenE (load_opts T ''SAVE'' Opt_ControlRegister) (save 0)"

definition execute_savealt :: "('c, 's, 'b, 'h) ton \<Rightarrow> ('c, 's, 'b, 'h) handler" where
  "execute_savealt T = thenE (load_opts T ''SAVEALT'' Opt_ControlRegister) (save 1)"

definition saveboth_body :: "('c, 's, 'b, 'h) handler" where
  "saveboth_body = (\<lambda>e.
     if is_ok (fst (engine_ctrl 0 e)) \<or> is_ok (fst (engine_ctrl 1 e)) then (err TypeCheckError, e)
     else seqE [save 0, save 1] e)"

definition execute_saveboth :: "('c, 's, 'b, 'h) ton \<Rightarrow> ('c, 's, 'b, 'h) handler" where
  "execute_saveboth T = thenE (load_opts T ''SAVEBOTH'' Opt_ControlRegister) saveboth_body"

definition execute_setaltctr :: "('c, 's, 'b, 'h) ton \<Rightarrow> ('c, 's, 'b, 'h) handler" where
  "execute_setaltctr T = seqE [load_opts T ''SETALTCTR'' Opt_ControlRegister, fetch_stack 1,
     bindE cmd_creg (\<lambda>creg. swap (var_addr 0) (savelist_addr (ctrl_addr 1) creg))]"

definition execute_setretctr :: "('c, 's, 'b, 'h) ton \<Rightarrow> ('c, 's, 'b, 'h) handler" where
  "execute_setretctr T = seqE [load_opts T ''SETRETCTR'' Opt_ControlRegister, fetch_stack 1,
     bindE cmd_creg (\<lambda>creg. swap (var_addr 0) (savelist_addr (ctrl_addr 0) creg))]"

definition execute_setcontctr :: "('c, 's, 'b, 'h) ton \<Rightarrow> ('c, 's, 'b, 'h) handler" where
  "execute_setcontctr T = seqE [load_opts T ''SETCONTCTR'' Opt_ControlRegister, fetch_stack 2,
     check_cont_var 0,
     bindE cmd_creg (\<lambda>creg. swap (var_addr 1) (savelist_addr (var_addr 0) creg)), push_removed 0]"

definition execute_setcontctrx :: "('c, 's, 'b, 'h) ton \<Rightarrow> ('c, 's, 'b, 'h) handler" where
  "execute_setcontctrx T = seqE [load T ''SETCONTCTRX'', fetch_stack 3,
     bindE (nat_var 255 0) (\<lambda>creg.
       if creg \<notin> set REGS then errE RangeCheckError
       else thenE (check_cont_var 1) (swap (var_addr 2) (savelist_addr (var_addr 1) creg))),
     push_removed 1]"

definition execute_setexitalt :: "('c, 's, 'b, 'h) ton \<Rightarrow> ('c, 's, 'b, 'h) handler" where
  "execute_setexitalt T = seqE [load T ''SETEXITALT'', fetch_stack 1, copy_to_var (ctrl_addr 0),
     swap (var_addr 1) (savelist_addr (var_addr 0) 0),
     bindE (getE cc) (\<lambda>k. whenE (has_saved 1 k)
       (thenE (copy_to_var (ctrl_addr 1)) (swap (var_addr 2) (savelist_addr (var_addr 0) 1)))),
     swap (var_addr 0) (ctrl_addr 1)]"

definition execute_thenret :: "('c, 's, 'b, 'h) ton \<Rightarrow> ('c, 's, 'b, 'h) handler" where
  "execute_thenret T = seqE [load T ''THENRET'', fetch_stack 1, copy_to_var (ctrl_addr 0),
     swap (savelist_addr (var_addr 0) 0) (var_addr 1), push_removed 0]"

definition execute_thenretalt :: "('c, 's, 'b, 'h) ton \<Rightarrow> ('c, 's, 'b, 'h) handler" where
  "execute_thenretalt T = seqE [load T ''THENRETALT'', fetch_stack 1, copy_to_var (ctrl_addr 1),
     swap (savelist_addr (var_addr 0) 0) (var_addr 1), push_removed 0]"

end
