(* ===== verification/Exec_Exceptions.thy ===== *)
theory Exec_Exceptions
  imports Exec_Continuation
begin

text \<open>The instructions that throw and catch (\<open>executor/exceptions.rs\<close>).\<close>

section \<open>Throwing\<close>

text \<open>A negative index of the source is \<open>None\<close>: the number is the instruction's, the value
  zero.\<close>

definition do_throw :: "nat option \<Rightarrow> nat option \<Rightarrow> ('c, 's, 'b, 'h) handler" where
  "do_throw number_index value_index =
     bindE (case number_index of
         None \<Rightarrow> bindE cmd_integer (\<lambda>n. returnE (unat (word_of_int n :: 64 word)))
       | Some i \<Rightarrow> nat_var 0xFFFF i) (\<lambda>number.
     bindE (case value_index of None \<Rightarrow> returnE (item_int 0) | Some i \<Rightarrow> cmd_var i) (\<lambda>v.
       throwE (TvmExceptionFull (from_number_and_value number v))))"

definition execute_throw :: "('c, 's, 'b, 'h) ton \<Rightarrow> int \<Rightarrow> int \<Rightarrow> ('c, 's, 'b, 'h) handler" where
  "execute_throw T lo hi = thenE (load_opts T ''THROW'' (Opt_Integer lo hi)) (do_throw None None)"

definition throw_handlers :: "('c, 's, 'b, 'h) ton \<Rightarrow> ('c, 's, 'b, 'h) named_handlers" where
  "throw_handlers T = [
     (''execute_throw_short'', execute_throw T 0 64),
     (''execute_throw_long'', execute_throw T 0 2048)]"

definition throw_when :: "bool \<Rightarrow> ('c, 's, 'b, 'h) handler \<Rightarrow> ('c, 's, 'b, 'h) handler" where
  "throw_when reverse_condition throw = bindE (cmd_var 0) (\<lambda>x. bindE (liftE (as_bool x)) (\<lambda>b.
     if reverse_condition \<noteq> b then throw else returnE ()))"

definition execute_throwif_throwifnot ::
  "('c, 's, 'b, 'h) ton \<Rightarrow> bool \<Rightarrow> int \<Rightarrow> int \<Rightarrow> ('c, 's, 'b, 'h) handler" where
  "execute_throwif_throwifnot T reverse lo hi = seqE [
     load_opts T (if reverse then ''THROWIFNOT'' else ''THROWIF'') (Opt_Integer lo hi),
     fetch_stack 1, throw_when reverse (do_throw None None)]"

definition throwif_handlers :: "('c, 's, 'b, 'h) ton \<Rightarrow> ('c, 's, 'b, 'h) named_handlers" where
  "throwif_handlers T = [
     (''execute_throwif_short'', execute_throwif_throwifnot T False 0 64),
     (''execute_throwif_long'', execute_throwif_throwifnot T False 0 2048),
     (''execute_throwifnot_short'', execute_throwif_throwifnot T True 0 64),
     (''execute_throwifnot_long'', execute_throwif_throwifnot T True 0 2048)]"

definition execute_throwanyif_throwanyifnot :: "('c, 's, 'b, 'h) ton \<Rightarrow> bool \<Rightarrow> ('c, 's, 'b, 'h) handler" where
  "execute_throwanyif_throwanyifnot T reverse = seqE [
     load T (if reverse then ''THROWANYIFNOT'' else ''THROWANYIF''),
     fetch_stack 2, throw_when reverse (do_throw (Some 1) None)]"

definition throwanyif_handlers :: "('c, 's, 'b, 'h) ton \<Rightarrow> ('c, 's, 'b, 'h) named_handlers" where
  "throwanyif_handlers T = [
     (''execute_throwanyif'', execute_throwanyif_throwanyifnot T False),
     (''execute_throwanyifnot'', execute_throwanyif_throwanyifnot T True)]"

definition execute_throwany :: "('c, 's, 'b, 'h) ton \<Rightarrow> ('c, 's, 'b, 'h) handler" where
  "execute_throwany T = seqE [load T ''THROWANY'', fetch_stack 1, do_throw (Some 0) None]"

definition execute_throwarg :: "('c, 's, 'b, 'h) ton \<Rightarrow> ('c, 's, 'b, 'h) handler" where
  "execute_throwarg T = seqE [load_opts T ''THROWARG'' (Opt_Integer 0 2048), fetch_stack 1,
     do_throw None (Some 0)]"

definition execute_throwargany :: "('c, 's, 'b, 'h) ton \<Rightarrow> ('c, 's, 'b, 'h) handler" where
  "execute_throwargany T = seqE [load T ''THROWARGANY'', fetch_stack 2, do_throw (Some 0) (Some 1)]"

definition execute_throwarganyif_throwarganyifnot ::
  "('c, 's, 'b, 'h) ton \<Rightarrow> bool \<Rightarrow> ('c, 's, 'b, 'h) handler" where
  "execute_throwarganyif_throwarganyifnot T reverse = seqE [
     load T (if reverse then ''THROWARGANYIFNOT'' else ''THROWARGANYIF''),
     fetch_stack 3, throw_when reverse (do_throw (Some 1) (Some 2))]"

definition throwarganyif_handlers :: "('c, 's, 'b, 'h) ton \<Rightarrow> ('c, 's, 'b, 'h) named_handlers" where
  "throwarganyif_handlers T = [
     (''execute_throwarganyif'', execute_throwarganyif_throwarganyifnot T False),
     (''execute_throwarganyifnot'', execute_throwarganyif_throwarganyifnot T True)]"

definition execute_throwargif_throwargifnot :: "('c, 's, 'b, 'h) ton \<Rightarrow> bool \<Rightarrow> ('c, 's, 'b, 'h) handler" where
  "execute_throwargif_throwargifnot T reverse = seqE [
     load_opts T (if reverse then ''THROWARGIFNOT'' else ''THROWARGIF'') (Opt_Integer 0 2048),
     fetch_stack 2, throw_when reverse (do_throw None (Some 1))]"

definition throwargif_handlers :: "('c, 's, 'b, 'h) ton \<Rightarrow> ('c, 's, 'b, 'h) named_handlers" where
  "throwargif_handlers T = [
     (''execute_throwargif'', execute_throwargif_throwargifnot T False),
     (''execute_throwargifnot'', execute_throwargif_throwargifnot T True)]"

section \<open>Catching\<close>

definition upd_cont_var ::
  "nat \<Rightarrow> (('c, 's, 'b) continuation_data \<Rightarrow> ('c, 's, 'b) continuation_data) \<Rightarrow> ('c, 's, 'b, 'h) handler" where
  "upd_cont_var i f = bindE (cont_var i) (\<lambda>k. set_var i (Item_Continuation (f k)))"

definition catch_setup :: "bool \<Rightarrow> ('c, 's, 'b) continuation_data \<Rightarrow> ('c, 's, 'b) continuation_data" where
  "catch_setup bugfix k =
     (let k = set_type TryCatch k in
      if \<not> bugfix then set_nargs (int (depth (stack_of k)) + 2) k else k)"

definition save_c2 :: "('c, 's, 'b, 'h) handler" where
  "save_c2 = (\<lambda>e. if is_ok (fst (engine_ctrl 2 e)) then
     seqE [copy_to_var (ctrl_addr 2), swap (savelist_addr (var_addr 0) 2) (var_addr 2),
           copy_to_var (ctrl_addr 2), swap (savelist_addr CC 2) (var_addr 3)] e
     else (Inr (), e))"

definition envelope_catch :: "('c, 's, 'b, 'h) ton \<Rightarrow> nat \<Rightarrow> ('c, 's, 'b, 'h) handler" where
  "envelope_catch T d = thenE (push_typed T (CatchRevert d)) (bindE var_count (\<lambda>n.
     thenE (swap (savelist_addr (var_addr (n - 1)) 0) (ctrl_addr 2)) (swap (ctrl_addr 2) (var_addr (n - 1)))))"

definition init_try_catch :: "('c, 's, 'b, 'h) ton \<Rightarrow> bool \<Rightarrow> ('c, 's, 'b, 'h) handler" where
  "init_try_catch T keep = thenE (fetch_stack 2)
     (bindE stack_depth (\<lambda>d. bindE cmd_pargs (\<lambda>pargs. bindE (getE (bugfixes2022 T)) (\<lambda>bugfix.
       if d < pargs then errE StackUnderflow
       else if d \<ge> 2 ^ 32 then throwE OtherError
       else seqE [check_cont_var 1,
         upd_cont_var 0 (catch_setup bugfix),
         upd_cont_var 1 (\<lambda>k. snd (remove_from_savelist 0 k)),
         save_c2,
         swap (var_addr 0) (var_addr 1),
         swap (ctrl_addr 2) (var_addr 1),
         callx T 0 False,
         copy_to_var (ctrl_addr 0),
         bindE var_count (\<lambda>n. swap (savelist_addr (ctrl_addr 2) 0) (var_addr (n - 1))),
         whenE keep (envelope_catch T d)]))))"

definition execute_try :: "('c, 's, 'b, 'h) ton \<Rightarrow> ('c, 's, 'b, 'h) handler" where
  "execute_try T = thenE (load T ''TRY'') (init_try_catch T False)"

definition execute_tryargs :: "('c, 's, 'b, 'h) ton \<Rightarrow> ('c, 's, 'b, 'h) handler" where
  "execute_tryargs T = thenE (load_opts T ''TRYARGS'' Opt_ArgumentAndReturnConstraints) (init_try_catch T False)"

definition execute_trykeep :: "('c, 's, 'b, 'h) ton \<Rightarrow> ('c, 's, 'b, 'h) handler" where
  "execute_trykeep T = (\<lambda>e.
     if \<not> bugfixes2022 T e then (Inl (CodeError InvalidOpcode), e)
     else thenE (load T ''TRYKEEP'') (init_try_catch T True) e)"

end
