(* ===== verification/Exec_Serialize.thy ===== *)
theory Exec_Serialize
  imports Exec_Tuple
begin

text \<open>
  The instructions that build cells (\<open>executor/serialization.rs\<close>).  The shared routines are
  definitions; a table lists the instructions that call one of them with the arguments they pass.
  \<open>STCONT\<close> is in \<open>Old_Format\<close>, with the cell formats of continuations.
\<close>

unbundle bit_operations_syntax

section \<open>Operands and results\<close>

definition slice_var :: "nat \<Rightarrow> ('c, 's, 'b, 'h, 's) action" where
  "slice_var i = bindE (cmd_var i) (\<lambda>x. liftE (as_slice x))"

definition builder_var :: "nat \<Rightarrow> ('c, 's, 'b, 'h, 'b) action" where
  "builder_var i = bindE (cmd_var i) (\<lambda>x. liftE (as_builder x))"

definition cell_var :: "nat \<Rightarrow> ('c, 's, 'b, 'h, 'c) action" where
  "cell_var i = bindE (cmd_var i) (\<lambda>x. liftE (as_cell x))"

text \<open>\<open>as_builder_mut\<close> of a variable takes the builder and leaves the default one.\<close>

definition var_builder_mut :: "('c, 's, 'b, 'h) ton \<Rightarrow> nat \<Rightarrow> ('c, 's, 'b, 'h, 'b) action" where
  "var_builder_mut T i = bindE (builder_var i) (\<lambda>b.
     thenE (set_var i (Item_Builder (builder_default T))) (returnE b))"

definition into_range :: "int_type \<Rightarrow> nat \<Rightarrow> integer_data \<Rightarrow> ('c, 's, 'b, 'h, nat) action" where
  "into_range t hi x = bindE (liftE (lift_code (integer_into t 0 (int hi) x))) (\<lambda>v. returnE (nat v))"

definition push_nat :: "nat \<Rightarrow> ('c, 's, 'b, 'h) handler" where
  "push_nat n = push_item (item_int (int n))"

definition push_bool :: "bool \<Rightarrow> ('c, 's, 'b, 'h) handler" where
  "push_bool b = push_item (item_boolean b)"

definition push_builder :: "'b \<Rightarrow> ('c, 's, 'b, 'h) handler" where
  "push_builder b = push_item (Item_Builder b)"

definition push_slice :: "'s \<Rightarrow> ('c, 's, 'b, 'h) handler" where
  "push_slice s = push_item (Item_Slice s)"

text \<open>\<open>as_builder\<close> of an integer.\<close>

definition integer_as_builder ::
  "('c, 's, 'b, 'h) ton \<Rightarrow> encoding \<Rightarrow> nat \<Rightarrow> integer_data \<Rightarrow> ('c, 's, 'b, 'b) ext_result" where
  "integer_as_builder T enc n x =
     bindR (lift_code (integer_as_buffer enc (bigint T) n x)) (\<lambda>buffer. with_raw (builders T) buffer n)"

definition ST_QUIET :: "8 word" where "ST_QUIET = 0x01"
definition ST_STACK :: "8 word" where "ST_STACK = 0x02"
definition ST_CMD :: "8 word" where "ST_CMD = 0x04"
definition ST_BITS :: "8 word" where "ST_BITS = 0x08"
definition ST_REFS :: "8 word" where "ST_REFS = 0x10"
definition ST_INV :: "8 word" where "ST_INV = 0x20"

lemmas store_flag_defs = ST_QUIET_def ST_STACK_def ST_CMD_def ST_BITS_def ST_REFS_def ST_INV_def

section \<open>Sizes and cells\<close>

definition size_b :: "('c, 's, 'b, 'h) ton \<Rightarrow> string \<Rightarrow> 8 word \<Rightarrow> ('c, 's, 'b, 'h) handler" where
  "size_b T name how = thenE (load T name) (thenE (fetch_stack 1) (bindE (builder_var 0) (\<lambda>b.
     if bit_set how ST_INV
     then thenE (whenE (bit_set how ST_BITS) (push_nat (bits_free (builders T) b)))
            (whenE (bit_set how ST_REFS) (push_nat (references_free (builders T) b)))
     else thenE (whenE (bit_set how ST_BITS) (push_nat (bits_used (builders T) b)))
            (whenE (bit_set how ST_REFS) (push_nat (references_used (builders T) b))))))"

definition size_b_handlers :: "('c, 's, 'b, 'h) ton \<Rightarrow> ('c, 's, 'b, 'h) named_handlers" where
  "size_b_handlers T = [
     (''execute_bbits'', size_b T ''BBITS'' ST_BITS),
     (''execute_brefs'', size_b T ''BREFS'' ST_REFS),
     (''execute_bbitrefs'', size_b T ''BBITREFS'' (ST_BITS OR ST_REFS)),
     (''execute_brembits'', size_b T ''BREMBITS'' (ST_INV OR ST_BITS)),
     (''execute_bremrefs'', size_b T ''BREMREFS'' (ST_INV OR ST_REFS)),
     (''execute_brembitrefs'', size_b T ''BREMBITREFS'' (ST_INV OR ST_BITS OR ST_REFS))]"

definition execute_endc :: "('c, 's, 'b, 'h) ton \<Rightarrow> ('c, 's, 'b, 'h) handler" where
  "execute_endc T = thenE (load T ''ENDC'') (thenE (fetch_stack 1)
     (thenE (convert T (var_addr 0) CELL BUILDER) (bindE (remove_var 0) push_item)))"

definition special_builder :: "('c, 's, 'b, 'h) ton \<Rightarrow> 'b \<Rightarrow> ('c, 's, 'b, 'h, 'b) action" where
  "special_builder T b =
     (if length_in_bits (builders T) b < 8 then thenE (engine_use_gas finalize_price) (errE CellOverflow)
      else case builder_data (builders T) b of
          [] \<Rightarrow> throwE Panic
        | d # _ \<Rightarrow> (case cell_type_try_from (cells T) d of
            Inr ty \<Rightarrow> returnE (builder_set_type (builders T) ty b)
          | Inl _ \<Rightarrow> errE CellOverflow))"

definition execute_endxc :: "('c, 's, 'b, 'h) ton \<Rightarrow> ('c, 's, 'b, 'h) handler" where
  "execute_endxc T = thenE (load T ''ENDXC'') (thenE (fetch_stack 2)
     (bindE (cmd_var 0) (\<lambda>x. bindE (liftE (as_bool x)) (\<lambda>special.
      bindE (var_builder_mut T 1) (\<lambda>b.
      bindE (if special then special_builder T b else returnE b) (\<lambda>b.
      bindE (finalize_cell T b) (\<lambda>c. push_item (Item_Cell c))))))))"

definition execute_newc :: "('c, 's, 'b, 'h) ton \<Rightarrow> ('c, 's, 'b, 'h) handler" where
  "execute_newc T = thenE (load T ''NEWC'') (push_builder (builder_new (builders T)))"

section \<open>Storing\<close>

definition append_data ::
  "('c, 's, 'b, 'h) ton \<Rightarrow> nat \<Rightarrow> 'b \<Rightarrow> bool \<Rightarrow> bool \<Rightarrow> ('c, 's, 'b, 'h, int) action" where
  "append_data T var x q finalize = bindE (builder_var var) (\<lambda>b.
     if can_append (builders T) b x
     then bindE (var_builder_mut T var) (\<lambda>b.
          bindE (with_object (append_builder (builders T) x) b) (\<lambda>(_, b).
          thenE (whenE finalize (try_use_gas finalize_price)) (thenE (push_builder b) (returnE 0))))
     else if q then returnE (- 1) else errE CellOverflow)"

definition store_data ::
  "('c, 's, 'b, 'h) ton \<Rightarrow> nat \<Rightarrow> ('c, 's, 'b, 'b) ext_result \<Rightarrow> bool \<Rightarrow> bool \<Rightarrow> ('c, 's, 'b, 'h) handler" where
  "store_data T var x q finalize =
     bindE (case x of Inr x \<Rightarrow> append_data T var x q finalize
        | Inl er \<Rightarrow> if q then returnE 1 else throwE er) (\<lambda>result.
       if result \<noteq> 0
       then bindE var_count (\<lambda>len.
            thenE (bindE (cmd_var (len - 1)) push_item) (thenE (bindE (cmd_var (len - 2)) push_item)
              (push_item (item_int result))))
       else whenE q (push_nat 0))"

text \<open>The value and the builder, in the order of the instruction: both orders check variable
  \<open>i\<close> first.\<close>

definition operands :: "bool \<Rightarrow> nat \<Rightarrow> (nat \<Rightarrow> ('c, 's, 'b, 'h, 'a) action) \<Rightarrow> ('c, 's, 'b, 'h, 'a \<times> nat) action" where
  "operands reversed i value_var =
     (if reversed then bindE (value_var i) (\<lambda>x. bindE (builder_var (i + 1)) (\<lambda>_. returnE (x, i + 1)))
      else bindE (builder_var i) (\<lambda>_. bindE (value_var (i + 1)) (\<lambda>x. returnE (x, i))))"

definition store_b :: "('c, 's, 'b, 'h) ton \<Rightarrow> string \<Rightarrow> 8 word \<Rightarrow> ('c, 's, 'b, 'h) handler" where
  "store_b T name how = thenE (load T name) (thenE (fetch_stack 2)
     (bindE (operands (bit_set how ST_INV) 0 builder_var) (\<lambda>(x, b).
        store_data T b (Inr x) (bit_set how ST_QUIET) False)))"

definition store_b_handlers :: "('c, 's, 'b, 'h) ton \<Rightarrow> ('c, 's, 'b, 'h) named_handlers" where
  "store_b_handlers T = [
     (''execute_stb'', store_b T ''STB'' 0),
     (''execute_stbr'', store_b T ''STBR'' ST_INV),
     (''execute_stbq'', store_b T ''STBQ'' ST_QUIET),
     (''execute_stbrq'', store_b T ''STBRQ'' (ST_INV OR ST_QUIET))]"

definition store_r :: "('c, 's, 'b, 'h) ton \<Rightarrow> string \<Rightarrow> 8 word \<Rightarrow> ('c, 's, 'b, 'h) handler" where
  "store_r T name how = thenE (load T name) (thenE (fetch_stack 2)
     (bindE (operands (bit_set how ST_INV) 0 cell_var) (\<lambda>(x, b).
        store_data T b (with_raw_and_refs (builders T) [] 0 [x]) (bit_set how ST_QUIET) False)))"

definition store_r_handlers :: "('c, 's, 'b, 'h) ton \<Rightarrow> ('c, 's, 'b, 'h) named_handlers" where
  "store_r_handlers T = [
     (''execute_stref'', store_r T ''STREF'' 0),
     (''execute_strefr'', store_r T ''STREFR'' ST_INV),
     (''execute_strefq'', store_r T ''STREFQ'' ST_QUIET),
     (''execute_strefrq'', store_r T ''STREFRQ'' (ST_INV OR ST_QUIET))]"

definition store_br :: "('c, 's, 'b, 'h) ton \<Rightarrow> string \<Rightarrow> 8 word \<Rightarrow> ('c, 's, 'b, 'h) handler" where
  "store_br T name how = thenE (load T name) (thenE (fetch_stack 2)
     (bindE (operands (bit_set how ST_INV) 0 (var_builder_mut T)) (\<lambda>(x, b).
      bindE (liftE (builder_into_cell (builders T) x)) (\<lambda>c.
        store_data T b (with_raw_and_refs (builders T) [] 0 [c]) (bit_set how ST_QUIET) True))))"

definition store_br_handlers :: "('c, 's, 'b, 'h) ton \<Rightarrow> ('c, 's, 'b, 'h) named_handlers" where
  "store_br_handlers T = [
     (''execute_stbref'', store_br T ''STBREF'' 0),
     (''execute_endcst'', store_br T ''ENDCST'' ST_INV),
     (''execute_stbrefq'', store_br T ''STBREFQ'' ST_QUIET),
     (''execute_stbrefrq'', store_br T ''STBREFRQ'' (ST_INV OR ST_QUIET))]"

definition store_s :: "('c, 's, 'b, 'h) ton \<Rightarrow> string \<Rightarrow> 8 word \<Rightarrow> ('c, 's, 'b, 'h) handler" where
  "store_s T name how = thenE (load T name) (thenE (fetch_stack 2)
     (bindE (operands (bit_set how ST_INV) 0 slice_var) (\<lambda>(x, b).
        store_data T b (Inr (slice_as_builder (slices T) x)) (bit_set how ST_QUIET) False)))"

definition execute_stdict :: "('c, 's, 'b, 'h) ton \<Rightarrow> ('c, 's, 'b, 'h) handler" where
  "execute_stdict T = thenE (load T ''STDICT'') (thenE (fetch_stack 2)
     (bindE (builder_var 0) (\<lambda>_. bindE (cmd_var 1) (\<lambda>v. bindE (liftE (as_dict v)) (\<lambda>d.
        store_data T 0 (case d of Some x \<Rightarrow> with_raw_and_refs (builders T) [0xC0] 1 [x]
          | None \<Rightarrow> with_raw (builders T) [0x40] 1) False False)))))"

definition store_s_handlers :: "('c, 's, 'b, 'h) ton \<Rightarrow> ('c, 's, 'b, 'h) named_handlers" where
  "store_s_handlers T = [
     (''execute_stslice'', store_s T ''STSLICE'' 0),
     (''execute_stslicer'', store_s T ''STSLICER'' ST_INV),
     (''execute_stsliceq'', store_s T ''STSLICEQ'' ST_QUIET),
     (''execute_stslicerq'', store_s T ''STSLICERQ'' (ST_INV OR ST_QUIET))]"

section \<open>Checks\<close>

definition check_b :: "('c, 's, 'b, 'h) ton \<Rightarrow> string \<Rightarrow> 8 word \<Rightarrow> ('c, 's, 'b, 'h) handler" where
  "check_b T name how =
     (let has_bits = bit_set how ST_BITS; has_refs = bit_set how ST_REFS; in_cmd = bit_set how ST_CMD;
          n_params = 1 + (if has_bits then 1 else 0) + (if has_refs then 1 else 0) - (if in_cmd then 1 else 0)
      in thenE (if in_cmd then load_opts T name (Opt_LengthMinusOne 0 256) else load T name)
        (thenE (fetch_stack n_params)
        (bindE (if in_cmd then cmd_length else if has_bits then nat_var 1023 (n_params - 2) else returnE 0) (\<lambda>l.
         bindE (if has_refs then nat_var 4 0 else returnE 0) (\<lambda>r.
         bindE (builder_var (n_params - 1)) (\<lambda>b.
           let status = (has_bits \<longrightarrow> check_enough_space (builders T) b l) \<and>
                 (has_refs \<longrightarrow> check_enough_refs (builders T) b r)
           in if bit_set how ST_QUIET then push_bool status
              else guardE status CellOverflow))))))"

definition check_b_handlers :: "('c, 's, 'b, 'h) ton \<Rightarrow> ('c, 's, 'b, 'h) named_handlers" where
  "check_b_handlers T = [
     (''execute_bchkrefs'', check_b T ''BCHKREFS'' (ST_REFS OR ST_STACK)),
     (''execute_bchkrefsq'', check_b T ''BCHKREFSQ'' (ST_REFS OR ST_STACK OR ST_QUIET)),
     (''execute_bchkbitrefs'', check_b T ''BCHKBITREFS'' (ST_BITS OR ST_REFS OR ST_STACK)),
     (''execute_bchkbitrefsq'', check_b T ''BCHKBITREFSQ'' (ST_BITS OR ST_REFS OR ST_STACK OR ST_QUIET)),
     (''execute_bchkbits_short'', check_b T ''BCHKBITS'' (ST_BITS OR ST_CMD)),
     (''execute_bchkbits_long'', check_b T ''BCHKBITS'' (ST_BITS OR ST_STACK)),
     (''execute_bchkbitsq_short'', check_b T ''BCHKBITS'' (ST_BITS OR ST_CMD OR ST_QUIET)),
     (''execute_bchkbitsq_long'', check_b T ''BCHKBITS'' (ST_BITS OR ST_STACK OR ST_QUIET))]"

section \<open>Integers\<close>

definition store ::
  "('c, 's, 'b, 'h) ton \<Rightarrow> encoding \<Rightarrow> string \<Rightarrow> 8 word \<Rightarrow> ('c, 's, 'b, 'h) handler" where
  "store T enc name how = thenE (load_opts T name (Opt_LengthMinusOne 0 256)) (thenE (fetch_stack 2)
     (bindE cmd_length (\<lambda>len. bindE (operands (bit_set how ST_INV) 0 int_var) (\<lambda>(x, b).
        store_data T b (integer_as_builder T enc len x) (bit_set how ST_QUIET) False))))"

definition store_handlers :: "('c, 's, 'b, 'h) ton \<Rightarrow> ('c, 's, 'b, 'h) named_handlers" where
  "store_handlers T = [
     (''execute_sti'', store T SignedIntegerBigEndianEncoding ''STI'' 0),
     (''execute_stu'', store T UnsignedIntegerBigEndianEncoding ''STU'' 0),
     (''execute_stir'', store T SignedIntegerBigEndianEncoding ''STIR'' ST_INV),
     (''execute_stur'', store T UnsignedIntegerBigEndianEncoding ''STUR'' ST_INV),
     (''execute_stiq'', store T SignedIntegerBigEndianEncoding ''STIQ'' ST_QUIET),
     (''execute_stuq'', store T UnsignedIntegerBigEndianEncoding ''STUQ'' ST_QUIET),
     (''execute_stirq'', store T SignedIntegerBigEndianEncoding ''STIRQ'' (ST_QUIET OR ST_INV)),
     (''execute_sturq'', store T UnsignedIntegerBigEndianEncoding ''STURQ'' (ST_QUIET OR ST_INV))]"

definition store_x ::
  "('c, 's, 'b, 'h) ton \<Rightarrow> encoding \<Rightarrow> string \<Rightarrow> 8 word \<Rightarrow> nat \<Rightarrow> ('c, 's, 'b, 'h) handler" where
  "store_x T enc name how limit = thenE (load T name) (thenE (fetch_stack 3)
     (bindE (int_var 0) (\<lambda>len. bindE (operands (bit_set how ST_INV) 1 int_var) (\<lambda>(x, b).
      bindE (into_range Usize limit len) (\<lambda>len.
        store_data T b (integer_as_builder T enc len x) (bit_set how ST_QUIET) False)))))"

definition store_x_handlers :: "('c, 's, 'b, 'h) ton \<Rightarrow> ('c, 's, 'b, 'h) named_handlers" where
  "store_x_handlers T = [
     (''execute_stix'', store_x T SignedIntegerBigEndianEncoding ''STIX'' 0 257),
     (''execute_stux'', store_x T UnsignedIntegerBigEndianEncoding ''STUX'' 0 256),
     (''execute_stixr'', store_x T SignedIntegerBigEndianEncoding ''STIXR'' ST_INV 257),
     (''execute_stuxr'', store_x T UnsignedIntegerBigEndianEncoding ''STUXR'' ST_INV 256),
     (''execute_stixq'', store_x T SignedIntegerBigEndianEncoding ''STIXQ'' ST_QUIET 257),
     (''execute_stuxq'', store_x T UnsignedIntegerBigEndianEncoding ''STUXQ'' ST_QUIET 256),
     (''execute_stixrq'', store_x T SignedIntegerBigEndianEncoding ''STIXRQ'' (ST_QUIET OR ST_INV) 257),
     (''execute_stuxrq'', store_x T UnsignedIntegerBigEndianEncoding ''STUXRQ'' (ST_QUIET OR ST_INV) 256)]"

definition store_l :: "('c, 's, 'b, 'h) ton \<Rightarrow> encoding \<Rightarrow> string \<Rightarrow> nat \<Rightarrow> ('c, 's, 'b, 'h) handler" where
  "store_l T enc name n = thenE (load T name) (thenE (fetch_stack 2)
     (bindE (builder_var 0) (\<lambda>_. bindE (int_var 1) (\<lambda>x.
        store_data T 0 (integer_as_builder T enc n x) False False))))"

definition store_l_handlers :: "('c, 's, 'b, 'h) ton \<Rightarrow> ('c, 's, 'b, 'h) named_handlers" where
  "store_l_handlers T = [
     (''execute_stile4'', store_l T SignedIntegerLittleEndianEncoding ''STILE4'' 32),
     (''execute_stule4'', store_l T UnsignedIntegerLittleEndianEncoding ''STULE4'' 32),
     (''execute_stile8'', store_l T SignedIntegerLittleEndianEncoding ''STILE8'' 64),
     (''execute_stule8'', store_l T UnsignedIntegerLittleEndianEncoding ''STULE8'' 64)]"

section \<open>Runs of bits and constants\<close>

definition store_bits :: "('c, 's, 'b, 'h) ton \<Rightarrow> 'b \<Rightarrow> nat \<Rightarrow> bool \<Rightarrow> ('c, 's, 'b, 'h, 'b) action" where
  "store_bits T b n bit1 =
     (if n \<noteq> 0
      then bindE (with_object (append_raw (builders T) (replicate (n div 8 + 1) (if bit1 then 0xFF else 0)) n) b)
             (\<lambda>(_, b). returnE b)
      else returnE b)"

definition stbits :: "('c, 's, 'b, 'h) ton \<Rightarrow> string \<Rightarrow> bool \<Rightarrow> ('c, 's, 'b, 'h) handler" where
  "stbits T name bit1 = thenE (load T name) (thenE (fetch_stack 2)
     (bindE (int_var 0) (\<lambda>n. bindE (builder_var 1) (\<lambda>_. bindE (into_range Usize 1023 n) (\<lambda>n.
      bindE (var_builder_mut T 1) (\<lambda>b. bindE (store_bits T b n bit1) push_builder))))))"

definition execute_stsame :: "('c, 's, 'b, 'h) ton \<Rightarrow> ('c, 's, 'b, 'h) handler" where
  "execute_stsame T = thenE (load T ''STSAME'') (thenE (fetch_stack 3)
     (bindE (int_var 0) (\<lambda>x. bindE (int_var 1) (\<lambda>n. bindE (builder_var 2) (\<lambda>_.
      bindE (into_range I32 1 x) (\<lambda>x. bindE (into_range Usize 1023 n) (\<lambda>n.
      bindE (var_builder_mut T 2) (\<lambda>b. bindE (store_bits T b n (x \<noteq> 0)) push_builder))))))))"

definition execute_stsliceconst :: "('c, 's, 'b, 'h) ton \<Rightarrow> ('c, 's, 'b, 'h) handler" where
  "execute_stsliceconst T = thenE (load_opts T ''STSLICECONST'' (Opt_Bitstring 9 2 3 0)) (thenE (fetch_stack 1)
     (bindE (var_builder_mut T 0) (\<lambda>b. bindE cmd_slice (\<lambda>sl.
      bindE (with_object (checked_append_references_and_data (builders T) sl) b) (\<lambda>(_, b). push_builder b)))))"

definition append_cell :: "('c, 's, 'b, 'h) ton \<Rightarrow> nat \<Rightarrow> 'b \<Rightarrow> ('c, 's, 'b, 'h, 'b) action" where
  "append_cell T i b = bindE (cell_var i) (\<lambda>c.
     bindE (with_object (checked_append_reference (builders T) c) b) (\<lambda>(_, b). returnE b))"

definition execute_strefconst :: "('c, 's, 'b, 'h) ton \<Rightarrow> ('c, 's, 'b, 'h) handler" where
  "execute_strefconst T = thenE (load T ''STREFCONST'') (thenE (fetch_reference T CC) (thenE (fetch_stack 1)
     (bindE (cell_var 0) (\<lambda>_. bindE (var_builder_mut T 1) (\<lambda>b.
      bindE (append_cell T 0 b) push_builder)))))"

definition execute_stref2const :: "('c, 's, 'b, 'h) ton \<Rightarrow> ('c, 's, 'b, 'h) handler" where
  "execute_stref2const T = thenE (load T ''STREF2CONST'')
     (thenE (fetch_reference T CC) (thenE (fetch_reference T CC) (thenE (fetch_stack 1)
     (bindE (cell_var 0) (\<lambda>_. bindE (cell_var 1) (\<lambda>_. bindE (var_builder_mut T 2) (\<lambda>b.
      bindE (append_cell T 0 b) (\<lambda>b. bindE (append_cell T 1 b) push_builder))))))))"

section \<open>Depth\<close>

definition execute_bdepth :: "('c, 's, 'b, 'h) ton \<Rightarrow> ('c, 's, 'b, 'h) handler" where
  "execute_bdepth T = thenE (load T ''BDEPTH'') (thenE (fetch_stack 1) (bindE (builder_var 0) (\<lambda>b.
     push_nat (foldl (\<lambda>d c. max d (1 + cell_depth (cells T) (max_level (cells T)) c)) 0
       (builder_references (builders T) b)))))"

definition execute_cdepth :: "('c, 's, 'b, 'h) ton \<Rightarrow> ('c, 's, 'b, 'h) handler" where
  "execute_cdepth T = thenE (load T ''CDEPTH'') (thenE (fetch_stack 1) (bindE (cmd_var 0) (\<lambda>x.
     if is_null x then push_nat 0
     else bindE (liftE (as_cell x)) (\<lambda>c.
          bindE (getE (check_capabilities (capability_bits T CapResolveMerkleCell))) (\<lambda>merkle.
            push_nat (if \<not> merkle \<and> references_count (cells T) c = 0 then 0
              else cell_depth (cells T) (max_level (cells T)) c))))))"

primrec slice_depth :: "('c, 's, 'b, 'h) ton \<Rightarrow> 's \<Rightarrow> nat \<Rightarrow> ('c, 's, 'b, 'h, nat) action" where
  "slice_depth T s 0 = returnE 0"
| "slice_depth T s (Suc i) = bindE (slice_depth T s i) (\<lambda>d. bindE (liftE (slice_reference T s i)) (\<lambda>c.
     returnE (max d (1 + cell_depth (cells T) (max_level (cells T)) c))))"

definition execute_sdepth :: "('c, 's, 'b, 'h) ton \<Rightarrow> ('c, 's, 'b, 'h) handler" where
  "execute_sdepth T = thenE (load T ''SDEPTH'') (thenE (fetch_stack 1) (bindE (slice_var 0) (\<lambda>s.
     bindE (slice_depth T s (remaining_references T s)) push_nat)))"

section \<open>The instructions\<close>

definition serialize_handlers :: "('c, 's, 'b, 'h) ton \<Rightarrow> ('c, 's, 'b, 'h) named_handlers" where
  "serialize_handlers T = size_b_handlers T @ [
     (''execute_endc'', execute_endc T),
     (''execute_endxc'', execute_endxc T),
     (''execute_newc'', execute_newc T)] @
     store_b_handlers T @ store_r_handlers T @ store_br_handlers T @
     [(''execute_stdict'', execute_stdict T)] @ store_s_handlers T @ check_b_handlers T @
     store_handlers T @ store_x_handlers T @ store_l_handlers T @ [
     (''execute_stzeroes'', stbits T ''STZEROES'' False),
     (''execute_stones'', stbits T ''STONES'' True),
     (''execute_stsame'', execute_stsame T),
     (''execute_stsliceconst'', execute_stsliceconst T),
     (''execute_strefconst'', execute_strefconst T),
     (''execute_stref2const'', execute_stref2const T),
     (''execute_bdepth'', execute_bdepth T),
     (''execute_cdepth'', execute_cdepth T),
     (''execute_sdepth'', execute_sdepth T)]"

lemmas store_handler_defs = size_b_handlers_def store_b_handlers_def store_r_handlers_def store_br_handlers_def
  store_s_handlers_def check_b_handlers_def store_handlers_def store_x_handlers_def store_l_handlers_def

end
