(* ===== verification/Exec_Config.thy ===== *)
theory Exec_Config
  imports Exec_Serialize
begin

text \<open>
  The contract information in \<open>c7\<close>: \<open>smci_param\<close>, the random seed and the configuration
  (\<open>executor/engine/core.rs\<close>), and the instructions of \<open>executor/config.rs\<close> and
  \<open>executor/rand.rs\<close>.
\<close>

definition smci_param :: "nat \<Rightarrow> ('c, 's, 'b, 'h, ('c, 's, 'b) stack_item) action" where
  "smci_param index = bindE (engine_ctrl 7) (\<lambda>x. liftE (
     bindR (as_tuple x) (\<lambda>t.
     bindR (case t of [] \<Rightarrow> err RangeCheckError | y # _ \<Rightarrow> as_tuple y) (\<lambda>info.
       if index < length info then Inr (info ! index) else err RangeCheckError))))"

definition rand_seed :: "('c, 's, 'b, 'h, integer_data) action" where
  "rand_seed = bindE (smci_param 6) (\<lambda>x. liftE (as_integer x))"

text \<open>The tuple is taken out of \<open>c7\<close> first: every error after that leaves it empty.\<close>

definition set_rand :: "integer_data \<Rightarrow> ('c, 's, 'b, 'h) handler" where
  "set_rand r = bindE (ctrl_tuple_mut 7) (\<lambda>t.
     case t of [] \<Rightarrow> errE RangeCheckError
     | t1 # ts \<Rightarrow> bindE (liftE (fst (as_tuple_mut t1))) (\<lambda>items.
         if 6 < length items then
           thenE (use_tuple_gas (length items)) (thenE (use_tuple_gas (length t))
             (bindE (engine_ctrl 7) (\<lambda>_.
                set_ctrl 7 (Item_Tuple (Item_Tuple (items[6 := Item_Integer r]) # ts)))))
         else errE RangeCheckError))"

definition get_config_param :: "('c, 's, 'b, 'h) ton \<Rightarrow> int \<Rightarrow> ('c, 's, 'b, 'h, 'c option) action" where
  "get_config_param T index = bindE (smci_param 9) (\<lambda>x.
     case x of
       Item_Cell data \<Rightarrow>
         bindE (liftE (key_i32 T index)) (\<lambda>key.
           bindE (hashmap_get_with_gas T (with_hashmap T 32 (Some data)) key (load_cell T)) (\<lambda>r.
             returnE (case r of Some v \<Rightarrow> reference_opt T v 0 | None \<Rightarrow> None)))
     | _ \<Rightarrow> returnE None)"

definition execute_config_param ::
  "('c, 's, 'b, 'h) ton \<Rightarrow> string \<Rightarrow> bool \<Rightarrow> ('c, 's, 'b, 'h) handler" where
  "execute_config_param T name opt = thenE (load T name) (thenE (fetch_stack 1)
     (bindE (ranged_var I32 (- (2 ^ 31)) (2 ^ 31 - 1) 0) (\<lambda>index.
      bindE (get_config_param T index) (\<lambda>r.
        case r of
          Some v \<Rightarrow> thenE (push_item (Item_Cell v)) (whenE (\<not> opt) (push_item (item_boolean True)))
        | None \<Rightarrow> push_item (if opt then Item_None else item_boolean False)))))"

definition config_param_handlers :: "('c, 's, 'b, 'h) ton \<Rightarrow> ('c, 's, 'b, 'h) named_handlers" where
  "config_param_handlers T = [
     (''execute_config_opt_param'', execute_config_param T ''CONFIGOPTPARAM'' True),
     (''execute_config_ref_param'', execute_config_param T ''CONFIGPARAM'' False)]"

definition execute_config_dict :: "('c, 's, 'b, 'h) ton \<Rightarrow> ('c, 's, 'b, 'h) handler" where
  "execute_config_dict T = thenE (load T ''CONFIGDICT'') (bindE (smci_param 9) (\<lambda>dict.
     thenE (push_item dict) (push_item (item_int 32))))"

definition extract_config :: "('c, 's, 'b, 'h) ton \<Rightarrow> string \<Rightarrow> ('c, 's, 'b, 'h) handler" where
  "extract_config T name = thenE (load_opts T name (Opt_Length 0 16))
     (bindE cmd_length (\<lambda>n. bindE (smci_param n) push_item))"

definition execute_balance :: "('c, 's, 'b, 'h) ton \<Rightarrow> ('c, 's, 'b, 'h) handler" where
  "execute_balance T = extract_config T ''BALANCE''"

definition config_info_handlers :: "('c, 's, 'b, 'h) ton \<Rightarrow> ('c, 's, 'b, 'h) named_handlers" where
  "config_info_handlers T = [
     (''execute_config_root'', extract_config T ''CONFIGROOT''),
     (''execute_getparam'', extract_config T ''GETPARAM''),
     (''execute_now'', extract_config T ''NOW''),
     (''execute_blocklt'', extract_config T ''BLOCKLT''),
     (''execute_ltime'', extract_config T ''LTIME''),
     (''execute_my_addr'', extract_config T ''MYADDR'')]"

definition execute_my_code :: "('c, 's, 'b, 'h) ton \<Rightarrow> ('c, 's, 'b, 'h) handler" where
  "execute_my_code T = thenE (check_capability T CapMycode) (extract_config T ''MYCODE'')"
definition execute_randseed :: "('c, 's, 'b, 'h) ton \<Rightarrow> ('c, 's, 'b, 'h) handler" where
  "execute_randseed T = extract_config T ''RANDSEED''"
definition execute_init_code_hash :: "('c, 's, 'b, 'h) ton \<Rightarrow> ('c, 's, 'b, 'h) handler" where
  "execute_init_code_hash T = thenE (check_capability T CapInitCodeHash) (extract_config T ''INITCODEHASH'')"
definition execute_seq_no :: "('c, 's, 'b, 'h) ton \<Rightarrow> ('c, 's, 'b, 'h) handler" where
  "execute_seq_no T = thenE (check_capability T CapDelections) (extract_config T ''SEQNO'')"
definition execute_storage_fees_collected :: "('c, 's, 'b, 'h) ton \<Rightarrow> ('c, 's, 'b, 'h) handler" where
  "execute_storage_fees_collected T =
     thenE (check_capability T CapStorageFeeToTvm) (extract_config T ''STORAGEFEE'')"

definition execute_setrand :: "('c, 's, 'b, 'h) ton \<Rightarrow> ('c, 's, 'b, 'h) handler" where
  "execute_setrand T = thenE (load T ''SETRAND'') (thenE (fetch_stack 1) (bindE (int_var 0) set_rand))"

section \<open>Random numbers\<close>

text \<open>A number as 32 bytes and back; the decoder's error stands for a panic.\<close>

definition uint256_bytes :: "('c, 's, 'b, 'h) ton \<Rightarrow> integer_data \<Rightarrow> ('c, 's, 'b, 'h, u8 list) action" where
  "uint256_bytes T x = bindE (liftE (integer_as_builder T UnsignedIntegerBigEndianEncoding 256 x))
     (\<lambda>b. returnE (builder_data (builders T) b))"

definition uint256_of :: "('c, 's, 'b, 'h) ton \<Rightarrow> u8 list \<Rightarrow> ('c, 's, 'b, 'h, integer_data) action" where
  "uint256_of T bytes = (case deserialize UnsignedIntegerBigEndianEncoding (bigint T) 256 bytes of
     Inr x \<Rightarrow> returnE x | Inl _ \<Rightarrow> throwE Panic)"

definition execute_addrand :: "('c, 's, 'b, 'h) ton \<Rightarrow> ('c, 's, 'b, 'h) handler" where
  "execute_addrand T = thenE (load T ''ADDRAND'') (thenE (fetch_stack 1)
     (bindE rand_seed (\<lambda>seed. bindE (uint256_bytes T seed) (\<lambda>a.
      bindE (int_var 0) (\<lambda>x. bindE (uint256_bytes T x) (\<lambda>b.
      bindE (uint256_of T (sha256 (blocks T) (a @ b))) set_rand))))))"

definition execute_rand :: "('c, 's, 'b, 'h) ton \<Rightarrow> ('c, 's, 'b, 'h) handler" where
  "execute_rand T = thenE (load T ''RAND'') (thenE (fetch_stack 1)
     (bindE rand_seed (\<lambda>seed. bindE (uint256_bytes T seed) (\<lambda>a.
      let digest = sha512 (blocks T) a in
      bindE (int_var 0) (\<lambda>y.
      bindE (liftE (lift_code (mul_shr256 Signaling (from_unsigned_bytes_be (bigint T) (drop 32 digest)) y))) (\<lambda>r.
      thenE (push_item (Item_Integer r)) (bindE (uint256_of T (take 32 digest)) set_rand)))))))"

definition execute_randu256 :: "('c, 's, 'b, 'h) ton \<Rightarrow> ('c, 's, 'b, 'h) handler" where
  "execute_randu256 T = thenE (load T ''RANDU256'')
     (bindE rand_seed (\<lambda>seed. bindE (uint256_bytes T seed) (\<lambda>a.
      let digest = sha512 (blocks T) a in
      bindE (uint256_of T (take 32 digest)) (\<lambda>r. thenE (set_rand r)
        (bindE (uint256_of T (drop 32 digest)) (\<lambda>x. push_item (Item_Integer x)))))))"

definition rand_handlers :: "('c, 's, 'b, 'h) ton \<Rightarrow> ('c, 's, 'b, 'h) named_handlers" where
  "rand_handlers T = [
     (''execute_addrand'', execute_addrand T),
     (''execute_rand'', execute_rand T),
     (''execute_randu256'', execute_randu256 T)]"

end
