(* ===== verification/Contract_Info.thy ===== *)
theory Contract_Info
  imports Exec_Config
begin

text \<open>
  The contract information of \<open>smart_contract_info.rs\<close>, which becomes the first item of \<open>c7\<close>, and
  what the configuration instructions read of it.  A balance is its amount and the root of its
  dictionary of extra currencies; numbers of the source without a sign are natural numbers, which are only
  stored here.  The \<open>debug_assert\<close>s of \<open>into_temp_data_item\<close> are left out: it is the release build.
\<close>

record ('c, 's) smart_contract_info =
  info_actions :: nat
  msgs_sent :: nat
  unix_time :: nat
  block_lt :: nat
  trans_lt :: nat
  seq_no :: nat
  info_rand_seed :: integer_data
  balance_grams :: nat
  balance_other :: "'c option"
  balance_remaining_grams :: nat
  balance_remaining_other :: "'c option"
  myself :: 's
  config_params :: "'c option"
  mycode :: 'c
  init_code_hash :: hash
  storage_fee_collected :: nat
  info_capabilities :: u64

definition info_default :: "('c, 's, 'b, 'h) ton \<Rightarrow> ('c, 's) smart_contract_info" where
  "info_default T = \<lparr> info_actions = 0, msgs_sent = 0, unix_time = 0, block_lt = 0, trans_lt = 0, seq_no = 0,
     info_rand_seed = Value 0, balance_grams = 0, balance_other = None, balance_remaining_grams = 0,
     balance_remaining_other = None, myself = slice_default T, config_params = None, mycode = cell_default T,
     init_code_hash = 0, storage_fee_collected = 0, info_capabilities = 0 \<rparr>"

definition with_myself :: "('c, 's, 'b, 'h) ton \<Rightarrow> 's \<Rightarrow> ('c, 's) smart_contract_info" where
  "with_myself T s = (info_default T) \<lparr> myself := s \<rparr>"

definition old_default :: "('c, 's, 'b, 'h) ton \<Rightarrow> 'c \<Rightarrow> ('c, 's) smart_contract_info" where
  "old_default T code = (info_default T)
     \<lparr> info_capabilities := capability_bits T CapInitCodeHash OR capability_bits T CapMycode, mycode := code \<rparr>"

definition set_mycode :: "'c \<Rightarrow> ('c, 's) smart_contract_info \<Rightarrow> ('c, 's) smart_contract_info" where
  "set_mycode code i = i \<lparr> mycode := code \<rparr>"

definition set_init_code_hash :: "hash \<Rightarrow> ('c, 's) smart_contract_info \<Rightarrow> ('c, 's) smart_contract_info" where
  "set_init_code_hash h i = i \<lparr> init_code_hash := h \<rparr>"

definition set_storage_fee :: "nat \<Rightarrow> ('c, 's) smart_contract_info \<Rightarrow> ('c, 's) smart_contract_info" where
  "set_storage_fee fee i = i \<lparr> storage_fee_collected := fee \<rparr>"

definition calc_rand_seed ::
  "('c, 's, 'b, 'h) ton \<Rightarrow> hash \<Rightarrow> u8 list \<Rightarrow> ('c, 's) smart_contract_info \<Rightarrow> ('c, 's) smart_contract_info" where
  "calc_rand_seed T rand_seed_block account_address_anycast i = i \<lparr> info_rand_seed :=
     (if rand_seed_block \<noteq> 0
      then from_unsigned_bytes_be (bigint T)
             (sha256 (blocks T) (octets_of 32 (uint rand_seed_block) @ account_address_anycast))
      else Value 0) \<rparr>"

section \<open>The item of \<open>c7\<close>\<close>

text \<open>The loop over the additional parameters: one that is switched off leaves a gap only when a later
  one is switched on.  \<open>i\<close> counts the parameters.\<close>

fun additional_params ::
  "u64 \<Rightarrow> nat \<Rightarrow> (u64 \<times> ('c, 's, 'b) stack_item) list \<Rightarrow> ('c, 's, 'b) stack_item list \<Rightarrow> ('c, 's, 'b) stack_item list" where
  "additional_params caps i [] acc = acc"
| "additional_params caps i ((cap, x) # ps) acc =
     additional_params caps (i + 1) ps
       (if caps AND cap \<noteq> 0 then acc @ replicate (i - length acc) Item_None @ [x] else acc)"

definition cell_item :: "'c option \<Rightarrow> ('c, 's, 'b) stack_item" where
  "cell_item c = (case c of Some c \<Rightarrow> Item_Cell c | None \<Rightarrow> Item_None)"

definition info_params :: "('c, 's) smart_contract_info \<Rightarrow> ('c, 's, 'b) stack_item list" where
  "info_params i = [
     item_int 0x076ef1ea,
     item_int (int (info_actions i)),
     item_int (int (msgs_sent i)),
     item_int (int (unix_time i)),
     item_int (int (block_lt i)),
     item_int (int (trans_lt i)),
     Item_Integer (info_rand_seed i),
     Item_Tuple [item_int (int (max (balance_remaining_grams i) (balance_grams i))),
       cell_item (case balance_remaining_other i of Some c \<Rightarrow> Some c | None \<Rightarrow> balance_other i)],
     Item_Slice (myself i),
     cell_item (config_params i)]"

definition info_additional ::
  "('c, 's, 'b, 'h) ton \<Rightarrow> ('c, 's) smart_contract_info \<Rightarrow> (u64 \<times> ('c, 's, 'b) stack_item) list" where
  "info_additional T i = [
     (capability_bits T CapMycode, Item_Cell (mycode i)),
     (capability_bits T CapInitCodeHash,
       Item_Integer (from_unsigned_bytes_be (bigint T) (octets_of 32 (uint (init_code_hash i))))),
     (capability_bits T CapStorageFeeToTvm, item_int (int (storage_fee_collected i))),
     (capability_bits T CapDelections, item_int (int (seq_no i)))]"

definition into_temp_data_item ::
  "('c, 's, 'b, 'h) ton \<Rightarrow> ('c, 's) smart_contract_info \<Rightarrow> ('c, 's, 'b) stack_item" where
  "into_temp_data_item T i = Item_Tuple [Item_Tuple (info_params i @
     additional_params (info_capabilities i) 0 (info_additional T i) [])]"

definition into_temp_data_with_init_code_hash ::
  "('c, 's, 'b, 'h) ton \<Rightarrow> bool \<Rightarrow> bool \<Rightarrow> ('c, 's) smart_contract_info \<Rightarrow> ('c, 's, 'b) stack_item" where
  "into_temp_data_with_init_code_hash T is_init_code_hash with_mycode i =
     (let i = (if is_init_code_hash
               then i \<lparr> info_capabilities := info_capabilities i OR capability_bits T CapInitCodeHash \<rparr> else i);
          i = (if with_mycode then i \<lparr> info_capabilities := info_capabilities i OR capability_bits T CapMycode \<rparr> else i)
      in into_temp_data_item T i)"

definition into_temp_data :: "('c, 's, 'b, 'h) ton \<Rightarrow> ('c, 's) smart_contract_info \<Rightarrow> ('c, 's, 'b) stack_item" where
  "into_temp_data T i = into_temp_data_item T (i \<lparr> info_capabilities :=
     info_capabilities i OR capability_bits T CapInitCodeHash OR capability_bits T CapMycode \<rparr>)"

definition into_temp_data_with_capabilities ::
  "('c, 's, 'b, 'h) ton \<Rightarrow> u64 \<Rightarrow> ('c, 's) smart_contract_info \<Rightarrow> ('c, 's, 'b) stack_item" where
  "into_temp_data_with_capabilities T caps i = into_temp_data_item T (i \<lparr> info_capabilities := caps \<rparr>)"

end
