(* ===== verification/Engine_Loop.thy ===== *)
theory Engine_Loop
  imports Exec_Exceptions Contract_Info
begin

text \<open>
  The machine's loop (\<open>executor/engine/core.rs\<close>): the implicit steps at the end of a
  continuation's code, the dispatch of an exception, and \<open>execute\<close> with the handler of the
  next instruction as an argument.  The two loops of the source may not end; they take fuel and
  return \<open>OutOfFuel\<close> when it is spent.  Tracing and the texts of the log are left out.
\<close>

section \<open>Implicit steps\<close>

definition inc_step :: "('c, 's, 'b, 'h) handler" where
  "inc_step = modifyE (\<lambda>e. e \<lparr> step := step e + 1 \<rparr>)"

definition continueE :: "('c, 's, 'b, 'h) handler \<Rightarrow> ('c, 's, 'b, 'h, int option) action" where
  "continueE m = thenE m (returnE None)"

definition step_next_ref :: "('c, 's, 'b, 'h) ton \<Rightarrow> 'c \<Rightarrow> ('c, 's, 'b, 'h, int option) action" where
  "step_next_ref T reference = thenE inc_step (thenE (try_use_gas implicit_jmp_price)
     (bindE (load_hashed_cell T reference True) (\<lambda>code. continueE (set_cc_code code))))"

definition step_ordinary :: "('c, 's, 'b, 'h, int option) action" where
  "step_ordinary = thenE inc_step (thenE (try_use_gas implicit_ret_price)
     (bindE (ctrl_get 0) (\<lambda>c0. if c0 = None then returnE (Some 0) else continueE switch_to_c0)))"

definition step_pushint :: "('c, 's, 'b, 'h) ton \<Rightarrow> int \<Rightarrow> ('c, 's, 'b, 'h, int option) action" where
  "step_pushint T code = continueE (seqE [inc_step, push_item (item_int code), switch T (ctrl_addr 0)])"

definition step_try_catch :: "('c, 's, 'b, 'h) ton \<Rightarrow> ('c, 's, 'b, 'h, int option) action" where
  "step_try_catch T = continueE (seqE [inc_step, try_use_gas implicit_ret_price,
     bindE (ctrls_remove 2) (\<lambda>_. returnE ()), switch T (ctrl_addr 0)])"

definition step_catch_revert :: "('c, 's, 'b, 'h) ton \<Rightarrow> nat \<Rightarrow> ('c, 's, 'b, 'h, int option) action" where
  "step_catch_revert T d = thenE inc_step
     (bindE (from_stack (drop_range_straight 0 2)) (\<lambda>exc_pair.
      bindE stack_depth (\<lambda>cur_depth.
        if cur_depth < d then errE StackUnderflow
        else continueE (seqE [modifyE (upd_stack (drop_top (cur_depth - d))),
          push_items exc_pair, switch T (ctrl_addr 0)]))))"

text \<open>The subtraction of the source is on 64-bit numbers without a sign.\<close>

definition discharge_nargs :: "('c, 's, 'b, 'h) ton \<Rightarrow> ('c, 's, 'b, 'h) handler" where
  "discharge_nargs T = modifyE (\<lambda>e.
     if bugfixes2022 T e \<and> nargs_of (cc e) \<noteq> - 1 then
       let d = depth (cc_stack e);
           start = nat ((int d - nargs_of (cc e)) mod 2 ^ 64);
           st = (case drop_range_straight start d (cc_stack e) of
                   Inr (_, st) \<Rightarrow> st | Inl _ \<Rightarrow> cc_stack e)
       in e \<lparr> cc := set_nargs (- 1) (set_stack st (cc e)) \<rparr>
     else e)"

definition check_while_loop_condition :: "('c, 's, 'b, 'h, bool) action" where
  "check_while_loop_condition = bindE (from_stack (stack_drop 0)) (\<lambda>x.
     bindE (liftE (as_integer x)) (\<lambda>y. returnE (\<not> is_zero y)))"

definition check_until_loop_condition :: "('c, 's, 'b, 'h, bool) action" where
  "check_until_loop_condition = bindE check_while_loop_condition (\<lambda>b. returnE (\<not> b))"

text \<open>\<open>move_without_stack(&mut self.cc, body)\<close>: the loop's continuation is taken out of \<open>cc\<close>,
  which becomes the body.\<close>

definition take_loop :: "'s \<Rightarrow> ('c, 's, 'b, 'h, ('c, 's, 'b) continuation_data) action" where
  "take_loop body = (\<lambda>e. let (k, old) = move_without_stack (cc e) body in (Inr k, e \<lparr> cc := old \<rparr>))"

text \<open>\<open>savelist.put_opt(0, self.ctrl_mut(0)?)\<close>: the register keeps the empty item.\<close>

definition save_c0_in ::
  "('c, 's, 'b) continuation_data \<Rightarrow> ('c, 's, 'b, 'h, ('c, 's, 'b) continuation_data) action" where
  "save_c0_in k = bindE (engine_ctrl 0) (\<lambda>x. thenE (set_ctrl 0 Item_None)
     (returnE (set_savelist (snd (put_opt 0 x (savelist_of k))) k)))"

definition step_while_loop ::
  "('c, 's, 'b, 'h) ton \<Rightarrow> 's \<Rightarrow> 's \<Rightarrow> ('c, 's, 'b, 'h, int option) action" where
  "step_while_loop T body cond = (\<lambda>e. case check_while_loop_condition e of
     (Inr True, e) \<Rightarrow>
       thenE (discharge_nargs T) (bindE (take_loop body) (\<lambda>loop. bindE (save_c0_in loop) (\<lambda>loop.
         continueE (ctrls_put_opt 0 (Item_Continuation
           (set_savelist (snd (put_opt 0 (Item_Continuation loop) savelist_new)) (with_code cond))))))) e
   | (Inr False, e) \<Rightarrow> continueE (switch T (ctrl_addr 0)) e
   | (Inl er, e) \<Rightarrow>
       if bugfixes2022 T e then
         bindE (ctrls_put 0 (Item_Continuation (with_type (slice_default T)
           (Quit (code_number T NormalTermination))))) (\<lambda>_. throwE er) e
       else (Inl er, e))"

definition step_repeat_loop :: "('c, 's, 'b, 'h) ton \<Rightarrow> 's \<Rightarrow> ('c, 's, 'b, 'h, int option) action" where
  "step_repeat_loop T body = (\<lambda>e. case type_of (cc e) of
     RepeatLoopBody sl counter \<Rightarrow>
       if counter > 1 then
         thenE (upd_cc (set_type (RepeatLoopBody sl (counter - 1)))) (thenE (discharge_nargs T)
           (bindE (take_loop body) (\<lambda>loop. bindE (save_c0_in loop) (\<lambda>loop.
             continueE (ctrls_put_opt 0 (Item_Continuation loop)))))) e
       else continueE (switch T (ctrl_addr 0)) e
   | _ \<Rightarrow> (Inr None, e))"

definition step_until_loop :: "('c, 's, 'b, 'h) ton \<Rightarrow> 's \<Rightarrow> ('c, 's, 'b, 'h, int option) action" where
  "step_until_loop T body = bindE check_until_loop_condition (\<lambda>again.
     if again then
       thenE (discharge_nargs T) (bindE (take_loop body) (\<lambda>loop. bindE (save_c0_in loop) (\<lambda>loop.
         continueE (ctrls_put_opt 0 (Item_Continuation loop)))))
     else continueE (switch T (ctrl_addr 0)))"

definition step_again_loop :: "('c, 's, 'b, 'h) ton \<Rightarrow> 's \<Rightarrow> ('c, 's, 'b, 'h, int option) action" where
  "step_again_loop T body = thenE (discharge_nargs T) (bindE (take_loop body) (\<lambda>loop.
     continueE (ctrls_put_opt 0 (Item_Continuation loop))))"

definition make_external_error :: "('c, 's, 'b, 'h) ton \<Rightarrow> ('c, 's, 'b, 'h, int option) action" where
  "make_external_error T =
     bindE (from_stack (stack_drop 0)) (\<lambda>x. bindE (liftE (as_int_in Usize 0 0xFFFF x)) (\<lambda>number.
       if number = code_number T NormalTermination \<or> number = code_number T AlternativeTermination
       then returnE (Some number)
       else (\<lambda>e.
         let (v, e) = (case from_stack (stack_drop 0) e of
                 (Inr item, e) \<Rightarrow> (case as_integer item of Inr v \<Rightarrow> v | Inl _ \<Rightarrow> Value 0, e)
               | (Inl _, e) \<Rightarrow> (Value 0, e)) in
         (Inl (TvmExceptionFull (case code_from_usize T (nat number) of
             Some code \<Rightarrow> from_code_and_value code v
           | None \<Rightarrow> from_number_and_value (nat number) (Item_Integer v))), e))))"

section \<open>Exceptions\<close>

definition push_exception :: "('c, 's, 'b, 'h) ton \<Rightarrow> ('c, 's, 'b) exception_data \<Rightarrow> ('c, 's, 'b, 'h) handler" where
  "push_exception T ex = thenE (push_item (exc_value ex))
     (push_item (item_int (exception_or_custom_code (code_number T) (exception ex))))"

text \<open>The common beginning: only an exception the machine knows is dispatched, running out of gas
  never, and the dispatch has its price.\<close>

definition charge_exception ::
  "('c, 's, 'b) tvm_error \<Rightarrow> ('c, 's, 'b, 'h, ('c, 's, 'b) exception_data) action" where
  "charge_exception er = (case tvm_exception_full er of
     None \<Rightarrow> throwE er
   | Some ex \<Rightarrow>
       thenE (whenE (exception_code_of (exception ex) \<noteq> None) inc_step)
         (if exception_code_of (exception ex) = Some OutOfGas then throwE er
          else (\<lambda>e. case try_use_gas exception_price e of
              (Inl er', e) \<Rightarrow> (Inl er', e \<lparr> step := step e + 1 \<rparr>)
            | (Inr _, e) \<Rightarrow> (Inr ex, e))))"

definition quit_with :: "('c, 's, 'b, 'h) ton \<Rightarrow> int \<Rightarrow> ('c, 's, 'b) stack_item \<Rightarrow> ('c, 's, 'b, 'h) handler" where
  "quit_with T exit_code v = bindE var_count (\<lambda>n. seqE [
     push_typed T (Quit exit_code), push_item v, upd_cont_var n (set_nargs 1), switch T (var_addr n)])"

definition raise_exception :: "('c, 's, 'b, 'h) ton \<Rightarrow> ('c, 's, 'b) tvm_error \<Rightarrow> ('c, 's, 'b, 'h) handler" where
  "raise_exception T er = bindE (charge_exception er) (\<lambda>ex. bindE (ctrl_get 2) (\<lambda>c2. case c2 of
     Some x \<Rightarrow> seqE [push_exception T ex,
       bindE (liftE (as_continuation x)) (\<lambda>k. set_ctrl 2 (Item_Continuation (set_nargs 2 k))),
       switch T (ctrl_addr 2)]
   | None \<Rightarrow> (case is_normal_termination (exception ex) of
         Some number \<Rightarrow> quit_with T number (exc_value ex)
       | None \<Rightarrow> throwE er)))"

definition is_exc_quit :: "('c, 's, 'b) stack_item \<Rightarrow> bool" where
  "is_exc_quit x = (case x of Item_Continuation k \<Rightarrow> type_of k = ExcQuit | _ \<Rightarrow> False)"

definition catch_nargs :: "('c, 's, 'b) continuation_data \<Rightarrow> ('c, 's, 'b) continuation_data" where
  "catch_nargs k = (case type_of k of CatchRevert _ \<Rightarrow> k | _ \<Rightarrow> set_nargs 2 k)"

definition raise_exception_bugfix0 ::
  "('c, 's, 'b, 'h) ton \<Rightarrow> ('c, 's, 'b) tvm_error \<Rightarrow> ('c, 's, 'b, 'h, int option) action" where
  "raise_exception_bugfix0 T er = bindE (charge_exception er) (\<lambda>ex. bindE var_count (\<lambda>n.
     bindE (ctrls_remove 2) (\<lambda>c2. case c2 of
       None \<Rightarrow> throwE er
     | Some x \<Rightarrow>
         if is_exc_quit x then
           (case is_normal_termination (exception ex) of
              Some exit_code \<Rightarrow> continueE (quit_with T exit_code (exc_value ex))
            | None \<Rightarrow> thenE (modifyE (upd_stack (\<lambda>_. []))) (thenE (push_exception T ex)
                (throwE (TvmExceptionFull ex))))
         else continueE (seqE [push_var x, push_exception T ex, upd_cont_var n catch_nargs,
                switch T (var_addr n)]))))"

text \<open>What \<open>execute\<close> and \<open>seek_next_cmd\<close> do with an error, by the capability.\<close>

definition dispatch_error ::
  "('c, 's, 'b, 'h) ton \<Rightarrow> ('c, 's, 'b) tvm_error \<Rightarrow> ('c, 's, 'b, 'h, int option) action" where
  "dispatch_error T er = (\<lambda>e.
     if bugfixes2022 T e then raise_exception_bugfix0 T er e else continueE (raise_exception T er) e)"

section \<open>The loops\<close>

definition implicit_step :: "('c, 's, 'b, 'h) ton \<Rightarrow> ('c, 's, 'b, 'h, int option) action" where
  "implicit_step T = (\<lambda>e. case reference_opt T (code_of (cc e)) 0 of
     Some reference \<Rightarrow> step_next_ref T reference e
   | None \<Rightarrow> (case type_of (cc e) of
         Ordinary \<Rightarrow> step_ordinary e
       | PushInt code \<Rightarrow> step_pushint T code e
       | Quit exit_code \<Rightarrow> (Inr (Some exit_code), e)
       | TryCatch \<Rightarrow> step_try_catch T e
       | WhileLoopCondition body cond \<Rightarrow> step_while_loop T body cond e
       | RepeatLoopBody code _ \<Rightarrow> step_repeat_loop T code e
       | UntilLoopCondition body \<Rightarrow> step_until_loop T body e
       | AgainLoopBody sl \<Rightarrow> step_again_loop T sl e
       | ExcQuit \<Rightarrow> make_external_error T e
       | CatchRevert d \<Rightarrow> step_catch_revert T d e))"

definition leaves_loop :: "('c, 's, 'b, 'h) ton \<Rightarrow> ('c, 's, 'b, 'h) engine \<Rightarrow> bool" where
  "leaves_loop T e = (reference_opt T (code_of (cc e)) 0 = None \<and> type_of (cc e) = ExcQuit)"

text \<open>One round of \<open>seek_next_cmd\<close>.  Only an error of \<open>make_external_error\<close> leaves the loop
  at once; a negative gas balance takes precedence over the step's result.\<close>

definition seek_round :: "('c, 's, 'b, 'h) ton \<Rightarrow> ('c, 's, 'b, 'h, int option) action" where
  "seek_round T = (\<lambda>e. case implicit_step T e of (r, e') \<Rightarrow>
     if leaves_loop T e \<and> \<not> is_ok r then (r, e')
     else (case bindR (check_gas_remaining (egas e')) (\<lambda>_. r) of
         Inr x \<Rightarrow> (Inr x, e')
       | Inl er \<Rightarrow> dispatch_error T er e'))"

fun seek_next_cmd :: "('c, 's, 'b, 'h) ton \<Rightarrow> nat \<Rightarrow> ('c, 's, 'b, 'h, int option) action" where
  "seek_next_cmd T 0 e = (if remaining_bits T (code_of (cc e)) \<noteq> 0 then (Inr None, e) else (Inl OutOfFuel, e))"
| "seek_next_cmd T (Suc n) e =
     (if remaining_bits T (code_of (cc e)) \<noteq> 0 then (Inr None, e)
      else case seek_round T e of
          (Inr None, e) \<Rightarrow> seek_next_cmd T n e
        | r \<Rightarrow> r)"

definition clear_params :: "('c, 's, 'b, 'h) handler" where
  "clear_params = modifyE (\<lambda>e. e \<lparr> cmd := (cmd e) \<lparr> params := [] \<rparr> \<rparr>)"

text \<open>One explicit instruction.  \<open>get_handler\<close> finds the handler of the next instruction, or
  the error of the search.\<close>

definition run_cmd ::
  "('c, 's, 'b, 'h) ton \<Rightarrow> ('c, 's, 'b, 'h, ('c, 's, 'b, 'h) handler) action \<Rightarrow> ('c, 's, 'b, 'h) handler" where
  "run_cmd T get_handler = (\<lambda>e.
     let e = e \<lparr> cmd_code_proto := slice_proto_from T (code_of (cc e)) \<rparr>;
         (r, e) = (case get_handler e of
             (Inl er, e) \<Rightarrow> (Some er, snd (basic_use_gas T 8 e))
           | (Inr h, e) \<Rightarrow> (case h e of
                 (Inl er, e) \<Rightarrow> (Some (update_error_description er), e)
               | (Inr _, e) \<Rightarrow> (case check_gas_remaining (egas e) of
                     Inl er \<Rightarrow> (Some er, e) | Inr _ \<Rightarrow> (None, e)))) in
     thenE clear_params (case r of
         None \<Rightarrow> returnE ()
       | Some er \<Rightarrow> thenE (dispatch_error T er) (returnE ())) e)"

fun execute_loop ::
  "('c, 's, 'b, 'h) ton \<Rightarrow> ('c, 's, 'b, 'h, ('c, 's, 'b, 'h) handler) action \<Rightarrow> nat \<Rightarrow>
   ('c, 's, 'b, 'h, int) action" where
  "execute_loop T get_handler 0 e = (Inl OutOfFuel, e)"
| "execute_loop T get_handler (Suc n) e = (case seek_next_cmd T n e of
     (Inl er, e) \<Rightarrow> (Inl er, e)
   | (Inr (Some result), e) \<Rightarrow> (Inr result, e)
   | (Inr None, e) \<Rightarrow> (case run_cmd T get_handler e of
         (Inl er, e) \<Rightarrow> (Inl er, e)
       | (Inr _, e) \<Rightarrow> execute_loop T get_handler n e))"

definition execute ::
  "('c, 's, 'b, 'h) ton \<Rightarrow> ('c, 's, 'b, 'h, ('c, 's, 'b, 'h) handler) action \<Rightarrow> nat \<Rightarrow>
   ('c, 's, 'b, 'h, int) action" where
  "execute T get_handler fuel = bindE (execute_loop T get_handler fuel) (\<lambda>result.
     thenE commit (returnE result))"

section \<open>Setting up\<close>

definition put_unwrap :: "nat \<Rightarrow> ('c, 's, 'b) stack_item \<Rightarrow> ('c, 's, 'b, 'h) handler" where
  "put_unwrap i x = (\<lambda>e. case ctrls_put i x e of (Inl _, e) \<Rightarrow> (Inl Panic, e) | (Inr _, e) \<Rightarrow> (Inr (), e))"

definition setup_with_libraries ::
  "('c, 's, 'b, 'h) ton \<Rightarrow> 's \<Rightarrow> ('c, 's, 'b) save_list option \<Rightarrow>
   ('c, 's, 'b) item_stack option \<Rightarrow> gas option \<Rightarrow> 'h list \<Rightarrow> ('c, 's, 'b, 'h) handler" where
  "setup_with_libraries T code regs stack g libs = (\<lambda>e.
     let cont = (\<lambda>ty. Item_Continuation (with_type (slice_default T) ty)) in
     seqE [
       set_cc_code code,
       modifyE (\<lambda>e. e \<lparr> cmd_code_proto := slice_proto_from T (code_of (cc e)) \<rparr>),
       modifyE (upd_stack (\<lambda>st. case stack of Some st' \<Rightarrow> st' | None \<Rightarrow> st)),
       modifyE (\<lambda>e. e \<lparr> egas := (case g of Some g \<Rightarrow> g | None \<Rightarrow> gas_test) \<rparr>),
       put_unwrap 0 (cont (Quit (code_number T NormalTermination))),
       put_unwrap 1 (cont (Quit (code_number T AlternativeTermination))),
       whenE (bugfixes2022 T e) (put_unwrap 2 (cont ExcQuit)),
       put_unwrap 3 (Item_Continuation (with_code code)),
       put_unwrap 4 (Item_Cell (cell_default T)),
       put_unwrap 5 (Item_Cell (cell_default T)),
       put_unwrap 7 (into_temp_data_item T (old_default T (into_cell T code))),
       modifyE (\<lambda>e. case regs of Some sl \<Rightarrow> e \<lparr> ctrls := fst (savelist_apply (ctrls e) sl) \<rparr> | None \<Rightarrow> e),
       modifyE (\<lambda>e. e \<lparr> libraries := libs \<rparr>)] e)"

end
