(* ===== verification/Exec_Math.thy ===== *)
theory Exec_Math
  imports Exec_Stack
begin

text \<open>
  The arithmetic instructions (\<open>executor/math.rs\<close>).  The closure an instruction passes to
  \<open>binary\<close>, \<open>unary\<close> and the others is the argument \<open>f\<close> of their models, with the
  operand on top of the stack first, as in the source.
\<close>

unbundle bit_operations_syntax

section \<open>Common definitions\<close>

type_synonym binary = "integer_data \<Rightarrow> integer_data \<Rightarrow> exception_code + integer_data"

definition load_math ::
  "('c, 's, 'b, 'h) ton \<Rightarrow> behavior \<Rightarrow> string \<Rightarrow> instruction_options option \<Rightarrow> ('c, 's, 'b, 'h) handler" where
  "load_math T B name opts =
     load_instruction T ((set_name_prefix (name_prefix B) (instr_new name)) \<lparr> instr_opts := opts \<rparr>)"

text \<open>\<open>get_mut(i)\<close> of the source: the item \<open>i\<close> below the top, replaced by a later write.\<close>

definition stack_at :: "nat \<Rightarrow> ('c, 's, 'b, 'h, ('c, 's, 'b) stack_item) action" where
  "stack_at i = (\<lambda>e. if i < depth (cc_stack e) then (Inr (view (cc_stack e) ! i), e) else (Inl Panic, e))"

definition int_at :: "nat \<Rightarrow> ('c, 's, 'b, 'h, integer_data) action" where
  "int_at i = bindE (stack_at i) (\<lambda>x. liftE (as_integer x))"

definition withdraw_at :: "nat \<Rightarrow> ('c, 's, 'b, 'h, ('c, 's, 'b) stack_item) action" where
  "withdraw_at i = bindE (stack_at i) (\<lambda>x. thenE (set_stack_item i Item_None) (returnE x))"

definition binary_body :: "binary \<Rightarrow> ('c, 's, 'b, 'h) handler" where
  "binary_body f = need_depth 2
     (bindE (withdraw_at 0) (\<lambda>v0. bindE (int_at 1) (\<lambda>v1.
        bindE (liftE (as_integer v0)) (\<lambda>y. bindE (liftE (lift_code (f y v1))) (\<lambda>r.
          thenE (set_stack_item 1 (Item_Integer r)) (drop_item 0))))))"

definition binary ::
  "('c, 's, 'b, 'h) ton \<Rightarrow> behavior \<Rightarrow> string \<Rightarrow> binary \<Rightarrow> ('c, 's, 'b, 'h) handler" where
  "binary T B name f = thenE (load_math T B name None) (binary_body f)"

definition binary_assign_body ::
  "(integer_data \<Rightarrow> integer_data \<Rightarrow> (exception_code + unit) \<times> integer_data) \<Rightarrow> ('c, 's, 'b, 'h) handler" where
  "binary_assign_body f = need_depth 2
     (bindE (withdraw_at 0) (\<lambda>v0. bindE (int_at 1) (\<lambda>v1.
        bindE (liftE (as_integer v0)) (\<lambda>y.
          thenE (set_stack_item 1 (Item_Integer (snd (f y v1))))
            (bindE (liftE (lift_code (fst (f y v1)))) (\<lambda>_. drop_item 0))))))"

definition binary_assign ::
  "('c, 's, 'b, 'h) ton \<Rightarrow> behavior \<Rightarrow> string \<Rightarrow>
   (integer_data \<Rightarrow> integer_data \<Rightarrow> (exception_code + unit) \<times> integer_data) \<Rightarrow> ('c, 's, 'b, 'h) handler" where
  "binary_assign T B name f = thenE (load_math T B name None) (binary_assign_body f)"

definition unary_body :: "(integer_data \<Rightarrow> exception_code + integer_data) \<Rightarrow> ('c, 's, 'b, 'h) handler" where
  "unary_body f = need_depth 1
     (bindE (int_at 0) (\<lambda>v0. bindE (liftE (lift_code (f v0))) (\<lambda>r. set_stack_item 0 (Item_Integer r))))"

definition unary ::
  "('c, 's, 'b, 'h) ton \<Rightarrow> behavior \<Rightarrow> string \<Rightarrow>
   (integer_data \<Rightarrow> exception_code + integer_data) \<Rightarrow> ('c, 's, 'b, 'h) handler" where
  "unary T B name f = thenE (load_math T B name None) (unary_body f)"

definition binary_with_const ::
  "('c, 's, 'b, 'h) ton \<Rightarrow> behavior \<Rightarrow> string \<Rightarrow>
   (int \<Rightarrow> integer_data \<Rightarrow> exception_code + integer_data) \<Rightarrow> ('c, 's, 'b, 'h) handler" where
  "binary_with_const T B name f =
     thenE (load_math T B name (Some (Opt_Integer (- 128) 128)))
       (need_depth 1 (bindE cmd_integer (\<lambda>v0. unary_body (f v0))))"

definition unary_with_len ::
  "('c, 's, 'b, 'h) ton \<Rightarrow> behavior \<Rightarrow> string \<Rightarrow>
   (integer_data \<Rightarrow> nat \<Rightarrow> exception_code + integer_data) \<Rightarrow> ('c, 's, 'b, 'h) handler" where
  "unary_with_len T B name f =
     thenE (load_math T B name (Some (Opt_LengthMinusOne 0 256)))
       (need_depth 1 (bindE (int_at 0) (\<lambda>v0. bindE cmd_length (\<lambda>n.
          bindE (liftE (lift_code (f v0 n))) (\<lambda>r. set_stack_item 0 (Item_Integer r))))))"

datatype compare_type = Take_Min | Take_Max | Take_Both

text \<open>The two items the comparison leaves in \<open>x\<close> and \<open>y\<close>; the bit sets
  \<open>MIN\<close>, \<open>MAX\<close> and \<open>MIN | MAX\<close> are the three constructors.\<close>

definition minmax_pair ::
  "behavior \<Rightarrow> compare_type \<Rightarrow> integer_data \<Rightarrow> integer_data \<Rightarrow> exception_code + integer_data \<times> integer_data" where
  "minmax_pair B ct x y =
     bindR (compare B x y) (\<lambda>r. case r of
        None \<Rightarrow> bindR (on_nan_parameter B) (\<lambda>_. Inr (NaN, NaN))
      | Some Less \<Rightarrow> Inr (if ct = Take_Max then (y, x) else (x, y))
      | Some _ \<Rightarrow> Inr (if ct \<noteq> Take_Max then (y, x) else (x, y)))"

definition minmax ::
  "('c, 's, 'b, 'h) ton \<Rightarrow> behavior \<Rightarrow> string \<Rightarrow> compare_type \<Rightarrow> ('c, 's, 'b, 'h) handler" where
  "minmax T B name ct = thenE (load_math T B name None) (thenE (fetch_stack 2)
     (bindE (int_var 0) (\<lambda>x. bindE (int_var 1) (\<lambda>y.
        bindE (liftE (lift_code (minmax_pair B ct x y))) (\<lambda>p.
          thenE (push_item (Item_Integer (fst p)))
            (whenE (ct = Take_Both) (push_item (Item_Integer (snd p)))))))))"

definition fits_body ::
  "behavior \<Rightarrow> nat \<Rightarrow> (integer_data \<Rightarrow> nat \<Rightarrow> exception_code + bool) \<Rightarrow> ('c, 's, 'b, 'h) handler" where
  "fits_body B n op_fit = need_depth 1
     (bindE (int_at 0) (\<lambda>x.
        if is_nan x then bindE (liftE (lift_code (on_nan_parameter B))) (\<lambda>_. set_stack_item 0 (Item_Integer NaN))
        else bindE (liftE (lift_code (op_fit x n))) (\<lambda>ok.
          if ok then returnE ()
          else bindE (liftE (lift_code (on_integer_overflow B))) (\<lambda>_. set_stack_item 0 (Item_Integer NaN)))))"

definition boolint :: "bool \<Rightarrow> integer_data" where
  "boolint b = (if b then minus_one_int else zero_int)"

definition EQUAL :: "8 word" where "EQUAL = 1"
definition GREATER :: "8 word" where "GREATER = 2"
definition LESS :: "8 word" where "LESS = 4"

definition cmp :: "behavior \<Rightarrow> 8 word \<Rightarrow> integer_data \<Rightarrow> integer_data \<Rightarrow> exception_code + integer_data" where
  "cmp B rule x y =
     bindR (compare B x y) (\<lambda>r.
       if rule = 0 then
         (case r of
            Some Equal \<Rightarrow> Inr zero_int
          | Some Greater \<Rightarrow> Inr one_int
          | Some Less \<Rightarrow> Inr minus_one_int
          | None \<Rightarrow> bindR (on_nan_parameter B) (\<lambda>_. Inr NaN))
       else
         (case r of
            Some Equal \<Rightarrow> Inr (boolint (rule AND EQUAL \<noteq> 0))
          | Some Greater \<Rightarrow> Inr (boolint (rule AND GREATER \<noteq> 0))
          | Some Less \<Rightarrow> Inr (boolint (rule AND LESS \<noteq> 0))
          | None \<Rightarrow> bindR (on_nan_parameter B) (\<lambda>_. Inr NaN)))"

definition as_i8 :: "int \<Rightarrow> int" where
  "as_i8 y = signed_take_bit 7 y"

definition shift_of :: "integer_data \<Rightarrow> exception_code + nat" where
  "shift_of y = bindR (integer_into Usize 0 1023 y) (\<lambda>n. Inr (nat n))"

section \<open>Instructions on one or two operands\<close>

definition execute_abs :: "('c, 's, 'b, 'h) ton \<Rightarrow> behavior \<Rightarrow> ('c, 's, 'b, 'h) handler" where
  "execute_abs T B = thenE (load_math T B ''ABS'' None) (thenE (fetch_stack 1)
     (bindE (int_var 0) (\<lambda>x.
        if is_nan x then bindE (liftE (lift_code (on_nan_parameter B))) (\<lambda>_. push_item (Item_Integer x))
        else if is_neg x then push_result (neg B x)
        else push_item (Item_Integer x))))"

definition execute_add :: "('c, 's, 'b, 'h) ton \<Rightarrow> behavior \<Rightarrow> ('c, 's, 'b, 'h) handler" where
  "execute_add T B = binary_assign T B ''ADD'' (\<lambda>y x. add_assign B x y)"

definition execute_addconst :: "('c, 's, 'b, 'h) ton \<Rightarrow> behavior \<Rightarrow> ('c, 's, 'b, 'h) handler" where
  "execute_addconst T B = binary_with_const T B ''ADDCONST'' (\<lambda>y x. add_i8 B x (as_i8 y))"

definition execute_and :: "('c, 's, 'b, 'h) ton \<Rightarrow> behavior \<Rightarrow> ('c, 's, 'b, 'h) handler" where
  "execute_and T B = binary T B ''AND'' (\<lambda>y x. and_int B x y)"

definition bitsize_op :: "behavior \<Rightarrow> integer_data \<Rightarrow> exception_code + integer_data" where
  "bitsize_op B x =
     (if is_nan x then bindR (on_nan_parameter B) (\<lambda>_. Inr NaN)
      else if is_zero x then Inr zero_int
      else bindR (integer_bitsize x) (\<lambda>n. Inr (Value (int n))))"

definition execute_bitsize :: "('c, 's, 'b, 'h) ton \<Rightarrow> behavior \<Rightarrow> ('c, 's, 'b, 'h) handler" where
  "execute_bitsize T B = unary T B ''BITSIZE'' (bitsize_op B)"

definition execute_chknan :: "('c, 's, 'b, 'h) ton \<Rightarrow> ('c, 's, 'b, 'h) handler" where
  "execute_chknan T = thenE (load T ''CHKNAN'') (need_depth 1
     (bindE (int_at 0) (\<lambda>x. if is_nan x then errE IntegerOverflow else returnE ())))"

definition execute_cmp :: "('c, 's, 'b, 'h) ton \<Rightarrow> behavior \<Rightarrow> ('c, 's, 'b, 'h) handler" where
  "execute_cmp T B = binary T B ''CMP'' (\<lambda>y x. cmp B 0 x y)"

definition execute_dec :: "('c, 's, 'b, 'h) ton \<Rightarrow> behavior \<Rightarrow> ('c, 's, 'b, 'h) handler" where
  "execute_dec T B = unary T B ''DEC'' (\<lambda>x. sub_i8 B x 1)"

definition execute_equal :: "('c, 's, 'b, 'h) ton \<Rightarrow> behavior \<Rightarrow> ('c, 's, 'b, 'h) handler" where
  "execute_equal T B = binary T B ''EQUAL'' (\<lambda>y x. cmp B EQUAL x y)"

definition execute_eqint :: "('c, 's, 'b, 'h) ton \<Rightarrow> behavior \<Rightarrow> ('c, 's, 'b, 'h) handler" where
  "execute_eqint T B = binary_with_const T B ''EQINT'' (\<lambda>y x. cmp B EQUAL x (Value y))"

definition execute_fits :: "('c, 's, 'b, 'h) ton \<Rightarrow> behavior \<Rightarrow> ('c, 's, 'b, 'h) handler" where
  "execute_fits T B = thenE (load_math T B ''FITS'' (Some (Opt_LengthMinusOne 0 256)))
     (bindE cmd_length (\<lambda>n. fits_body B n fits_in))"

definition execute_fitsx :: "('c, 's, 'b, 'h) ton \<Rightarrow> behavior \<Rightarrow> ('c, 's, 'b, 'h) handler" where
  "execute_fitsx T B = thenE (load_math T B ''FITSX'' None) (thenE (fetch_stack 1)
     (bindE (ranged_var Usize 0 1023 0) (\<lambda>n. fits_body B (nat n) fits_in)))"

definition execute_geq :: "('c, 's, 'b, 'h) ton \<Rightarrow> behavior \<Rightarrow> ('c, 's, 'b, 'h) handler" where
  "execute_geq T B = binary T B ''GEQ'' (\<lambda>y x. cmp B (EQUAL OR GREATER) x y)"

definition execute_greater :: "('c, 's, 'b, 'h) ton \<Rightarrow> behavior \<Rightarrow> ('c, 's, 'b, 'h) handler" where
  "execute_greater T B = binary T B ''GREATER'' (\<lambda>y x. cmp B GREATER x y)"

definition execute_gtint :: "('c, 's, 'b, 'h) ton \<Rightarrow> behavior \<Rightarrow> ('c, 's, 'b, 'h) handler" where
  "execute_gtint T B = binary_with_const T B ''GTINT'' (\<lambda>y x. cmp B GREATER x (Value y))"

definition execute_inc :: "('c, 's, 'b, 'h) ton \<Rightarrow> behavior \<Rightarrow> ('c, 's, 'b, 'h) handler" where
  "execute_inc T B = unary T B ''INC'' (\<lambda>x. add_i8 B x 1)"

definition execute_isnan :: "('c, 's, 'b, 'h) ton \<Rightarrow> ('c, 's, 'b, 'h) handler" where
  "execute_isnan T = thenE (load T ''ISNAN'') (thenE (fetch_stack 1)
     (bindE (int_var 0) (\<lambda>x. push_item (item_boolean (is_nan x)))))"

definition execute_leq :: "('c, 's, 'b, 'h) ton \<Rightarrow> behavior \<Rightarrow> ('c, 's, 'b, 'h) handler" where
  "execute_leq T B = binary T B ''LEQ'' (\<lambda>y x. cmp B (EQUAL OR LESS) x y)"

definition execute_less :: "('c, 's, 'b, 'h) ton \<Rightarrow> behavior \<Rightarrow> ('c, 's, 'b, 'h) handler" where
  "execute_less T B = binary T B ''LESS'' (\<lambda>y x. cmp B LESS x y)"

definition execute_lessint :: "('c, 's, 'b, 'h) ton \<Rightarrow> behavior \<Rightarrow> ('c, 's, 'b, 'h) handler" where
  "execute_lessint T B = binary_with_const T B ''LESSINT'' (\<lambda>y x. cmp B LESS x (Value y))"

definition execute_lshift :: "('c, 's, 'b, 'h) ton \<Rightarrow> behavior \<Rightarrow> ('c, 's, 'b, 'h) handler" where
  "execute_lshift T B = bindE get_last_cmd (\<lambda>c.
     if c = 0xAC then binary T B ''LSHIFT'' (\<lambda>y x. bindR (shift_of y) (shl B x))
     else unary_with_len T B ''LSHIFT'' (shl B))"

definition execute_max :: "('c, 's, 'b, 'h) ton \<Rightarrow> behavior \<Rightarrow> ('c, 's, 'b, 'h) handler" where
  "execute_max T B = minmax T B ''MAX'' Take_Max"

definition execute_min :: "('c, 's, 'b, 'h) ton \<Rightarrow> behavior \<Rightarrow> ('c, 's, 'b, 'h) handler" where
  "execute_min T B = minmax T B ''MIN'' Take_Min"

definition execute_minmax :: "('c, 's, 'b, 'h) ton \<Rightarrow> behavior \<Rightarrow> ('c, 's, 'b, 'h) handler" where
  "execute_minmax T B = minmax T B ''MINMAX'' Take_Both"

definition execute_mul :: "('c, 's, 'b, 'h) ton \<Rightarrow> behavior \<Rightarrow> ('c, 's, 'b, 'h) handler" where
  "execute_mul T B = binary T B ''MUL'' (\<lambda>y x. mul B x y)"

definition execute_mulconst :: "('c, 's, 'b, 'h) ton \<Rightarrow> behavior \<Rightarrow> ('c, 's, 'b, 'h) handler" where
  "execute_mulconst T B = binary_with_const T B ''MULCONST'' (\<lambda>y x. mul_i8 B x (as_i8 y))"

definition execute_negate :: "('c, 's, 'b, 'h) ton \<Rightarrow> behavior \<Rightarrow> ('c, 's, 'b, 'h) handler" where
  "execute_negate T B = unary T B ''NEGATE'' (neg B)"

definition execute_neq :: "('c, 's, 'b, 'h) ton \<Rightarrow> behavior \<Rightarrow> ('c, 's, 'b, 'h) handler" where
  "execute_neq T B = binary T B ''NEQ'' (\<lambda>y x. cmp B (GREATER OR LESS) x y)"

definition execute_neqint :: "('c, 's, 'b, 'h) ton \<Rightarrow> behavior \<Rightarrow> ('c, 's, 'b, 'h) handler" where
  "execute_neqint T B = binary_with_const T B ''NEQINT'' (\<lambda>y x. cmp B (GREATER OR LESS) x (Value y))"

definition execute_not :: "('c, 's, 'b, 'h) ton \<Rightarrow> behavior \<Rightarrow> ('c, 's, 'b, 'h) handler" where
  "execute_not T B = unary T B ''NOT'' (not_int B)"

definition execute_or :: "('c, 's, 'b, 'h) ton \<Rightarrow> behavior \<Rightarrow> ('c, 's, 'b, 'h) handler" where
  "execute_or T B = binary T B ''OR'' (\<lambda>y x. or_int B x y)"

definition pow2_op :: "behavior \<Rightarrow> integer_data \<Rightarrow> exception_code + integer_data" where
  "pow2_op B x =
     (case shift_of x of
        Inr shift \<Rightarrow> shl B one_int shift
      | Inl IntegerOverflow \<Rightarrow> bindR (on_integer_overflow B) (\<lambda>_. Inr NaN)
      | Inl code \<Rightarrow> Inl code)"

definition execute_pow2 :: "('c, 's, 'b, 'h) ton \<Rightarrow> behavior \<Rightarrow> ('c, 's, 'b, 'h) handler" where
  "execute_pow2 T B = unary T B ''POW2'' (pow2_op B)"

definition execute_rshift :: "('c, 's, 'b, 'h) ton \<Rightarrow> behavior \<Rightarrow> ('c, 's, 'b, 'h) handler" where
  "execute_rshift T B = bindE get_last_cmd (\<lambda>c.
     if c = 0xAD then binary T B ''RSHIFT'' (\<lambda>y x. bindR (shift_of y) (shr B x))
     else unary_with_len T B ''RSHIFT'' (shr B))"

definition sgn_op :: "behavior \<Rightarrow> integer_data \<Rightarrow> exception_code + integer_data" where
  "sgn_op B x =
     (if is_nan x then bindR (on_nan_parameter B) (\<lambda>_. Inr NaN)
      else Inr (if is_neg x then minus_one_int else if is_zero x then zero_int else one_int))"

definition execute_sgn :: "('c, 's, 'b, 'h) ton \<Rightarrow> behavior \<Rightarrow> ('c, 's, 'b, 'h) handler" where
  "execute_sgn T B = unary T B ''SGN'' (sgn_op B)"

definition execute_sub :: "('c, 's, 'b, 'h) ton \<Rightarrow> behavior \<Rightarrow> ('c, 's, 'b, 'h) handler" where
  "execute_sub T B = binary T B ''SUB'' (\<lambda>y x. sub B x y)"

definition execute_subr :: "('c, 's, 'b, 'h) ton \<Rightarrow> behavior \<Rightarrow> ('c, 's, 'b, 'h) handler" where
  "execute_subr T B = binary T B ''SUB'' (\<lambda>y x. sub B y x)"

definition ubitsize_op :: "behavior \<Rightarrow> integer_data \<Rightarrow> exception_code + integer_data" where
  "ubitsize_op B x =
     (if is_nan x \<or> is_neg x then bindR (on_range_check_error B) (\<lambda>_. Inr NaN)
      else bindR (ubitsize x) (\<lambda>n. Inr (Value (int n))))"

definition execute_ubitsize :: "('c, 's, 'b, 'h) ton \<Rightarrow> behavior \<Rightarrow> ('c, 's, 'b, 'h) handler" where
  "execute_ubitsize T B = unary T B ''UBITSIZE'' (ubitsize_op B)"

definition execute_ufits :: "('c, 's, 'b, 'h) ton \<Rightarrow> behavior \<Rightarrow> ('c, 's, 'b, 'h) handler" where
  "execute_ufits T B = thenE (load_math T B ''UFITS'' (Some (Opt_LengthMinusOne 0 256)))
     (bindE cmd_length (\<lambda>n. fits_body B n ufits_in))"

definition execute_ufitsx :: "('c, 's, 'b, 'h) ton \<Rightarrow> behavior \<Rightarrow> ('c, 's, 'b, 'h) handler" where
  "execute_ufitsx T B = thenE (load_math T B ''UFITSX'' None) (thenE (fetch_stack 1)
     (bindE (ranged_var Usize 0 1023 0) (\<lambda>n. fits_body B (nat n) ufits_in)))"

definition execute_xor :: "('c, 's, 'b, 'h) ton \<Rightarrow> behavior \<Rightarrow> ('c, 's, 'b, 'h) handler" where
  "execute_xor T B = binary T B ''XOR'' (\<lambda>y x. xor_int B x y)"

section \<open>Division\<close>

text \<open>The index the source decrements in place is passed on.\<close>

definition get_var :: "int \<Rightarrow> ('c, 's, 'b, 'h, integer_data \<times> int) action" where
  "get_var index = (if index < 0 then errE StackUnderflow
     else bindE (int_var (nat index)) (\<lambda>v. returnE (v, index - 1)))"

definition get_shift :: "int \<Rightarrow> ('c, 's, 'b, 'h, nat \<times> int) action" where
  "get_shift index = bindE cmd_has_length (\<lambda>has.
     if has then bindE cmd_length (\<lambda>n. returnE (n, index))
     else bindE (get_var index) (\<lambda>(v, index').
       bindE (liftE (lift_code (integer_into Usize 0 256 v))) (\<lambda>n. returnE (nat n, index'))))"

definition divmod_operands :: "div_mode \<Rightarrow> bool \<Rightarrow> nat" where
  "divmod_operands m has_len =
     1 + (if premultiply m \<and> \<not> (mode_mul_by_shift m \<and> has_len) then 1 else 0)
       + (if \<not> mode_div_by_shift m \<or> \<not> has_len then 1 else 0)"

definition check_integer_vars :: "nat \<Rightarrow> ('c, 's, 'b, 'h) handler" where
  "check_integer_vars n = seqE (map (\<lambda>i. bindE (int_var i) (\<lambda>_. returnE ())) [0..<n])"

definition premultiplied :: "behavior \<Rightarrow> integer_data \<Rightarrow> integer_data \<Rightarrow> exception_code + int option" where
  "premultiplied B x y = binary_op B x y (\<lambda>v w. v * w) None (\<lambda>r _. Inr (Some r))"

definition preshifted :: "behavior \<Rightarrow> integer_data \<Rightarrow> nat \<Rightarrow> exception_code + int option" where
  "preshifted B x shift = unary_op B x (\<lambda>v. push_bit shift v) None (\<lambda>r _. Inr (Some r))"

definition divmod_divide ::
  "behavior \<Rightarrow> int \<Rightarrow> integer_data \<Rightarrow> round \<Rightarrow> exception_code + integer_data \<times> integer_data" where
  "divmod_divide B x y rounding =
     (if is_zero y then bindR (on_integer_overflow B) (\<lambda>_. Inr (NaN, NaN))
      else unary_op B y (\<lambda>d. divmod x d rounding) (NaN, NaN) (process_double_result B))"

definition divmod_premultiplied ::
  "behavior \<Rightarrow> div_mode \<Rightarrow> integer_data \<Rightarrow> int \<Rightarrow> ('c, 's, 'b, 'h, integer_data \<times> integer_data) action" where
  "divmod_premultiplied B m x index =
     bindE (get_var index) (\<lambda>(y, index1).
     bindE (if mode_mul_by_shift m
            then bindE (get_shift index1) (\<lambda>(shift, index2).
                   bindE (liftE (lift_code (preshifted B x shift))) (\<lambda>x_opt. returnE (x_opt, index2)))
            else bindE (liftE (lift_code (premultiplied B x y))) (\<lambda>x_opt. returnE (x_opt, index1)))
       (\<lambda>(x_opt, index2). case x_opt of
          None \<Rightarrow> returnE (NaN, NaN)
        | Some x' \<Rightarrow>
            bindE (liftE (lift_code (rounding_strategy m))) (\<lambda>rounding.
            if mode_div_by_shift m
            then bindE (get_shift index2) (\<lambda>(shift, _).
                   liftE (lift_code (process_double_result B (div_by_shift x' shift rounding) (NaN, NaN))))
            else bindE (if \<not> mode_mul_by_shift m then get_var index2 else returnE (y, index2))
                   (\<lambda>(y', _). liftE (lift_code (divmod_divide B x' y' rounding))))))"

definition divmod_result ::
  "behavior \<Rightarrow> div_mode \<Rightarrow> nat \<Rightarrow> ('c, 's, 'b, 'h, integer_data \<times> integer_data) action" where
  "divmod_result B m n =
     bindE (get_var (int n - 1)) (\<lambda>(x, index).
       if premultiply m then divmod_premultiplied B m x index
       else if mode_div_by_shift m
       then bindE (get_shift index) (\<lambda>(shift, _).
            bindE (liftE (lift_code (rounding_strategy m))) (\<lambda>rounding.
              liftE (lift_code (integer_div_by_shift B x shift rounding))))
       else bindE (get_var index) (\<lambda>(y, _).
            bindE (liftE (lift_code (rounding_strategy m))) (\<lambda>rounding.
              liftE (lift_code (integer_div B x y rounding)))))"

definition divmod_push :: "div_mode \<Rightarrow> integer_data \<times> integer_data \<Rightarrow> ('c, 's, 'b, 'h) handler" where
  "divmod_push m p =
     thenE (whenE (need_quotient m) (push_item (Item_Integer (fst p))))
       (whenE (need_remainder m) (push_item (Item_Integer (snd p))))"

definition divmod_body :: "behavior \<Rightarrow> div_mode \<Rightarrow> ('c, 's, 'b, 'h) handler" where
  "divmod_body B m =
     (if \<not> is_valid m then errE InvalidOpcode
      else bindE cmd_has_length (\<lambda>has_len.
        let n = divmod_operands m has_len in
        thenE (fetch_stack n) (thenE (check_integer_vars n)
          (bindE (divmod_result B m n) (divmod_push m)))))"

definition execute_divmod :: "('c, 's, 'b, 'h) ton \<Rightarrow> behavior \<Rightarrow> ('c, 's, 'b, 'h) handler" where
  "execute_divmod T B = thenE (load_math T B ''DIV'' (Some Opt_DivisionMode))
     (bindE cmd_division_mode (divmod_body B))"

end
