(* ===== verification/Exec_Gas.thy ===== *)
theory Exec_Gas
  imports Exec_Stack
begin

text \<open>The instructions on gas (\<open>executor/gas/mod.rs\<close>).\<close>

definition gramtogas :: "integer_data \<Rightarrow> gas \<Rightarrow> exception_code + i64" where
  "gramtogas nanograms g =
     bindR (integer_div Quiet nanograms (Value (sint (gas_price g))) FloorToZero) (\<lambda>p.
       Inr (case take_value_of (to_primitive I64) (fst p) of
              Inr v \<Rightarrow> word_of_int v | Inl _ \<Rightarrow> I64_MAX))"

definition setgaslimit :: "i64 \<Rightarrow> ('c, 's, 'b, 'h) handler" where
  "setgaslimit limit = (\<lambda>e.
     if sint limit < sint (gas_used e) then (err OutOfGas, e)
     else (Inr (), e \<lparr> egas := new_gas_limit limit (egas e) \<rparr>))"

definition execute_accept :: "('c, 's, 'b, 'h) ton \<Rightarrow> ('c, 's, 'b, 'h) handler" where
  "execute_accept T = thenE (load T ''ACCEPT'')
     (modifyE (\<lambda>e. e \<lparr> egas := new_gas_limit I64_MAX (egas e) \<rparr>))"

definition execute_setgaslimit :: "('c, 's, 'b, 'h) ton \<Rightarrow> ('c, 's, 'b, 'h) handler" where
  "execute_setgaslimit T = thenE (load T ''SETGASLIMIT'') (thenE (fetch_stack 1)
     (bindE (int_var 0) (\<lambda>x. bindE (liftE (lift_code (take_value_of (to_primitive I64) x)))
        (\<lambda>v. setgaslimit (word_of_int v)))))"

definition execute_buygas :: "('c, 's, 'b, 'h) ton \<Rightarrow> ('c, 's, 'b, 'h) handler" where
  "execute_buygas T = thenE (load T ''BUYGAS'') (thenE (fetch_stack 1)
     (bindE (int_var 0) (\<lambda>x. bindE (getE egas) (\<lambda>g.
        bindE (liftE (lift_code (gramtogas x g))) setgaslimit))))"

definition execute_gramtogas :: "('c, 's, 'b, 'h) ton \<Rightarrow> ('c, 's, 'b, 'h) handler" where
  "execute_gramtogas T = thenE (load T ''GRAMTOGAS'') (thenE (fetch_stack 1)
     (bindE (int_var 0) (\<lambda>x. bindE (getE egas) (\<lambda>g.
        bindE (if is_neg x then returnE 0 else liftE (lift_code (gramtogas x g)))
          (\<lambda>v. push_item (item_int (sint v)))))))"

definition execute_gastogram :: "('c, 's, 'b, 'h) ton \<Rightarrow> ('c, 's, 'b, 'h) handler" where
  "execute_gastogram T = thenE (load T ''GASTOGRAM'') (thenE (fetch_stack 1)
     (bindE (int_var 0) (\<lambda>x. bindE (getE egas) (\<lambda>g.
        push_result (mul Quiet x (Value (sint (gas_price g))))))))"

definition execute_commit :: "('c, 's, 'b, 'h) ton \<Rightarrow> ('c, 's, 'b, 'h) handler" where
  "execute_commit T = thenE (load T ''COMMIT'') commit"

definition execute_gas_remaining :: "('c, 's, 'b, 'h) ton \<Rightarrow> ('c, 's, 'b, 'h) handler" where
  "execute_gas_remaining T = thenE (check_capability T CapsTvmBugfixes2022)
     (thenE (load T ''GASREMAINING'')
        (bindE (getE (\<lambda>e. sint (gas_remaining (egas e)))) (\<lambda>v. push_item (item_int v))))"

end
