(* ===== verification/Exec_Loops.thy ===== *)
theory Exec_Loops
  imports Exec_Continuation
begin

text \<open>
  The loop instructions of \<open>executor/continuation.rs\<close>.  Each builds the loop's continuation,
  links it with the body and the current continuation through save lists and switches to the
  body or to the condition.
\<close>

definition execute_again :: "('c, 's, 'b, 'h) ton \<Rightarrow> ('c, 's, 'b, 'h) handler" where
  "execute_again T = seqE [load T ''AGAIN'', fetch_stack 1,
     bindE (code_var 0) (\<lambda>body. push_typed T (AgainLoopBody body)),
     swap (savelist_addr CC 0) (ctrl_addr 0),
     copy_to_var CC,
     swap (savelist_addr (var_addr 1) 0) (var_addr 2),
     swap (savelist_addr (var_addr 0) 0) (var_addr 1),
     switch T (var_addr 0)]"

definition execute_again_break :: "('c, 's, 'b, 'h) ton \<Rightarrow> ('c, 's, 'b, 'h) handler" where
  "execute_again_break T = seqE [load T ''AGAINBRK'', fetch_stack 1,
     bindE (code_var 0) (\<lambda>body. push_typed T (AgainLoopBody body)),
     swap (savelist_addr CC 0) (ctrl_addr 0),
     swap (savelist_addr CC 1) (ctrl_addr 1),
     copy_to_var CC,
     copy_to_var (var_addr 2),
     swap (savelist_addr (var_addr 1) 0) (var_addr 2),
     swap (savelist_addr (var_addr 0) 0) (var_addr 1),
     swap (savelist_addr (var_addr 0) 1) (var_addr 3),
     switch T (var_addr 0)]"

definition push_code :: "'s \<Rightarrow> ('c, 's, 'b, 'h) handler" where
  "push_code c = push_var (Item_Continuation (with_code c))"

definition execute_againend :: "('c, 's, 'b, 'h) ton \<Rightarrow> ('c, 's, 'b, 'h) handler" where
  "execute_againend T = seqE [load T ''AGAINEND'',
     bindE (take_cc_code T) (\<lambda>body. thenE (push_code body) (push_typed T (AgainLoopBody body))),
     swap (savelist_addr CC 0) (ctrl_addr 0),
     copy_to_var CC,
     swap (savelist_addr (var_addr 1) 0) (var_addr 2),
     swap (savelist_addr (var_addr 0) 0) (var_addr 1),
     switch T (var_addr 0)]"

definition execute_againend_break :: "('c, 's, 'b, 'h) ton \<Rightarrow> ('c, 's, 'b, 'h) handler" where
  "execute_againend_break T = seqE [load T ''AGAINENDBRK'',
     bindE (take_cc_code T) (\<lambda>body. thenE (push_code body) (push_typed T (AgainLoopBody body))),
     swap (savelist_addr CC 0) (ctrl_addr 0),
     copy_to_var CC,
     copy_to_var (var_addr 2),
     swap (savelist_addr (var_addr 1) 0) (var_addr 2),
     swap (savelist_addr (var_addr 0) 0) (var_addr 1),
     swap (savelist_addr (var_addr 0) 1) (var_addr 3),
     switch T (var_addr 0)]"

definition execute_repeat :: "('c, 's, 'b, 'h) ton \<Rightarrow> ('c, 's, 'b, 'h) handler" where
  "execute_repeat T = seqE [load T ''REPEAT'', fetch_stack 2,
     bindE (code_var 0) (\<lambda>body. bindE (counter_var 1) (\<lambda>counter.
       if counter \<le> 0 then returnE ()
       else seqE [push_typed T (RepeatLoopBody body counter),
         swap (savelist_addr CC 0) (ctrl_addr 0),
         copy_to_var CC,
         swap (savelist_addr (var_addr 2) 0) (var_addr 3),
         swap (savelist_addr (var_addr 0) 0) (var_addr 2),
         switch T (var_addr 0)]))]"

definition execute_repeat_break :: "('c, 's, 'b, 'h) ton \<Rightarrow> ('c, 's, 'b, 'h) handler" where
  "execute_repeat_break T = seqE [load T ''REPEATBRK'', fetch_stack 2,
     bindE (code_var 0) (\<lambda>body. bindE (counter_var 1) (\<lambda>counter.
       if counter \<le> 0 then returnE ()
       else seqE [push_typed T (RepeatLoopBody body counter),
         swap (savelist_addr CC 0) (ctrl_addr 0),
         swap (savelist_addr CC 1) (ctrl_addr 1),
         copy_to_var CC,
         copy_to_var (var_addr 3),
         swap (savelist_addr (var_addr 2) 0) (var_addr 3),
         swap (savelist_addr (var_addr 0) 0) (var_addr 2),
         swap (savelist_addr (var_addr 0) 1) (var_addr 4),
         switch T (var_addr 0)]))]"

definition execute_repeatend :: "('c, 's, 'b, 'h) ton \<Rightarrow> ('c, 's, 'b, 'h) handler" where
  "execute_repeatend T = seqE [load T ''REPEATEND'', fetch_stack 1,
     bindE (getE (\<lambda>e. code_of (cc e))) (\<lambda>body. bindE (counter_var 0) (\<lambda>counter.
       if counter \<le> 0 then ret T
       else seqE [push_code body, push_typed T (RepeatLoopBody body counter),
         swap (savelist_addr (var_addr 2) 0) (ctrl_addr 0),
         swap (savelist_addr (var_addr 1) 0) (var_addr 2),
         switch T (var_addr 1)]))]"

definition execute_repeatend_break :: "('c, 's, 'b, 'h) ton \<Rightarrow> ('c, 's, 'b, 'h) handler" where
  "execute_repeatend_break T = seqE [load T ''REPEATENDBRK'', fetch_stack 1,
     bindE (getE (\<lambda>e. code_of (cc e))) (\<lambda>body. bindE (counter_var 0) (\<lambda>counter.
       if counter \<le> 0 then ret T
       else seqE [push_code body, push_typed T (RepeatLoopBody body counter),
         copy_to_var (ctrl_addr 0),
         swap (savelist_addr (var_addr 2) 0) (ctrl_addr 0),
         swap (savelist_addr (var_addr 1) 0) (var_addr 2),
         swap (savelist_addr (var_addr 1) 1) (var_addr 3),
         switch T (var_addr 1)]))]"

definition execute_until :: "('c, 's, 'b, 'h) ton \<Rightarrow> ('c, 's, 'b, 'h) handler" where
  "execute_until T = seqE [load T ''UNTIL'', fetch_stack 1,
     bindE (code_var 0) (\<lambda>body. push_typed T (UntilLoopCondition body)),
     swap (savelist_addr CC 0) (ctrl_addr 0),
     copy_to_var CC,
     swap (savelist_addr (var_addr 1) 0) (var_addr 2),
     swap (savelist_addr (var_addr 0) 0) (var_addr 1),
     switch T (var_addr 0)]"

definition execute_until_break :: "('c, 's, 'b, 'h) ton \<Rightarrow> ('c, 's, 'b, 'h) handler" where
  "execute_until_break T = seqE [load T ''UNTILBRK'', fetch_stack 1,
     bindE (code_var 0) (\<lambda>body. push_typed T (UntilLoopCondition body)),
     swap (savelist_addr CC 0) (ctrl_addr 0),
     swap (savelist_addr CC 1) (ctrl_addr 1),
     copy_to_var CC,
     copy_to_var (var_addr 2),
     swap (savelist_addr (var_addr 1) 0) (var_addr 2),
     swap (savelist_addr (var_addr 0) 0) (var_addr 1),
     swap (savelist_addr (var_addr 0) 1) (var_addr 3),
     switch T (var_addr 0)]"

definition execute_untilend :: "('c, 's, 'b, 'h) ton \<Rightarrow> ('c, 's, 'b, 'h) handler" where
  "execute_untilend T = seqE [load T ''UNTILEND'',
     bindE (take_cc_code T) (\<lambda>body. thenE (push_code body) (push_typed T (UntilLoopCondition body))),
     swap (savelist_addr (var_addr 1) 0) (ctrl_addr 0),
     swap (savelist_addr (var_addr 0) 0) (var_addr 1),
     switch T (var_addr 0)]"

definition execute_untilend_break :: "('c, 's, 'b, 'h) ton \<Rightarrow> ('c, 's, 'b, 'h) handler" where
  "execute_untilend_break T = seqE [load T ''UNTILENDBRK'',
     bindE (take_cc_code T) (\<lambda>body. thenE (push_code body) (push_typed T (UntilLoopCondition body))),
     copy_to_var (ctrl_addr 0),
     swap (savelist_addr (var_addr 1) 0) (ctrl_addr 0),
     swap (savelist_addr (var_addr 0) 0) (var_addr 1),
     swap (savelist_addr (var_addr 0) 1) (var_addr 2),
     switch T (var_addr 0)]"

definition execute_while :: "('c, 's, 'b, 'h) ton \<Rightarrow> ('c, 's, 'b, 'h) handler" where
  "execute_while T = seqE [load T ''WHILE'', fetch_stack 2,
     bindE (code_var 0) (\<lambda>body. bindE (code_var 1) (\<lambda>cond. push_typed T (WhileLoopCondition body cond))),
     swap (savelist_addr CC 0) (ctrl_addr 0),
     copy_to_var CC,
     swap (savelist_addr (var_addr 2) 0) (var_addr 3),
     swap (savelist_addr (var_addr 1) 0) (var_addr 2),
     switch T (var_addr 1)]"

definition execute_while_break :: "('c, 's, 'b, 'h) ton \<Rightarrow> ('c, 's, 'b, 'h) handler" where
  "execute_while_break T = seqE [load T ''WHILEBRK'', fetch_stack 2,
     bindE (code_var 0) (\<lambda>body. bindE (code_var 1) (\<lambda>cond. push_typed T (WhileLoopCondition body cond))),
     swap (savelist_addr CC 0) (ctrl_addr 0),
     swap (savelist_addr CC 1) (ctrl_addr 1),
     copy_to_var CC,
     copy_to_var (var_addr 3),
     copy_to_var (var_addr 3),
     swap (savelist_addr (var_addr 2) 0) (var_addr 3),
     swap (savelist_addr (var_addr 1) 0) (var_addr 2),
     swap (savelist_addr (var_addr 1) 1) (var_addr 4),
     swap (savelist_addr (var_addr 0) 1) (var_addr 5),
     switch T (var_addr 1)]"

definition execute_whileend :: "('c, 's, 'b, 'h) ton \<Rightarrow> ('c, 's, 'b, 'h) handler" where
  "execute_whileend T = seqE [load T ''WHILEEND'', fetch_stack 1,
     bindE (take_cc_code T) (\<lambda>body. bindE (code_var 0) (\<lambda>cond. push_typed T (WhileLoopCondition body cond))),
     swap (savelist_addr (var_addr 1) 0) (ctrl_addr 0),
     swap (savelist_addr (var_addr 0) 0) (var_addr 1),
     switch T (var_addr 0)]"

definition execute_whileend_break :: "('c, 's, 'b, 'h) ton \<Rightarrow> ('c, 's, 'b, 'h) handler" where
  "execute_whileend_break T = seqE [load T ''WHILEENDBRK'', fetch_stack 1,
     pop_all (var_addr 0),
     bindE (take_cc_code T) (\<lambda>body. bindE (code_var 0) (\<lambda>cond. push_typed T (WhileLoopCondition body cond))),
     copy_to_var (ctrl_addr 0),
     swap (savelist_addr (var_addr 1) 0) (ctrl_addr 0),
     swap (savelist_addr (var_addr 0) 0) (var_addr 1),
     swap (savelist_addr (var_addr 0) 1) (var_addr 2),
     switch T (var_addr 0)]"

end
