(* ===== verification/Exec_Deserialize.thy ===== *)
theory Exec_Deserialize
  imports Exec_Serialize
begin

text \<open>
  The instructions that take cells apart (\<open>executor/deserialization.rs\<close>).  The closures the
  sources pass to \<open>proc_slice\<close> are actions that take the slice and return the value with the
  rest of the slice.  \<open>LDCONT\<close> is in \<open>Old_Format\<close>, with the cell formats of continuations.
\<close>

unbundle bit_operations_syntax

definition LD_QUIET :: "8 word" where "LD_QUIET = 0x01"
definition LD_STACK :: "8 word" where "LD_STACK = 0x02"
definition LD_CMD :: "8 word" where "LD_CMD = 0x04"
definition LD_PARAM :: "8 word" where "LD_PARAM = 0x08"
definition LD_STAY :: "8 word" where "LD_STAY = 0x10"
definition LD_INV :: "8 word" where "LD_INV = 0x20"
definition LD_CEL :: "8 word" where "LD_CEL = 0x02"

lemmas load_flag_defs = LD_QUIET_def LD_STACK_def LD_CMD_def LD_PARAM_def LD_STAY_def LD_INV_def LD_CEL_def

section \<open>Shared routines\<close>

definition load_slice :: "('c, 's, 'b, 'h) ton \<Rightarrow> string \<Rightarrow> nat \<Rightarrow> 8 word \<Rightarrow> ('c, 's, 'b, 'h, nat) action" where
  "load_slice T name len how =
     thenE (if bit_set how LD_CMD then load_opts T name (Opt_LengthMinusOne 0 len) else load T name)
     (thenE (fetch_stack (if bit_set how LD_STACK then 2 else 1))
       (if bit_set how LD_STACK then nat_var len 0 else if bit_set how LD_CMD then cmd_length else returnE len))"

definition proc_slice ::
  "('c, 's, 'b, 'h) ton \<Rightarrow> nat \<Rightarrow> 8 word \<Rightarrow> ('s \<Rightarrow> ('c, 's, 'b, 'h, ('c, 's, 'b) stack_item \<times> 's) action) \<Rightarrow>
   ('c, 's, 'b, 'h) handler" where
  "proc_slice T len how f =
     bindE last_var (\<lambda>v. bindE (liftE (as_slice v)) (\<lambda>s.
       if remaining_bits T s < len
       then thenE (whenE (bit_set how LD_STAY) (push_slice s))
              (if bit_set how LD_QUIET then push_bool False else errE CellUnderflow)
       else bindE (f s) (\<lambda>(v, s).
         thenE (if bit_set how LD_INV then thenE (whenE (bit_set how LD_STAY) (push_slice s)) (push_item v)
                else thenE (push_item v) (whenE (bit_set how LD_STAY) (push_slice s)))
           (whenE (bit_set how LD_QUIET) (push_bool True)))))"

definition take_integer ::
  "('c, 's, 'b, 'h) ton \<Rightarrow> encoding \<Rightarrow> nat \<Rightarrow> 's \<Rightarrow> ('c, 's, 'b, 'h, ('c, 's, 'b) stack_item \<times> 's) action" where
  "take_integer T enc len s = bindE (with_object (get_next_bits (slices T) len) s) (\<lambda>(bytes, s).
     case deserialize enc (bigint T) len bytes of
       Inr x \<Rightarrow> returnE (Item_Integer x, s) | Inl _ \<Rightarrow> throwE Panic)"

definition ld_int ::
  "('c, 's, 'b, 'h) ton \<Rightarrow> encoding \<Rightarrow> string \<Rightarrow> nat \<Rightarrow> 8 word \<Rightarrow> ('c, 's, 'b, 'h) handler" where
  "ld_int T enc name len how = bindE (load_slice T name len how) (\<lambda>len.
     proc_slice T len how (take_integer T enc len))"

definition ld_slice :: "('c, 's, 'b, 'h) ton \<Rightarrow> string \<Rightarrow> nat \<Rightarrow> 8 word \<Rightarrow> ('c, 's, 'b, 'h) handler" where
  "ld_slice T name len how = bindE (load_slice T name len how) (\<lambda>len.
     proc_slice T len how (\<lambda>s. bindE (with_object (get_next_slice (slices T) len) s) (\<lambda>(v, s).
       returnE (Item_Slice v, s))))"

definition ld_slice_handlers :: "('c, 's, 'b, 'h) ton \<Rightarrow> ('c, 's, 'b, 'h) named_handlers" where
  "ld_slice_handlers T = [
     (''execute_ldsliceq'', ld_slice T ''LDSLICEQ'' 256 (LD_CMD OR LD_QUIET OR LD_STAY)),
     (''execute_ldslice'', ld_slice T ''LDSLICE'' 256 (LD_CMD OR LD_STAY)),
     (''execute_pldsliceq'', ld_slice T ''PLDSLICEQ'' 256 (LD_CMD OR LD_QUIET)),
     (''execute_pldslice'', ld_slice T ''PLDSLICE'' 256 LD_CMD),
     (''execute_ldslicexq'', ld_slice T ''LDSLICEXQ'' 1023 (LD_STACK OR LD_QUIET OR LD_STAY)),
     (''execute_ldslicex'', ld_slice T ''LDSLICEX'' 1023 (LD_STACK OR LD_STAY)),
     (''execute_pldslicexq'', ld_slice T ''PLDSLICEXQ'' 1023 (LD_STACK OR LD_QUIET)),
     (''execute_pldslicex'', ld_slice T ''PLDSLICEX'' 1023 LD_STACK)]"

section \<open>Cells\<close>

definition execute_ctos :: "('c, 's, 'b, 'h) ton \<Rightarrow> ('c, 's, 'b, 'h) handler" where
  "execute_ctos T = thenE (load T ''CTOS'') (thenE (fetch_stack 1)
     (thenE (convert T (var_addr 0) SLICE CELL) (bindE (remove_var 0) push_item)))"

definition execute_xctos :: "('c, 's, 'b, 'h) ton \<Rightarrow> ('c, 's, 'b, 'h) handler" where
  "execute_xctos T = thenE (load T ''XCTOS'') (thenE (fetch_stack 1) (bindE (cell_var 0) (\<lambda>c.
     bindE (load_hashed_cell T c False) (\<lambda>sl.
       thenE (push_slice sl) (push_bool (cell_type_of T c \<noteq> OrdinaryCell))))))"

definition execute_xload :: "('c, 's, 'b, 'h) ton \<Rightarrow> ('c, 's, 'b, 'h) handler" where
  "execute_xload T = thenE (load T ''XLOAD'') (thenE (fetch_stack 1) (bindE (cell_var 0) (\<lambda>c.
     bindE (load_cell T c) (\<lambda>sl. push_item (Item_Cell (into_cell T sl))))))"

text \<open>\<open>if let Ok(x) = m\<close>: a panic is no \<open>Err\<close>.\<close>

definition if_ok :: "('c, 's, 'b, 'h, 'a) action \<Rightarrow> ('c, 's, 'b, 'h, 'a option) action" where
  "if_ok m = (\<lambda>e. case m e of
     (Inr x, e') \<Rightarrow> (Inr (Some x), e')
   | (Inl er, e') \<Rightarrow> (case er of Panic \<Rightarrow> (Inl Panic, e') | OutOfFuel \<Rightarrow> (Inl OutOfFuel, e') | _ \<Rightarrow> (Inr None, e')))"

definition execute_xloadq :: "('c, 's, 'b, 'h) ton \<Rightarrow> ('c, 's, 'b, 'h) handler" where
  "execute_xloadq T = thenE (load T ''XLOADQ'') (thenE (fetch_stack 1) (bindE (cell_var 0) (\<lambda>c.
     bindE (if_ok (load_cell T c)) (\<lambda>r. case r of
        Some sl \<Rightarrow> thenE (push_item (Item_Cell (into_cell T sl))) (push_bool True)
      | None \<Rightarrow> thenE (push_item (Item_Cell c)) (push_bool False)))))"

definition execute_ends :: "('c, 's, 'b, 'h) ton \<Rightarrow> ('c, 's, 'b, 'h) handler" where
  "execute_ends T = thenE (load T ''ENDS'') (thenE (fetch_stack 1) (bindE (slice_var 0) (\<lambda>s.
     guardE (slice_is_empty (slices T) s) CellUnderflow)))"

section \<open>Integers and references\<close>

definition ld_int_handlers :: "('c, 's, 'b, 'h) ton \<Rightarrow> ('c, 's, 'b, 'h) named_handlers" where
  "ld_int_handlers T = [
     (''execute_ldu'', ld_int T UnsignedIntegerBigEndianEncoding ''LDU'' 256 (LD_CMD OR LD_STAY)),
     (''execute_ldi'', ld_int T SignedIntegerBigEndianEncoding ''LDI'' 256 (LD_CMD OR LD_STAY)),
     (''execute_ldiq'', ld_int T SignedIntegerBigEndianEncoding ''LDIQ'' 256 (LD_CMD OR LD_QUIET OR LD_STAY)),
     (''execute_lduq'', ld_int T UnsignedIntegerBigEndianEncoding ''LDUQ'' 256 (LD_CMD OR LD_QUIET OR LD_STAY)),
     (''execute_ldixq'', ld_int T SignedIntegerBigEndianEncoding ''LDIXQ'' 257 (LD_STACK OR LD_QUIET OR LD_STAY)),
     (''execute_lduxq'', ld_int T UnsignedIntegerBigEndianEncoding ''LDUXQ'' 256 (LD_STACK OR LD_QUIET OR LD_STAY)),
     (''execute_ldix'', ld_int T SignedIntegerBigEndianEncoding ''LDIX'' 257 (LD_STACK OR LD_STAY)),
     (''execute_ldux'', ld_int T UnsignedIntegerBigEndianEncoding ''LDUX'' 256 (LD_STACK OR LD_STAY)),
     (''execute_pldixq'', ld_int T SignedIntegerBigEndianEncoding ''PLDIXQ'' 257 (LD_STACK OR LD_QUIET)),
     (''execute_plduxq'', ld_int T UnsignedIntegerBigEndianEncoding ''PLDUXQ'' 256 (LD_STACK OR LD_QUIET)),
     (''execute_pldix'', ld_int T SignedIntegerBigEndianEncoding ''PLDIX'' 257 LD_STACK),
     (''execute_pldux'', ld_int T UnsignedIntegerBigEndianEncoding ''PLDUX'' 256 LD_STACK)]"

definition execute_ldref :: "('c, 's, 'b, 'h) ton \<Rightarrow> ('c, 's, 'b, 'h) handler" where
  "execute_ldref T = thenE (load T ''LDREF'') (thenE (fetch_stack 1)
     (proc_slice T 0 LD_STAY (\<lambda>s. bindE (with_object (checked_drain_reference T) s) (\<lambda>(c, s).
        returnE (Item_Cell c, s)))))"

definition execute_ldrefrtos :: "('c, 's, 'b, 'h) ton \<Rightarrow> ('c, 's, 'b, 'h) handler" where
  "execute_ldrefrtos T = thenE (load T ''LDREFRTOS'') (thenE (fetch_stack 1)
     (proc_slice T 0 (LD_STAY OR LD_INV) (\<lambda>s. bindE (with_object (checked_drain_reference T) s) (\<lambda>(c, s).
        bindE (load_cell T c) (\<lambda>sl. returnE (Item_Slice sl, s))))))"

definition pld_int_handlers :: "('c, 's, 'b, 'h) ton \<Rightarrow> ('c, 's, 'b, 'h) named_handlers" where
  "pld_int_handlers T = [
     (''execute_pldiq'', ld_int T SignedIntegerBigEndianEncoding ''PLDIQ'' 256 (LD_CMD OR LD_QUIET)),
     (''execute_plduq'', ld_int T UnsignedIntegerBigEndianEncoding ''PLDUQ'' 256 (LD_CMD OR LD_QUIET)),
     (''execute_pldu'', ld_int T UnsignedIntegerBigEndianEncoding ''PLDU'' 256 LD_CMD),
     (''execute_pldi'', ld_int T SignedIntegerBigEndianEncoding ''PLDI'' 256 LD_CMD)]"

definition execute_plduz :: "('c, 's, 'b, 'h) ton \<Rightarrow> ('c, 's, 'b, 'h) handler" where
  "execute_plduz T = thenE (load_opts T ''PLDUZ'' (Opt_LengthMinusOne 0 8)) (thenE (fetch_stack 1)
     (bindE cmd_length (\<lambda>len. bindE (slice_var 0) (\<lambda>s.
       let l = 32 * len; n = remaining_bits T s in
       bindE (with_object (get_next_slice (slices T) (min n l)) s) (\<lambda>(front, _).
         let bytes = get_bytestring (slices T) 0 front @ (if n < l then replicate ((l - n) div 8) 0 else []) in
         case deserialize UnsignedIntegerBigEndianEncoding (bigint T) l bytes of
           Inr x \<Rightarrow> thenE (push_slice s) (push_item (Item_Integer x)) | Inl _ \<Rightarrow> throwE Panic)))))"

section \<open>Prefixes\<close>

definition sdbegins :: "('c, 's, 'b, 'h) ton \<Rightarrow> string \<Rightarrow> 8 word \<Rightarrow> ('c, 's, 'b, 'h) handler" where
  "sdbegins T name how =
     (let in_stack = bit_set how LD_STACK; n_params = (if in_stack then 2 else 1); q = bit_set how LD_QUIET in
      thenE (if in_stack then load T name else load_opts T name (Opt_Bitstring 14 0 7 0))
      (thenE (fetch_stack n_params)
      (bindE (if bit_set how LD_CMD then cmd_slice else if in_stack then slice_var 0 else errE FatalErrorCode) (\<lambda>pre.
       bindE (slice_var (n_params - 1)) (\<lambda>tested.
         let len = remaining_bits T pre in
         if len > remaining_bits T tested
         then if q then thenE (push_slice tested) (push_bool False) else errE CellUnderflow
         else let result = snd (snd (common_prefix (slices T) tested pre)) = None in
           if result then thenE (push_slice (shrink_data T len None tested)) (whenE q (push_bool result))
           else if \<not> q then errE CellUnderflow
           else thenE (push_slice tested) (push_bool result))))))"

definition sdbegins_handlers :: "('c, 's, 'b, 'h) ton \<Rightarrow> ('c, 's, 'b, 'h) named_handlers" where
  "sdbegins_handlers T = [
     (''execute_sdbegins'', sdbegins T ''SDBEGINS'' LD_CMD),
     (''execute_sdbeginsq'', sdbegins T ''SDBEGINSQ'' (LD_CMD OR LD_QUIET)),
     (''execute_sdbeginsx'', sdbegins T ''SDBEGINSX'' LD_STACK),
     (''execute_sdbeginsxq'', sdbegins T ''SDBEGINSXQ'' (LD_STACK OR LD_QUIET))]"

section \<open>Cutting\<close>

definition CUT_DROP :: "8 word" where "CUT_DROP = 0x01"
definition CUT_FROM :: "8 word" where "CUT_FROM = 0x02"
definition CUT_LAST :: "8 word" where "CUT_LAST = 0x04"
definition CUT_SIZE :: "8 word" where "CUT_SIZE = 0x08"
definition CUT_UPTO :: "8 word" where "CUT_UPTO = 0x10"
definition FROM_SIZE :: "8 word" where "FROM_SIZE = CUT_FROM OR CUT_SIZE"
definition NOT_LAST :: "8 word" where "NOT_LAST = LD_INV OR CUT_LAST"

definition cut_references :: "('c, 's, 'b, 'h) ton \<Rightarrow> 8 word \<Rightarrow> nat \<Rightarrow> nat \<Rightarrow> nat \<Rightarrow> 's \<Rightarrow> 's" where
  "cut_references T how count r0 r1 s =
     (if how = CUT_DROP \<or> how = CUT_UPTO then shrink_references T 0 (Some r0) s
      else if how = CUT_FROM then shrink_references T r0 None s
      else if how = FROM_SIZE then shrink_references T r0 (Some (r0 + r1)) s
      else if how = CUT_LAST then shrink_references T (count - r0) None s
      else if how = NOT_LAST then shrink_references T 0 (Some (count - r0)) s
      else s)"

definition cut_data :: "('c, 's, 'b, 'h) ton \<Rightarrow> 8 word \<Rightarrow> nat \<Rightarrow> nat \<Rightarrow> nat \<Rightarrow> 's \<Rightarrow> 's" where
  "cut_data T how len l0 l1 s =
     (if how = CUT_FROM then shrink_data T l0 None s
      else if how = FROM_SIZE then shrink_data T l0 (Some (l0 + l1)) s
      else if how = CUT_LAST then shrink_data T (len - l0) None s
      else if how = NOT_LAST then shrink_data T 0 (Some (len - l0)) s
      else if how = CUT_UPTO then shrink_data T 0 (Some l0) s
      else s)"

definition counted_var :: "bool \<Rightarrow> nat \<Rightarrow> nat \<Rightarrow> ('c, 's, 'b, 'h, nat \<times> nat) action" where
  "counted_var wanted limit i =
     (if wanted then bindE (nat_var limit i) (\<lambda>v. returnE (v, i + 1)) else returnE (0, i))"

definition sdcut :: "('c, 's, 'b, 'h) ton \<Rightarrow> 8 word \<Rightarrow> 8 word \<Rightarrow> ('c, 's, 'b, 'h) handler" where
  "sdcut T in_bits in_refs =
     bindE (counted_var (in_refs AND CUT_SIZE = CUT_SIZE) 4 0) (\<lambda>(r1, i).
     bindE (counted_var (in_bits AND CUT_SIZE = CUT_SIZE) 1023 i) (\<lambda>(l1, i).
     bindE (counted_var (in_refs AND (CUT_FROM OR CUT_LAST OR CUT_UPTO) \<noteq> 0) 4 i) (\<lambda>(r0, i).
     bindE (nat_var 1023 i) (\<lambda>l0.
     bindE (slice_var (i + 1)) (\<lambda>s.
       let len = remaining_bits T s; count = remaining_references T s in
       if l0 + l1 > len \<or> r0 + r1 > count then errE CellUnderflow
       else push_slice (cut_data T in_bits len l0 l1 (cut_references T in_refs count r0 r1 s)))))))"

definition cut :: "('c, 's, 'b, 'h) ton \<Rightarrow> string \<Rightarrow> nat \<Rightarrow> 8 word \<Rightarrow> 8 word \<Rightarrow> ('c, 's, 'b, 'h) handler" where
  "cut T name n_params in_bits in_refs =
     thenE (load T name) (thenE (fetch_stack n_params) (sdcut T in_bits in_refs))"

definition cut_handlers :: "('c, 's, 'b, 'h) ton \<Rightarrow> ('c, 's, 'b, 'h) named_handlers" where
  "cut_handlers T = [
     (''execute_sdskipfirst'', cut T ''SDSKIPFIRST'' 2 CUT_FROM 0),
     (''execute_sdcutlast'', cut T ''SDCUTLAST'' 2 CUT_LAST CUT_DROP),
     (''execute_sdskiplast'', cut T ''SDSKIPLAST'' 2 (LD_INV OR CUT_LAST) CUT_DROP),
     (''execute_sdsubstr'', cut T ''SDSUBSTR'' 3 (CUT_FROM OR CUT_SIZE) CUT_DROP),
     (''execute_scutfirst'', cut T ''SCUTFIRST'' 3 CUT_UPTO CUT_UPTO),
     (''execute_sskipfirst'', cut T ''SSKIPFIRST'' 3 CUT_FROM CUT_FROM),
     (''execute_scutlast'', cut T ''SCUTLAST'' 3 CUT_LAST CUT_LAST),
     (''execute_sskiplast'', cut T ''SSKIPLAST'' 3 (LD_INV OR CUT_LAST) (LD_INV OR CUT_LAST)),
     (''execute_subslice'', cut T ''SUBSLICE'' 5 (CUT_FROM OR CUT_SIZE) (CUT_FROM OR CUT_SIZE))]"

section \<open>Sizes and checks\<close>

datatype target = Bits | Refs | BitRefs

definition sbitrefs :: "('c, 's, 'b, 'h) ton \<Rightarrow> string \<Rightarrow> target \<Rightarrow> ('c, 's, 'b, 'h) handler" where
  "sbitrefs T name target = thenE (load T name) (thenE (fetch_stack 1) (bindE (slice_var 0) (\<lambda>s.
     thenE (whenE (target = Bits \<or> target = BitRefs) (push_nat (remaining_bits T s)))
       (whenE (target = Refs \<or> target = BitRefs) (push_nat (remaining_references T s))))))"

definition report :: "bool \<Rightarrow> bool \<Rightarrow> ('c, 's, 'b, 'h) handler" where
  "report q status = (if q then push_bool status else guardE status CellUnderflow)"

definition schkbits :: "('c, 's, 'b, 'h) ton \<Rightarrow> string \<Rightarrow> nat \<Rightarrow> bool \<Rightarrow> ('c, 's, 'b, 'h) handler" where
  "schkbits T name limit q = thenE (load T name) (thenE (fetch_stack 2)
     (bindE (nat_var limit 0) (\<lambda>l. bindE (slice_var 1) (\<lambda>s. report q (remaining_bits T s \<ge> l)))))"

definition schkrefs :: "('c, 's, 'b, 'h) ton \<Rightarrow> string \<Rightarrow> bool \<Rightarrow> ('c, 's, 'b, 'h) handler" where
  "schkrefs T name q = thenE (load T name) (thenE (fetch_stack 2)
     (bindE (nat_var 4 0) (\<lambda>r. bindE (slice_var 1) (\<lambda>s. report q (remaining_references T s \<ge> r)))))"

definition schkbitrefs :: "('c, 's, 'b, 'h) ton \<Rightarrow> string \<Rightarrow> bool \<Rightarrow> ('c, 's, 'b, 'h) handler" where
  "schkbitrefs T name q = thenE (load T name) (thenE (fetch_stack 3)
     (bindE (nat_var 4 0) (\<lambda>r. bindE (nat_var 1023 1) (\<lambda>l. bindE (slice_var 2) (\<lambda>s.
        report q (l \<le> remaining_bits T s \<and> r \<le> remaining_references T s))))))"

definition check_handlers :: "('c, 's, 'b, 'h) ton \<Rightarrow> ('c, 's, 'b, 'h) named_handlers" where
  "check_handlers T = [
     (''execute_schkbitsq'', schkbits T ''SCHKBITSQ'' 1023 True),
     (''execute_schkbits'', schkbits T ''SCHKBITS'' 1023 False),
     (''execute_schkrefsq'', schkrefs T ''SCHKREFSQ'' True),
     (''execute_schkrefs'', schkrefs T ''SCHKREFS'' False),
     (''execute_schkbitrefsq'', schkbitrefs T ''SCHKBITREFSQ'' True),
     (''execute_schkbitrefs'', schkbitrefs T ''SCHKBITREFS'' False)]"

definition pldref :: "('c, 's, 'b, 'h) ton \<Rightarrow> string \<Rightarrow> 8 word \<Rightarrow> ('c, 's, 'b, 'h) handler" where
  "pldref T name how =
     (let in_stack = bit_set how LD_STACK; in_cmd = bit_set how LD_CMD in
      thenE (if \<not> in_stack \<and> in_cmd then load_opts T name (Opt_Length 0 4) else load T name)
      (thenE (fetch_stack (if in_stack then 2 else 1))
      (bindE (if in_stack then nat_var 3 0 else if in_cmd then cmd_length else returnE 0) (\<lambda>n.
        proc_slice T 0 0 (\<lambda>s. bindE (liftE (slice_reference T s n)) (\<lambda>c. returnE (Item_Cell c, s)))))))"

definition peek_handlers :: "('c, 's, 'b, 'h) ton \<Rightarrow> ('c, 's, 'b, 'h) named_handlers" where
  "peek_handlers T = [
     (''execute_pldref'', pldref T ''PLDREF'' 0),
     (''execute_pldrefidx'', pldref T ''PLDREFIDX'' LD_CMD),
     (''execute_pldrefvar'', pldref T ''PLDREFVAR'' LD_STACK),
     (''execute_sbits'', sbitrefs T ''SBITS'' Bits),
     (''execute_srefs'', sbitrefs T ''SREFS'' Refs),
     (''execute_sbitrefs'', sbitrefs T ''SBITREFS'' BitRefs)]"

section \<open>Little-endian integers and runs of bits\<close>

definition ld_little_handlers :: "('c, 's, 'b, 'h) ton \<Rightarrow> ('c, 's, 'b, 'h) named_handlers" where
  "ld_little_handlers T = [
     (''execute_ldile4'', ld_int T SignedIntegerLittleEndianEncoding ''LDILE4'' 32 (LD_PARAM OR LD_STAY)),
     (''execute_ldule4'', ld_int T UnsignedIntegerLittleEndianEncoding ''LDULE4'' 32 (LD_PARAM OR LD_STAY)),
     (''execute_ldile8'', ld_int T SignedIntegerLittleEndianEncoding ''LDILE8'' 64 (LD_PARAM OR LD_STAY)),
     (''execute_ldule8'', ld_int T UnsignedIntegerLittleEndianEncoding ''LDULE8'' 64 (LD_PARAM OR LD_STAY)),
     (''execute_pldile4'', ld_int T SignedIntegerLittleEndianEncoding ''PLDILE4'' 32 LD_PARAM),
     (''execute_pldule4'', ld_int T UnsignedIntegerLittleEndianEncoding ''PLDULE4'' 32 LD_PARAM),
     (''execute_pldile8'', ld_int T SignedIntegerLittleEndianEncoding ''PLDILE8'' 64 LD_PARAM),
     (''execute_pldule8'', ld_int T UnsignedIntegerLittleEndianEncoding ''PLDULE8'' 64 LD_PARAM),
     (''execute_ldile4q'', ld_int T SignedIntegerLittleEndianEncoding ''LDILE4Q'' 32 (LD_PARAM OR LD_QUIET OR LD_STAY)),
     (''execute_ldule4q'', ld_int T UnsignedIntegerLittleEndianEncoding ''LDULE4Q'' 32 (LD_PARAM OR LD_QUIET OR LD_STAY)),
     (''execute_ldile8q'', ld_int T SignedIntegerLittleEndianEncoding ''LDILE8Q'' 64 (LD_PARAM OR LD_QUIET OR LD_STAY)),
     (''execute_ldule8q'', ld_int T UnsignedIntegerLittleEndianEncoding ''LDULE8Q'' 64 (LD_PARAM OR LD_QUIET OR LD_STAY)),
     (''execute_pldile4q'', ld_int T SignedIntegerLittleEndianEncoding ''PLDILE4Q'' 32 (LD_PARAM OR LD_QUIET)),
     (''execute_pldule4q'', ld_int T UnsignedIntegerLittleEndianEncoding ''PLDULE4Q'' 32 (LD_PARAM OR LD_QUIET)),
     (''execute_pldile8q'', ld_int T SignedIntegerLittleEndianEncoding ''PLDILE8Q'' 64 (LD_PARAM OR LD_QUIET)),
     (''execute_pldule8q'', ld_int T UnsignedIntegerLittleEndianEncoding ''PLDULE8Q'' 64 (LD_PARAM OR LD_QUIET))]"

definition trim_leading_bits :: "('c, 's, 'b, 'h) ton \<Rightarrow> bool \<Rightarrow> 's \<Rightarrow> nat \<times> 's" where
  "trim_leading_bits T bit1 s =
     (let skipped = length (takeWhile (\<lambda>i. get_bit_opt (slices T) s i = Some bit1) [0..<remaining_bits T s])
      in (skipped, shrink_data T skipped None s))"

definition push_trimmed :: "('c, 's, 'b, 'h) ton \<Rightarrow> bool \<Rightarrow> 's \<Rightarrow> ('c, 's, 'b, 'h) handler" where
  "push_trimmed T bit1 s = (let (skipped, s') = trim_leading_bits T bit1 s in thenE (push_nat skipped) (push_slice s'))"

definition ldbit :: "('c, 's, 'b, 'h) ton \<Rightarrow> string \<Rightarrow> bool \<Rightarrow> ('c, 's, 'b, 'h) handler" where
  "ldbit T name bit1 = thenE (load T name) (thenE (fetch_stack 1) (bindE (slice_var 0) (push_trimmed T bit1)))"

definition execute_ldsame :: "('c, 's, 'b, 'h) ton \<Rightarrow> ('c, 's, 'b, 'h) handler" where
  "execute_ldsame T = thenE (load T ''LDSAME'') (thenE (fetch_stack 2)
     (bindE (ranged_var I32 0 1 0) (\<lambda>x. bindE (slice_var 1) (push_trimmed T (x = 1)))))"

definition split :: "('c, 's, 'b, 'h) ton \<Rightarrow> string \<Rightarrow> bool \<Rightarrow> ('c, 's, 'b, 'h) handler" where
  "split T name q = thenE (load T name) (thenE (fetch_stack 3)
     (bindE (nat_var 4 0) (\<lambda>r. bindE (nat_var 1023 1) (\<lambda>l. bindE (slice_var 2) (\<lambda>s.
       if l > remaining_bits T s \<or> r > remaining_references T s
       then if q then thenE (push_slice s) (push_bool False) else errE CellUnderflow
       else thenE (push_slice (shrink_data T 0 (Some l) (shrink_references T 0 (Some r) s)))
         (thenE (push_slice (shrink_data T l None (shrink_references T r None s))) (whenE q (push_bool True))))))))"

section \<open>Size of a tree of cells\<close>

definition saturating_add :: "nat \<Rightarrow> nat \<Rightarrow> nat" where
  "saturating_add x y = min (x + y) (2 ^ 64 - 1)"

record sizes =
  size_cells :: nat
  size_bits :: nat
  size_refs :: nat

definition references_of :: "('c, 's, 'b, 'h) ton \<Rightarrow> 's \<Rightarrow> 'c list" where
  "references_of T s = concat (map (\<lambda>i. case slice_reference T s i of Inr c \<Rightarrow> [c] | Inl _ \<Rightarrow> [])
     [0..<remaining_references T s])"

text \<open>The loop over the stack of cells; the last cell of the list is the top.  The source stops when
  \<open>max == cells\<close>; \<open>cells\<close> starts at zero and grows by one, so that \<open>max \<le> cells\<close>
  is the same condition.\<close>

definition load_sized :: "('c, 's, 'b, 'h) ton \<Rightarrow> 'c \<Rightarrow> ('c, 's, 'b, 'h, 's) action" where
  "load_sized T cell = (\<lambda>e. if block_version e = 34 then liftE (slice_load_cell T cell) e
     else load_hashed_cell T cell False e)"

definition count_slice :: "('c, 's, 'b, 'h) ton \<Rightarrow> 's \<Rightarrow> sizes \<Rightarrow> sizes" where
  "count_slice T sl n = \<lparr> size_cells = size_cells n + 1,
     size_bits = saturating_add (size_bits n) (remaining_bits T sl),
     size_refs = saturating_add (size_refs n) (remaining_references T sl) \<rparr>"

function datasize_loop ::
  "('c, 's, 'b, 'h) ton \<Rightarrow> nat \<Rightarrow> hash set \<Rightarrow> 'c list \<Rightarrow> sizes \<Rightarrow> ('c, 's, 'b, 'h, bool \<times> sizes) action" where
  "datasize_loop T limit visited cell_stack n e =
     (if cell_stack = [] then (Inr (True, n), e)
      else let cell = last cell_stack; cell_stack = butlast cell_stack; h = repr_hash T cell in
        if h \<in> visited then datasize_loop T limit visited cell_stack n e
        else if limit \<le> size_cells n then (Inr (False, n), e)
        else case load_sized T cell e of
            (Inl er, e') \<Rightarrow> (Inl er, e')
          | (Inr sl, e') \<Rightarrow>
              datasize_loop T limit (insert h visited) (cell_stack @ references_of T sl) (count_slice T sl n) e')"
  by pat_completeness auto

termination
  by (relation "inv_image (less_than <*lex*> less_than)
        (\<lambda>(T, limit, visited, cell_stack, n, e). (limit - size_cells n, length cell_stack))")
     (auto simp: count_slice_def)

declare datasize_loop.simps [simp del]

primrec fast_slice_size :: "('c, 's, 'b, 'h) ton \<Rightarrow> 's \<Rightarrow> nat \<Rightarrow> ('c, 's, 'b, 'h, sizes) action" where
  "fast_slice_size T s 0 = returnE \<lparr> size_cells = 0, size_bits = remaining_bits T s, size_refs = remaining_references T s \<rparr>"
| "fast_slice_size T s (Suc i) = bindE (fast_slice_size T s i) (\<lambda>n. bindE (liftE (slice_reference T s i)) (\<lambda>c.
     returnE (n \<lparr> size_bits := saturating_add (size_bits n) (unat (tree_bits_count (cells T) c)),
                  size_refs := saturating_add (size_refs n) (unat (tree_cell_count (cells T) c)) \<rparr>)))"

definition fast_size ::
  "('c, 's, 'b, 'h) ton \<Rightarrow> nat \<Rightarrow> ('c, 's, 'b) stack_item \<Rightarrow> ('c, 's, 'b, 'h, bool \<times> sizes) action" where
  "fast_size T limit v = (case v of
      Item_Slice s \<Rightarrow> bindE (fast_slice_size T s (remaining_references T s)) (\<lambda>n.
        returnE (size_refs n \<le> limit, n \<lparr> size_cells := size_refs n \<rparr>))
    | Item_Cell c \<Rightarrow> (let count = tree_cell_count (cells T) c in
        returnE (unat count \<le> limit, \<lparr> size_cells = unat count, size_bits = unat (tree_bits_count (cells T) c),
          size_refs = unat (count - 1) \<rparr>))
    | _ \<Rightarrow> errE TypeCheckError)"

definition counted_size ::
  "('c, 's, 'b, 'h) ton \<Rightarrow> nat \<Rightarrow> ('c, 's, 'b) stack_item \<Rightarrow> ('c, 's, 'b, 'h, bool \<times> sizes) action" where
  "counted_size T limit v = (case v of
      Item_Slice s \<Rightarrow> datasize_loop T limit {} (references_of T s)
        \<lparr> size_cells = 0, size_bits = remaining_bits T s, size_refs = remaining_references T s \<rparr>
    | Item_Cell c \<Rightarrow> datasize_loop T limit {} [c] \<lparr> size_cells = 0, size_bits = 0, size_refs = 0 \<rparr>
    | _ \<Rightarrow> datasize_loop T limit {} [] \<lparr> size_cells = 0, size_bits = 0, size_refs = 0 \<rparr>)"

definition size_limit :: "integer_data \<Rightarrow> nat" where
  "size_limit x = (case integer_into I64 0 (2 ^ 63 - 1) x of Inr v \<Rightarrow> nat v | Inl _ \<Rightarrow> 2 ^ 63 - 1)"

definition datasize :: "('c, 's, 'b, 'h) ton \<Rightarrow> string \<Rightarrow> 8 word \<Rightarrow> ('c, 's, 'b, 'h) handler" where
  "datasize T name how = thenE (load T name) (thenE (fetch_stack 2)
     (bindE (int_var 0) (\<lambda>_. bindE (cmd_var 1) (\<lambda>v.
      thenE (if \<not> bit_set how LD_CEL then bindE (slice_var 1) (\<lambda>_. returnE ())
             else if \<not> is_null v then bindE (cell_var 1) (\<lambda>_. returnE ()) else returnE ())
      (bindE (int_var 0) (\<lambda>x.
       thenE (liftE (lift_code (check_neg x)))
       (bindE (getE (check_capabilities (capability_bits T CapFastStorageStatBugfix OR capability_bits T CapFastStorageStat))) (\<lambda>fast.
        bindE (if fast then fast_size T (size_limit x) v else counted_size T (size_limit x) v) (\<lambda>(result, n).
         thenE (if result
           then thenE (push_nat (size_cells n)) (thenE (push_nat (size_bits n)) (push_nat (size_refs n)))
           else guardE (bit_set how LD_QUIET) CellOverflow)
          (whenE (bit_set how LD_QUIET) (push_bool result)))))))))))"

section \<open>The instructions\<close>

definition deserialize_handlers :: "('c, 's, 'b, 'h) ton \<Rightarrow> ('c, 's, 'b, 'h) named_handlers" where
  "deserialize_handlers T = ld_slice_handlers T @ [
     (''execute_ctos'', execute_ctos T),
     (''execute_xctos'', execute_xctos T),
     (''execute_xload'', execute_xload T),
     (''execute_xloadq'', execute_xloadq T),
     (''execute_ends'', execute_ends T)] @ ld_int_handlers T @ [
     (''execute_ldref'', execute_ldref T),
     (''execute_ldrefrtos'', execute_ldrefrtos T)] @ pld_int_handlers T @ [
     (''execute_plduz'', execute_plduz T)] @
     sdbegins_handlers T @ cut_handlers T @ check_handlers T @ peek_handlers T @ ld_little_handlers T @ [
     (''execute_ldzeroes'', ldbit T ''LDZEROES'' False),
     (''execute_ldones'', ldbit T ''LDONES'' True),
     (''execute_ldsame'', execute_ldsame T),
     (''execute_split'', split T ''SPLIT'' False),
     (''execute_splitq'', split T ''SPLITQ'' True),
     (''execute_cdatasize'', datasize T ''CDATASIZE'' LD_CEL),
     (''execute_cdatasizeq'', datasize T ''CDATASIZEQ'' (LD_QUIET OR LD_CEL)),
     (''execute_sdatasize'', datasize T ''SDATASIZE'' 0),
     (''execute_sdatasizeq'', datasize T ''SDATASIZEQ'' LD_QUIET)]"

lemmas load_handler_defs = ld_slice_handlers_def ld_int_handlers_def pld_int_handlers_def sdbegins_handlers_def
  cut_handlers_def check_handlers_def peek_handlers_def ld_little_handlers_def

end
