(* ===== verification/Exec_Slices.thy ===== *)
theory Exec_Slices
  imports Exec_Deserialize
begin

text \<open>
  Comparison of slices (\<open>executor/slice_comparison.rs\<close>), the variable-length integers of
  currencies (\<open>executor/currency.rs\<close>), hashes and signatures (\<open>executor/crypto.rs\<close>).
\<close>

unbundle bit_operations_syntax

section \<open>Comparison\<close>

definition slice_unary ::
  "('c, 's, 'b, 'h) ton \<Rightarrow> string \<Rightarrow> ('s \<Rightarrow> ('c, 's, 'b) stack_item) \<Rightarrow> ('c, 's, 'b, 'h) handler" where
  "slice_unary T name f = thenE (load T name) (thenE (fetch_stack 1)
     (bindE (slice_var 0) (\<lambda>s. push_item (f s))))"

definition slice_binary ::
  "('c, 's, 'b, 'h) ton \<Rightarrow> string \<Rightarrow> ('s \<Rightarrow> 's \<Rightarrow> ('c, 's, 'b) stack_item) \<Rightarrow> ('c, 's, 'b, 'h) handler" where
  "slice_binary T name f = thenE (load T name) (thenE (fetch_stack 2)
     (bindE (slice_var 0) (\<lambda>s0. bindE (slice_var 1) (\<lambda>s1. push_item (f s1 s0)))))"

text \<open>The operation sees what remains of the two slices after their common prefix.\<close>

definition slice_prefix ::
  "('c, 's, 'b, 'h) ton \<Rightarrow> string \<Rightarrow>
   ('s option \<Rightarrow> 's option \<Rightarrow> ('c, 's, 'b, 'h, ('c, 's, 'b) stack_item) action) \<Rightarrow> ('c, 's, 'b, 'h) handler" where
  "slice_prefix T name f = thenE (load T name) (thenE (fetch_stack 2)
     (bindE (slice_var 0) (\<lambda>s0. bindE (slice_var 1) (\<lambda>s1.
        let (_, r1, r0) = common_prefix (slices T) s1 s0 in bindE (f r1 r0) push_item))))"

definition empty_handlers :: "('c, 's, 'b, 'h) ton \<Rightarrow> ('c, 's, 'b, 'h) named_handlers" where
  "empty_handlers T = [
     (''execute_sempty'', slice_unary T ''SEMPTY'' (\<lambda>s.
        item_boolean (remaining_bits T s = 0 \<and> remaining_references T s = 0))),
     (''execute_sdempty'', slice_unary T ''SDEMPTY'' (\<lambda>s. item_boolean (remaining_bits T s = 0))),
     (''execute_srempty'', slice_unary T ''SREMPTY'' (\<lambda>s. item_boolean (remaining_references T s = 0))),
     (''execute_sdfirst'', slice_unary T ''SDFIRST'' (\<lambda>s.
        item_boolean (remaining_bits T s \<noteq> 0 \<and> get_bit_opt (slices T) s 0 = Some True)))]"

definition lexcmp :: "('c, 's, 'b, 'h) ton \<Rightarrow> 's option \<Rightarrow> 's option \<Rightarrow> ('c, 's, 'b, 'h, ('c, 's, 'b) stack_item) action" where
  "lexcmp T r1 r0 = (case (r1, r0) of
      (None, None) \<Rightarrow> returnE (item_int 0)
    | (Some s1, Some _) \<Rightarrow> (case fst (get_next_bit (slices T) s1) of
        Inr b \<Rightarrow> returnE (item_int (if b then 1 else - 1)) | Inl _ \<Rightarrow> throwE Panic)
    | (Some _, None) \<Rightarrow> returnE (item_int 1)
    | (None, Some _) \<Rightarrow> returnE (item_int (- 1)))"

definition prefix_handlers :: "('c, 's, 'b, 'h) ton \<Rightarrow> ('c, 's, 'b, 'h) named_handlers" where
  "prefix_handlers T = [
     (''execute_sdlexcmp'', slice_prefix T ''SDLEXCMP'' (lexcmp T)),
     (''execute_sdeq'', slice_prefix T ''SDEQ'' (\<lambda>r1 r0. returnE (item_boolean (Option.is_none r0 \<and> Option.is_none r1)))),
     (''execute_sdpfx'', slice_prefix T ''SDPFX'' (\<lambda>r1 _. returnE (item_boolean (Option.is_none r1)))),
     (''execute_sdpfxrev'', slice_prefix T ''SDPFXREV'' (\<lambda>_ r0. returnE (item_boolean (Option.is_none r0)))),
     (''execute_sdppfx'', slice_prefix T ''SDPPFX'' (\<lambda>r1 r0.
        returnE (item_boolean (\<not> Option.is_none r0 \<and> Option.is_none r1)))),
     (''execute_sdppfxrev'', slice_prefix T ''SDPPFXREV'' (\<lambda>r1 r0.
        returnE (item_boolean (Option.is_none r0 \<and> \<not> Option.is_none r1))))]"

text \<open>Nothing remains of either slice after the common prefix.\<close>

definition same_data :: "('c, 's, 'b, 'h) ton \<Rightarrow> 's \<Rightarrow> 's \<Rightarrow> bool" where
  "same_data T s0 s1 = (let (_, r0, r1) = common_prefix (slices T) s0 s1 in Option.is_none r0 \<and> Option.is_none r1)"

definition suffix_handlers :: "('c, 's, 'b, 'h) ton \<Rightarrow> ('c, 's, 'b, 'h) named_handlers" where
  "suffix_handlers T = [
     (''execute_sdsfx'', slice_binary T ''SDSFX'' (\<lambda>s1 s0.
        let l0 = remaining_bits T s0; l1 = remaining_bits T s1 in
        item_boolean (l1 \<le> l0 \<and> same_data T (shrink_data T (l0 - l1) None s0) s1))),
     (''execute_sdsfxrev'', slice_binary T ''SDSFXREV'' (\<lambda>s1 s0.
        let l0 = remaining_bits T s0; l1 = remaining_bits T s1 in
        item_boolean (l0 \<le> l1 \<and> same_data T s0 (shrink_data T (l1 - l0) None s1)))),
     (''execute_sdpsfx'', slice_binary T ''SDPSFX'' (\<lambda>s1 s0.
        let l0 = remaining_bits T s0; l1 = remaining_bits T s1 in
        item_boolean (l1 < l0 \<and> same_data T (shrink_data T (l0 - l1) None s0) s1))),
     (''execute_sdpsfxrev'', slice_binary T ''SDPSFXREV'' (\<lambda>s1 s0.
        let l0 = remaining_bits T s0; l1 = remaining_bits T s1 in
        item_boolean (l0 < l1 \<and> same_data T s0 (shrink_data T (l1 - l0) None s1))))]"

text \<open>\<open>(0..n).position(p).unwrap_or(n)\<close>.\<close>

definition position_or :: "nat \<Rightarrow> (nat \<Rightarrow> bool) \<Rightarrow> nat" where
  "position_or n p = length (takeWhile (\<lambda>i. \<not> p i) [0..<n])"

definition count_bits ::
  "('c, 's, 'b, 'h) ton \<Rightarrow> bool \<Rightarrow> bool \<Rightarrow> 's \<Rightarrow> ('c, 's, 'b) stack_item" where
  "count_bits T trailing stop s = (let n = remaining_bits T s in
     item_int (int (position_or n (\<lambda>i. get_bit_opt (slices T) s (if trailing then n - i - 1 else i) = Some stop))))"

definition count_handlers :: "('c, 's, 'b, 'h) ton \<Rightarrow> ('c, 's, 'b, 'h) named_handlers" where
  "count_handlers T = [
     (''execute_sdcntlead0'', slice_unary T ''SDCNTLEAD0'' (count_bits T False True)),
     (''execute_sdcntlead1'', slice_unary T ''SDCNTLEAD1'' (count_bits T False False)),
     (''execute_sdcnttrail0'', slice_unary T ''SDCNTTRAIL0'' (count_bits T True True)),
     (''execute_sdcnttrail1'', slice_unary T ''SDCNTTRAIL1'' (count_bits T True False))]"

section \<open>Integers of variable length\<close>

text \<open>The widths of the length field, \<open>8 - leading_zeros\<close> of a byte and \<open>16 - leading_zeros\<close>
  of a 16-bit number, are the numbers of significant bits.\<close>

definition load_var :: "('c, 's, 'b, 'h) ton \<Rightarrow> string \<Rightarrow> nat \<Rightarrow> bool \<Rightarrow> ('c, 's, 'b, 'h) handler" where
  "load_var T name max_bytes sign = thenE (load T name) (thenE (fetch_stack 1) (bindE (slice_var 0) (\<lambda>s.
     bindE (with_object (get_next_int T (nat_bits (max_bytes - 1))) s) (\<lambda>(n, s).
     bindE (with_object (get_next_bytes (slices T) n) s) (\<lambda>(bytes, s).
       case integer_from (if sign then from_signed_bytes_be (bigint T) bytes else from_bytes_be (bigint T) bytes) of
         Inr x \<Rightarrow> thenE (push_item (Item_Integer x)) (push_slice s)
       | Inl _ \<Rightarrow> throwE Panic)))))"

definition var_bytes :: "('c, 's, 'b, 'h) ton \<Rightarrow> bool \<Rightarrow> integer_data \<Rightarrow> exception_code + nat \<times> u8 list" where
  "var_bytes T sign x =
     (if sign
      then bindR (integer_bitsize x) (\<lambda>n. bindR (take_value_of (\<lambda>v. Some (to_signed_bytes_be (bigint T) v)) x)
             (\<lambda>bytes. Inr (n, bytes)))
      else bindR (check_neg x) (\<lambda>_. bindR (ubitsize x) (\<lambda>n.
             bindR (take_value_of (\<lambda>v. Some (to_bytes_be (bigint T) v)) x) (\<lambda>bytes. Inr (n, bytes)))))"

definition store_var :: "('c, 's, 'b, 'h) ton \<Rightarrow> string \<Rightarrow> nat \<Rightarrow> bool \<Rightarrow> ('c, 's, 'b, 'h) handler" where
  "store_var T name max_bits sign = thenE (load T name) (thenE (fetch_stack 2) (bindE (int_var 0) (\<lambda>x.
     bindE (getE (bugfixes2022 T)) (\<lambda>fixed.
     thenE (guardE (\<not> (fixed \<and> is_nan x)) IntegerOverflow)
     (bindE (builder_var 1) (\<lambda>b.
      bindE (liftE (lift_code (var_bytes T sign x))) (\<lambda>(n, bytes).
      thenE (guardE (n \<le> max_bits) RangeCheckError)
      (let len = (if n \<noteq> 0 then length bytes else 0) in
       bindE (with_object (append_bits (builders T) len (nat_bits (max_bits div 8))) (builder_new (builders T))) (\<lambda>(_, y).
       bindE (with_object (append_raw (builders T) bytes (len * 8)) y) (\<lambda>(_, y).
         if can_append (builders T) b y
         then bindE (var_builder_mut T 1) (\<lambda>b. case append_builder (builders T) y b of
                (Inr _, b) \<Rightarrow> push_builder b | (Inl _, _) \<Rightarrow> throwE Panic)
         else errE CellOverflow))))))))))"

definition currency_handlers :: "('c, 's, 'b, 'h) ton \<Rightarrow> ('c, 's, 'b, 'h) named_handlers" where
  "currency_handlers T = [
     (''execute_ldgrams'', load_var T ''LDGRAMS'' 16 False),
     (''execute_ldvarint16'', load_var T ''LDVARINT16'' 16 True),
     (''execute_ldvaruint32'', load_var T ''LDVARUINT32'' 32 False),
     (''execute_ldvarint32'', load_var T ''LDVARINT32'' 32 True),
     (''execute_stgrams'', store_var T ''STGRAMS'' 120 False),
     (''execute_stvarint16'', store_var T ''STVARINT16'' 120 True),
     (''execute_stvaruint32'', store_var T ''STVARUINT32'' 248 False),
     (''execute_stvarint32'', store_var T ''STVARINT32'' 248 True)]"

section \<open>Hashes and signatures\<close>

text \<open>A hash is an array of 32 bytes.\<close>

definition hash_to_uint :: "('c, 's, 'b, 'h) ton \<Rightarrow> hash \<Rightarrow> integer_data" where
  "hash_to_uint T h = from_unsigned_bytes_be (bigint T) (octets_of 32 (uint h))"

definition execute_hashcu :: "('c, 's, 'b, 'h) ton \<Rightarrow> ('c, 's, 'b, 'h) handler" where
  "execute_hashcu T = thenE (load T ''HASHCU'') (thenE (fetch_stack 1) (bindE (cell_var 0) (\<lambda>c.
     push_item (Item_Integer (hash_to_uint T (repr_hash T c))))))"

definition execute_hashsu :: "('c, 's, 'b, 'h) ton \<Rightarrow> ('c, 's, 'b, 'h) handler" where
  "execute_hashsu T = thenE (load T ''HASHSU'') (thenE (fetch_stack 1) (bindE (slice_var 0) (\<lambda>s.
     bindE (finalize_cell T (slice_as_builder (slices T) s)) (\<lambda>c.
       push_item (Item_Integer (hash_to_uint T (repr_hash T c)))))))"

definition execute_sha256u :: "('c, 's, 'b, 'h) ton \<Rightarrow> ('c, 's, 'b, 'h) handler" where
  "execute_sha256u T = thenE (load T ''SHA256U'') (thenE (fetch_stack 1) (bindE (slice_var 0) (\<lambda>s.
     if remaining_bits T s mod 8 = 0
     then push_item (Item_Integer (hash_to_uint T (calc_file_hash (crypto T) (get_bytestring (slices T) 0 s))))
     else errE CellUnderflow)))"

definition PUBLIC_KEY_BITS :: nat where "PUBLIC_KEY_BITS = 256"
definition SIGNATURE_BITS :: nat where "SIGNATURE_BITS = 512"
definition SIGNATURE_BYTES :: nat where "SIGNATURE_BYTES = 64"

text \<open>The bytes that are signed: the data of the 256-bit builder or of the slice.\<close>

definition signed_data :: "('c, 's, 'b, 'h) ton \<Rightarrow> bool \<Rightarrow> ('c, 's, 'b, 'h, u8 list) action" where
  "signed_data T as_hash =
     (if as_hash
      then bindE (int_var 2) (\<lambda>h. bindE (liftE (integer_as_builder T UnsignedIntegerBigEndianEncoding 256 h)) (\<lambda>b.
             returnE (builder_data (builders T) b)))
      else bindE (slice_var 2) (\<lambda>s.
             if remaining_bits T s mod 8 \<noteq> 0 then errE CellUnderflow
             else returnE (get_bytestring (slices T) 0 s)))"

definition check_signature :: "('c, 's, 'b, 'h) ton \<Rightarrow> string \<Rightarrow> bool \<Rightarrow> ('c, 's, 'b, 'h) handler" where
  "check_signature T name as_hash = thenE (load T name) (thenE (fetch_stack 3)
     (bindE (int_var 0) (\<lambda>k. bindE (liftE (integer_as_builder T UnsignedIntegerBigEndianEncoding PUBLIC_KEY_BITS k)) (\<lambda>key.
      bindE (slice_var 1) (\<lambda>sig.
      thenE (if as_hash then bindE (int_var 2) (\<lambda>_. returnE ()) else bindE (slice_var 2) (\<lambda>_. returnE ()))
      (thenE (guardE (SIGNATURE_BITS \<le> remaining_bits T sig) CellUnderflow)
      (bindE (signed_data T as_hash) (\<lambda>bytes.
       bindE (getE (bugfixes2022 T)) (\<lambda>fixed.
         let key = builder_data (builders T) key; sig = take SIGNATURE_BYTES (get_bytestring (slices T) 0 sig) in
         if \<not> public_key_ok (crypto T) key
         then if fixed then push_bool False else errE FatalErrorCode
         else if \<not> signature_ok (crypto T) sig
         then if fixed \<or> as_hash then push_bool False else errE FatalErrorCode
         else push_bool (signature_verify (crypto T) key bytes sig))))))))))"

definition crypto_handlers :: "('c, 's, 'b, 'h) ton \<Rightarrow> ('c, 's, 'b, 'h) named_handlers" where
  "crypto_handlers T = [
     (''execute_hashcu'', execute_hashcu T),
     (''execute_hashsu'', execute_hashsu T),
     (''execute_sha256u'', execute_sha256u T),
     (''execute_chksigns'', check_signature T ''CHKSIGNS'' False),
     (''execute_chksignu'', check_signature T ''CHKSIGNU'' True)]"

lemmas slice_handler_defs = empty_handlers_def prefix_handlers_def suffix_handlers_def count_handlers_def
  currency_handlers_def crypto_handlers_def

definition slice_handlers :: "('c, 's, 'b, 'h) ton \<Rightarrow> ('c, 's, 'b, 'h) named_handlers" where
  "slice_handlers T = empty_handlers T @ prefix_handlers T @ suffix_handlers T @ count_handlers T @
     currency_handlers T @ crypto_handlers T"

end
