(* ===== verification/Exec_Dictionary.thy ===== *)
theory Exec_Dictionary
  imports Exec_Deserialize Exec_Continuation
begin

text \<open>
  The instructions on dictionaries (\<open>executor/dictionary.rs\<close>).  The dictionaries themselves
  are code of the crates: their operations are fields of \<open>ton\<close> and reach the machine only
  through the gas consumer.  Tables list the instructions that call a shared routine.
\<close>

unbundle bit_operations_syntax

section \<open>Flags\<close>

definition D_CNV :: "8 word" where "D_CNV = 0x01"
definition D_SET :: "8 word" where "D_SET = 0x02"
definition D_GET :: "8 word" where "D_GET = 0x04"
definition D_INV :: "8 word" where "D_INV = 0x08"
definition D_RET :: "8 word" where "D_RET = 0x10"
definition D_DEL :: "8 word" where "D_DEL = 0x20"
definition D_SETGET :: "8 word" where "D_SETGET = D_GET OR D_SET OR D_RET"
definition D_STAY :: "8 word" where "D_STAY = 0x20"
definition D_CALLX :: "8 word" where "D_CALLX = 0x40"
definition D_SWITCH :: "8 word" where "D_SWITCH = 0x80"
definition D_CMD :: "8 word" where "D_CMD = 0x01"
definition D_PREV :: "8 word" where "D_PREV = 0x00"
definition D_NEXT :: "8 word" where "D_NEXT = 0x01"
definition D_SAME :: "8 word" where "D_SAME = 0x02"
definition D_SIGN :: "8 word" where "D_SIGN = 0x08"
definition D_REF :: "8 word" where "D_REF = 0x10"
definition D_MAX :: "8 word" where "D_MAX = 0x00"
definition D_MIN :: "8 word" where "D_MIN = 0x01"
definition D_QUIET :: "8 word" where "D_QUIET = 0x01"
definition D_DICT :: "8 word" where "D_DICT = 0x02"
definition D_SLC :: "8 word" where "D_SLC = 0x04"
definition D_REST :: "8 word" where "D_REST = 0x08"

lemmas dict_flag_defs = D_CNV_def D_SET_def D_GET_def D_INV_def D_RET_def D_DEL_def D_SETGET_def D_STAY_def
  D_CALLX_def D_SWITCH_def D_CMD_def D_PREV_def D_NEXT_def D_SAME_def D_SIGN_def D_REF_def D_MAX_def D_MIN_def
  D_QUIET_def D_DICT_def D_SLC_def D_REST_def

definition any_bit :: "8 word \<Rightarrow> 8 word \<Rightarrow> bool" where
  "any_bit how bs = (how AND bs \<noteq> 0)"

section \<open>Keys\<close>

type_synonym ('c, 's, 'b) key_reader = "('c, 's, 'b) stack_item \<Rightarrow> nat \<Rightarrow> ('c, 's, 'b, 's) ext_result"

definition integer_as_slice ::
  "('c, 's, 'b, 'h) ton \<Rightarrow> encoding \<Rightarrow> nat \<Rightarrow> integer_data \<Rightarrow> ('c, 's, 'b, 's) ext_result" where
  "integer_as_slice T enc n x = bindR (integer_as_builder T enc n x) (load_bitstring (slices T))"

definition keyreader_from_slice :: "('c, 's, 'b, 'h) ton \<Rightarrow> ('c, 's, 'b) key_reader" where
  "keyreader_from_slice T key nbits = bindR (as_slice key) (\<lambda>s.
     if remaining_bits T s < nbits then err CellUnderflow
     else Inr (shrink_references T 0 (Some 0) (shrink_data T 0 (Some nbits) s)))"

definition keyreader_from_int :: "('c, 's, 'b, 'h) ton \<Rightarrow> ('c, 's, 'b) key_reader" where
  "keyreader_from_int T key nbits = bindR (as_integer key) (\<lambda>x.
     if is_nan x then err IntegerOverflow else integer_as_slice T SignedIntegerBigEndianEncoding nbits x)"

definition keyreader_from_uint :: "('c, 's, 'b, 'h) ton \<Rightarrow> ('c, 's, 'b) key_reader" where
  "keyreader_from_uint T key nbits = bindR (as_integer key) (\<lambda>x.
     if is_nan x \<or> is_neg x then err IntegerOverflow
     else integer_as_slice T UnsignedIntegerBigEndianEncoding nbits x)"

definition key_slice :: "('c, 's, 'b, 'h) ton \<Rightarrow> encoding \<Rightarrow> nat \<Rightarrow> integer_data \<Rightarrow> ('c, 's, 'b, 's option) ext_result" where
  "key_slice T enc nbits x = (case integer_as_slice T enc nbits x of
     Inr s \<Rightarrow> Inr (Some s) | Inl Panic \<Rightarrow> Inl Panic | Inl _ \<Rightarrow> Inr None)"

definition read_key ::
  "('c, 's, 'b, 'h) ton \<Rightarrow> ('c, 's, 'b) stack_item \<Rightarrow> nat \<Rightarrow> 8 word \<Rightarrow> ('c, 's, 'b, 's option \<times> bool) ext_result" where
  "read_key T key nbits how =
     (if bit_set how D_SLC then bindR (keyreader_from_slice T key nbits) (\<lambda>s. Inr (Some s, False))
      else bindR (as_integer key) (\<lambda>x.
        bindR (if bit_set how D_SIGN
               then if \<not> is_nan x then key_slice T SignedIntegerBigEndianEncoding nbits x else Inr None
               else if \<not> is_nan x \<and> \<not> is_neg x then key_slice T UnsignedIntegerBigEndianEncoding nbits x
               else Inr None)
          (\<lambda>r. Inr (r, is_neg x))))"

definition write_key ::
  "('c, 's, 'b, 'h) ton \<Rightarrow> 'b \<Rightarrow> 8 word \<Rightarrow> ('c, 's, 'b, 'h, ('c, 's, 'b) stack_item) action" where
  "write_key T key how =
     (if bit_set how D_SLC
      then bindE (finalize_cell T key) (\<lambda>c. bindE (liftE (slice_load_cell T c)) (\<lambda>s. returnE (Item_Slice s)))
      else case deserialize
          (if bit_set how D_SIGN then SignedIntegerBigEndianEncoding else UnsignedIntegerBigEndianEncoding)
          (bigint T) (length_in_bits (builders T) key) (builder_data (builders T) key) of
        Inr x \<Rightarrow> returnE (Item_Integer x) | Inl _ \<Rightarrow> throwE Panic)"

section \<open>Values\<close>

definition gas_consumer_of :: "('c, 's, 'b, 'h) ton \<Rightarrow> ('c, 's, 'b, 'h) gas_consumer" where
  "gas_consumer_of T = \<lparr> consumer_load = load_cell T, consumer_finalize = finalize_cell T \<rparr>"

definition try_unref_leaf ::
  "('c, 's, 'b, 'h) ton \<Rightarrow> 's \<Rightarrow> ('c, 's, 'b, ('c, 's, 'b) stack_item) ext_result" where
  "try_unref_leaf T s =
     (if remaining_bits T s = 0 \<and> remaining_references T s \<noteq> 0
      then bindR (slice_reference T s 0) (\<lambda>c. Inr (Item_Cell c)) else err DictionaryError)"

definition unref_opt ::
  "('c, 's, 'b, 'h) ton \<Rightarrow> 's option \<Rightarrow> ('c, 's, 'b, ('c, 's, 'b) stack_item option) ext_result" where
  "unref_opt T r = (case r of None \<Rightarrow> Inr None | Some s \<Rightarrow> bindR (try_unref_leaf T s) (\<lambda>x. Inr (Some x)))"

definition unref_or_null ::
  "('c, 's, 'b, 'h) ton \<Rightarrow> 's option \<Rightarrow> ('c, 's, 'b, ('c, 's, 'b) stack_item option) ext_result" where
  "unref_or_null T r = (case r of None \<Rightarrow> Inr (Some Item_None) | Some s \<Rightarrow> bindR (try_unref_leaf T s) (\<lambda>x. Inr (Some x)))"

definition slice_opt ::
  "('c, 's, 'b, 'h) ton \<Rightarrow> 's option \<Rightarrow> ('c, 's, 'b, ('c, 's, 'b) stack_item option) ext_result" where
  "slice_opt T r = Inr (map_option Item_Slice r)"

type_synonym ('c, 's, 'b, 'h) val_accessor =
  "'h \<Rightarrow> 's \<Rightarrow> ('c, 's, 'b, 'h, ('c, 's, 'b) stack_item option \<times> 'h) action"

definition dict_get ::
  "('c, 's, 'b, 'h) ton \<Rightarrow> ('s option \<Rightarrow> ('c, 's, 'b, ('c, 's, 'b) stack_item option) ext_result) \<Rightarrow>
   ('c, 's, 'b, 'h) val_accessor" where
  "dict_get T f d key = bindE (hashmap_get_with_gas T d key (load_cell T)) (\<lambda>r.
     bindE (liftE (f r)) (\<lambda>x. returnE (x, d)))"

definition dict_put ::
  "('c, 's, 'b, 'h) ton \<Rightarrow> ('c, 's, 'b, 'h, 'v) dict_update \<Rightarrow>
   ('s option \<Rightarrow> ('c, 's, 'b, ('c, 's, 'b) stack_item option) ext_result) \<Rightarrow> 'v \<Rightarrow> ('c, 's, 'b, 'h) val_accessor" where
  "dict_put T upd f v d key = bindE (upd d key v (gas_consumer_of T)) (\<lambda>(old, d).
     bindE (liftE (f old)) (\<lambda>x. returnE (x, d)))"

definition valreader_from_slice :: "('c, 's, 'b, 'h) ton \<Rightarrow> ('c, 's, 'b, 'h) val_accessor" where
  "valreader_from_slice T = dict_get T (slice_opt T)"

definition valreader_from_ref :: "('c, 's, 'b, 'h) ton \<Rightarrow> ('c, 's, 'b, 'h) val_accessor" where
  "valreader_from_ref T = dict_get T (unref_opt T)"

definition valreader_from_refopt :: "('c, 's, 'b, 'h) ton \<Rightarrow> ('c, 's, 'b, 'h) val_accessor" where
  "valreader_from_refopt T = dict_get T (unref_or_null T)"

text \<open>The new value: slices and builders are taken from the variable, cells copied.\<close>

definition put_slice ::
  "('c, 's, 'b, 'h) ton \<Rightarrow> ('c, 's, 'b, 'h, 's) dict_update \<Rightarrow> ('c, 's, 'b, 'h) val_accessor" where
  "put_slice T upd d key = bindE (withdraw_var 3) (\<lambda>x. bindE (liftE (as_slice x)) (\<lambda>v.
     dict_put T upd (slice_opt T) v d key))"

definition put_builder ::
  "('c, 's, 'b, 'h) ton \<Rightarrow> ('c, 's, 'b, 'h, 'b) dict_update \<Rightarrow> ('c, 's, 'b, 'h) val_accessor" where
  "put_builder T upd d key = bindE (withdraw_var 3) (\<lambda>x. bindE (liftE (as_builder x)) (\<lambda>v.
     dict_put T upd (slice_opt T) v d key))"

definition put_ref ::
  "('c, 's, 'b, 'h) ton \<Rightarrow> ('c, 's, 'b, 'h, 'c) dict_update \<Rightarrow> ('c, 's, 'b, 'h) val_accessor" where
  "put_ref T upd d key = bindE (cell_var 3) (\<lambda>v. dict_put T upd (unref_opt T) v d key)"

definition valwriter_add_slice :: "('c, 's, 'b, 'h) ton \<Rightarrow> ('c, 's, 'b, 'h) val_accessor" where
  "valwriter_add_slice T = put_slice T (add_with_gas (updates T))"

definition valwriter_add_builder :: "('c, 's, 'b, 'h) ton \<Rightarrow> ('c, 's, 'b, 'h) val_accessor" where
  "valwriter_add_builder T = put_builder T (add_builder_with_gas (updates T))"

definition valwriter_add_ref :: "('c, 's, 'b, 'h) ton \<Rightarrow> ('c, 's, 'b, 'h) val_accessor" where
  "valwriter_add_ref T = put_ref T (addref_with_gas (updates T))"

definition valwriter_add_ref_without_unref :: "('c, 's, 'b, 'h) ton \<Rightarrow> ('c, 's, 'b, 'h) val_accessor" where
  "valwriter_add_ref_without_unref T d key = bindE (cell_var 3) (\<lambda>v.
     bindE (hashmap_get_with_gas T d key (load_cell T)) (\<lambda>r. case r of
       Some s \<Rightarrow> returnE (Some (Item_Slice s), d)
     | None \<Rightarrow> bindE (setref_with_gas (updates T) d key v (gas_consumer_of T)) (\<lambda>(_, d). returnE (None, d))))"

definition valwriter_add_or_remove_refopt :: "('c, 's, 'b, 'h) ton \<Rightarrow> ('c, 's, 'b, 'h) val_accessor" where
  "valwriter_add_or_remove_refopt T d key = bindE (cmd_var 3) (\<lambda>x. bindE (liftE (as_dict x)) (\<lambda>v. case v of
     Some c \<Rightarrow> dict_put T (setref_with_gas (updates T)) (unref_or_null T) c d key
   | None \<Rightarrow> dict_put T (remove_with_gas (updates T)) (unref_or_null T) () d key))"

definition valwriter_remove_slice :: "('c, 's, 'b, 'h) ton \<Rightarrow> ('c, 's, 'b, 'h) val_accessor" where
  "valwriter_remove_slice T = dict_put T (remove_with_gas (updates T)) (slice_opt T) ()"

definition valwriter_remove_ref :: "('c, 's, 'b, 'h) ton \<Rightarrow> ('c, 's, 'b, 'h) val_accessor" where
  "valwriter_remove_ref T = dict_put T (remove_with_gas (updates T)) (unref_opt T) ()"

definition valwriter_replace_slice :: "('c, 's, 'b, 'h) ton \<Rightarrow> ('c, 's, 'b, 'h) val_accessor" where
  "valwriter_replace_slice T = put_slice T (replace_with_gas (updates T))"

definition valwriter_replace_builder :: "('c, 's, 'b, 'h) ton \<Rightarrow> ('c, 's, 'b, 'h) val_accessor" where
  "valwriter_replace_builder T = put_builder T (replace_builder_with_gas (updates T))"

definition valwriter_replace_ref :: "('c, 's, 'b, 'h) ton \<Rightarrow> ('c, 's, 'b, 'h) val_accessor" where
  "valwriter_replace_ref T = put_ref T (replaceref_with_gas (updates T))"

definition valwriter_to_slice :: "('c, 's, 'b, 'h) ton \<Rightarrow> ('c, 's, 'b, 'h) val_accessor" where
  "valwriter_to_slice T = put_slice T (set_with_gas (updates T))"

definition valwriter_to_builder :: "('c, 's, 'b, 'h) ton \<Rightarrow> ('c, 's, 'b, 'h) val_accessor" where
  "valwriter_to_builder T = put_builder T (set_builder_with_gas (updates T))"

definition valwriter_to_ref :: "('c, 's, 'b, 'h) ton \<Rightarrow> ('c, 's, 'b, 'h) val_accessor" where
  "valwriter_to_ref T = put_ref T (setref_with_gas (updates T))"

section \<open>Shared routines\<close>

definition push_dict :: "('c, 's, 'b, 'h) ton \<Rightarrow> 'h \<Rightarrow> ('c, 's, 'b, 'h) handler" where
  "push_dict T d = push_item (case hashmap_data (searches T) d of Some root \<Rightarrow> Item_Cell root | None \<Rightarrow> Item_None)"

definition dict_var :: "('c, 's, 'b, 'h) ton \<Rightarrow> nat \<Rightarrow> ('c, 's, 'b, 'h, 'h) action" where
  "dict_var T nbits = bindE (cmd_var 1) (\<lambda>x. bindE (liftE (as_dict x)) (\<lambda>root.
     returnE (with_hashmap T nbits root)))"

definition pfx_dict_var :: "('c, 's, 'b, 'h) ton \<Rightarrow> nat \<Rightarrow> ('c, 's, 'b, 'h, 'h) action" where
  "pfx_dict_var T nbits = bindE (cmd_var 1) (\<lambda>x. bindE (liftE (as_dict x)) (\<lambda>root.
     returnE (pfx_with_hashmap (pfx T) nbits root)))"

definition key_var :: "nat \<Rightarrow> ('c, 's, 'b) key_reader \<Rightarrow> nat \<Rightarrow> ('c, 's, 'b, 'h, 's) action" where
  "key_var i keyreader nbits = bindE (cmd_var i) (\<lambda>x. liftE (keyreader x nbits))"

definition push_found :: "8 word \<Rightarrow> ('c, 's, 'b) stack_item option \<Rightarrow> ('c, 's, 'b, 'h) handler" where
  "push_found how val = (let ret = bit_set how D_INV in case val of
      None \<Rightarrow> whenE (bit_set how D_RET) (push_bool ret)
    | Some x \<Rightarrow> thenE (whenE (bit_set how D_GET) (push_item x)) (whenE (bit_set how D_RET) (push_bool (\<not> ret))))"

definition dict ::
  "('c, 's, 'b, 'h) ton \<Rightarrow> string \<Rightarrow> ('c, 's, 'b) key_reader \<Rightarrow> 8 word \<Rightarrow> ('c, 's, 'b, 'h) val_accessor \<Rightarrow>
   ('c, 's, 'b, 'h) handler" where
  "dict T name keyreader how handler =
     (if \<not> bit_set how D_SET \<and> any_bit how (D_INV OR D_CNV) then throwE OtherError
      else thenE (load T name) (thenE (fetch_stack (if bit_set how D_SET then 4 else 3))
       (bindE (nat_var 1023 0) (\<lambda>nbits. bindE (dict_var T nbits) (\<lambda>d.
        bindE (key_var 2 keyreader nbits) (\<lambda>key.
          if slice_is_empty (slices T) key
          then if any_bit how (D_SET OR D_DEL) then errE RangeCheckError
               else whenE (bit_set how D_RET) (push_bool False)
          else bindE (handler d key) (\<lambda>(val, d).
            thenE (whenE (any_bit how (D_SET OR D_DEL)) (push_dict T d)) (push_found how val))))))))"

definition jump_to_value :: "('c, 's, 'b, 'h) ton \<Rightarrow> 8 word \<Rightarrow> ('c, 's, 'b, 'h) handler" where
  "jump_to_value T how = bindE var_count (\<lambda>n.
     if bit_set how D_SWITCH then switch T (var_addr (n - 1))
     else if bit_set how D_CALLX then callx T (n - 1) False
     else throwE OtherError)"

definition dictcont ::
  "('c, 's, 'b, 'h) ton \<Rightarrow> string \<Rightarrow> ('c, 's, 'b) key_reader \<Rightarrow> 8 word \<Rightarrow> ('c, 's, 'b, 'h) handler" where
  "dictcont T name keyreader how = thenE (load T name) (thenE (fetch_stack 3)
     (bindE (nat_var 1023 0) (\<lambda>nbits. bindE (dict_var T nbits) (\<lambda>d.
      bindE (key_var 2 keyreader nbits) (\<lambda>key.
      bindE (hashmap_get_with_gas T d key (load_cell T)) (\<lambda>r. case r of
        Some code' \<Rightarrow> thenE (push_var (Item_Continuation (with_code code'))) (jump_to_value T how)
      | None \<Rightarrow> whenE (bit_set how D_STAY) (bindE (remove_var 2) push_item)))))))"

definition iter_reader ::
  "('c, 's, 'b, 'h) ton \<Rightarrow> 'h \<Rightarrow> 's \<Rightarrow> 8 word \<Rightarrow> ('c, 's, 'b, 'h, ('b \<times> ('c, 's, 'b) stack_item) option) action" where
  "iter_reader T d key how =
     bindE (find_leaf (searches T) d key (bit_set how D_NEXT) (bit_set how D_SAME) (bit_set how D_SIGN) (gas_consumer_of T))
       (\<lambda>r. returnE (map_option (\<lambda>(k, v). (k, Item_Slice v)) r))"

definition finder ::
  "('c, 's, 'b, 'h) ton \<Rightarrow> 'h \<Rightarrow> 8 word \<Rightarrow> ('c, 's, 'b, 'h, ('b \<times> ('c, 's, 'b) stack_item) option) action" where
  "finder T d how =
     bindE ((if bit_set how D_MIN then get_min (searches T) else get_max (searches T)) d (bit_set how D_SIGN) (gas_consumer_of T))
       (\<lambda>r. case r of
          None \<Rightarrow> returnE None
        | Some (k, v) \<Rightarrow>
            if bit_set how D_REF then bindE (liftE (try_unref_leaf T v)) (\<lambda>x. returnE (Some (k, x)))
            else returnE (Some (k, Item_Slice v)))"

definition push_key :: "('c, 's, 'b, 'h) ton \<Rightarrow> 'b \<Rightarrow> ('c, 's, 'b) stack_item \<Rightarrow> 8 word \<Rightarrow> ('c, 's, 'b, 'h) handler" where
  "push_key T k v how = thenE (push_item v) (bindE (write_key T k how) (\<lambda>x. thenE (push_item x) (push_bool True)))"

definition dictiter :: "('c, 's, 'b, 'h) ton \<Rightarrow> string \<Rightarrow> 8 word \<Rightarrow> ('c, 's, 'b, 'h) handler" where
  "dictiter T name how = thenE (load T name) (thenE (fetch_stack 3)
     (bindE (nat_var 1023 0) (\<lambda>nbits. bindE (dict_var T nbits) (\<lambda>d.
      bindE (cmd_var 2) (\<lambda>x. bindE (liftE (read_key T x nbits how)) (\<lambda>(key, negative).
      bindE (case key of
          Some k \<Rightarrow> iter_reader T d k how
        | None \<Rightarrow> if (\<not> negative) \<noteq> bit_set how D_MIN then finder T d how else returnE None) (\<lambda>r.
        case r of Some (k, v) \<Rightarrow> push_key T k v how | None \<Rightarrow> push_bool False)))))))"

definition dict_find :: "('c, 's, 'b, 'h) ton \<Rightarrow> string \<Rightarrow> 8 word \<Rightarrow> ('c, 's, 'b, 'h) handler" where
  "dict_find T name how = thenE (load T name) (thenE (fetch_stack 2)
     (bindE (nat_var 1023 0) (\<lambda>nbits. bindE (dict_var T nbits) (\<lambda>d. bindE (finder T d how) (\<lambda>r. case r of
        Some (k, v) \<Rightarrow>
          thenE (whenE (bit_set how D_DEL) (bindE (liftE (load_builder (slices T) k)) (\<lambda>key.
              bindE (remove_with_gas (updates T) d key () (gas_consumer_of T)) (\<lambda>(_, d). push_dict T d))))
            (push_key T k v how)
      | None \<Rightarrow> thenE (whenE (bit_set how D_DEL) (push_dict T d)) (push_bool False))))))"

definition pfx_write ::
  "('c, 's, 'b, 'h) ton \<Rightarrow> 'h \<Rightarrow> 's \<Rightarrow> 8 word \<Rightarrow> ('c, 's, 'b, 'h, bool \<times> 'h) action" where
  "pfx_write T d key how = bindE (slice_var 3) (\<lambda>v.
     let g = gas_consumer_of T; P = pfx T in
     if bit_set how D_INV
     then bindE (liftE (pfx_is_prefix P d key)) (\<lambda>is_pre.
          bindE (if is_pre then returnE False else bindE (liftE (pfx_get P d key)) (\<lambda>r. returnE (Option.is_none r))) (\<lambda>free.
            if free then bindE (pfx_set_with_gas P d key v g) (\<lambda>(_, d). returnE (True, d))
            else bindE (pfx_get_with_gas P d key g) (\<lambda>_. returnE (False, d))))
     else if bit_set how D_GET
     then bindE (pfx_replace_with_gas P d key v g) (\<lambda>(old, d). returnE (\<not> Option.is_none old, d))
     else bindE (liftE (pfx_is_prefix P d key)) (\<lambda>is_pre.
            if \<not> is_pre then bindE (pfx_set_with_gas P d key v g) (\<lambda>(_, d). returnE (True, d))
            else bindE (pfx_get_prefix_leaf_with_gas P d key g) (\<lambda>_. returnE (False, d))))"

definition pfxdictset :: "('c, 's, 'b, 'h) ton \<Rightarrow> string \<Rightarrow> 8 word \<Rightarrow> ('c, 's, 'b, 'h) handler" where
  "pfxdictset T name how = thenE (load T name) (thenE (fetch_stack (if bit_set how D_DEL then 3 else 4))
     (bindE (nat_var 1023 0) (\<lambda>nbits. bindE (pfx_dict_var T nbits) (\<lambda>d. bindE (slice_var 2) (\<lambda>key.
      bindE (if bit_set how D_DEL
             then bindE (pfx_remove_with_gas (pfx T) d key () (gas_consumer_of T)) (\<lambda>(old, d). returnE (\<not> Option.is_none old, d))
             else pfx_write T d key how) (\<lambda>(valid, d).
        thenE (push_dict T d) (push_bool valid)))))))"

definition pfx_operands ::
  "('c, 's, 'b, 'h) ton \<Rightarrow> bool \<Rightarrow> ('c, 's, 'b, 'h, 'h \<times> 's) action" where
  "pfx_operands T in_cmd =
     (if in_cmd
      then bindE cmd_length (\<lambda>nbits. bindE cmd_slice (\<lambda>sl. bindE (slice_var 0) (\<lambda>key.
             returnE (pfx_with_hashmap (pfx T) nbits (reference_opt T sl 0), key))))
      else bindE (nat_var 1023 0) (\<lambda>nbits. bindE (pfx_dict_var T nbits) (\<lambda>d. bindE (slice_var 2) (\<lambda>key.
             returnE (d, key)))))"

definition pfxdictget :: "('c, 's, 'b, 'h) ton \<Rightarrow> string \<Rightarrow> 8 word \<Rightarrow> ('c, 's, 'b, 'h) handler" where
  "pfxdictget T name how =
     (let get_cont = bit_set how D_CALLX \<or> bit_set how D_SWITCH; in_cmd = bit_set how D_CMD in
      thenE (if in_cmd then load_opts T name (Opt_Dictionary 13 10) else load T name)
      (thenE (fetch_stack (if in_cmd then 1 else 3)) (bindE (pfx_operands T in_cmd) (\<lambda>(d, key).
       bindE (pfx_get_prefix_leaf_with_gas (pfx T) d key (gas_consumer_of T)) (\<lambda>(pre, found, suffix).
        case found of
          Some v \<Rightarrow>
            seqE [push_slice (shrunk_data (slices T) (remaining_bits T pre) None key),
                  if get_cont then push_var (Item_Continuation (with_code v)) else push_slice v,
                  push_slice suffix,
                  whenE (bit_set how D_RET) (push_bool True),
                  whenE get_cont (jump_to_value T how)]
        | None \<Rightarrow>
            if bit_set how D_RET \<or> get_cont
            then thenE (bindE pop_var push_item) (whenE (bit_set how D_RET) (push_bool False))
            else errE CellUnderflow)))))"

definition execute_dictpushconst :: "('c, 's, 'b, 'h) ton \<Rightarrow> ('c, 's, 'b, 'h) handler" where
  "execute_dictpushconst T = thenE (load_opts T ''DICTPUSHCONST'' (Opt_Dictionary 13 10)) (bindE cmd_slice (\<lambda>sl.
     if remaining_references T sl = 0 then errE InvalidOpcode
     else bindE (liftE (slice_reference T sl 0)) (\<lambda>c.
       thenE (push_item (Item_Cell c)) (bindE cmd_length push_nat))))"

definition load_dict :: "('c, 's, 'b, 'h) ton \<Rightarrow> string \<Rightarrow> 8 word \<Rightarrow> ('c, 's, 'b, 'h) handler" where
  "load_dict T name how = thenE (load T name) (thenE (fetch_stack 1) (bindE (slice_var 0) (\<lambda>s.
     bindE (case get_dictionary_opt T s of
        (Some d, s') \<Rightarrow>
          thenE (if bit_set how D_SLC then push_slice d
                 else whenE (bit_set how D_DICT)
                   (if is_empty_root (slices T) d then push_item Item_None
                    else bindE (liftE (slice_reference T d 0)) (\<lambda>c. push_item (Item_Cell c))))
            (returnE (False, s'))
      | (None, _) \<Rightarrow> returnE (True, s)) (\<lambda>(missing, s).
     thenE (whenE (bit_set how D_REST) (push_slice s))
       (if bit_set how D_QUIET then push_bool (\<not> missing) else guardE (\<not> missing) CellUnderflow)))))"

definition subdict ::
  "('c, 's, 'b, 'h) ton \<Rightarrow> string \<Rightarrow> ('c, 's, 'b) key_reader \<Rightarrow>
   ('h \<Rightarrow> 's \<Rightarrow> ('c, 's, 'b, 'h) gas_consumer \<Rightarrow> ('c, 's, 'b, 'h, 'h) action) \<Rightarrow> ('c, 's, 'b, 'h) handler" where
  "subdict T name keyreader into = thenE (load T name) (thenE (fetch_stack 4)
     (bindE (nat_var 1023 0) (\<lambda>nbits. bindE (dict_var T nbits) (\<lambda>d. bindE (nat_var nbits 2) (\<lambda>lbits.
      bindE (key_var 3 keyreader lbits) (\<lambda>key. bindE (into d key (gas_consumer_of T)) (push_dict T)))))))"

section \<open>The instructions\<close>

definition dict_key_handlers :: "('c, 's, 'b, 'h) ton \<Rightarrow> ('c, 's, 'b, 'h) named_handlers" where
  "dict_key_handlers T = [
     (''execute_dictadd'', dict T ''DICTADD'' (keyreader_from_slice T) (D_INV OR D_RET OR D_SET) (valwriter_add_slice T)),
     (''execute_dictaddb'', dict T ''DICTADDB'' (keyreader_from_slice T) (D_CNV OR D_INV OR D_RET OR D_SET) (valwriter_add_builder T)),
     (''execute_dictaddget'', dict T ''DICTADDGET'' (keyreader_from_slice T) (D_INV OR D_SETGET) (valwriter_add_slice T)),
     (''execute_dictaddgetb'', dict T ''DICTADDGETB'' (keyreader_from_slice T) (D_CNV OR D_INV OR D_SETGET) (valwriter_add_builder T)),
     (''execute_dictaddgetref'', dict T ''DICTADDGETREF'' (keyreader_from_slice T) (D_INV OR D_SETGET) (valwriter_add_ref T)),
     (''execute_dictaddref'', dict T ''DICTADDREF'' (keyreader_from_slice T) (D_INV OR D_RET OR D_SET) (valwriter_add_ref_without_unref T)),
     (''execute_dictdel'', dict T ''DICTDEL'' (keyreader_from_slice T) (D_DEL OR D_RET) (valwriter_remove_slice T)),
     (''execute_dictdelget'', dict T ''DICTDELGET'' (keyreader_from_slice T) (D_DEL OR D_GET OR D_RET) (valwriter_remove_slice T)),
     (''execute_dictdelgetref'', dict T ''DICTDELGETREF'' (keyreader_from_slice T) (D_DEL OR D_GET OR D_RET) (valwriter_remove_ref T)),
     (''execute_dictget'', dict T ''DICTGET'' (keyreader_from_slice T) (D_GET OR D_RET) (valreader_from_slice T)),
     (''execute_dictgetnext'', dictiter T ''DICTGETNEXT'' (D_NEXT OR D_SLC)),
     (''execute_dictgetnexteq'', dictiter T ''DICTGETNEXTEQ'' (D_NEXT OR D_SAME OR D_SLC)),
     (''execute_dictgetprev'', dictiter T ''DICTGETPREV'' (D_PREV OR D_SLC)),
     (''execute_dictgetpreveq'', dictiter T ''DICTGETPREVEQ'' (D_PREV OR D_SAME OR D_SLC)),
     (''execute_dictgetref'', dict T ''DICTGETREF'' (keyreader_from_slice T) (D_GET OR D_RET) (valreader_from_ref T))]"

definition dict_int_handlers :: "('c, 's, 'b, 'h) ton \<Rightarrow> ('c, 's, 'b, 'h) named_handlers" where
  "dict_int_handlers T = [
     (''execute_dictiadd'', dict T ''DICTIADD'' (keyreader_from_int T) (D_INV OR D_RET OR D_SET) (valwriter_add_slice T)),
     (''execute_dictiaddb'', dict T ''DICTIADDB'' (keyreader_from_int T) (D_CNV OR D_INV OR D_RET OR D_SET) (valwriter_add_builder T)),
     (''execute_dictiaddget'', dict T ''DICTIADDGET'' (keyreader_from_int T) (D_INV OR D_SETGET) (valwriter_add_slice T)),
     (''execute_dictiaddgetb'', dict T ''DICTIADDGETB'' (keyreader_from_int T) (D_CNV OR D_INV OR D_SETGET) (valwriter_add_builder T)),
     (''execute_dictiaddgetref'', dict T ''DICTIADDGETREF'' (keyreader_from_int T) (D_INV OR D_SETGET) (valwriter_add_ref T)),
     (''execute_dictiaddref'', dict T ''DICTIADDREF'' (keyreader_from_int T) (D_INV OR D_RET OR D_SET) (valwriter_add_ref_without_unref T)),
     (''execute_dictidel'', dict T ''DICTIDEL'' (keyreader_from_int T) (D_DEL OR D_RET) (valwriter_remove_slice T)),
     (''execute_dictidelget'', dict T ''DICTIDELGET'' (keyreader_from_int T) (D_DEL OR D_GET OR D_RET) (valwriter_remove_slice T)),
     (''execute_dictidelgetref'', dict T ''DICTIDELGETREF'' (keyreader_from_int T) (D_DEL OR D_GET OR D_RET) (valwriter_remove_ref T)),
     (''execute_dictiget'', dict T ''DICTIGET'' (keyreader_from_int T) (D_GET OR D_RET) (valreader_from_slice T)),
     (''execute_dictigetnext'', dictiter T ''DICTIGETNEXT'' (D_SIGN OR D_NEXT)),
     (''execute_dictigetnexteq'', dictiter T ''DICTIGETNEXTEQ'' (D_SIGN OR D_NEXT OR D_SAME)),
     (''execute_dictigetprev'', dictiter T ''DICTIGETPREV'' (D_SIGN OR D_PREV)),
     (''execute_dictigetpreveq'', dictiter T ''DICTIGETPREVEQ'' (D_SIGN OR D_PREV OR D_SAME)),
     (''execute_dictigetref'', dict T ''DICTIGETREF'' (keyreader_from_int T) (D_GET OR D_RET) (valreader_from_ref T))]"

definition dict_int_set_handlers :: "('c, 's, 'b, 'h) ton \<Rightarrow> ('c, 's, 'b, 'h) named_handlers" where
  "dict_int_set_handlers T = [
     (''execute_dictimax'', dict_find T ''DICTIMAX'' (D_MAX OR D_SIGN)),
     (''execute_dictimaxref'', dict_find T ''DICTIMAXREF'' (D_MAX OR D_REF OR D_SIGN)),
     (''execute_dictimin'', dict_find T ''DICTIMIN'' (D_MIN OR D_SIGN)),
     (''execute_dictiminref'', dict_find T ''DICTIMINREF'' (D_MIN OR D_REF OR D_SIGN)),
     (''execute_dictiremmax'', dict_find T ''DICTIREMMAX'' (D_DEL OR D_MAX OR D_SIGN)),
     (''execute_dictiremmaxref'', dict_find T ''DICTIREMMAXREF'' (D_DEL OR D_MAX OR D_REF OR D_SIGN)),
     (''execute_dictiremmin'', dict_find T ''DICTIREMMIN'' (D_DEL OR D_MIN OR D_SIGN)),
     (''execute_dictiremminref'', dict_find T ''DICTIREMMINREF'' (D_DEL OR D_MIN OR D_REF OR D_SIGN)),
     (''execute_dictireplace'', dict T ''DICTIREPLACE'' (keyreader_from_int T) (D_RET OR D_SET) (valwriter_replace_slice T)),
     (''execute_dictireplaceb'', dict T ''DICTIREPLACEB'' (keyreader_from_int T) (D_CNV OR D_RET OR D_SET) (valwriter_replace_builder T)),
     (''execute_dictireplaceget'', dict T ''DICTIREPLACEGET'' (keyreader_from_int T) D_SETGET (valwriter_replace_slice T)),
     (''execute_dictireplacegetb'', dict T ''DICTIREPLACEGETB'' (keyreader_from_int T) (D_CNV OR D_SETGET) (valwriter_replace_builder T)),
     (''execute_dictireplacegetref'', dict T ''DICTIREPLACEGETREF'' (keyreader_from_int T) D_SETGET (valwriter_replace_ref T)),
     (''execute_dictireplaceref'', dict T ''DICTIREPLACEREF'' (keyreader_from_int T) (D_RET OR D_SET) (valwriter_replace_ref T)),
     (''execute_dictiset'', dict T ''DICTISET'' (keyreader_from_int T) D_SET (valwriter_to_slice T)),
     (''execute_dictisetb'', dict T ''DICTISETB'' (keyreader_from_int T) (D_CNV OR D_SET) (valwriter_to_builder T)),
     (''execute_dictisetget'', dict T ''DICTISETGET'' (keyreader_from_int T) D_SETGET (valwriter_to_slice T)),
     (''execute_dictisetgetb'', dict T ''DICTISETGETB'' (keyreader_from_int T) (D_CNV OR D_SETGET) (valwriter_to_builder T)),
     (''execute_dictisetgetref'', dict T ''DICTISETGETREF'' (keyreader_from_int T) D_SETGET (valwriter_to_ref T)),
     (''execute_dictisetref'', dict T ''DICTISETREF'' (keyreader_from_int T) D_SET (valwriter_to_ref T))]"

definition dict_key_set_handlers :: "('c, 's, 'b, 'h) ton \<Rightarrow> ('c, 's, 'b, 'h) named_handlers" where
  "dict_key_set_handlers T = [
     (''execute_dictmax'', dict_find T ''DICTMAX'' (D_MAX OR D_SLC)),
     (''execute_dictmaxref'', dict_find T ''DICTMAXREF'' (D_MAX OR D_REF OR D_SLC)),
     (''execute_dictmin'', dict_find T ''DICTMIN'' (D_MIN OR D_SLC)),
     (''execute_dictminref'', dict_find T ''DICTMINREF'' (D_MIN OR D_REF OR D_SLC)),
     (''execute_dictremmax'', dict_find T ''DICTREMMAX'' (D_DEL OR D_MAX OR D_SLC)),
     (''execute_dictremmaxref'', dict_find T ''DICTREMMAXREF'' (D_DEL OR D_MAX OR D_REF OR D_SLC)),
     (''execute_dictremmin'', dict_find T ''DICTREMMIN'' (D_DEL OR D_MIN OR D_SLC)),
     (''execute_dictremminref'', dict_find T ''DICTREMMINREF'' (D_DEL OR D_MIN OR D_REF OR D_SLC)),
     (''execute_dictreplace'', dict T ''DICTREPLACE'' (keyreader_from_slice T) (D_RET OR D_SET) (valwriter_replace_slice T)),
     (''execute_dictreplaceb'', dict T ''DICTREPLACEB'' (keyreader_from_slice T) (D_CNV OR D_RET OR D_SET) (valwriter_replace_builder T)),
     (''execute_dictreplaceget'', dict T ''DICTREPLACEGET'' (keyreader_from_slice T) D_SETGET (valwriter_replace_slice T)),
     (''execute_dictreplacegetb'', dict T ''DICTREPLACEGETB'' (keyreader_from_slice T) (D_CNV OR D_SETGET) (valwriter_replace_builder T)),
     (''execute_dictreplacegetref'', dict T ''DICTREPLACEGETREF'' (keyreader_from_slice T) D_SETGET (valwriter_replace_ref T)),
     (''execute_dictreplaceref'', dict T ''DICTREPLACEREF'' (keyreader_from_slice T) (D_RET OR D_SET) (valwriter_replace_ref T)),
     (''execute_dictset'', dict T ''DICTSET'' (keyreader_from_slice T) D_SET (valwriter_to_slice T)),
     (''execute_dictsetb'', dict T ''DICTSETB'' (keyreader_from_slice T) (D_CNV OR D_SET) (valwriter_to_builder T)),
     (''execute_dictsetget'', dict T ''DICTSETGET'' (keyreader_from_slice T) D_SETGET (valwriter_to_slice T)),
     (''execute_dictsetgetb'', dict T ''DICTSETGETB'' (keyreader_from_slice T) (D_CNV OR D_SETGET) (valwriter_to_builder T)),
     (''execute_dictsetgetref'', dict T ''DICTSETGETREF'' (keyreader_from_slice T) D_SETGET (valwriter_to_ref T)),
     (''execute_dictsetref'', dict T ''DICTSETREF'' (keyreader_from_slice T) D_SET (valwriter_to_ref T))]"

definition dict_uint_handlers :: "('c, 's, 'b, 'h) ton \<Rightarrow> ('c, 's, 'b, 'h) named_handlers" where
  "dict_uint_handlers T = [
     (''execute_dictuadd'', dict T ''DICTUADD'' (keyreader_from_uint T) (D_INV OR D_RET OR D_SET) (valwriter_add_slice T)),
     (''execute_dictuaddb'', dict T ''DICTUADDB'' (keyreader_from_uint T) (D_CNV OR D_INV OR D_RET OR D_SET) (valwriter_add_builder T)),
     (''execute_dictuaddget'', dict T ''DICTUADDGET'' (keyreader_from_uint T) (D_INV OR D_SETGET) (valwriter_add_slice T)),
     (''execute_dictuaddgetb'', dict T ''DICTUADDGETB'' (keyreader_from_uint T) (D_CNV OR D_INV OR D_SETGET) (valwriter_add_builder T)),
     (''execute_dictuaddgetref'', dict T ''DICTUADDGETREF'' (keyreader_from_uint T) (D_INV OR D_SETGET) (valwriter_add_ref T)),
     (''execute_dictuaddref'', dict T ''DICTUADDREF'' (keyreader_from_uint T) (D_INV OR D_RET OR D_SET) (valwriter_add_ref_without_unref T)),
     (''execute_dictudel'', dict T ''DICTUDEL'' (keyreader_from_uint T) (D_DEL OR D_RET) (valwriter_remove_slice T)),
     (''execute_dictudelget'', dict T ''DICTUDELGET'' (keyreader_from_uint T) (D_DEL OR D_GET OR D_RET) (valwriter_remove_slice T)),
     (''execute_dictudelgetref'', dict T ''DICTUDELGETREF'' (keyreader_from_uint T) (D_DEL OR D_GET OR D_RET) (valwriter_remove_ref T)),
     (''execute_dictuget'', dict T ''DICTUGET'' (keyreader_from_uint T) (D_GET OR D_RET) (valreader_from_slice T)),
     (''execute_dictugetnext'', dictiter T ''DICTUGETNEXT'' D_NEXT),
     (''execute_dictugetnexteq'', dictiter T ''DICTUGETNEXTEQ'' (D_NEXT OR D_SAME)),
     (''execute_dictugetprev'', dictiter T ''DICTUGETPREV'' D_PREV),
     (''execute_dictugetpreveq'', dictiter T ''DICTUGETPREVEQ'' (D_PREV OR D_SAME)),
     (''execute_dictugetref'', dict T ''DICTUGETREF'' (keyreader_from_uint T) (D_GET OR D_RET) (valreader_from_ref T))]"

definition dict_uint_set_handlers :: "('c, 's, 'b, 'h) ton \<Rightarrow> ('c, 's, 'b, 'h) named_handlers" where
  "dict_uint_set_handlers T = [
     (''execute_dictumax'', dict_find T ''DICTUMAX'' D_MAX),
     (''execute_dictumaxref'', dict_find T ''DICTUMAXREF'' (D_MAX OR D_REF)),
     (''execute_dictumin'', dict_find T ''DICTUMIN'' D_MIN),
     (''execute_dictuminref'', dict_find T ''DICTUMINREF'' (D_MIN OR D_REF)),
     (''execute_dicturemmax'', dict_find T ''DICTUREMMAX'' (D_DEL OR D_MAX)),
     (''execute_dicturemmaxref'', dict_find T ''DICTUREMMAXREF'' (D_DEL OR D_MAX OR D_REF)),
     (''execute_dicturemmin'', dict_find T ''DICTUREMMIN'' (D_DEL OR D_MIN)),
     (''execute_dicturemminref'', dict_find T ''DICTUREMMINREF'' (D_DEL OR D_MIN OR D_REF)),
     (''execute_dictureplace'', dict T ''DICTUREPLACE'' (keyreader_from_uint T) (D_RET OR D_SET) (valwriter_replace_slice T)),
     (''execute_dictureplaceb'', dict T ''DICTUREPLACEB'' (keyreader_from_uint T) (D_CNV OR D_RET OR D_SET) (valwriter_replace_builder T)),
     (''execute_dictureplaceget'', dict T ''DICTUREPLACEGET'' (keyreader_from_uint T) D_SETGET (valwriter_replace_slice T)),
     (''execute_dictureplacegetb'', dict T ''DICTUREPLACEGETB'' (keyreader_from_uint T) (D_CNV OR D_SETGET) (valwriter_replace_builder T)),
     (''execute_dictureplacegetref'', dict T ''DICTUREPLACEGETREF'' (keyreader_from_uint T) D_SETGET (valwriter_replace_ref T)),
     (''execute_dictureplaceref'', dict T ''DICTUREPLACEREF'' (keyreader_from_uint T) (D_RET OR D_SET) (valwriter_replace_ref T)),
     (''execute_dictuset'', dict T ''DICTUSET'' (keyreader_from_uint T) D_SET (valwriter_to_slice T)),
     (''execute_dictusetb'', dict T ''DICTUSETB'' (keyreader_from_uint T) (D_CNV OR D_SET) (valwriter_to_builder T)),
     (''execute_dictusetget'', dict T ''DICTUSETGET'' (keyreader_from_uint T) D_SETGET (valwriter_to_slice T)),
     (''execute_dictusetgetb'', dict T ''DICTUSETGETB'' (keyreader_from_uint T) (D_CNV OR D_SETGET) (valwriter_to_builder T)),
     (''execute_dictusetgetref'', dict T ''DICTUSETGETREF'' (keyreader_from_uint T) D_SETGET (valwriter_to_ref T)),
     (''execute_dictusetref'', dict T ''DICTUSETREF'' (keyreader_from_uint T) D_SET (valwriter_to_ref T))]"

definition dict_jump_handlers :: "('c, 's, 'b, 'h) ton \<Rightarrow> ('c, 's, 'b, 'h) named_handlers" where
  "dict_jump_handlers T = [
     (''execute_dictigetjmp'', dictcont T ''DICTIGETJMP'' (keyreader_from_int T) D_SWITCH),
     (''execute_dictigetjmpz'', dictcont T ''DICTIGETJMPZ'' (keyreader_from_int T) (D_SWITCH OR D_STAY)),
     (''execute_dictugetjmp'', dictcont T ''DICTUGETJMP'' (keyreader_from_uint T) D_SWITCH),
     (''execute_dictugetjmpz'', dictcont T ''DICTUGETJMPZ'' (keyreader_from_uint T) (D_SWITCH OR D_STAY)),
     (''execute_dictigetexec'', dictcont T ''DICTIGETEXEC'' (keyreader_from_int T) D_CALLX),
     (''execute_dictigetexecz'', dictcont T ''DICTIGETEXECZ'' (keyreader_from_int T) (D_CALLX OR D_STAY)),
     (''execute_dictugetexec'', dictcont T ''DICTUGETEXEC'' (keyreader_from_uint T) D_CALLX),
     (''execute_dictugetexecz'', dictcont T ''DICTUGETEXECZ'' (keyreader_from_uint T) (D_CALLX OR D_STAY)),
     (''execute_pfxdictset'', pfxdictset T ''PFXDICTSET'' 0),
     (''execute_pfxdictreplace'', pfxdictset T ''PFXDICTREPLACE'' D_GET),
     (''execute_pfxdictadd'', pfxdictset T ''PFXDICTADD'' (D_INV OR D_GET)),
     (''execute_pfxdictdel'', pfxdictset T ''PFXDICTDEL'' D_DEL),
     (''execute_pfxdictgetq'', pfxdictget T ''PFXDICTGETQ'' D_RET),
     (''execute_pfxdictget'', pfxdictget T ''PFXDICTGET'' 0),
     (''execute_pfxdictgetjmp'', pfxdictget T ''PFXDICTGETJMP'' D_SWITCH),
     (''execute_pfxdictgetexec'', pfxdictget T ''PFXDICTGETEXEC'' D_CALLX),
     (''execute_pfxdictswitch'', pfxdictget T ''PFXDICTSWITCH'' (D_CMD OR D_SWITCH))]"

definition load_dict_handlers :: "('c, 's, 'b, 'h) ton \<Rightarrow> ('c, 's, 'b, 'h) named_handlers" where
  "load_dict_handlers T = [
     (''execute_skipdict'', load_dict T ''SKIPDICT'' D_REST),
     (''execute_lddict'', load_dict T ''LDDICT'' (D_REST OR D_DICT)),
     (''execute_plddict'', load_dict T ''PLDDICT'' D_DICT),
     (''execute_lddicts'', load_dict T ''LDDICTS'' (D_REST OR D_SLC)),
     (''execute_plddicts'', load_dict T ''PLDDICTS'' D_SLC),
     (''execute_lddictq'', load_dict T ''LDDICTQ'' (D_REST OR D_DICT OR D_QUIET)),
     (''execute_plddictq'', load_dict T ''PLDDICTQ'' (D_DICT OR D_QUIET))]"

definition subdict_handlers :: "('c, 's, 'b, 'h) ton \<Rightarrow> ('c, 's, 'b, 'h) named_handlers" where
  "subdict_handlers T = [
     (''execute_subdictget'', subdict T ''SUBDICTGET'' (keyreader_from_slice T) (into_subtree_with_prefix (searches T))),
     (''execute_subdictiget'', subdict T ''SUBDICTIGET'' (keyreader_from_int T) (into_subtree_with_prefix (searches T))),
     (''execute_subdictuget'', subdict T ''SUBDICTUGET'' (keyreader_from_uint T) (into_subtree_with_prefix (searches T))),
     (''execute_subdictrpget'', subdict T ''SUBDICTRPGET'' (keyreader_from_slice T) (into_subtree_without_prefix (searches T))),
     (''execute_subdictirpget'', subdict T ''SUBDICTIRPGET'' (keyreader_from_int T) (into_subtree_without_prefix (searches T))),
     (''execute_subdicturpget'', subdict T ''SUBDICTURPGET'' (keyreader_from_uint T) (into_subtree_without_prefix (searches T))),
     (''execute_dictgetoptref'', dict T ''DICTGETOPTREF'' (keyreader_from_slice T) D_GET (valreader_from_refopt T)),
     (''execute_dictigetoptref'', dict T ''DICTIGETOPTREF'' (keyreader_from_int T) D_GET (valreader_from_refopt T)),
     (''execute_dictugetoptref'', dict T ''DICTUGETOPTREF'' (keyreader_from_uint T) D_GET (valreader_from_refopt T)),
     (''execute_dictsetgetoptref'', dict T ''DICTSETGETOPTREF'' (keyreader_from_slice T) (D_SET OR D_GET) (valwriter_add_or_remove_refopt T)),
     (''execute_dictisetgetoptref'', dict T ''DICTISETGETOPTREF'' (keyreader_from_int T) (D_SET OR D_GET) (valwriter_add_or_remove_refopt T)),
     (''execute_dictusetgetoptref'', dict T ''DICTUSETGETOPTREF'' (keyreader_from_uint T) (D_SET OR D_GET) (valwriter_add_or_remove_refopt T))]"

definition dictionary_handlers :: "('c, 's, 'b, 'h) ton \<Rightarrow> ('c, 's, 'b, 'h) named_handlers" where
  "dictionary_handlers T = dict_key_handlers T @ dict_int_handlers T @ dict_int_set_handlers T @ dict_key_set_handlers T @
     dict_uint_handlers T @ dict_uint_set_handlers T @ [(''execute_dictpushconst'', execute_dictpushconst T)] @
     dict_jump_handlers T @ load_dict_handlers T @ subdict_handlers T"

lemmas dict_handler_defs = dict_key_handlers_def dict_int_handlers_def dict_int_set_handlers_def
  dict_key_set_handlers_def dict_uint_handlers_def dict_uint_set_handlers_def dict_jump_handlers_def
  load_dict_handlers_def subdict_handlers_def

end
