(* ===== verification/Exec_Blockchain.thy ===== *)
theory Exec_Blockchain
  imports Exec_Config Exec_Slices
begin

text \<open>
  The instructions that emit output actions and that parse addresses of messages
  (\<open>executor/blockchain.rs\<close>), with the serialization of an amount (\<open>executor/mod.rs\<close>).  The numbers of
  the actions and the addresses of contracts belong to the crate of blocks.
\<close>

section \<open>Amounts\<close>

definition serialize_grams :: "('c, 's, 'b, 'h) ton \<Rightarrow> nat \<Rightarrow> ('c, 's, 'b, 'b) ext_result" where
  "serialize_grams T grams =
     (let bytes = 16 - (128 - nat_bits grams) div 8 in
      bindR (with_raw (builders T) [push_bit 4 (word_of_nat bytes)] 4) (\<lambda>b.
      bindR (step_object (append_raw (builders T) (octets_of bytes (int grams)) (bytes * 8)) b) (\<lambda>(_, b). Inr b)))"

definition serialize_currency_collection ::
  "('c, 's, 'b, 'h) ton \<Rightarrow> nat \<Rightarrow> 'c option \<Rightarrow> ('c, 's, 'b, 'b) ext_result" where
  "serialize_currency_collection T grams other = bindR (serialize_grams T grams) (\<lambda>b.
     case other of
       Some c \<Rightarrow> bindR (step_object (append_bits (builders T) 1 1) b) (\<lambda>(_, b).
         bindR (step_object (checked_append_reference (builders T) c) b) (\<lambda>(_, b). Inr b))
     | None \<Rightarrow> bindR (step_object (append_bits (builders T) 0 1) b) (\<lambda>(_, b). Inr b))"

section \<open>Output actions\<close>

definition add_action ::
  "('c, 's, 'b, 'h) ton \<Rightarrow> nat \<Rightarrow> 'c option \<Rightarrow> 'b \<Rightarrow> ('c, 's, 'b, 'h) handler" where
  "add_action T action_id c suffix = bindE (ctrl_get 5) (\<lambda>c5. case c5 of
     None \<Rightarrow> throwE (CodeError TypeCheckError)
   | Some x \<Rightarrow> bindE (liftE (as_cell x)) (\<lambda>prev.
       bindE (with_object (checked_append_reference (builders T) prev) (builder_new (builders T))) (\<lambda>(_, b).
       bindE (with_object (append_u32 (blocks T) action_id) b) (\<lambda>(_, b).
       bindE (with_object (append_builder (builders T) suffix) b) (\<lambda>(_, b).
       bindE (case c of None \<Rightarrow> returnE b
              | Some c \<Rightarrow> bindE (with_object (checked_append_reference (builders T) c) b) (\<lambda>(_, b). returnE b)) (\<lambda>b.
       bindE (finalize_cell T b) (\<lambda>a. thenE (ctrls_put 5 (Item_Cell a)) (returnE ()))))))))"

definition byte_builder :: "('c, 's, 'b, 'h) ton \<Rightarrow> int \<Rightarrow> ('c, 's, 'b, 'h, 'b) action" where
  "byte_builder T n = liftE (with_raw (builders T) [word_of_int n] 8)"

definition execute_changelib :: "('c, 's, 'b, 'h) ton \<Rightarrow> ('c, 's, 'b, 'h) handler" where
  "execute_changelib T = thenE (check_capability T CapSetLibCode) (thenE (load T ''CHANGELIB'') (thenE (fetch_stack 2)
     (bindE (ranged_var I32 0 2 0) (\<lambda>x.
      bindE (int_var 1) (\<lambda>h.
      bindE (liftE (integer_as_builder T UnsignedIntegerBigEndianEncoding 256 h)) (\<lambda>hash.
      bindE (byte_builder T (x * 2)) (\<lambda>suffix.
      bindE (with_object (append_builder (builders T) hash) suffix) (\<lambda>(_, suffix).
        add_action T (ACTION_CHANGE_LIB (blocks T)) None suffix))))))))"

definition execute_sendrawmsg :: "('c, 's, 'b, 'h) ton \<Rightarrow> ('c, 's, 'b, 'h) handler" where
  "execute_sendrawmsg T = thenE (load T ''SENDRAWMSG'') (thenE (fetch_stack 2)
     (bindE (ranged_var U8 0 255 0) (\<lambda>x. bindE (cell_var 1) (\<lambda>c. bindE (byte_builder T x) (\<lambda>suffix.
        add_action T (ACTION_SEND_MSG (blocks T)) (Some c) suffix)))))"

definition execute_setcode :: "('c, 's, 'b, 'h) ton \<Rightarrow> ('c, 's, 'b, 'h) handler" where
  "execute_setcode T = thenE (load T ''SETCODE'') (thenE (fetch_stack 1)
     (bindE (cell_var 0) (\<lambda>c. add_action T (ACTION_SET_CODE (blocks T)) (Some c) (builder_new (builders T)))))"

definition execute_setlibcode :: "('c, 's, 'b, 'h) ton \<Rightarrow> ('c, 's, 'b, 'h) handler" where
  "execute_setlibcode T = thenE (check_capability T CapSetLibCode) (thenE (load T ''SETLIBCODE'') (thenE (fetch_stack 2)
     (bindE (ranged_var I32 0 2 0) (\<lambda>x. bindE (cell_var 1) (\<lambda>c. bindE (byte_builder T (x * 2 + 1)) (\<lambda>suffix.
        add_action T (ACTION_CHANGE_LIB (blocks T)) (Some c) suffix))))))"

definition FLAG_COPYLEFTED :: u64 where "FLAG_COPYLEFTED = 1"

text \<open>The flag is set before the instruction is decoded and its operands are checked.\<close>

definition execute_copyleft :: "('c, 's, 'b, 'h) ton \<Rightarrow> ('c, 's, 'b, 'h) handler" where
  "execute_copyleft T = thenE (check_capability T CapCopyleft) (bindE (check_or_set_flags FLAG_COPYLEFTED) (\<lambda>seen.
     if seen then throwE (CodeError IllegalInstruction)
     else thenE (load T ''COPYLEFT'') (bindE (smci_param 8) (\<lambda>x. bindE (liftE (as_slice x)) (\<lambda>addr.
       bindE (liftE (is_masterchain (blocks T) addr)) (\<lambda>masterchain. thenE (fetch_stack 2)
         (if masterchain then returnE ()
          else bindE (ranged_var I32 0 255 0) (\<lambda>n. bindE (slice_var 1) (\<lambda>s.
            if remaining_bits T s \<noteq> 32 * 8 then throwE (CodeError TypeCheckError)
            else bindE (with_object (append_raw (builders T) [word_of_int n] 8) (builder_new (builders T))) (\<lambda>(_, b).
              bindE (with_object (append_bytestring (blocks T) s) b) (\<lambda>(_, b).
                add_action T (ACTION_COPYLEFT (blocks T)) None b)))))))))))"

definition grams_var :: "nat \<Rightarrow> ('c, 's, 'b, 'h, nat) action" where
  "grams_var i = bindE (ranged_var U128 0 (2 ^ 120 - 1) i) (\<lambda>x. returnE (nat x))"

definition execute_rawreserve :: "('c, 's, 'b, 'h) ton \<Rightarrow> ('c, 's, 'b, 'h) handler" where
  "execute_rawreserve T = thenE (load T ''RAWRESERVE'') (thenE (fetch_stack 2)
     (bindE (ranged_var U8 0 15 0) (\<lambda>y. bindE (byte_builder T y) (\<lambda>suffix. bindE (grams_var 1) (\<lambda>x.
      bindE (liftE (serialize_currency_collection T x None)) (\<lambda>cur.
      bindE (with_object (append_builder (builders T) cur) suffix) (\<lambda>(_, suffix).
        add_action T (ACTION_RESERVE (blocks T)) None suffix)))))))"

definition execute_rawreservex :: "('c, 's, 'b, 'h) ton \<Rightarrow> ('c, 's, 'b, 'h) handler" where
  "execute_rawreservex T = thenE (load T ''RAWRESERVEX'') (thenE (fetch_stack 3)
     (bindE (ranged_var U8 0 15 0) (\<lambda>y. bindE (byte_builder T y) (\<lambda>suffix.
      bindE (cmd_var 1) (\<lambda>d. bindE (liftE (as_dict d)) (\<lambda>other. bindE (grams_var 2) (\<lambda>x.
      bindE (liftE (serialize_currency_collection T x other)) (\<lambda>cur.
      bindE (with_object (append_builder (builders T) cur) suffix) (\<lambda>(_, suffix).
        add_action T (ACTION_RESERVE (blocks T)) None suffix)))))))))"

section \<open>Addresses\<close>

definition read_rewrite_pfx :: "('c, 's, 'b, 'h) ton \<Rightarrow> 's \<Rightarrow> ('c, 's, 'b, 's option \<times> 's) ext_result" where
  "read_rewrite_pfx T s = bindR (step_object (get_next_bit (slices T)) s) (\<lambda>(b, s).
     if b then bindR (step_object (get_next_int T 5) s) (\<lambda>(len, s).
          bindR (step_object (get_next_slice (slices T) len) s) (\<lambda>(p, s). Inr (Some p, s)))
     else Inr (None, s))"

definition prefix_item :: "'s option \<Rightarrow> ('c, 's, 'b) stack_item" where
  "prefix_item p = (case p of Some s \<Rightarrow> Item_Slice s | None \<Rightarrow> Item_None)"

text \<open>The parts of an address, and the rest of the slice.  The type of an address is read as two
  bits, so the last branch is the type 3.\<close>

definition parse_address ::
  "('c, 's, 'b, 'h) ton \<Rightarrow> 's \<Rightarrow> ('c, 's, 'b, ('c, 's, 'b) stack_item list \<times> 's) ext_result" where
  "parse_address T s = bindR (step_object (get_next_int T 2) s) (\<lambda>(n, s).
     let addr_type = n mod 2 ^ 8; t = item_int (int addr_type) in
     if addr_type mod 4 = 0 then Inr ([t], s)
     else if addr_type mod 4 = 1 then
       bindR (step_object (get_next_int T 9) s) (\<lambda>(len, s).
       bindR (step_object (get_next_slice (slices T) len) s) (\<lambda>(a, s). Inr ([t, Item_Slice a], s)))
     else if addr_type mod 4 = 2 then
       bindR (read_rewrite_pfx T s) (\<lambda>(p, s).
       bindR (step_object (get_next_byte T) s) (\<lambda>(wc, s).
       bindR (step_object (get_next_slice (slices T) 256) s) (\<lambda>(a, s).
         Inr ([t, prefix_item p, item_int (sint wc), Item_Slice a], s))))
     else
       bindR (read_rewrite_pfx T s) (\<lambda>(p, s).
       bindR (step_object (get_next_int T 9) s) (\<lambda>(len, s).
       bindR (step_object (get_next_i32 (blocks T)) s) (\<lambda>(wc, s).
       bindR (step_object (get_next_slice (slices T) len) s) (\<lambda>(a, s).
         Inr ([t, prefix_item p, item_int wc, Item_Slice a], s))))))"

definition execute_ldmsgaddr :: "('c, 's, 'b, 'h) ton \<Rightarrow> behavior \<Rightarrow> ('c, 's, 'b, 'h) handler" where
  "execute_ldmsgaddr T B = thenE (load T (if quiet B then ''LDMSGADDRQ'' else ''LDMSGADDR'')) (thenE (fetch_stack 1)
     (bindE (slice_var 0) (\<lambda>s. case parse_address T s of
        Inr (_, remainder) \<Rightarrow> thenE (push_slice (shrink_by_remainder (blocks T) s remainder)) (thenE (push_slice remainder)
          (whenE (quiet B) (push_item (item_boolean True))))
      | Inl _ \<Rightarrow>
          if quiet B then bindE pop_var (\<lambda>v. thenE (push_item v) (push_item (item_boolean False)))
          else errE CellUnderflow)))"

text \<open>\<open>if let Ok(..)\<close> on an operation with the machine: an error is dropped, what was done before it
  stays; a panic and the end of the fuel are not errors.\<close>

definition attemptE :: "('c, 's, 'b, 'h, 'a) action \<Rightarrow> ('c, 's, 'b, 'h, 'a option) action" where
  "attemptE m = (\<lambda>e. case m e of
     (Inr x, e) \<Rightarrow> (Inr (Some x), e)
   | (Inl er, e) \<Rightarrow> if er = Panic \<or> er = OutOfFuel then (Inl er, e) else (Inr None, e))"

definition load_address ::
  "('c, 's, 'b, 'h) ton \<Rightarrow> behavior \<Rightarrow> string \<Rightarrow>
   (('c, 's, 'b) stack_item list \<Rightarrow> ('c, 's, 'b, 'h, ('c, 's, 'b) stack_item list) action) \<Rightarrow> ('c, 's, 'b, 'h) handler" where
  "load_address T B name op_addr = thenE (load T name) (thenE (fetch_stack 1) (bindE (slice_var 0) (\<lambda>s.
     bindE (case parse_address T s of
         Inl _ \<Rightarrow> returnE False
       | Inr (addr, _) \<Rightarrow> bindE (attemptE (op_addr addr)) (\<lambda>r. case r of
           None \<Rightarrow> returnE False
         | Some xs \<Rightarrow> thenE (push_items xs) (returnE True))) (\<lambda>result.
       if quiet B then push_item (item_boolean result)
       else guardE result CellUnderflow))))"

definition execute_parsemsgaddr :: "('c, 's, 'b, 'h) ton \<Rightarrow> behavior \<Rightarrow> ('c, 's, 'b, 'h) handler" where
  "execute_parsemsgaddr T B = load_address T B (if quiet B then ''PARSEMSGADDRQ'' else ''PARSEMSGADDR'')
     (\<lambda>xs. returnE [Item_Tuple xs])"

definition get_bigint :: "('c, 's, 'b, 'h) ton \<Rightarrow> 's \<Rightarrow> int" where
  "get_bigint T s = (let n = remaining_bits T s; bytes = get_bytestring (slices T) 0 s in
     if n = 0 then 0
     else if n < 256 then push_bit (256 - n) (from_bytes_be (bigint T) bytes)
     else from_bytes_be (bigint T) (take 32 bytes))"

definition rewrite_std ::
  "('c, 's, 'b, 'h) ton \<Rightarrow> behavior \<Rightarrow> ('c, 's, 'b) stack_item list \<Rightarrow> ('c, 's, 'b, ('c, 's, 'b) stack_item list) ext_result" where
  "rewrite_std T B xs =
     (if length xs = 4 then
        bindR (as_slice (xs ! 3)) (\<lambda>addr.
        bindR (if remaining_bits T addr = 256 then lift_code (integer_from (get_bigint T addr)) else err CellUnderflow) (\<lambda>y.
        bindR (case xs ! 1 of
            Item_Slice p \<Rightarrow> let n = remaining_bits T p in
              if n > 256 then err CellUnderflow
              else if n > 0 then
                bindR (lift_code (integer_from (get_bigint T p))) (\<lambda>prefix.
                bindR (lift_code (and_int B y (int_mask (256 - n)))) (\<lambda>y. lift_code (or_int B y prefix)))
              else Inr y
          | _ \<Rightarrow> Inr y) (\<lambda>y. Inr [xs ! 2, Item_Integer y])))
      else err CellUnderflow)"

definition execute_rewrite_std_addr :: "('c, 's, 'b, 'h) ton \<Rightarrow> behavior \<Rightarrow> ('c, 's, 'b, 'h) handler" where
  "execute_rewrite_std_addr T B = load_address T B (if quiet B then ''REWRITESTDADDRQ'' else ''REWRITESTDADDR'')
     (\<lambda>xs. liftE (rewrite_std T B xs))"

definition finalize_cell_and_load :: "('c, 's, 'b, 'h) ton \<Rightarrow> 'b \<Rightarrow> ('c, 's, 'b, 'h, 's) action" where
  "finalize_cell_and_load T b = bindE (finalize_cell T b) (\<lambda>c. load_hashed_cell T c True)"

definition rewrite_var ::
  "('c, 's, 'b, 'h) ton \<Rightarrow> ('c, 's, 'b) stack_item list \<Rightarrow> ('c, 's, 'b, 'h, ('c, 's, 'b) stack_item list) action" where
  "rewrite_var T xs =
     (if length xs = 4 then
        bindE (liftE (as_slice (xs ! 3))) (\<lambda>addr.
        bindE (case xs ! 1 of
            Item_Slice p \<Rightarrow> let n = remaining_bits T p in
              if n > remaining_bits T addr then errE CellUnderflow
              else if n > 0 then
                bindE (with_object (append_bytestring (blocks T) (shrink_data T n None addr)) (slice_as_builder (slices T) p))
                  (\<lambda>(_, b). finalize_cell_and_load T b)
              else returnE addr
          | _ \<Rightarrow> returnE addr) (\<lambda>addr. returnE [xs ! 2, Item_Slice addr]))
      else errE CellUnderflow)"

definition execute_rewrite_var_addr :: "('c, 's, 'b, 'h) ton \<Rightarrow> behavior \<Rightarrow> ('c, 's, 'b, 'h) handler" where
  "execute_rewrite_var_addr T B = load_address T B (if quiet B then ''REWRITEVARADDRQ'' else ''REWRITEVARADDR'')
     (rewrite_var T)"

definition blockchain_handlers :: "('c, 's, 'b, 'h) ton \<Rightarrow> ('c, 's, 'b, 'h) named_handlers" where
  "blockchain_handlers T = [
     (''execute_ldmsgaddr::<Signaling>'', execute_ldmsgaddr T Signaling),
     (''execute_ldmsgaddr::<Quiet>'', execute_ldmsgaddr T Quiet),
     (''execute_parsemsgaddr::<Signaling>'', execute_parsemsgaddr T Signaling),
     (''execute_parsemsgaddr::<Quiet>'', execute_parsemsgaddr T Quiet),
     (''execute_rewrite_std_addr::<Signaling>'', execute_rewrite_std_addr T Signaling),
     (''execute_rewrite_std_addr::<Quiet>'', execute_rewrite_std_addr T Quiet),
     (''execute_rewrite_var_addr::<Signaling>'', execute_rewrite_var_addr T Signaling),
     (''execute_rewrite_var_addr::<Quiet>'', execute_rewrite_var_addr T Quiet),
     (''execute_sendrawmsg'', execute_sendrawmsg T),
     (''execute_rawreserve'', execute_rawreserve T),
     (''execute_rawreservex'', execute_rawreservex T),
     (''execute_setcode'', execute_setcode T),
     (''execute_setlibcode'', execute_setlibcode T),
     (''execute_changelib'', execute_changelib T),
     (''execute_copyleft'', execute_copyleft T)]"

end
