(* ===== verification/Continuation_Cells.thy ===== *)
theory Continuation_Cells
  imports Exec_Tuple Exec_Deserialize
begin

text \<open>
  The cell formats of items, save lists and continuations (\<open>stack/mod.rs\<close>, \<open>stack/continuation.rs\<close>,
  \<open>stack/savelist.rs\<close>) and the instructions \<open>STCONT\<close> and \<open>LDCONT\<close> that use them.  The
  new format walks the item with explicit stacks and charges the machine for every cell; the old
  one is recursive and adds up a price that is charged at the end.  A stack of the source is a
  list whose head is its top.
\<close>

section \<open>Builders, slices and casts\<close>

fun appends :: "('b \<Rightarrow> ('c, 's, 'b, unit) ext_result \<times> 'b) list \<Rightarrow> 'b \<Rightarrow> ('c, 's, 'b, 'b) ext_result" where
  "appends [] b = Inr b"
| "appends (f # fs) b = (case f b of (Inl er, _) \<Rightarrow> Inl er | (Inr _, b) \<Rightarrow> appends fs b)"

definition usize_of :: "int \<Rightarrow> nat" where
  "usize_of n = nat (n mod 2 ^ 64)"

definition isize_of :: "nat \<Rightarrow> int" where
  "isize_of n = sint (word_of_nat n :: 64 word)"

definition MAX_DATA_BITS :: nat where "MAX_DATA_BITS = 1023"

definition MAX_REFERENCES_COUNT :: nat where "MAX_REFERENCES_COUNT = 4"

definition slice_serialize :: "('c, 's, 'b, 'h) ton \<Rightarrow> 's \<Rightarrow> ('c, 's, 'b, 'b) ext_result" where
  "slice_serialize T s =
     bindR (case cell_opt T s of Some c \<Rightarrow> Inr c | None \<Rightarrow> builder_into_cell (builders T) (slice_as_builder (slices T) s)) (\<lambda>c.
     appends [
       checked_append_reference (builders T) c,
       append_bits (builders T) (slice_pos T s) 10,
       append_bits (builders T) (slice_pos T s + remaining_bits T s) 10,
       append_bits (builders T) (fst (get_references T s)) 3,
       append_bits (builders T) (snd (get_references T s)) 3] (builder_new (builders T)))"

definition slice_deserialize :: "('c, 's, 'b, 'h) ton \<Rightarrow> 's \<Rightarrow> ('c, 's, 'b, 's \<times> 's) ext_result" where
  "slice_deserialize T s =
     bindR (step_object (checked_drain_reference T) s) (\<lambda>(cell, s).
     bindR (step_object (get_next_int T 10) s) (\<lambda>(data_start, s).
     bindR (step_object (get_next_int T 10) s) (\<lambda>(data_end, s).
     if data_start > MAX_DATA_BITS \<or> data_end > MAX_DATA_BITS \<or> data_start > data_end then err FatalErrorCode
     else
       bindR (step_object (get_next_int T 3) s) (\<lambda>(ref_start, s).
       bindR (step_object (get_next_int T 3) s) (\<lambda>(ref_end, s).
       if ref_start > MAX_REFERENCES_COUNT \<or> ref_end > MAX_REFERENCES_COUNT \<or> ref_start > ref_end then err FatalErrorCode
       else bindR (slice_load_cell T cell) (\<lambda>r.
         Inr (shrink_references T ref_start (Some ref_end) (shrink_data T data_start (Some data_end) r), s)))))))"

section \<open>Writing the new format\<close>

datatype ('c, 's, 'b) serialize_item =
    Ser_Item "('c, 's, 'b) stack_item"
  | Ser_Tuple 'b
  | Ser_Cont 'b "('c, 's, 'b) continuation_data" bool
  | Ser_SaveList
  | Ser_SaveListItem nat

text \<open>The lists \<open>prepare_savelist_serialize_vars\<close> and \<open>prepare_cont_serialize_vars\<close> push, with the
  item pushed last at the head.\<close>

fun savelist_vars :: "nat \<Rightarrow> ('c, 's, 'b) save_list \<Rightarrow> ('c, 's, 'b) serialize_item list" where
  "savelist_vars i [] = []"
| "savelist_vars i (v # sl) = (case v of
     None \<Rightarrow> savelist_vars (i + 1) sl
   | Some x \<Rightarrow> Ser_SaveListItem (if i = 6 then 7 else i) # Ser_Item x # savelist_vars (i + 1) sl)"

definition prepare_savelist_serialize_vars :: "('c, 's, 'b) save_list \<Rightarrow> ('c, 's, 'b) serialize_item list" where
  "prepare_savelist_serialize_vars sl = Ser_SaveList # rev (savelist_vars 0 sl)"

definition prepare_cont_serialize_vars ::
  "('c, 's, 'b) continuation_data \<Rightarrow> 'b \<Rightarrow> bool \<Rightarrow> ('c, 's, 'b) serialize_item list" where
  "prepare_cont_serialize_vars k header in_cell =
     prepare_savelist_serialize_vars (savelist_of k) @ rev (map Ser_Item (stack_of k)) @ [Ser_Cont header k in_cell]"

definition integer_item_builder :: "('c, 's, 'b, 'h) ton \<Rightarrow> integer_data \<Rightarrow> ('c, 's, 'b, 'b) ext_result" where
  "integer_item_builder T x =
     (if is_nan x then appends [append_bits (builders T) 0x02ff 16] (builder_new (builders T))
      else bindR (appends [append_bits (builders T) 0x02 8, append_bits (builders T) 0x00 7] (builder_new (builders T))) (\<lambda>b.
        bindR (integer_as_builder T SignedIntegerBigEndianEncoding 257 x) (\<lambda>i.
          appends [append_builder (builders T) i] b)))"

definition slice_item_builder :: "('c, 's, 'b, 'h) ton \<Rightarrow> 's \<Rightarrow> ('c, 's, 'b, 'b) ext_result" where
  "slice_item_builder T s =
     bindR (appends [append_bits (builders T) 0x04 8] (builder_new (builders T))) (\<lambda>b.
     bindR (slice_serialize T s) (\<lambda>x. appends [append_builder (builders T) x] b))"

text \<open>\<open>serialize_internal\<close> of an item: the builder of a plain item, or the header of a continuation or
  a tuple, whose parts are written before it.\<close>

definition item_serialize_internal ::
  "('c, 's, 'b, 'h) ton \<Rightarrow> ('c, 's, 'b) stack_item \<Rightarrow> ('c, 's, 'b, 'h, 'b) action" where
  "item_serialize_internal T x = (let B = builders T; b = builder_new B in case x of
     Item_None \<Rightarrow> liftE (appends [append_bits B 0x00 8] b)
   | Item_Integer i \<Rightarrow> liftE (integer_item_builder T i)
   | Item_Cell c \<Rightarrow> liftE (appends [append_bits B 0x03 8, checked_append_reference B c] b)
   | Item_Continuation k \<Rightarrow> liftE (appends [append_bits B 0x06 8] b)
   | Item_Builder d \<Rightarrow> bindE (liftE (appends [append_bits B 0x05 8] b)) (\<lambda>b.
       bindE (finalize_cell T d) (\<lambda>c. liftE (appends [checked_append_reference B c] b)))
   | Item_Slice s \<Rightarrow> liftE (slice_item_builder T s)
   | Item_Tuple xs \<Rightarrow> liftE (appends [append_bits B 0x07 8, append_bits B (length xs) 8] b))"

fun item_parts :: "'b \<Rightarrow> ('c, 's, 'b) stack_item \<Rightarrow> ('c, 's, 'b) serialize_item list option" where
  "item_parts b (Item_Continuation k) = Some (prepare_cont_serialize_vars k b True)"
| "item_parts b (Item_Tuple xs) = Some (rev (Ser_Tuple b # map Ser_Item xs))"
| "item_parts b x = None"

definition body_cell :: "('c, 's, 'b, 'h) ton \<Rightarrow> 's \<Rightarrow> ('c, 's, 'b, 'h, 'c) action" where
  "body_cell T s = bindE (liftE (slice_serialize T s)) (finalize_cell T)"

definition serialize_type :: "('c, 's, 'b, 'h) ton \<Rightarrow> 's continuation_type \<Rightarrow> ('c, 's, 'b, 'h, 'b) action" where
  "serialize_type T ty = (let B = builders T; b = builder_new B in case ty of
     AgainLoopBody body \<Rightarrow> bindE (liftE (appends [append_bits B 0xd 4] b)) (\<lambda>b.
       bindE (body_cell T body) (\<lambda>c. liftE (appends [checked_append_reference B c] b)))
   | TryCatch \<Rightarrow> liftE (appends [append_bits B 0x9 4] b)
   | CatchRevert n \<Rightarrow> liftE (appends [append_bits B 0x7 4, append_bits B n 32] b)
   | Ordinary \<Rightarrow> liftE (appends [append_bits B 0x0 2] b)
   | PushInt n \<Rightarrow> liftE (appends [append_bits B 0xf 4, append_bits B (usize_of n) 32] b)
   | Quit n \<Rightarrow> liftE (appends [append_bits B 0x8 4, append_bits B (usize_of n) 32] b)
   | ExcQuit \<Rightarrow> liftE (appends [append_bits B 0xb 4] b)
   | RepeatLoopBody body n \<Rightarrow> bindE (liftE (appends [append_bits B 0xe 4] b)) (\<lambda>b.
       bindE (body_cell T body) (\<lambda>c. liftE (appends [checked_append_reference B c, append_bits B (usize_of n) 32] b)))
   | UntilLoopCondition body \<Rightarrow> bindE (liftE (appends [append_bits B 0xa 4] b)) (\<lambda>b.
       bindE (body_cell T body) (\<lambda>c. liftE (appends [checked_append_reference B c] b)))
   | WhileLoopCondition body cond \<Rightarrow> bindE (liftE (appends [append_bits B 0xc 4] b)) (\<lambda>b.
       bindE (liftE (slice_serialize T cond)) (\<lambda>child.
       bindE (liftE (slice_serialize T body)) (\<lambda>x.
       bindE (liftE (appends [append_builder B x] child)) (\<lambda>child.
       bindE (finalize_cell T child) (\<lambda>c. liftE (appends [checked_append_reference B c] b)))))))"

definition cont_serialize_internal ::
  "('c, 's, 'b, 'h) ton \<Rightarrow> ('c, 's, 'b) continuation_data \<Rightarrow> 'b \<Rightarrow> 'h \<Rightarrow> ('c, 's, 'b, 'h, 'b) action" where
  "cont_serialize_internal T k stack savelist = (let B = builders T in
     bindE (serialize_type T (type_of k)) (\<lambda>b.
     bindE (liftE (appends [append_bits B (usize_of (nargs_of k)) 22] b)) (\<lambda>b.
     bindE (if stack_of k = [] then liftE (appends [append_bits B 0 1] b)
            else bindE (liftE (appends [append_bits B 1 1, append_bits B (length (stack_of k)) 24] b)) (\<lambda>b.
              bindE (finalize_cell T stack) (\<lambda>c. liftE (appends [checked_append_reference B c] b)))) (\<lambda>b.
     bindE (liftE (appends [write_hashmap_data (formats T) savelist, append_bits B 0 16] b)) (\<lambda>b.
     bindE (liftE (slice_serialize T (code_of k))) (\<lambda>x. liftE (appends [append_builder B x] b)))))))"

record ('b, 'h) serialize_state =
  ser_list :: "'b option"
  ser_list_stack :: "'b list"
  ser_savelist :: "'h option"
  ser_savelist_stack :: "'h list"

definition pop_list :: "('b, 'h) serialize_state \<Rightarrow> ('b, 'h) serialize_state" where
  "pop_list st = (case ser_list_stack st of
     [] \<Rightarrow> st \<lparr> ser_list := None \<rparr> | l # ls \<Rightarrow> st \<lparr> ser_list := Some l, ser_list_stack := ls \<rparr>)"

definition pop_savelist :: "('b, 'h) serialize_state \<Rightarrow> ('b, 'h) serialize_state" where
  "pop_savelist st = (case ser_savelist_stack st of
     [] \<Rightarrow> st \<lparr> ser_savelist := None \<rparr> | l # ls \<Rightarrow> st \<lparr> ser_savelist := Some l, ser_savelist_stack := ls \<rparr>)"

text \<open>The reference to the list built so far.\<close>

definition append_list ::
  "('c, 's, 'b, 'h) ton \<Rightarrow> ('b, 'h) serialize_state \<Rightarrow> 'b \<Rightarrow> ('c, 's, 'b, 'h, 'b) action" where
  "append_list T st b = (case ser_list st of
     None \<Rightarrow> returnE b
   | Some l \<Rightarrow> bindE (finalize_cell T l) (\<lambda>c. liftE (appends [checked_append_reference (builders T) c] b)))"

definition link_item ::
  "('c, 's, 'b, 'h) ton \<Rightarrow> ('b, 'h) serialize_state \<Rightarrow> 'b \<Rightarrow> ('c, 's, 'b, 'h, 'b \<times> ('b, 'h) serialize_state) action" where
  "link_item T st b = bindE (append_list T st b) (\<lambda>b. returnE (b, st \<lparr> ser_list := Some b \<rparr>))"

definition serialize_step ::
  "('c, 's, 'b, 'h) ton \<Rightarrow> ('c, 's, 'b) serialize_item \<Rightarrow> ('b, 'h) serialize_state \<Rightarrow>
   ('c, 's, 'b, 'h, 'b \<times> ('b, 'h) serialize_state) action" where
  "serialize_step T i st = (case i of
     Ser_Item x \<Rightarrow> bindE (item_serialize_internal T x) (\<lambda>b. case item_parts b x of
         None \<Rightarrow> link_item T st b
       | Some _ \<Rightarrow> returnE (b, st \<lparr> ser_list := Some (builder_default T),
           ser_list_stack := (case ser_list st of Some l \<Rightarrow> l # ser_list_stack st | None \<Rightarrow> ser_list_stack st) \<rparr>))
   | Ser_Tuple header \<Rightarrow> bindE (append_list T st header) (link_item T (pop_list st))
   | Ser_Cont header k in_cell \<Rightarrow>
       bindE (cont_serialize_internal T k
           (case ser_list st of Some l \<Rightarrow> l | None \<Rightarrow> builder_default T)
           (case ser_savelist st of Some h \<Rightarrow> h | None \<Rightarrow> hashmap_default (formats T))) (\<lambda>b.
       bindE (if in_cell
              then bindE (finalize_cell T b) (\<lambda>c. liftE (appends [checked_append_reference (builders T) c] header))
              else liftE (appends [append_builder (builders T) b] header)) (link_item T (pop_savelist (pop_list st))))
   | Ser_SaveListItem index \<Rightarrow> (case (ser_list st, ser_savelist st) of
       (Some l, Some dict) \<Rightarrow>
         bindE (liftE (appends [append_bits (builders T) index 4] (builder_new (builders T)))) (\<lambda>b.
         bindE (liftE (load_bitstring (slices T) b)) (\<lambda>key.
         bindE (liftE (set_builder (formats T) dict key l)) (\<lambda>dict.
           returnE (b, st \<lparr> ser_list := Some (builder_default T), ser_savelist := Some dict \<rparr>))))
     | _ \<Rightarrow> throwE Panic)
   | Ser_SaveList \<Rightarrow> returnE (builder_default T, st \<lparr> ser_savelist := Some (with_bit_len (formats T) 4),
       ser_savelist_stack := (case ser_savelist st of Some h \<Rightarrow> h # ser_savelist_stack st | None \<Rightarrow> ser_savelist_stack st) \<rparr>))"

text \<open>The items a step pushes: the parts of the item it took, with the builder it made for them.\<close>

fun pushed_items :: "'b \<Rightarrow> ('c, 's, 'b) serialize_item \<Rightarrow> ('c, 's, 'b) serialize_item list" where
  "pushed_items b (Ser_Item x) = (case item_parts b x of Some is \<Rightarrow> is | None \<Rightarrow> [])"
| "pushed_items b i = []"

text \<open>Every step takes one item and pushes smaller ones.\<close>

fun item_weight :: "('c, 's, 'b) stack_item \<Rightarrow> nat" and cont_weight :: "('c, 's, 'b) continuation_data \<Rightarrow> nat" where
  "item_weight (Item_Continuation k) = 3 + cont_weight k"
| "item_weight (Item_Tuple xs) = 2 + sum_list (map item_weight xs)"
| "item_weight Item_None = 1"
| "item_weight (Item_Builder b) = 1"
| "item_weight (Item_Cell c) = 1"
| "item_weight (Item_Integer i) = 1"
| "item_weight (Item_Slice s) = 1"
| "cont_weight (ContinuationData c n sl st ty) =
     sum_list (map item_weight st) + sum_list (map (\<lambda>v. case v of Some x \<Rightarrow> 1 + item_weight x | None \<Rightarrow> 0) sl)"

fun serialize_weight :: "('c, 's, 'b) serialize_item \<Rightarrow> nat" where
  "serialize_weight (Ser_Item x) = item_weight x"
| "serialize_weight i = 1"

lemma savelist_vars_weight:
  "sum_list (map serialize_weight (savelist_vars i sl)) =
   sum_list (map (\<lambda>v. case v of Some x \<Rightarrow> 1 + item_weight x | None \<Rightarrow> 0) sl)"
  by (induction sl arbitrary: i) (auto split: option.split)

lemma item_weight_pos: "0 < item_weight x"
  by (cases x) simp_all

lemma pushed_items_weight: "sum_list (map serialize_weight (pushed_items b i)) < serialize_weight i"
proof (cases i)
  case (Ser_Item x)
  show ?thesis
  proof (cases x)
    case (Item_Continuation k)
    then show ?thesis using Ser_Item
      by (cases k) (simp add: prepare_cont_serialize_vars_def prepare_savelist_serialize_vars_def rev_map [symmetric]
        sum_list_rev savelist_vars_weight comp_def)
  qed (use Ser_Item in \<open>simp_all add: rev_map [symmetric] sum_list_rev comp_def\<close>)
qed simp_all

function items_serialize_loop ::
  "('c, 's, 'b, 'h) ton \<Rightarrow> ('c, 's, 'b) serialize_item list \<Rightarrow> ('b, 'h) serialize_state \<Rightarrow>
   ('c, 's, 'b, 'h, ('b, 'h) serialize_state) action" where
  "items_serialize_loop T [] st e = (Inr st, e)"
| "items_serialize_loop T (i # is) st e = (case serialize_step T i st e of
     (Inl er, e) \<Rightarrow> (Inl er, e)
   | (Inr (b, st), e) \<Rightarrow> items_serialize_loop T (pushed_items b i @ is) st e)"
  by pat_completeness auto
termination
  by (relation "measure (\<lambda>(T, is, st, e). sum_list (map serialize_weight is))") (simp_all add: pushed_items_weight)

definition items_serialize ::
  "('c, 's, 'b, 'h) ton \<Rightarrow> ('c, 's, 'b) serialize_item list \<Rightarrow> ('c, 's, 'b, 'h, 'b) action" where
  "items_serialize T is = bindE (items_serialize_loop T is
       \<lparr> ser_list = Some (builder_default T), ser_list_stack = [], ser_savelist = None, ser_savelist_stack = [] \<rparr>) (\<lambda>st.
     case ser_list st of Some b \<Rightarrow> returnE b | None \<Rightarrow> errE FatalErrorCode)"

definition cont_serialize ::
  "('c, 's, 'b, 'h) ton \<Rightarrow> ('c, 's, 'b) continuation_data \<Rightarrow> ('c, 's, 'b, 'h, 'b) action" where
  "cont_serialize T k = items_serialize T (prepare_cont_serialize_vars k (builder_default T) False)"

definition item_serialize :: "('c, 's, 'b, 'h) ton \<Rightarrow> ('c, 's, 'b) stack_item \<Rightarrow> ('c, 's, 'b, 'h, 'b) action" where
  "item_serialize T x = items_serialize T [Ser_Item x]"

section \<open>Reading the new format\<close>

datatype ('c, 's, 'b) deserialize_item =
    De_Items nat 's
  | De_Tuple nat
  | De_Cont "('c, 's, 'b) continuation_data"
  | De_SaveListItem nat
  | De_SaveList

definition child_slice :: "('c, 's, 'b, 'h) ton \<Rightarrow> 's \<Rightarrow> ('c, 's, 'b, 'h, 's \<times> 's) action" where
  "child_slice T s = bindE (with_object (checked_drain_reference T) s) (\<lambda>(c, s).
     bindE (load_cell T c) (\<lambda>child. returnE (child, s)))"

definition child_body :: "('c, 's, 'b, 'h) ton \<Rightarrow> 's \<Rightarrow> ('c, 's, 'b, 'h, 's \<times> 's) action" where
  "child_body T s = bindE (child_slice T s) (\<lambda>(child, s).
     bindE (liftE (slice_deserialize T child)) (\<lambda>(body, _). returnE (body, s)))"

definition deserialize_type ::
  "('c, 's, 'b, 'h) ton \<Rightarrow> 's \<Rightarrow> ('c, 's, 'b, 'h, 's continuation_type \<times> 's) action" where
  "deserialize_type T s = bindE (with_object (get_next_int T 2) s) (\<lambda>(n, s).
     if n = 0 then returnE (Ordinary, s)
     else if n = 1 then bindE (with_object (get_next_int T 2) s) (\<lambda>(m, s).
       if m = 3 then bindE (with_object (get_next_u32 (formats T)) s) (\<lambda>(d, s). returnE (CatchRevert d, s))
       else errE UnknownError)
     else if n = 2 then bindE (with_object (get_next_int T 2) s) (\<lambda>(m, s).
       if m = 0 then bindE (with_object (get_next_int T 32) s) (\<lambda>(x, s). returnE (Quit (i32_of_usize x), s))
       else if m = 1 then returnE (TryCatch, s)
       else if m = 2 then bindE (child_body T s) (\<lambda>(body, s). returnE (UntilLoopCondition body, s))
       else if m = 3 then returnE (ExcQuit, s)
       else errE UnknownError)
     else if n = 3 then bindE (with_object (get_next_int T 2) s) (\<lambda>(m, s).
       if m = 0 then bindE (child_slice T s) (\<lambda>(child, s).
         bindE (liftE (slice_deserialize T child)) (\<lambda>(cond, child).
         bindE (liftE (slice_deserialize T child)) (\<lambda>(body, _). returnE (WhileLoopCondition body cond, s))))
       else if m = 1 then bindE (child_body T s) (\<lambda>(body, s). returnE (AgainLoopBody body, s))
       else if m = 2 then bindE (child_body T s) (\<lambda>(body, s).
         bindE (with_object (get_next_int T 32) s) (\<lambda>(x, s). returnE (RepeatLoopBody body (isize_of x), s)))
       else if m = 3 then bindE (with_object (get_next_int T 32) s) (\<lambda>(x, s). returnE (PushInt (i32_of_usize x), s))
       else errE UnknownError)
     else errE UnknownError)"

definition nargs_from :: "nat \<Rightarrow> int" where
  "nargs_from n = (if isize_of n = 0x3fffff then - 1 else isize_of n)"

text \<open>The walk of \<open>iterate_slices\<close> with a reader of entries; the error that ends the walk comes last.\<close>

fun iterate_slices ::
  "('a \<Rightarrow> 's \<Rightarrow> 's \<Rightarrow> ('c, 's, 'b, 'a) ext_result) \<Rightarrow> 'a \<Rightarrow> ('s \<times> 's) list \<times> ('c, 's, 'b) tvm_error option \<Rightarrow>
   ('c, 's, 'b, 'a) ext_result" where
  "iterate_slices f x ([], None) = Inr x"
| "iterate_slices f x ([], Some er) = Inl er"
| "iterate_slices f x ((k, v) # kvs, end) = bindR (f x k v) (\<lambda>x. iterate_slices f x (kvs, end))"

definition savelist_items ::
  "('c, 's, 'b, 'h) ton \<Rightarrow> 's \<Rightarrow> ('c, 's, 'b, ('c, 's, 'b) deserialize_item list \<times> 's) ext_result" where
  "savelist_items T s =
     bindR (step_object (get_next_bit (slices T)) s) (\<lambda>(present, s).
     if present then
       bindR (step_object (checked_drain_reference T) s) (\<lambda>(c, s).
       bindR (iterate_slices (\<lambda>is k v. bindR (step_object (get_next_int T 4) k) (\<lambda>(key, _).
           Inr (De_Items 1 v # De_SaveListItem key # is))) []
         (hashmap_slices (formats T) (with_hashmap T 4 (Some c)))) (\<lambda>is. Inr (is, s)))
     else Inr ([], s))"

definition cont_deserialize_internal ::
  "('c, 's, 'b, 'h) ton \<Rightarrow> ('c, 's, 'b) deserialize_item list \<Rightarrow> 's \<Rightarrow>
   ('c, 's, 'b, 'h, ('c, 's, 'b) deserialize_item list \<times> 's) action" where
  "cont_deserialize_internal T list s =
     bindE (deserialize_type T s) (\<lambda>(ty, s).
     bindE (with_object (get_next_int T 22) s) (\<lambda>(n, s).
     bindE (with_object (get_next_bit (slices T)) s) (\<lambda>(present, s).
     bindE (if present then bindE (with_object (get_next_int T 24) s) (\<lambda>(len, s).
              bindE (child_slice T s) (\<lambda>(child, s). returnE (De_Items len child, s)))
            else returnE (De_Items 0 (slice_default T), s)) (\<lambda>(stack, s).
     bindE (liftE (savelist_items T s)) (\<lambda>(new_list, s).
     bindE (with_object (get_next_int T 16) s) (\<lambda>(_, s).
     bindE (liftE (slice_deserialize T s)) (\<lambda>(code, s).
       returnE (stack # De_SaveList # new_list @
         De_Cont (ContinuationData code (nargs_from n) savelist_new [] ty) # list, s))))))))"

definition integer_item :: "('c, 's, 'b, 'h) ton \<Rightarrow> 's \<Rightarrow> ('c, 's, 'b, ('c, 's, 'b) stack_item \<times> 's) ext_result" where
  "integer_item T s = bindR (step_object (get_next_int T 7) s) (\<lambda>(n, s).
     if n = 0 then bindR (step_object (get_next_bits (slices T) 257) s) (\<lambda>(bytes, s).
       case deserialize SignedIntegerBigEndianEncoding (bigint T) 257 bytes of
         Inr x \<Rightarrow> Inr (Item_Integer x, s) | Inl _ \<Rightarrow> Inl Panic)
     else if n = 0x7f then bindR (step_object (get_next_bit (slices T)) s) (\<lambda>(b, s).
       if b then Inr (Item_Integer NaN, s) else err UnknownError)
     else err UnknownError)"

definition item_deserialize_internal ::
  "('c, 's, 'b, 'h) ton \<Rightarrow> ('c, 's, 'b) deserialize_item list \<Rightarrow> 's \<Rightarrow>
   ('c, 's, 'b, 'h, ('c, 's, 'b) stack_item option \<times> ('c, 's, 'b) deserialize_item list \<times> 's) action" where
  "item_deserialize_internal T list s = bindE (with_object (get_next_byte T) s) (\<lambda>(t, s).
     let plain = (\<lambda>r. bindE (liftE r) (\<lambda>(x, s). returnE (Some x, list, s))) in
     if t = 0x00 then returnE (Some Item_None, list, s)
     else if t = 0x02 then plain (integer_item T s)
     else if t = 0x03 then plain (bindR (step_object (checked_drain_reference T) s) (\<lambda>(c, s). Inr (Item_Cell c, s)))
     else if t = 0x04 then plain (bindR (slice_deserialize T s) (\<lambda>(x, s). Inr (Item_Slice x, s)))
     else if t = 0x05 then plain (bindR (step_object (checked_drain_reference T) s) (\<lambda>(c, s).
       bindR (builder_from_cell (formats T) c) (\<lambda>b. Inr (Item_Builder b, s))))
     else if t = 0x06 then bindE (child_slice T s) (\<lambda>(child, s).
       bindE (cont_deserialize_internal T list child) (\<lambda>(list, _). returnE (None, list, s)))
     else if t = 0x07 then bindE (with_object (get_next_int T 8) s) (\<lambda>(len, s).
       bindE (child_slice T s) (\<lambda>(child, s). returnE (None, De_Items len child # De_Tuple len # list, s)))
     else errE UnknownError)"

text \<open>The inner loop: up to \<open>k\<close> items of the current list, until one is made of parts.\<close>

definition next_in_list :: "('c, 's, 'b, 'h) ton \<Rightarrow> 's \<Rightarrow> ('c, 's, 'b, 'h, 's) action" where
  "next_in_list T s = (case checked_drain_reference T s of (Inr c, _) \<Rightarrow> load_cell T c | (Inl _, s) \<Rightarrow> returnE s)"

fun read_items ::
  "('c, 's, 'b, 'h) ton \<Rightarrow> nat \<Rightarrow> ('c, 's, 'b) deserialize_item list \<Rightarrow> ('c, 's, 'b) stack_item list \<Rightarrow> 's \<Rightarrow>
   ('c, 's, 'b, 'h, ('c, 's, 'b) deserialize_item list \<times> ('c, 's, 'b) stack_item list \<times> 's) action" where
  "read_items T 0 list items s = returnE (list, items, s)"
| "read_items T (Suc k) list items s = bindE (item_deserialize_internal T list s) (\<lambda>(r, list, s).
     bindE (next_in_list T s) (\<lambda>s. case r of
       None \<Rightarrow> returnE (list, items, s)
     | Some x \<Rightarrow> read_items T k list (items @ [x]) s))"

record ('c, 's, 'b) deserialize_state =
  de_list :: "('c, 's, 'b) deserialize_item list"
  de_items_stack :: "(('c, 's, 'b) stack_item list \<times> nat \<times> 's) list"
  de_items :: "('c, 's, 'b) stack_item list"
  de_length :: nat
  de_slice :: 's
  de_savelists :: "('c, 's, 'b) save_list list"

text \<open>Back to the list around the one that is complete.\<close>

definition pop_items ::
  "('c, 's, 'b, 'h) ton \<Rightarrow> ('c, 's, 'b) stack_item list \<Rightarrow> ('c, 's, 'b) deserialize_state \<Rightarrow> ('c, 's, 'b) deserialize_state" where
  "pop_items T new st = (case de_items_stack st of
     [] \<Rightarrow> st \<lparr> de_items := new, de_length := 0, de_slice := slice_default T \<rparr>
   | (items, len, s) # rest \<Rightarrow>
       st \<lparr> de_items_stack := rest, de_items := items @ new, de_length := len, de_slice := s \<rparr>)"

definition deserialize_step ::
  "('c, 's, 'b, 'h) ton \<Rightarrow> ('c, 's, 'b) deserialize_item \<Rightarrow> ('c, 's, 'b) deserialize_state \<Rightarrow>
   ('c, 's, 'b, ('c, 's, 'b) deserialize_state) ext_result" where
  "deserialize_step T i st = (case i of
     De_Items len s \<Rightarrow> Inr (st \<lparr> de_items_stack := (de_items st, de_length st, de_slice st) # de_items_stack st,
       de_items := [], de_slice := s, de_length := len \<rparr>)
   | De_Tuple len \<Rightarrow> if len \<noteq> length (de_items st) then err CellUnderflow
       else Inr (pop_items T [Item_Tuple (de_items st)] st)
   | De_Cont k \<Rightarrow> (case de_savelists st of
       [] \<Rightarrow> Inr (pop_items T [Item_Continuation
         (ContinuationData (code_of k) (nargs_of k) (savelist_of k) (de_items st) (type_of k))] st)
     | sl # sls \<Rightarrow> Inr (pop_items T [Item_Continuation
         (ContinuationData (code_of k) (nargs_of k) sl (de_items st) (type_of k))] (st \<lparr> de_savelists := sls \<rparr>)))
   | De_SaveListItem index \<Rightarrow> (case (de_savelists st, de_items st) of
       (sl # sls, x # _) \<Rightarrow> bindR (savelist_put index x sl) (\<lambda>(_, sl).
         Inr (pop_items T [] (st \<lparr> de_savelists := sl # sls \<rparr>)))
     | _ \<Rightarrow> Inr (pop_items T [] st))
   | De_SaveList \<Rightarrow> Inr (st \<lparr> de_savelists := savelist_new # de_savelists st \<rparr>))"

fun items_deserialize_loop ::
  "nat \<Rightarrow> ('c, 's, 'b, 'h) ton \<Rightarrow> ('c, 's, 'b) deserialize_state \<Rightarrow> ('c, 's, 'b, 'h, ('c, 's, 'b) stack_item list) action" where
  "items_deserialize_loop 0 T st = throwE OutOfFuel"
| "items_deserialize_loop (Suc n) T st =
     bindE (read_items T (de_length st - length (de_items st)) (de_list st) (de_items st) (de_slice st)) (\<lambda>(list, items, s).
     case list of
       [] \<Rightarrow> returnE items
     | i # list \<Rightarrow> bindE (liftE (deserialize_step T i (st \<lparr> de_list := list, de_items := items, de_slice := s \<rparr>)))
         (items_deserialize_loop n T))"

text \<open>A round takes one item off the list.  The items come from a tuple or a continuation, at most 35 of
  them from a continuation with 16 registers, and each costs at least the loading of one cell.\<close>

definition deserialize_fuel :: "('c, 's, 'b, 'h) engine \<Rightarrow> nat" where
  "deserialize_fuel e = 64 * (nat (sint (gas_remaining (egas e))) + 2)"

definition items_deserialize ::
  "('c, 's, 'b, 'h) ton \<Rightarrow> ('c, 's, 'b) deserialize_item list \<Rightarrow> ('c, 's, 'b, 'h, ('c, 's, 'b) stack_item list) action" where
  "items_deserialize T list = (\<lambda>e. items_deserialize_loop (deserialize_fuel e) T
     \<lparr> de_list = list, de_items_stack = [], de_items = [], de_length = 0, de_slice = slice_default T, de_savelists = [] \<rparr> e)"

definition cont_deserialize ::
  "('c, 's, 'b, 'h) ton \<Rightarrow> 's \<Rightarrow> ('c, 's, 'b, 'h, ('c, 's, 'b) continuation_data \<times> 's) action" where
  "cont_deserialize T s = bindE (cont_deserialize_internal T [] s) (\<lambda>(list, s).
     bindE (items_deserialize T list) (\<lambda>items. case items of
       [] \<Rightarrow> throwE Panic
     | x # _ \<Rightarrow> bindE (liftE (as_continuation x)) (\<lambda>k. returnE (k, s))))"

definition item_deserialize :: "('c, 's, 'b, 'h) ton \<Rightarrow> 's \<Rightarrow> ('c, 's, 'b, 'h, ('c, 's, 'b) stack_item) action" where
  "item_deserialize T s = bindE (items_deserialize T [De_Items 1 s]) (\<lambda>items. case items of
     [] \<Rightarrow> throwE Panic | x # _ \<Rightarrow> returnE x)"

end
