(* ===== verification/Old_Format.thy ===== *)
theory Old_Format
  imports Continuation_Cells
begin

text \<open>
  The old cell format of items, save lists and continuations (\<open>serialize_old\<close> and
  \<open>deserialize_old\<close>), and the instructions \<open>STCONT\<close> and \<open>LDCONT\<close>, which choose the format
  by a capability.  Every function returns the price of its cells with its result.
\<close>

section \<open>Writing\<close>

definition body_cell_old :: "('c, 's, 'b, 'h) ton \<Rightarrow> 's \<Rightarrow> ('c, 's, 'b, 'c) ext_result" where
  "body_cell_old T s = bindR (slice_serialize T s) (builder_into_cell (builders T))"

definition serialize_type_old :: "('c, 's, 'b, 'h) ton \<Rightarrow> 's continuation_type \<Rightarrow> ('c, 's, 'b, 'b) ext_result" where
  "serialize_type_old T ty = (let B = builders T; b = builder_new B in case ty of
     AgainLoopBody body \<Rightarrow> bindR (appends [append_bits B 0xd 4] b) (\<lambda>b.
       bindR (body_cell_old T body) (\<lambda>c. appends [checked_append_reference B c] b))
   | TryCatch \<Rightarrow> appends [append_bits B 0x9 4] b
   | Ordinary \<Rightarrow> appends [append_bits B 0x0 2] b
   | PushInt n \<Rightarrow> appends [append_bits B 0xf 4, append_bits B (usize_of n) 32] b
   | Quit n \<Rightarrow> appends [append_bits B 0x8 4, append_bits B (usize_of n) 32] b
   | RepeatLoopBody body n \<Rightarrow> bindR (appends [append_bits B 0xe 4] b) (\<lambda>b.
       bindR (body_cell_old T body) (\<lambda>c. appends [checked_append_reference B c, append_bits B (usize_of n) 32] b))
   | UntilLoopCondition body \<Rightarrow> bindR (appends [append_bits B 0xa 4] b) (\<lambda>b.
       bindR (body_cell_old T body) (\<lambda>c. appends [checked_append_reference B c] b))
   | WhileLoopCondition body cond \<Rightarrow> bindR (appends [append_bits B 0xc 4] b) (\<lambda>b.
       bindR (body_cell_old T cond) (\<lambda>c. bindR (appends [checked_append_reference B c] b) (\<lambda>b.
       bindR (body_cell_old T body) (\<lambda>c. appends [checked_append_reference B c] b))))
   | ExcQuit \<Rightarrow> appends [append_bits B 0xb 4] b
   | CatchRevert _ \<Rightarrow> err UnknownError)"

text \<open>The dictionary of a save list becomes a bit and its root.\<close>

definition dict_builder :: "('c, 's, 'b, 'h) ton \<Rightarrow> 'h \<Rightarrow> i64 \<Rightarrow> ('c, 's, 'b, 'b \<times> i64) ext_result" where
  "dict_builder T dict gas = (let B = builders T; b = builder_new B in case hashmap_root (formats T) dict of
     Some c \<Rightarrow> bindR (appends [append_bits B 1 1, checked_append_reference B c] b) (\<lambda>b. Inr (b, gas + finalize_price))
   | None \<Rightarrow> bindR (appends [append_bits B 0 1] b) (\<lambda>b. Inr (b, gas)))"

text \<open>\<open>chain_serialize_old\<close> is the loop over the items of a tuple or a stack from the last one, each in a cell
  with a reference to the rest.\<close>

function (sequential) item_serialize_old ::
    "('c, 's, 'b, 'h) ton \<Rightarrow> ('c, 's, 'b) stack_item \<Rightarrow> ('c, 's, 'b, 'b \<times> i64) ext_result"
  and cont_serialize_old ::
    "('c, 's, 'b, 'h) ton \<Rightarrow> ('c, 's, 'b) continuation_data \<Rightarrow> ('c, 's, 'b, 'b \<times> i64) ext_result"
  and chain_serialize_old ::
    "('c, 's, 'b, 'h) ton \<Rightarrow> ('c, 's, 'b) stack_item list \<Rightarrow> ('c, 's, 'b, 'b \<times> i64) ext_result"
  and savelist_serialize_old ::
    "('c, 's, 'b, 'h) ton \<Rightarrow> 'h \<Rightarrow> nat \<Rightarrow> i64 \<Rightarrow> ('c, 's, 'b) save_list \<Rightarrow> ('c, 's, 'b, 'b \<times> i64) ext_result" where
  "item_serialize_old T (Item_Continuation k) =
     bindR (appends [append_bits (builders T) 0x06 8] (builder_new (builders T))) (\<lambda>b.
     bindR (cont_serialize_old T k) (\<lambda>(x, gas).
     bindR (appends [append_builder (builders T) x] b) (\<lambda>b. Inr (b, gas))))"
| "item_serialize_old T (Item_Tuple xs) =
     bindR (appends [append_bits (builders T) 0x07 8] (builder_new (builders T))) (\<lambda>b.
     bindR (appends [append_bits (builders T) (length xs) 8] (builder_new (builders T))) (\<lambda>tuple.
     bindR (chain_serialize_old T xs) (\<lambda>(l, gas).
     bindR (appends [append_builder (builders T) l] tuple) (\<lambda>tuple.
     bindR (appends [append_builder (builders T) tuple] b) (\<lambda>b. Inr (b, gas))))))"
| "item_serialize_old T (Item_Builder d) =
     bindR (appends [append_bits (builders T) 0x05 8] (builder_new (builders T))) (\<lambda>b.
     bindR (builder_into_cell (builders T) d) (\<lambda>c.
     bindR (appends [checked_append_reference (builders T) c] b) (\<lambda>b. Inr (b, finalize_price))))"
| "item_serialize_old T (Item_Integer i) = bindR (integer_item_builder T i) (\<lambda>b. Inr (b, 0))"
| "item_serialize_old T (Item_Slice s) = bindR (slice_item_builder T s) (\<lambda>b. Inr (b, 0))"
| "item_serialize_old T (Item_Cell c) = bindR (appends [append_bits (builders T) 0x03 8,
     checked_append_reference (builders T) c] (builder_new (builders T))) (\<lambda>b. Inr (b, 0))"
| "item_serialize_old T Item_None =
     bindR (appends [append_bits (builders T) 0x00 8] (builder_new (builders T))) (\<lambda>b. Inr (b, 0))"
| "cont_serialize_old T (ContinuationData c n sl st ty) =
     bindR (serialize_type_old T ty) (\<lambda>b.
     bindR (appends [append_bits (builders T) (length st) 24] (builder_new (builders T))) (\<lambda>stack.
     bindR (chain_serialize_old T st) (\<lambda>(l, gas).
     bindR (appends [append_builder (builders T) l] stack) (\<lambda>stack.
     bindR (appends [append_bits (builders T) (usize_of n) 22] b) (\<lambda>b.
     bindR (if st = [] then appends [append_bits (builders T) 0 1] b
            else appends [append_bits (builders T) 1 1, append_builder (builders T) stack] b) (\<lambda>b.
     bindR (savelist_serialize_old T (with_bit_len (formats T) 4) 0 0 sl) (\<lambda>(x, gas2).
     bindR (appends [append_builder (builders T) x, append_bits (builders T) 0 16] b) (\<lambda>b.
     bindR (slice_serialize T c) (\<lambda>x.
     bindR (appends [append_builder (builders T) x] b) (\<lambda>b. Inr (b, gas + gas2)))))))))))"
| "chain_serialize_old T [] = Inr (builder_new (builders T), 0)"
| "chain_serialize_old T (x # xs) =
     bindR (chain_serialize_old T xs) (\<lambda>(l, gas).
     bindR (item_serialize_old T x) (\<lambda>(b, gas2).
     bindR (appends [append_builder (builders T) b] (builder_new (builders T))) (\<lambda>cons.
     bindR (builder_into_cell (builders T) l) (\<lambda>c.
     bindR (appends [checked_append_reference (builders T) c] cons) (\<lambda>cons. Inr (cons, gas + gas2 + finalize_price))))))"
| "savelist_serialize_old T dict i gas [] = dict_builder T dict gas"
| "savelist_serialize_old T dict i gas (None # sl) = savelist_serialize_old T dict (i + 1) gas sl"
| "savelist_serialize_old T dict i gas (Some x # sl) =
     bindR (appends [append_bits (builders T) (if i = 6 then 7 else i) 4] (builder_new (builders T))) (\<lambda>b.
     bindR (load_builder (slices T) b) (\<lambda>key.
     bindR (item_serialize_old T x) (\<lambda>(v, gas2).
     bindR (set_builder (formats T) dict key v) (\<lambda>dict. savelist_serialize_old T dict (i + 1) (gas + gas2) sl))))"
  by pat_completeness auto

termination
  by (relation "measure (case_sum (case_sum (\<lambda>(T, x). size x) (\<lambda>(T, k). size k))
    (case_sum (\<lambda>(T, xs). size_list size xs) (\<lambda>(T, dict, i, gas, sl). size_list (size_option size) sl)))") simp_all

section \<open>Reading\<close>

definition child_body_old :: "('c, 's, 'b, 'h) ton \<Rightarrow> 's \<Rightarrow> ('c, 's, 'b, 's \<times> 's) ext_result" where
  "child_body_old T s = bindR (step_object (checked_drain_reference T) s) (\<lambda>(c, s).
     bindR (slice_load_cell T c) (\<lambda>child. bindR (slice_deserialize T child) (\<lambda>(body, _). Inr (body, s))))"

definition deserialize_type_old ::
  "('c, 's, 'b, 'h) ton \<Rightarrow> 's \<Rightarrow> ('c, 's, 'b, ('s continuation_type \<times> i64) \<times> 's) ext_result" where
  "deserialize_type_old T s = bindR (step_object (get_next_int T 2) s) (\<lambda>(n, s).
     if n = 0 then Inr ((Ordinary, 0), s)
     else if n = 2 then bindR (step_object (get_next_int T 2) s) (\<lambda>(m, s).
       if m = 0 then bindR (step_object (get_next_int T 32) s) (\<lambda>(x, s). Inr ((Quit (i32_of_usize x), 0), s))
       else if m = 1 then Inr ((TryCatch, 0), s)
       else if m = 2 then bindR (child_body_old T s) (\<lambda>(body, s). Inr ((UntilLoopCondition body, 0), s))
       else if m = 3 then Inr ((ExcQuit, 0), s)
       else err UnknownError)
     else if n = 3 then bindR (step_object (get_next_int T 2) s) (\<lambda>(m, s).
       if m = 0 then bindR (child_body_old T s) (\<lambda>(cond, s). bindR (child_body_old T s) (\<lambda>(body, s).
         Inr ((WhileLoopCondition body cond, load_cell_price True + load_cell_price True), s)))
       else if m = 1 then bindR (child_body_old T s) (\<lambda>(body, s). Inr ((AgainLoopBody body, 0), s))
       else if m = 2 then bindR (child_body_old T s) (\<lambda>(body, s).
         bindR (step_object (get_next_int T 32) s) (\<lambda>(x, s). Inr ((RepeatLoopBody body (isize_of x), 0), s)))
       else if m = 3 then bindR (step_object (get_next_int T 32) s) (\<lambda>(x, s). Inr ((PushInt (i32_of_usize x), 0), s))
       else err UnknownError)
     else err UnknownError)"

text \<open>The reader \<open>rd\<close> of one item is an argument: the functions call each other through it.\<close>

type_synonym ('c, 's, 'b) old_reader = "'s \<Rightarrow> ('c, 's, 'b, (('c, 's, 'b) stack_item \<times> i64) \<times> 's) ext_result"

fun tuple_chain_old ::
  "('c, 's, 'b, 'h) ton \<Rightarrow> ('c, 's, 'b) old_reader \<Rightarrow> nat \<Rightarrow> 'c \<Rightarrow> ('c, 's, 'b) stack_item list \<Rightarrow> i64 \<Rightarrow>
   ('c, 's, 'b, ('c, 's, 'b) stack_item list \<times> i64) ext_result" where
  "tuple_chain_old T rd 0 cell xs gas = Inr (xs, gas)"
| "tuple_chain_old T rd (Suc n) cell xs gas = bindR (slice_load_cell T cell) (\<lambda>s.
     bindR (rd s) (\<lambda>((x, gas2), s).
     bindR (step_object (checked_drain_reference T) s) (\<lambda>(cell, _).
       tuple_chain_old T rd n cell (xs @ [x]) (gas + load_cell_price True + gas2))))"

definition tuple_deserialize_old ::
  "('c, 's, 'b, 'h) ton \<Rightarrow> ('c, 's, 'b) old_reader \<Rightarrow> ('c, 's, 'b) old_reader" where
  "tuple_deserialize_old T rd s = bindR (step_object (get_next_int T 8) s) (\<lambda>(len, s).
     bindR (if len > 0 then bindR (rd s) (\<lambda>((x, gas), s). Inr (([x], gas), s)) else Inr (([], 0), s)) (\<lambda>((xs, gas), s).
     bindR (step_object (checked_drain_reference T) s) (\<lambda>(cell, s).
     bindR (tuple_chain_old T rd (len - 1) cell xs gas) (\<lambda>(xs, gas). Inr ((Item_Tuple xs, gas), s)))))"

definition drained_or_default :: "('c, 's, 'b, 'h) ton \<Rightarrow> 's \<Rightarrow> 'c" where
  "drained_or_default T s = (case fst (checked_drain_reference T s) of Inr c \<Rightarrow> c | Inl _ \<Rightarrow> cell_default T)"

fun stack_chain_old ::
  "('c, 's, 'b, 'h) ton \<Rightarrow> ('c, 's, 'b) old_reader \<Rightarrow> nat \<Rightarrow> 'c \<Rightarrow> ('c, 's, 'b) stack_item list \<Rightarrow> i64 \<Rightarrow>
   ('c, 's, 'b, ('c, 's, 'b) stack_item list \<times> i64) ext_result" where
  "stack_chain_old T rd 0 cell xs gas = Inr (xs, gas)"
| "stack_chain_old T rd (Suc n) cell xs gas = bindR (slice_load_cell T cell) (\<lambda>s.
     bindR (rd s) (\<lambda>((x, gas2), s). stack_chain_old T rd n (drained_or_default T s) (xs @ [x]) (gas + gas2)))"

definition stack_deserialize_old ::
  "('c, 's, 'b, 'h) ton \<Rightarrow> ('c, 's, 'b) old_reader \<Rightarrow> 's \<Rightarrow>
   ('c, 's, 'b, (('c, 's, 'b) stack_item list \<times> i64) \<times> 's) ext_result" where
  "stack_deserialize_old T rd s = bindR (step_object (get_next_bit (slices T)) s) (\<lambda>(present, s).
     if \<not> present then Inr (([], 0), s)
     else bindR (step_object (get_next_int T 24) s) (\<lambda>(depth, s).
       if depth > 0 then
         bindR (rd s) (\<lambda>((x, gas), s).
         bindR (step_object (checked_drain_reference T) s) (\<lambda>(cell, s).
         bindR (stack_chain_old T rd (depth - 1) cell [x] gas) (\<lambda>r. Inr (r, s))))
       else Inr (([], 0), s)))"

definition savelist_deserialize_old ::
  "('c, 's, 'b, 'h) ton \<Rightarrow> ('c, 's, 'b) old_reader \<Rightarrow> 's \<Rightarrow> ('c, 's, 'b, (('c, 's, 'b) save_list \<times> i64) \<times> 's) ext_result" where
  "savelist_deserialize_old T rd s = bindR (step_object (get_next_bit (slices T)) s) (\<lambda>(present, s).
     if \<not> present then Inr ((savelist_new, 0), s)
     else
       let (root, s) = (case checked_drain_reference T s of (Inr c, s) \<Rightarrow> (Some c, s) | (Inl _, s) \<Rightarrow> (None, s)) in
       bindR (iterate_slices (\<lambda>(sl, gas) k v.
           bindR (step_object (get_next_int T 4) k) (\<lambda>(key, _).
           bindR (rd v) (\<lambda>((x, gas2), _).
           bindR (savelist_put key x sl) (\<lambda>(_, sl). Inr (sl, gas + gas2)))))
         (savelist_new, load_cell_price True) (hashmap_slices (formats T) (with_hashmap T 4 root))) (\<lambda>r. Inr (r, s)))"

definition cont_deserialize_old ::
  "('c, 's, 'b, 'h) ton \<Rightarrow> ('c, 's, 'b) old_reader \<Rightarrow> 's \<Rightarrow>
   ('c, 's, 'b, (('c, 's, 'b) continuation_data \<times> i64) \<times> 's) ext_result" where
  "cont_deserialize_old T rd s =
     bindR (deserialize_type_old T s) (\<lambda>((ty, gas), s).
     bindR (step_object (get_next_int T 22) s) (\<lambda>(n, s).
     bindR (stack_deserialize_old T rd s) (\<lambda>((st, gas2), s).
     bindR (savelist_deserialize_old T rd s) (\<lambda>((sl, gas3), s).
     bindR (step_object (get_next_int T 16) s) (\<lambda>(_, s).
     bindR (slice_deserialize T s) (\<lambda>(c, s).
       Inr ((ContinuationData c (nargs_from n) sl st ty, gas + gas2 + gas3 + load_cell_price True), s)))))))"

text \<open>Every level of the recursion reads an octet, and an item in a deeper cell is one level deeper: a
  cell holds at most 127 octets and a tree of cells has at most 1024 levels.\<close>

fun item_deserialize_old :: "('c, 's, 'b, 'h) ton \<Rightarrow> nat \<Rightarrow> ('c, 's, 'b) old_reader" where
  "item_deserialize_old T 0 s = Inl OutOfFuel"
| "item_deserialize_old T (Suc fuel) s = bindR (step_object (get_next_byte T) s) (\<lambda>(t, s).
     if t = 0x00 then Inr ((Item_None, 0), s)
     else if t = 0x02 then bindR (integer_item T s) (\<lambda>(x, s). Inr ((x, 0), s))
     else if t = 0x03 then bindR (step_object (checked_drain_reference T) s) (\<lambda>(c, s). Inr ((Item_Cell c, 0), s))
     else if t = 0x04 then bindR (slice_deserialize T s) (\<lambda>(x, s). Inr ((Item_Slice x, load_cell_price True), s))
     else if t = 0x05 then bindR (step_object (checked_drain_reference T) s) (\<lambda>(c, s).
       bindR (builder_from_cell (formats T) c) (\<lambda>b. Inr ((Item_Builder b, 0), s)))
     else if t = 0x06 then bindR (cont_deserialize_old T (item_deserialize_old T fuel) s) (\<lambda>((k, gas), s).
       Inr ((Item_Continuation k, gas), s))
     else if t = 0x07 then tuple_deserialize_old T (item_deserialize_old T fuel) s
     else err UnknownError)"

definition OLD_DEPTH :: nat where "OLD_DEPTH = 1024 * 128"

section \<open>Instructions\<close>

definition new_format :: "('c, 's, 'b, 'h) ton \<Rightarrow> ('c, 's, 'b, 'h, bool) action" where
  "new_format T = getE (check_capabilities (capability_bits T CapStcontNewFormat))"

definition execute_stcont :: "('c, 's, 'b, 'h) ton \<Rightarrow> ('c, 's, 'b, 'h) handler" where
  "execute_stcont T = thenE (load T ''STCONT'') (thenE (fetch_stack 2) (bindE (builder_var 0) (\<lambda>_.
     bindE (cmd_var 1) (\<lambda>x. bindE (liftE (as_continuation x)) (\<lambda>_.
     bindE (withdraw_var 1) (\<lambda>x.
     bindE (new_format T) (\<lambda>new.
     bindE (liftE (as_continuation x)) (\<lambda>k.
     bindE (if new then cont_serialize T k
            else bindE (liftE (cont_serialize_old T k)) (\<lambda>(b, gas). thenE (engine_use_gas gas) (returnE b))) (\<lambda>b.
       store_data T 0 (Inr b) False False)))))))))"

definition execute_ldcont :: "('c, 's, 'b, 'h) ton \<Rightarrow> ('c, 's, 'b, 'h) handler" where
  "execute_ldcont T = thenE (load T ''LDCONT'') (thenE (fetch_stack 1) (bindE (slice_var 0) (\<lambda>s.
     bindE (new_format T) (\<lambda>new.
     bindE (if new then cont_deserialize T s
            else bindE (liftE (cont_deserialize_old T (item_deserialize_old T OLD_DEPTH) s)) (\<lambda>((k, gas), s).
              thenE (engine_use_gas gas) (returnE (k, s)))) (\<lambda>(k, s).
       thenE (push_item (Item_Continuation k)) (push_slice s))))))"

definition cont_cell_handlers :: "('c, 's, 'b, 'h) ton \<Rightarrow> ('c, 's, 'b, 'h) named_handlers" where
  "cont_cell_handlers T = [
     (''execute_stcont'', execute_stcont T),
     (''execute_ldcont'', execute_ldcont T)]"

end
