(* ===== verification/Dispatch.thy ===== *)
theory Dispatch
  imports Code_Page Engine_Loop Exec_Stack Exec_Math Exec_Tuple Exec_Gas Exec_Config Exec_Loops Exec_Exceptions
    Exec_Slices Exec_Dictionary Exec_Blockchain Old_Format
begin

text \<open>
  From the names of the code page to the models of the handlers, and the machine of code page 0.
  An instruction that is not modelled is the argument \<open>rest\<close>, a handler for each of the other
  names.
\<close>

definition execute_nop :: "('c, 's, 'b, 'h) ton \<Rightarrow> ('c, 's, 'b, 'h) handler" where
  "execute_nop T = load T ''NOP''"

definition set_code_page :: "int \<Rightarrow> ('c, 's, 'b, 'h) handler" where
  "set_code_page n = modifyE (\<lambda>e. e \<lparr> code_page := n \<rparr>)"

definition execute_setcp :: "('c, 's, 'b, 'h) ton \<Rightarrow> ('c, 's, 'b, 'h) handler" where
  "execute_setcp T = thenE (load_opts T ''SETCP'' (Opt_Integer (- 15) 240)) (bindE cmd_integer set_code_page)"

definition execute_setcpx :: "('c, 's, 'b, 'h) ton \<Rightarrow> ('c, 's, 'b, 'h) handler" where
  "execute_setcpx T = thenE (load T ''SETCPX'') (thenE (fetch_stack 1)
     (bindE (ranged_var Isize (- (2 ^ 15)) (2 ^ (15 - 1)) 0) set_code_page))"

definition execute_unknown :: "('c, 's, 'b, 'h) handler" where
  "execute_unknown = errE InvalidOpcode"

definition codepage_handlers :: "('c, 's, 'b, 'h) ton \<Rightarrow> ('c, 's, 'b, 'h) named_handlers" where
  "codepage_handlers T = [
    (''execute_nop'', execute_nop T),
    (''execute_setcp'', execute_setcp T),
    (''execute_setcpx'', execute_setcpx T)]"

definition stack_handlers :: "('c, 's, 'b, 'h) ton \<Rightarrow> ('c, 's, 'b, 'h) named_handlers" where
  "stack_handlers T = [
    (''execute_blkdrop'', execute_blkdrop T),
    (''execute_blkdrop2'', execute_blkdrop2 T),
    (''execute_blkpush'', execute_blkpush T),
    (''execute_blkswap'', execute_blkswap T),
    (''execute_blkswx'', execute_blkswx T),
    (''execute_chkdepth'', execute_chkdepth T),
    (''execute_depth'', execute_depth T),
    (''execute_drop2'', execute_drop2 T),
    (''execute_dropx'', execute_dropx T),
    (''execute_dup2'', execute_dup2 T),
    (''execute_onlytopx'', execute_onlytopx T),
    (''execute_onlyx'', execute_onlyx T),
    (''execute_over2'', execute_over2 T),
    (''execute_pick'', execute_pick T),
    (''execute_pop'', execute_pop T),
    (''execute_popctr'', execute_popctr T),
    (''execute_popctrx'', execute_popctrx T),
    (''execute_popsave'', execute_popsave T),
    (''execute_pu2xc'', execute_pu2xc T),
    (''execute_push'', execute_push T),
    (''execute_push2'', execute_push2 T),
    (''execute_push3'', execute_push3 T),
    (''execute_pushctr'', execute_pushctr T),
    (''execute_pushctrx'', execute_pushctrx T),
    (''execute_pushint'', execute_pushint T),
    (''execute_pushint_big'', execute_pushint_big T),
    (''execute_pushnan'', execute_pushnan T),
    (''execute_pushnegpow2'', execute_pushnegpow2 T),
    (''execute_pushpow2'', execute_pushpow2 T),
    (''execute_pushpow2dec'', execute_pushpow2dec T),
    (''execute_puxc'', execute_puxc T),
    (''execute_puxc2'', execute_puxc2 T),
    (''execute_puxcpu'', execute_puxcpu T),
    (''execute_reverse'', execute_reverse T),
    (''execute_revx'', execute_revx T),
    (''execute_roll'', execute_roll T),
    (''execute_rollrev'', execute_rollrev T),
    (''execute_rot'', execute_rot T),
    (''execute_rotrev'', execute_rotrev T),
    (''execute_swap2'', execute_swap2 T),
    (''execute_tuck'', execute_tuck T),
    (''execute_xc2pu'', execute_xc2pu T),
    (''execute_xchg2'', execute_xchg2 T),
    (''execute_xchg3'', execute_xchg3 T),
    (''execute_xchgx'', execute_xchgx T),
    (''execute_xcpu'', execute_xcpu T),
    (''execute_xcpu2'', execute_xcpu2 T),
    (''execute_xcpuxc'', execute_xcpuxc T)] @
    pushcont_handlers T @ pushref_handlers T @ pushslice_handlers T @ xchg_handlers T"

definition math_handlers :: "('c, 's, 'b, 'h) ton \<Rightarrow> ('c, 's, 'b, 'h) named_handlers" where
  "math_handlers T = [
    (''execute_abs::<Quiet>'', execute_abs T Quiet),
    (''execute_abs::<Signaling>'', execute_abs T Signaling),
    (''execute_add::<Quiet>'', execute_add T Quiet),
    (''execute_add::<Signaling>'', execute_add T Signaling),
    (''execute_addconst::<Quiet>'', execute_addconst T Quiet),
    (''execute_addconst::<Signaling>'', execute_addconst T Signaling),
    (''execute_and::<Quiet>'', execute_and T Quiet),
    (''execute_and::<Signaling>'', execute_and T Signaling),
    (''execute_bitsize::<Quiet>'', execute_bitsize T Quiet),
    (''execute_bitsize::<Signaling>'', execute_bitsize T Signaling),
    (''execute_chknan'', execute_chknan T),
    (''execute_cmp::<Quiet>'', execute_cmp T Quiet),
    (''execute_cmp::<Signaling>'', execute_cmp T Signaling),
    (''execute_dec::<Quiet>'', execute_dec T Quiet),
    (''execute_dec::<Signaling>'', execute_dec T Signaling),
    (''execute_divmod::<Quiet>'', execute_divmod T Quiet),
    (''execute_divmod::<Signaling>'', execute_divmod T Signaling),
    (''execute_eqint::<Quiet>'', execute_eqint T Quiet),
    (''execute_eqint::<Signaling>'', execute_eqint T Signaling),
    (''execute_equal::<Quiet>'', execute_equal T Quiet),
    (''execute_equal::<Signaling>'', execute_equal T Signaling),
    (''execute_fits::<Quiet>'', execute_fits T Quiet),
    (''execute_fits::<Signaling>'', execute_fits T Signaling),
    (''execute_fitsx::<Quiet>'', execute_fitsx T Quiet),
    (''execute_fitsx::<Signaling>'', execute_fitsx T Signaling),
    (''execute_geq::<Quiet>'', execute_geq T Quiet),
    (''execute_geq::<Signaling>'', execute_geq T Signaling),
    (''execute_greater::<Quiet>'', execute_greater T Quiet),
    (''execute_greater::<Signaling>'', execute_greater T Signaling),
    (''execute_gtint::<Quiet>'', execute_gtint T Quiet),
    (''execute_gtint::<Signaling>'', execute_gtint T Signaling),
    (''execute_inc::<Quiet>'', execute_inc T Quiet),
    (''execute_inc::<Signaling>'', execute_inc T Signaling),
    (''execute_isnan'', execute_isnan T),
    (''execute_leq::<Quiet>'', execute_leq T Quiet),
    (''execute_leq::<Signaling>'', execute_leq T Signaling),
    (''execute_less::<Quiet>'', execute_less T Quiet),
    (''execute_less::<Signaling>'', execute_less T Signaling),
    (''execute_lessint::<Quiet>'', execute_lessint T Quiet),
    (''execute_lessint::<Signaling>'', execute_lessint T Signaling),
    (''execute_lshift::<Quiet>'', execute_lshift T Quiet),
    (''execute_lshift::<Signaling>'', execute_lshift T Signaling),
    (''execute_max::<Quiet>'', execute_max T Quiet),
    (''execute_max::<Signaling>'', execute_max T Signaling),
    (''execute_min::<Quiet>'', execute_min T Quiet),
    (''execute_min::<Signaling>'', execute_min T Signaling),
    (''execute_minmax::<Quiet>'', execute_minmax T Quiet),
    (''execute_minmax::<Signaling>'', execute_minmax T Signaling),
    (''execute_mul::<Quiet>'', execute_mul T Quiet),
    (''execute_mul::<Signaling>'', execute_mul T Signaling),
    (''execute_mulconst::<Quiet>'', execute_mulconst T Quiet),
    (''execute_mulconst::<Signaling>'', execute_mulconst T Signaling),
    (''execute_negate::<Quiet>'', execute_negate T Quiet),
    (''execute_negate::<Signaling>'', execute_negate T Signaling),
    (''execute_neq::<Quiet>'', execute_neq T Quiet),
    (''execute_neq::<Signaling>'', execute_neq T Signaling),
    (''execute_neqint::<Quiet>'', execute_neqint T Quiet),
    (''execute_neqint::<Signaling>'', execute_neqint T Signaling),
    (''execute_not::<Quiet>'', execute_not T Quiet),
    (''execute_not::<Signaling>'', execute_not T Signaling),
    (''execute_or::<Quiet>'', execute_or T Quiet),
    (''execute_or::<Signaling>'', execute_or T Signaling),
    (''execute_pow2::<Quiet>'', execute_pow2 T Quiet),
    (''execute_pow2::<Signaling>'', execute_pow2 T Signaling),
    (''execute_rshift::<Quiet>'', execute_rshift T Quiet),
    (''execute_rshift::<Signaling>'', execute_rshift T Signaling),
    (''execute_sgn::<Quiet>'', execute_sgn T Quiet),
    (''execute_sgn::<Signaling>'', execute_sgn T Signaling),
    (''execute_sub::<Quiet>'', execute_sub T Quiet),
    (''execute_sub::<Signaling>'', execute_sub T Signaling),
    (''execute_subr::<Quiet>'', execute_subr T Quiet),
    (''execute_subr::<Signaling>'', execute_subr T Signaling),
    (''execute_ubitsize::<Quiet>'', execute_ubitsize T Quiet),
    (''execute_ubitsize::<Signaling>'', execute_ubitsize T Signaling),
    (''execute_ufits::<Quiet>'', execute_ufits T Quiet),
    (''execute_ufits::<Signaling>'', execute_ufits T Signaling),
    (''execute_ufitsx::<Quiet>'', execute_ufitsx T Quiet),
    (''execute_ufitsx::<Signaling>'', execute_ufitsx T Signaling),
    (''execute_xor::<Quiet>'', execute_xor T Quiet),
    (''execute_xor::<Signaling>'', execute_xor T Signaling)]"

definition tuple_handlers :: "('c, 's, 'b, 'h) ton \<Rightarrow> ('c, 's, 'b, 'h) named_handlers" where
  "tuple_handlers T = [
    (''execute_isnull'', execute_isnull T),
    (''execute_istuple'', execute_istuple T),
    (''execute_null'', execute_null T),
    (''execute_tuple_last'', execute_tuple_last T),
    (''execute_tuple_pop'', execute_tuple_pop T),
    (''execute_tuple_push'', execute_tuple_push T)] @
    global_handlers T @ nullzero_handlers T @ tuple_create_handlers T @ untuple_handlers T @
    tuple_index_handlers T @ tuple_length_handlers T @ set_index_handlers T"

definition gas_handlers :: "('c, 's, 'b, 'h) ton \<Rightarrow> ('c, 's, 'b, 'h) named_handlers" where
  "gas_handlers T = [
    (''execute_accept'', execute_accept T),
    (''execute_buygas'', execute_buygas T),
    (''execute_commit'', execute_commit T),
    (''execute_gas_remaining'', execute_gas_remaining T),
    (''execute_gastogram'', execute_gastogram T),
    (''execute_gramtogas'', execute_gramtogas T),
    (''execute_setgaslimit'', execute_setgaslimit T)]"

definition config_handlers :: "('c, 's, 'b, 'h) ton \<Rightarrow> ('c, 's, 'b, 'h) named_handlers" where
  "config_handlers T = [
    (''execute_balance'', execute_balance T),
    (''execute_config_dict'', execute_config_dict T),
    (''execute_init_code_hash'', execute_init_code_hash T),
    (''execute_my_code'', execute_my_code T),
    (''execute_randseed'', execute_randseed T),
    (''execute_seq_no'', execute_seq_no T),
    (''execute_setrand'', execute_setrand T),
    (''execute_storage_fees_collected'', execute_storage_fees_collected T)] @
    config_info_handlers T @ config_param_handlers T"

definition continuation_handlers :: "('c, 's, 'b, 'h) ton \<Rightarrow> ('c, 's, 'b, 'h) named_handlers" where
  "continuation_handlers T = [
    (''execute_atexit'', execute_atexit T),
    (''execute_atexitalt'', execute_atexitalt T),
    (''execute_bless'', execute_bless T),
    (''execute_blessargs'', execute_blessargs T),
    (''execute_blessva'', execute_blessva T),
    (''execute_booleval'', execute_booleval T),
    (''execute_callcc'', execute_callcc T),
    (''execute_callccargs'', execute_callccargs T),
    (''execute_callccva'', execute_callccva T),
    (''execute_callref'', execute_callref T),
    (''execute_callx'', execute_callx T),
    (''execute_callxargs'', execute_callxargs T),
    (''execute_callxva'', execute_callxva T),
    (''execute_compos'', execute_compos T),
    (''execute_composalt'', execute_composalt T),
    (''execute_composboth'', execute_composboth T),
    (''execute_condsel'', execute_condsel T),
    (''execute_condselchk'', execute_condselchk T),
    (''execute_invert'', execute_invert T),
    (''execute_jmpref'', execute_jmpref T),
    (''execute_jmprefdata'', execute_jmprefdata T),
    (''execute_jmpx'', execute_jmpx T),
    (''execute_jmpxargs'', execute_jmpxargs T),
    (''execute_jmpxdata'', execute_jmpxdata T),
    (''execute_jmpxva'', execute_jmpxva T),
    (''execute_ret'', execute_ret T),
    (''execute_retalt'', execute_retalt T),
    (''execute_retargs'', execute_retargs T),
    (''execute_retbool'', execute_retbool T),
    (''execute_retdata'', execute_retdata T),
    (''execute_returnargs'', execute_returnargs T),
    (''execute_returnva'', execute_returnva T),
    (''execute_retva'', execute_retva T),
    (''execute_samealt'', execute_samealt T),
    (''execute_samealt_save'', execute_samealt_save T),
    (''execute_save'', execute_save T),
    (''execute_savealt'', execute_savealt T),
    (''execute_saveboth'', execute_saveboth T),
    (''execute_setaltctr'', execute_setaltctr T),
    (''execute_setcontargs'', execute_setcontargs T),
    (''execute_setcontctr'', execute_setcontctr T),
    (''execute_setcontctrx'', execute_setcontctrx T),
    (''execute_setcontva'', execute_setcontva T),
    (''execute_setexitalt'', execute_setexitalt T),
    (''execute_setnumvarargs'', execute_setnumvarargs T),
    (''execute_setretctr'', execute_setretctr T),
    (''execute_thenret'', execute_thenret T),
    (''execute_thenretalt'', execute_thenretalt T)] @
    call_handlers T @ if_handlers T @ ifbit_handlers T"

definition loop_handlers :: "('c, 's, 'b, 'h) ton \<Rightarrow> ('c, 's, 'b, 'h) named_handlers" where
  "loop_handlers T = [
    (''execute_again'', execute_again T),
    (''execute_again_break'', execute_again_break T),
    (''execute_againend'', execute_againend T),
    (''execute_againend_break'', execute_againend_break T),
    (''execute_repeat'', execute_repeat T),
    (''execute_repeat_break'', execute_repeat_break T),
    (''execute_repeatend'', execute_repeatend T),
    (''execute_repeatend_break'', execute_repeatend_break T),
    (''execute_until'', execute_until T),
    (''execute_until_break'', execute_until_break T),
    (''execute_untilend'', execute_untilend T),
    (''execute_untilend_break'', execute_untilend_break T),
    (''execute_while'', execute_while T),
    (''execute_while_break'', execute_while_break T),
    (''execute_whileend'', execute_whileend T),
    (''execute_whileend_break'', execute_whileend_break T)]"

definition exception_handlers :: "('c, 's, 'b, 'h) ton \<Rightarrow> ('c, 's, 'b, 'h) named_handlers" where
  "exception_handlers T = [
    (''execute_throwany'', execute_throwany T),
    (''execute_throwarg'', execute_throwarg T),
    (''execute_throwargany'', execute_throwargany T),
    (''execute_try'', execute_try T),
    (''execute_tryargs'', execute_tryargs T),
    (''execute_trykeep'', execute_trykeep T)] @
    throw_handlers T @ throwanyif_handlers T @ throwarganyif_handlers T @ throwargif_handlers T @
    throwif_handlers T"

definition modelled_handlers :: "('c, 's, 'b, 'h) ton \<Rightarrow> ('c, 's, 'b, 'h) named_handlers" where
  "modelled_handlers T = (execute_unknown_name, execute_unknown) # codepage_handlers T @
     stack_handlers T @
     math_handlers T @
     tuple_handlers T @
     gas_handlers T @
     config_handlers T @
     continuation_handlers T @
     loop_handlers T @
     exception_handlers T @
     serialize_handlers T @
     deserialize_handlers T @
     slice_handlers T @
     dictionary_handlers T @
     rand_handlers T @
     blockchain_handlers T @
     cont_cell_handlers T"

definition handler_of ::
  "('c, 's, 'b, 'h) ton \<Rightarrow> (string \<Rightarrow> ('c, 's, 'b, 'h) handler) \<Rightarrow> string \<Rightarrow> ('c, 's, 'b, 'h) handler" where
  "handler_of T rest name = (case map_of (modelled_handlers T) name of Some h \<Rightarrow> h | None \<Rightarrow> rest name)"

definition lookup_handler ::
  "('c, 's, 'b, 'h) ton \<Rightarrow> (string \<Rightarrow> ('c, 's, 'b, 'h) handler) \<Rightarrow> handlers \<Rightarrow>
   ('c, 's, 'b, 'h, ('c, 's, 'b, 'h) handler) action" where
  "lookup_handler T rest h = bindE (get_handler T h) (\<lambda>name. returnE (handler_of T rest name))"

text \<open>The machine with the static table \<open>HANDLERS_CP0\<close>; a panic while the table is built
  would be a panic of the machine.\<close>

definition execute_cp0 ::
  "('c, 's, 'b, 'h) ton \<Rightarrow> (string \<Rightarrow> ('c, 's, 'b, 'h) handler) \<Rightarrow> nat \<Rightarrow> ('c, 's, 'b, 'h, int) action" where
  "execute_cp0 T rest fuel = (case build new_code_page_0 handlers_new of
     None \<Rightarrow> throwE Panic
   | Some h \<Rightarrow> execute T (lookup_handler T rest h) fuel)"

section \<open>Dispatch is search\<close>

text \<open>C1: the table of code page 0 is built without a panic, although every registration of an
  occupied slot panics, and the machine that walks the table of 256-entry arrays behaves, on every
  state and program, like the machine that searches the list of registrations for the one
  operation covering each code byte.\<close>

theorem code_page_0_dispatch:
  "build new_code_page_0 handlers_new \<noteq> None \<and>
   execute_cp0 T rest fuel =
     execute T (bindE (find_handler T new_code_page_0) (\<lambda>name. returnE (handler_of T rest name))) fuel"
proof -
  obtain h where h: "build new_code_page_0 handlers_new = Some h"
    "get_handler T h = find_handler T new_code_page_0"
    using build_get_handler [OF new_code_page_0_well_formed] by (fast intro: ext)
  then show ?thesis by (simp add: execute_cp0_def lookup_handler_def)
qed

end
