(* ===== verification/Safety_Data.thy ===== *)
theory Safety_Data
  imports Safety Dispatch
begin

text \<open>
  The instructions on the stack, on integers, on tuples and globals, on gas and on the contract's
  configuration keep the invariant of \<open>Safety\<close>: the judgement for the shapes they share, then
  for every handler of the tables of \<open>Dispatch\<close>.
\<close>

lemma safe_return_state [safe]: "safe (\<lambda>e. (Inr x, e)) any"
  by (rule safe_state) simp

lemma safe_fail_state [safe]: "safe (\<lambda>e. (Inl (CodeError c), e)) any"
  by (rule safe_state) simp

definition all_safe :: "('c, 's, 'b, 'h) named_handlers \<Rightarrow> bool" where
  "all_safe hs = list_all (\<lambda>(name, h). safe h any) hs"

lemma all_safe_simps:
  "all_safe [] = True" "all_safe ((name, h) # hs) = (safe h any \<and> all_safe hs)"
  "all_safe (hs @ hs') = (all_safe hs \<and> all_safe hs')"
  by (simp_all add: all_safe_def)

section \<open>Stack instructions\<close>

lemma safe_load [safe]: "ton_ok T \<Longrightarrow> safe (load T name) any" "ton_ok T \<Longrightarrow> safe (load_opts T name opts) any"
  unfolding load_def load_opts_def by (rule safe, assumption)+

lemma safe_shapes [safe]:
  "safe m any \<Longrightarrow> safe (need_depth n m) any"
  "(\<And>i j. safe (f i j) any) \<Longrightarrow> safe (with_pair f) any"
  "(\<And>i j k. safe (g i j k) any) \<Longrightarrow> safe (with_trio g) any"
  "(\<And>i j. safe (f i j) any) \<Longrightarrow> safe (with_length_and_index f) any"
  "safe (small_var i) any" "safe (int_var i) any" "safe (ranged_var t lo hi i) any"
  "safe (drop_items i j) any" "safe (drop_item i) any" "safe (PUSH i) any" "safe (XCHG i j) any"
  unfolding need_depth_def with_pair_def with_trio_def with_length_and_index_def small_var_def int_var_def
    ranged_var_def drop_items_def drop_item_def PUSH_def XCHG_def
  by (rule safe safe_from_stack safe_on_stack stack_results_ok | assumption)+

lemma safe_remove_var [safe]: "safe (remove_var i) item_ok"
  unfolding remove_var_def by (rule safe_state) (simp add: engine_simps items_ok_parts)

lemma safe_set_params [safe]: "safe (modifyE (\<lambda>e. e \<lparr> cmd := (cmd e) \<lparr> params := f e \<rparr> \<rparr>)) any"
  by (rule safe_modify) (simp_all add: engine_simps)

lemma item_intros:
  "item_ok Item_None" "item_ok (Item_Integer i)" "item_ok (Item_Slice s)" "item_ok (Item_Cell c)"
  "item_ok (Item_Builder b)" "item_ok (item_int n)" "item_ok (item_boolean q)"
  "items_ok xs \<Longrightarrow> item_ok (Item_Tuple xs)" "cont_ok k \<Longrightarrow> item_ok (Item_Continuation k)"
  "cont_ok (with_type s ty)" "cont_ok (new_empty s)" "cont_ok (with_code s)"
  by (simp_all add: item_int_def item_boolean_def)

declare item_intros [simp]

lemma stack_insert_ok [simp]: "items_ok st \<Longrightarrow> item_ok x \<Longrightarrow> result_ok items_ok (stack_insert i x st)"
  by (simp add: stack_insert_def items_ok_parts)

lemmas stack_body_defs = blkpush_def pu2xc_def push_reg_def push2_def push3_def puxc_def puxc2_def puxcpu_def
  xc2pu_def xchg2_def xchg3_def xcpu_def xcpu2_def xcpuxc_def roll_def rollrev_def push_result_def fetch_ref_def
  execute_xchg_def execute_pushcont_def execute_pushslice_def

lemmas stack_handler_defs =
  execute_blkdrop_def execute_blkdrop2_def execute_blkpush_def execute_blkswap_def execute_blkswx_def
  execute_chkdepth_def execute_depth_def execute_drop2_def execute_dropx_def execute_dup2_def
  execute_onlytopx_def execute_onlyx_def execute_over2_def execute_pick_def execute_pop_def
  execute_popctr_def execute_popctrx_def execute_popsave_def execute_pu2xc_def execute_push_def
  execute_push2_def execute_push3_def
  execute_pushctr_def execute_pushctrx_def execute_pushint_def execute_pushint_big_def
  execute_pushnan_def execute_pushnegpow2_def execute_pushpow2_def execute_pushpow2dec_def
  execute_puxc_def execute_puxc2_def
  execute_puxcpu_def execute_reverse_def execute_revx_def execute_roll_def execute_rollrev_def
  execute_rot_def execute_rotrev_def execute_swap2_def execute_tuck_def
  execute_xc2pu_def execute_xchg2_def execute_xchg3_def
  execute_xchgx_def execute_xcpu_def execute_xcpu2_def execute_xcpuxc_def

lemma stack_handlers_safe: "ton_ok T \<Longrightarrow> all_safe (stack_handlers T)"
  unfolding stack_handlers_def pushcont_handlers_def pushref_handlers_def pushslice_handlers_def xchg_handlers_def
    all_safe_simps
  by (intro conjI TrueI; unfold stack_handler_defs stack_body_defs Let_def;
    (rule safe safe_from_stack safe_on_stack stack_results_ok reverse_range_ok push_copies_ok
      stack_insert_ok safe_repeat | assumption | simp)+)

section \<open>Arithmetic\<close>

lemma safe_load_math [safe]: "ton_ok T \<Longrightarrow> safe (load_math T B name opts) any"
  unfolding load_math_def by (rule safe)

lemma safe_stack_at [safe]: "safe (stack_at i) item_ok"
  unfolding stack_at_def
proof (rule safe_state, goal_cases)
  case (1 e)
  then show ?case using cc_stack_ok [OF 1] items_ok_parts(6) [of "view (cc_stack e)" i]
    by (simp add: depth_def items_ok_parts)
qed

lemma safe_at [safe]: "safe (int_at i) any" "safe (withdraw_at i) item_ok"
  unfolding int_at_def withdraw_at_def by (rule safe_returnI safe | simp)+

lemma safe_get_var [safe]: "safe (get_var i) any" "safe (get_shift i) any" "safe (push_result r) any"
  unfolding get_shift_def get_var_def push_result_def by (rule safe | simp)+

lemma safe_seq_map: "(\<And>x. safe (f x) any) \<Longrightarrow> safe (seqE (map f xs)) any"
  by (induction xs) (auto intro!: safe)

lemma safe_divmod [safe]: "safe (divmod_body B mode) any"
  unfolding divmod_body_def Let_def check_integer_vars_def divmod_result_def divmod_premultiplied_def divmod_push_def
  by (rule safe safe_seq_map | simp)+

lemma safe_math_bodies [safe]: "safe (unary_body f) any" "safe (fits_body B n g) any"
  unfolding unary_body_def fits_body_def by (rule safe | simp)+

lemma safe_math_shapes [safe]:
  assumes "ton_ok T"
  shows "safe (binary T B name f) any" "safe (binary_assign T B name g) any" "safe (unary T B name h) any"
    "safe (binary_with_const T B name i) any" "safe (unary_with_len T B name j) any" "safe (minmax T B name k) any"
  unfolding binary_def binary_body_def binary_assign_def binary_assign_body_def unary_def binary_with_const_def
    unary_with_len_def minmax_def
  by (rule safe assms | simp)+

lemma math_handler_rules:
  assumes "ton_ok T"
  shows "safe (execute_abs T B) any" "safe (execute_add T B) any" "safe (execute_addconst T B) any"
    "safe (execute_and T B) any" "safe (execute_bitsize T B) any" "safe (execute_chknan T) any"
    "safe (execute_cmp T B) any" "safe (execute_dec T B) any" "safe (execute_divmod T B) any"
    "safe (execute_eqint T B) any" "safe (execute_equal T B) any" "safe (execute_fits T B) any"
    "safe (execute_fitsx T B) any" "safe (execute_geq T B) any" "safe (execute_greater T B) any"
    "safe (execute_gtint T B) any" "safe (execute_inc T B) any" "safe (execute_isnan T) any"
    "safe (execute_leq T B) any" "safe (execute_less T B) any" "safe (execute_lessint T B) any"
    "safe (execute_lshift T B) any" "safe (execute_max T B) any" "safe (execute_min T B) any"
    "safe (execute_minmax T B) any" "safe (execute_mul T B) any" "safe (execute_mulconst T B) any"
    "safe (execute_negate T B) any" "safe (execute_neq T B) any" "safe (execute_neqint T B) any"
    "safe (execute_not T B) any" "safe (execute_or T B) any" "safe (execute_pow2 T B) any"
    "safe (execute_rshift T B) any" "safe (execute_sgn T B) any" "safe (execute_sub T B) any"
    "safe (execute_subr T B) any" "safe (execute_ubitsize T B) any" "safe (execute_ufits T B) any"
    "safe (execute_ufitsx T B) any" "safe (execute_xor T B) any"
  unfolding execute_abs_def execute_add_def execute_addconst_def execute_and_def execute_bitsize_def
    execute_chknan_def execute_cmp_def execute_dec_def execute_divmod_def execute_eqint_def
    execute_equal_def execute_fits_def execute_fitsx_def execute_geq_def execute_greater_def
    execute_gtint_def execute_inc_def execute_isnan_def execute_leq_def execute_less_def
    execute_lessint_def execute_lshift_def execute_max_def execute_min_def execute_minmax_def
    execute_mul_def execute_mulconst_def execute_negate_def execute_neq_def execute_neqint_def
    execute_not_def execute_or_def execute_pow2_def execute_rshift_def execute_sgn_def execute_sub_def
    execute_subr_def execute_ubitsize_def execute_ufits_def execute_ufitsx_def execute_xor_def Let_def
  by (rule safe item_intros assms)+

lemma math_handlers_safe: "ton_ok T \<Longrightarrow> all_safe (math_handlers T)"
  unfolding math_handlers_def all_safe_simps by (intro conjI TrueI math_handler_rules)

section \<open>Tuples and globals\<close>

lemma as_tuple_mut_ok [simp]:
  assumes "item_ok x"
  shows "item_ok (snd (as_tuple_mut x))" "result_ok items_ok (fst (as_tuple_mut x))"
    "item_ok (snd (withdraw_tuple_part n x))" "result_ok items_ok (fst (withdraw_tuple_part n x))"
  using assms by (cases x; simp add: items_ok_parts; fail)+

lemma can_put_emptied [simp]: "can_put i x \<Longrightarrow> can_put i (snd (as_tuple_mut x))"
  by (cases x) (simp_all add: can_put_def split: if_splits)

lemma tuple_item_ok [simp]: "item_ok x \<Longrightarrow> result_ok item_ok (tuple_item x n d)"
  unfolding tuple_item_def by (rule result_ok_bind, rule as_ok) (auto simp: items_ok_parts)

lemma safe_tuple_shapes [safe]:
  "ton_ok T \<Longrightarrow> safe (load_with_length T name wanted lo hi) any" "safe (nat_var hi i) any"
  "safe (withdraw_var i) item_ok" "safe (var_tuple_mut i) items_ok" "safe (use_tuple_gas n) any"
  unfolding load_with_length_def nat_var_def withdraw_var_def var_tuple_mut_def use_tuple_gas_def
  by (rule safe safe_returnI safe_lift | simp)+

lemma safe_push_items [safe]: "items_ok xs \<Longrightarrow> safe (push_items xs) any"
  unfolding push_items_def by (induction xs) (auto intro!: safe)

lemma safe_ctrl_tuple_mut [safe]: "safe (ctrl_tuple_mut 7) items_ok"
  unfolding ctrl_tuple_mut_def by (rule safe safe_set_ctrl safe_lift | auto simp: slot_ok_def)+

lemma safe_split_vars [safe]: "safe (split_vars n) items_ok"
  unfolding split_vars_def by (rule safe_state) (simp add: engine_simps items_ok_parts)

lemma safe_item_of_var [safe]: "safe (item_of_var i n d) item_ok"
  unfolding item_of_var_def by (rule safe safe_lift tuple_item_ok | assumption)+

lemma safe_tuple_index [safe]: "ton_ok T \<Longrightarrow> safe (tuple_index T how) any"
proof -
  assume T: "ton_ok T"
  have item: "safe (if index = 0 then item_of_var 1 n q
              else if index = 1 then bindE cmd_length (\<lambda>n. item_of_var 0 n q)
              else if index = 2 then bindE cmd_sregs (\<lambda>r.
                bindE (item_of_var 0 (pair_ra r) False) (\<lambda>v. liftE (tuple_item v (pair_rb r) False)))
              else bindE cmd_sregs3 (\<lambda>r.
                bindE (item_of_var 0 (trio_ra r) False) (\<lambda>v.
                bindE (liftE (tuple_item v (trio_rb r) False)) (\<lambda>w.
                  liftE (tuple_item w (trio_rc r) False))))) item_ok" for index :: "8 word" and n q
    by (rule safe safe_lift tuple_item_ok | assumption)+
  show ?thesis unfolding tuple_index_def load_index_def Let_def
    by (rule safe safe_bind [OF item] T | simp)+
qed

lemma items_ok_replicate [simp]: "items_ok (replicate n x) = (n = 0 \<or> item_ok x)"
  by (auto simp: items_ok_def)

lemma safe_taken_tuple [safe]: "safe (taken_tuple how i) items_ok"
  unfolding taken_tuple_def by (rule safe safe_returnI | simp)+

lemma safe_set_index [safe]: "ton_ok T \<Longrightarrow> safe (set_index T name how) any"
  unfolding set_index_def set_index_v1_def set_index_v2_def set_index_operands_def set_index_v1_body_def
    set_index_v2_body_def Let_def
  by (rule safe | simp add: items_ok_parts)+

lemma safe_tuple_length [safe]: "ton_ok T \<Longrightarrow> safe (tuple_length T name how) any"
proof -
  assume T: "ton_ok T"
  have len: "safe (case as_tuple x of Inr t \<Rightarrow> push_item (item_int (int (length t)))
      | Inl er \<Rightarrow> if bit_set how QUIET then push_item (item_int (- 1)) else throwE er) any" if "item_ok x" for x
    using as_ok(8) [OF that] by (cases "as_tuple x") (auto intro!: safe safe_throw)
  show ?thesis unfolding tuple_length_def by (rule safe len T | assumption)+
qed

lemma safe_untuple [safe]: "ton_ok T \<Longrightarrow> safe (untuple T name how) any"
  unfolding untuple_def unpack_def Let_def
  by (rule safe safe_lift as_tuple_mut_ok | assumption | simp)+

lemma safe_globals [safe]:
  "safe (set_global n k) any" "safe (get_global k) any"
  unfolding set_global_def get_global_def Let_def
  by (rule safe safe_lift tuple_item_ok | auto simp: slot_ok_def items_ok_parts split: if_splits)+

lemma safe_tuple_bodies [safe]:
  "ton_ok T \<Longrightarrow> safe (tuple T name how) any" "ton_ok T \<Longrightarrow> safe (nullzeroswapif T name how) any"
  "ton_ok T \<Longrightarrow> safe (execute_setget_globalvar T name b c d) any" "safe tuple_push_body any" "safe tuple_pop_body any"
  unfolding tuple_def make_tuple_def nullzeroswapif_def execute_setget_globalvar_def tuple_push_body_def
    tuple_pop_body_def Let_def
  by (rule safe | assumption | simp add: items_ok_parts safe_globals; fail)+

lemmas tuple_table_defs = global_handlers_def nullzero_handlers_def tuple_create_handlers_def untuple_handlers_def
  tuple_index_handlers_def tuple_length_handlers_def set_index_handlers_def

lemmas tuple_handler_defs =
  execute_isnull_def execute_istuple_def execute_null_def


  execute_tuple_last_def
  execute_tuple_pop_def execute_tuple_push_def



lemma tuple_handlers_safe: "ton_ok T \<Longrightarrow> all_safe (tuple_handlers T)"
  unfolding tuple_handlers_def tuple_table_defs all_safe_simps tuple_handler_defs
  by (intro conjI TrueI; (rule safe | assumption | simp add: items_ok_parts)+)

section \<open>Gas and configuration\<close>

lemma safe_setgaslimit [safe]: "safe (setgaslimit n) any"
  unfolding setgaslimit_def by (rule safe_state) (simp add: engine_simps)

lemma safe_set_gas [safe]: "safe (modifyE (\<lambda>e. e \<lparr> egas := f e \<rparr>)) any"
  by (rule safe_modify) (simp_all add: engine_simps)

lemmas gas_handler_defs =
  execute_accept_def execute_buygas_def execute_commit_def execute_gas_remaining_def
  execute_gastogram_def execute_gramtogas_def execute_setgaslimit_def

lemma gas_handlers_safe: "ton_ok T \<Longrightarrow> all_safe (gas_handlers T)"
  unfolding gas_handlers_def all_safe_simps
  by (intro conjI TrueI; unfold gas_handler_defs; (rule safe safe_get_any | assumption | simp)+)

lemma smci_lookup_ok:
  "item_ok x \<Longrightarrow> result_ok item_ok (bindR (as_tuple x) (\<lambda>t.
      bindR (case t of [] \<Rightarrow> err RangeCheckError | y # _ \<Rightarrow> as_tuple y) (\<lambda>info.
        if i < length info then Inr (info ! i) else err RangeCheckError)))"
  by (intro result_ok_bind [of items_ok]) (auto simp: items_ok_parts split: list.split)

lemma safe_smci_param [safe]: "safe (smci_param i) item_ok"
  unfolding smci_param_def
  by (rule safe_bind [OF safe_engine_ctrl], rule safe_lift, rule smci_lookup_ok) (simp add: slot_ok_def)

lemma safe_case_list:
  "(xs = [] \<Longrightarrow> safe m V) \<Longrightarrow> (\<And>y ys. xs = y # ys \<Longrightarrow> safe (f y ys) V) \<Longrightarrow>
   safe (case xs of [] \<Rightarrow> m | y # ys \<Rightarrow> f y ys) V"
  by (cases xs) simp_all

lemma safe_set_rand [safe]: "safe (set_rand r) any"
  unfolding set_rand_def
  by (rule safe safe_case_list safe_lift safe_set_ctrl as_tuple_mut_ok | auto simp: can_put_def items_ok_parts)+

lemma safe_case_cell:
  "(\<And>c. x = Item_Cell c \<Longrightarrow> safe (f c) V) \<Longrightarrow> safe m V \<Longrightarrow>
   safe (case x of Item_Cell c \<Rightarrow> f c | _ \<Rightarrow> m) V"
  by (cases x) simp_all

lemma safe_get_config_param [safe]: "ton_ok T \<Longrightarrow> safe (get_config_param T i) any"
  unfolding get_config_param_def
  by (rule safe safe_case_cell safe_hashmap safe_lift ton_ok_results | assumption)+

lemmas config_body_defs = execute_config_param_def extract_config_def

lemmas config_handler_defs =
  execute_balance_def execute_config_dict_def
  execute_init_code_hash_def
  execute_my_code_def execute_randseed_def
  execute_seq_no_def execute_setrand_def execute_storage_fees_collected_def

lemma config_handlers_safe: "ton_ok T \<Longrightarrow> all_safe (config_handlers T)"
  unfolding config_handlers_def config_info_handlers_def config_param_handlers_def all_safe_simps
  by (intro conjI TrueI; unfold config_handler_defs config_body_defs; (rule safe | assumption | simp)+)

end
