(* ===== verification/Safety_Control.thy ===== *)
theory Safety_Control
  imports Safety_Data
begin

text \<open>
  The control-flow instructions, the loops, the exceptions and the machine's own steps keep the
  invariant of \<open>Safety\<close>; so does the whole machine of code page 0.
\<close>

section \<open>Control flow\<close>

lemma safe_get_cc_code [safe]: "safe (getE (\<lambda>e. code_of (cc e))) any"
  by (rule safe_get_any)

lemma safe_cont_shapes [safe]:
  "safe (cont_var i) cont_ok" "safe (check_cont_var i) any" "safe (code_var i) any" "safe (push_typed T ty) any"
  "safe (take_cc_code T) any" "safe push_last_var any" "safe (push_removed i) any" "safe (counter_var i) any"
  "safe (push_code c) any" "safe (fetch_nargs i lo hi) any" "safe (fetch_pargs i lo hi) any"
  unfolding check_cont_var_def code_var_def cont_var_def push_typed_def take_cc_code_def push_last_var_def
    push_removed_def counter_var_def push_code_def fetch_nargs_def fetch_pargs_def
  by (rule safe item_intros | assumption)+

lemma safe_set_cc: "cont_ok k \<Longrightarrow> safe (modifyE (\<lambda>e. e \<lparr> cc := k \<rparr>)) any"
  by (rule safe_modify) (simp_all add: engine_simps)

lemma safe_switch [safe]: "safe (switch T a) any"
  unfolding switch_def Let_def by (rule safe item_intros | simp add: adjust_def)+

lemma safe_set_ctrl_cont [safe]: "cont_ok k \<Longrightarrow> i \<in> {0, 1, 2, 3} \<Longrightarrow> safe (set_ctrl i (Item_Continuation k)) any"
  by (rule safe_set_ctrl) simp_all

lemma safe_switch_to_c0 [safe]: "safe switch_to_c0 any"
  unfolding switch_to_c0_def
  by (rule safe safe_set_cc | assumption | simp add: adjust_def slot_ok_def; fail)+

lemma safe_ret [safe]: "safe (ret T) any" "safe (retalt T) any"
  unfolding ret_def retalt_def by (rule safe)+

lemma safe_set_nargs_at [safe]: "safe (set_nargs_at a n) any"
  unfolding set_nargs_at_def by (rule safe | simp)+

lemma safe_call [safe]:
  assumes "ton_ok T"
  shows "safe (callcc T i) any" "safe (callx T i b) any" "safe (jmpx T b) any" "safe jmpxdata any"
  unfolding callcc_def callx_def callx_switch_def callx_nargs_def jmpx_def jmpxdata_def
  by (rule safe item_intros assms | simp split: option.split; fail)+

lemma safe_setcont [safe]: "ton_ok T \<Longrightarrow> safe (setcont T v b) any"
  unfolding setcont_def fetch_nargs_pargs_def by (rule safe item_intros | simp; fail)+

lemma safe_save [safe]: "safe (save i) any"
  unfolding save_def by (rule safe | simp add: slot_ok_def; fail)+

lemma safe_fail_exc: "safe (\<lambda>e. (Inl (exc c), e)) any"
  by (rule safe_state) simp

lemma safe_saveboth [safe]: "safe saveboth_body any"
  unfolding saveboth_body_def err_def by (rule safe safe_fail_exc)+

lemma safe_if_branch [safe]: "ton_ok T \<Longrightarrow> safe (if_branch T how taken) any"
  unfolding if_branch_def by (rule safe | assumption)+

lemma safe_if_mask [safe]: "ton_ok T \<Longrightarrow> safe (execute_if_mask T name how) any"
  unfolding execute_if_mask_def by (rule safe | assumption)+

lemma safe_ifbit_mask [safe]: "ton_ok T \<Longrightarrow> safe (execute_ifbit_mask T name how) any"
  unfolding execute_ifbit_mask_def by (rule safe safe_lift stack_results_ok | assumption | simp; fail)+

lemma safe_execute_call [safe]: "ton_ok T \<Longrightarrow> safe (execute_call T name lo hi how) any"
  unfolding execute_call_def
  by (cases how; simp only: call_mode.case; (rule safe item_intros | assumption)+)

lemma safe_selects [safe]: "safe select_var any" "safe (returnargs n) any" "safe (fetch_nargs_pargs a b c d) any"
  unfolding select_var_def returnargs_def fetch_nargs_pargs_def by (rule safe)+

lemma continuation_handler_rules:
  assumes "ton_ok T"
  shows "safe (execute_atexit T) any" "safe (execute_atexitalt T) any" "safe (execute_bless T) any"
    "safe (execute_blessargs T) any" "safe (execute_blessva T) any" "safe (execute_booleval T) any"
    "safe (execute_callcc T) any"
    "safe (execute_callccargs T) any" "safe (execute_callccva T) any" "safe (execute_callref T) any"
    "safe (execute_callx T) any" "safe (execute_callxargs T) any" "safe (execute_callxva T) any"
    "safe (execute_compos T) any" "safe (execute_composalt T) any" "safe (execute_composboth T) any"
    "safe (execute_condsel T) any" "safe (execute_condselchk T) any"
    "safe (execute_invert T) any"
    "safe (execute_jmpref T) any" "safe (execute_jmprefdata T) any" "safe (execute_jmpx T) any"
    "safe (execute_jmpxargs T) any" "safe (execute_jmpxdata T) any" "safe (execute_jmpxva T) any"
    "safe (execute_ret T) any" "safe (execute_retalt T) any"
    "safe (execute_retargs T) any" "safe (execute_retbool T) any" "safe (execute_retdata T) any"
    "safe (execute_returnargs T) any" "safe (execute_returnva T) any" "safe (execute_retva T) any"
    "safe (execute_samealt T) any" "safe (execute_samealt_save T) any" "safe (execute_save T) any"
    "safe (execute_savealt T) any" "safe (execute_saveboth T) any" "safe (execute_setaltctr T) any"
    "safe (execute_setcontargs T) any" "safe (execute_setcontctr T) any"
    "safe (execute_setcontctrx T) any" "safe (execute_setcontva T) any"
    "safe (execute_setexitalt T) any" "safe (execute_setnumvarargs T) any"
    "safe (execute_setretctr T) any" "safe (execute_thenret T) any" "safe (execute_thenretalt T) any"
  unfolding execute_atexit_def execute_atexitalt_def execute_bless_def execute_blessargs_def execute_blessva_def
    execute_booleval_def execute_callcc_def
    execute_callccargs_def execute_callccva_def execute_callref_def execute_callx_def
    execute_callxargs_def execute_callxva_def execute_compos_def execute_composalt_def
    execute_composboth_def execute_condsel_def execute_condselchk_def
    execute_invert_def
    execute_jmpref_def execute_jmprefdata_def execute_jmpx_def execute_jmpxargs_def execute_jmpxdata_def
    execute_jmpxva_def execute_ret_def execute_retalt_def execute_retargs_def
    execute_retbool_def execute_retdata_def execute_returnargs_def execute_returnva_def
    execute_retva_def execute_samealt_def execute_samealt_save_def execute_save_def execute_savealt_def
    execute_saveboth_def execute_setaltctr_def execute_setcontargs_def execute_setcontctr_def
    execute_setcontctrx_def execute_setcontva_def execute_setexitalt_def execute_setnumvarargs_def
    execute_setretctr_def execute_thenret_def execute_thenretalt_def Let_def
  by (rule safe item_intros assms | assumption)+

lemma continuation_handlers_safe: "ton_ok T \<Longrightarrow> all_safe (continuation_handlers T)"
  unfolding continuation_handlers_def call_handlers_def if_handlers_def ifbit_handlers_def all_safe_simps
  by (intro conjI TrueI continuation_handler_rules safe_if_mask safe_ifbit_mask safe_execute_call)

section \<open>Loops\<close>

lemma loop_handler_rules:
  assumes "ton_ok T"
  shows "safe (execute_again T) any" "safe (execute_again_break T) any" "safe (execute_againend T) any"
    "safe (execute_againend_break T) any" "safe (execute_repeat T) any"
    "safe (execute_repeat_break T) any" "safe (execute_repeatend T) any"
    "safe (execute_repeatend_break T) any" "safe (execute_until T) any"
    "safe (execute_until_break T) any" "safe (execute_untilend T) any"
    "safe (execute_untilend_break T) any" "safe (execute_while T) any"
    "safe (execute_while_break T) any" "safe (execute_whileend T) any"
    "safe (execute_whileend_break T) any"
  unfolding execute_again_def execute_again_break_def execute_againend_def execute_againend_break_def
    execute_repeat_def execute_repeat_break_def execute_repeatend_def execute_repeatend_break_def
    execute_until_def execute_until_break_def execute_untilend_def execute_untilend_break_def
    execute_while_def execute_while_break_def execute_whileend_def execute_whileend_break_def Let_def
  by (rule safe item_intros assms | assumption)+

lemma loop_handlers_safe: "ton_ok T \<Longrightarrow> all_safe (loop_handlers T)"
  unfolding loop_handlers_def all_safe_simps by (intro conjI TrueI loop_handler_rules)

section \<open>Exceptions\<close>

lemma safe_do_throw [safe]: "safe (do_throw n v) any"
proof -
  have v: "safe (case v of None \<Rightarrow> returnE (item_int 0) | Some i \<Rightarrow> cmd_var i) item_ok"
    by (cases v) (auto intro: safe safe_returnI)
  show ?thesis unfolding do_throw_def
    by (rule safe_bind [OF v] safe safe_throw | simp add: from_number_and_value_def)+
qed

lemma safe_upd_cont_var: "(\<And>k. cont_ok k \<Longrightarrow> cont_ok (f k)) \<Longrightarrow> safe (upd_cont_var i f) any"
  unfolding upd_cont_var_def by (rule safe item_intros | simp)+

lemma catch_ok:
  "cont_ok k \<Longrightarrow> cont_ok (catch_setup b k)" "cont_ok k \<Longrightarrow> cont_ok (snd (remove_from_savelist i k))"
  by (simp_all add: catch_setup_def Let_def remove_from_savelist_def cont_ok_iff list_ok_remove split: prod.split)
    (metis list_ok_remove snd_conv)

lemma safe_save_c2 [safe]: "safe save_c2 any"
  unfolding save_c2_def by (rule safe)+

lemma safe_init_try_catch [safe]: "ton_ok T \<Longrightarrow> safe (init_try_catch T keep) any"
  unfolding init_try_catch_def envelope_catch_def
  by (rule safe safe_get_any safe_upd_cont_var catch_ok | assumption)+

lemma safe_throw_when [safe]: "safe m any \<Longrightarrow> safe (throw_when b m) any"
  unfolding throw_when_def by (rule safe | assumption)+

lemma safe_throw_shapes [safe]:
  assumes "ton_ok T"
  shows "safe (execute_throw T lo hi) any" "safe (execute_throwif_throwifnot T b lo hi) any"
    "safe (execute_throwanyif_throwanyifnot T b) any" "safe (execute_throwarganyif_throwarganyifnot T b) any"
    "safe (execute_throwargif_throwargifnot T b) any"
  unfolding execute_throw_def execute_throwif_throwifnot_def execute_throwanyif_throwanyifnot_def
    execute_throwarganyif_throwarganyifnot_def execute_throwargif_throwargifnot_def
  by (rule safe assms)+

lemma exception_handler_rules:
  assumes "ton_ok T"
  shows "safe (execute_throwany T) any"
    "safe (execute_throwarg T) any" "safe (execute_throwargany T) any"
    "safe (execute_try T) any" "safe (execute_tryargs T) any" "safe (execute_trykeep T) any"
  unfolding execute_throwany_def
    execute_throwarg_def execute_throwargany_def
    execute_try_def execute_tryargs_def execute_trykeep_def Let_def
  by (rule safe item_intros assms | assumption)+

lemma exception_handlers_safe: "ton_ok T \<Longrightarrow> all_safe (exception_handlers T)"
  unfolding exception_handlers_def throw_handlers_def throwif_handlers_def throwanyif_handlers_def
    throwarganyif_handlers_def throwargif_handlers_def all_safe_simps
  by (intro conjI TrueI exception_handler_rules safe_throw_shapes)

section \<open>Implicit steps\<close>

lemma safe_case_result:
  assumes "safe m U" "\<And>x. U x \<Longrightarrow> safe (f x) V" "\<And>er. error_ok er \<Longrightarrow> safe (g er) V"
  shows "safe (\<lambda>e. case m e of (Inl er, e') \<Rightarrow> g er e' | (Inr x, e') \<Rightarrow> f x e') V"
proof (rule soundI)
  fix e r e'
  assume e: "engine_ok e" and run: "(case m e of (Inl er, e') \<Rightarrow> g er e' | (Inr x, e') \<Rightarrow> f x e') = (r, e')"
  obtain r1 e1 where m: "m e = (r1, e1)" by fastforce
  note first = soundD [OF assms(1) e m]
  have "safe (case r1 of Inl er \<Rightarrow> g er | Inr x \<Rightarrow> f x) V"
    using first assms(2,3) by (cases r1) auto
  moreover have "(case r1 of Inl er \<Rightarrow> g er | Inr x \<Rightarrow> f x) e1 = (r, e')"
    using run m by (cases r1) auto
  ultimately have "engine_ok e'" "frame e1 e'" "case r of Inl er \<Rightarrow> error_ok er | Inr x \<Rightarrow> V x"
    using first(1) unfolding sound_def by (metis fst_conv snd_conv)+
  then show "engine_ok e' \<and> frame e e' \<and> (case r of Inl er \<Rightarrow> error_ok er | Inr x \<Rightarrow> V x)"
    using machine.R_trans [OF first(2)] by blast
qed

lemma safe_fail_with: "error_ok er \<Longrightarrow> safe (Pair (Inl er)) V"
  by (rule safe_state) simp

lemma safe_pointwise: "(\<And>e. \<exists>n. safe n V \<and> n e = m e) \<Longrightarrow> safe m V"
  unfolding sound_def by metis

lemma safe_by_state: "(\<And>x. safe (m x) V) \<Longrightarrow> safe (\<lambda>e. m (h e) e) V"
  unfolding sound_def by simp

lemma safe_inc_step [safe]: "safe inc_step any" "safe clear_params any"
  unfolding inc_step_def clear_params_def by (rule safe_modify; simp add: engine_simps)+

lemma safe_continue [safe]: "safe m any \<Longrightarrow> safe (continueE m) any"
  unfolding continueE_def by (rule safe | assumption)+

lemma safe_conditions [safe]: "safe check_while_loop_condition any" "safe check_until_loop_condition any"
  unfolding check_until_loop_condition_def check_while_loop_condition_def
  by (rule safe safe_from_stack stack_results_ok | assumption)+

lemma safe_discharge_nargs [safe]: "safe (discharge_nargs T) any"
  unfolding discharge_nargs_def
proof (rule safe_modify, goal_cases)
  case (1 e)
  have "items_ok (case drop_range_straight i j (cc_stack e) of Inr (_, st) \<Rightarrow> st | Inl _ \<Rightarrow> cc_stack e)" for i j
    using stack_results_ok(3) [OF cc_stack_ok [OF 1], of i j] cc_stack_ok [OF 1]
    by (auto simp del: stack_results_ok split: sum.split)
  then show ?case using 1 by (simp add: engine_ok_def Let_def)
qed (simp add: engine_simps Let_def)

lemma safe_take_loop [safe]: "safe (take_loop body) cont_ok"
  unfolding take_loop_def move_without_stack_def by (rule safe_state) (simp add: engine_simps)

text \<open>Saving \<open>c0\<close> leaves the empty item in the register until the loop's continuation is put there.\<close>

lemma safe_save_c0_then:
  assumes "cont_ok k" "\<And>k. cont_ok k \<Longrightarrow> cont_ok (f k)"
  shows "safe (bindE (save_c0_in k) (\<lambda>k. continueE (ctrls_put_opt 0 (Item_Continuation (f k))))) any"
proof (rule safe_state)
  fix e :: "('a, 'b, 'c, 'd) engine"
  assume e: "engine_ok e"
  then have l: "list_ok (ctrls e)" "length (ctrls e) = 7" by (simp_all add: engine_ok_def list_ok_length)
  let ?m = "bindE (save_c0_in k) (\<lambda>k. continueE (ctrls_put_opt 0 (Item_Continuation (f k))))"
  show "result_ok any (fst (?m e)) \<and> engine_ok (snd (?m e)) \<and> frame e (snd (?m e))"
  proof (cases "ctrls e ! 0")
    case None
    then show ?thesis using e l(2)
      by (simp add: save_c0_in_def engine_ctrl_def ctrl_get_def savelist_get_def adjust_def bindE_def errE_def)
  next
    case (Some x)
    let ?k = "set_savelist ((savelist_of k)[0 := Some x]) k"
    have x: "item_ok x" "can_put 0 x"
      using slot_ok_nth [OF l(1), of 0] Some by (simp_all add: slot_ok_def adjust_def)
    then have "list_ok ((savelist_of k)[0 := Some x])"
      using list_ok_update [of "savelist_of k" 0 "Some x"] assms(1) by (simp add: cont_ok_iff adjust_def REGS_def)
    then have "cont_ok (f ?k)" using assms by simp
    then have "list_ok ((ctrls e)[0 := Some (Item_Continuation (f ?k))])"
      using list_ok_update [OF l(1), of 0 "Some (Item_Continuation (f ?k))"] by (simp add: adjust_def REGS_def)
    then show ?thesis using e Some l(2)
      by (auto simp: save_c0_in_def engine_ctrl_def ctrl_get_def savelist_get_def adjust_def bindE_def thenE_def
        put_opt_def set_ctrl_def ctrls_put_opt_def continueE_def engine_simps)
  qed
qed

lemma safe_loop_steps [safe]:
  "safe (step_while_loop T body cond) any" "safe (step_repeat_loop T body) any"
  "safe (step_until_loop T body) any" "safe (step_again_loop T body) any"
proof -
  have cond: "cont_ok (set_savelist (snd (put_opt 0 (Item_Continuation k) savelist_new)) (with_code cond))"
    if "cont_ok k" for k :: "('a, 'b, 'c) continuation_data"
    using list_ok_update [of savelist_new 0 "Some (Item_Continuation k)"] that
    by (simp add: put_opt_def adjust_def REGS_def)
  note loop = safe_save_c0_then [where f = "\<lambda>k. k"] safe_save_c0_then [OF _ cond]
  show "safe (step_while_loop T body cond) any"
    unfolding step_while_loop_def case_bool_if
    by (rule loop safe safe_case_result safe_throw safe_fail_with item_intros | assumption)+
  have repeat: "safe (case ty of RepeatLoopBody sl counter \<Rightarrow>
       if counter > 1 then
         thenE (upd_cc (set_type (RepeatLoopBody sl (counter - 1)))) (thenE (discharge_nargs T)
           (bindE (take_loop body) (\<lambda>loop. bindE (save_c0_in loop) (\<lambda>loop.
             continueE (ctrls_put_opt 0 (Item_Continuation loop))))))
       else continueE (switch T (ctrl_addr 0))
     | _ \<Rightarrow> Pair (Inr None)) any" (is "safe (?m ty) any") for ty
    by (cases ty; simp only: continuation_type.case; (rule loop safe safe_upd_cc | simp only: cont_ok_set)+)
  show "safe (step_repeat_loop T body) any"
  proof -
    have "step_repeat_loop T body = (\<lambda>e. ?m (type_of (cc e)) e)"
      unfolding step_repeat_loop_def by (rule ext) (simp split: continuation_type.split)
    then show ?thesis using safe_by_state [of ?m any "\<lambda>e. type_of (cc e)", OF repeat] by simp
  qed
  show "safe (step_until_loop T body) any"
    unfolding step_until_loop_def by (rule loop safe | assumption)+
  show "safe (step_again_loop T body) any"
    unfolding step_again_loop_def by (rule safe safe_ctrls_put_opt item_intros | simp)+
qed

lemma safe_ordinary_steps [safe]:
  assumes "ton_ok T"
  shows "safe (step_next_ref T c) any" "safe step_ordinary any" "safe (step_pushint T n) any"
    "safe (step_try_catch T) any" "safe (step_catch_revert T d) any"
  unfolding step_next_ref_def step_ordinary_def step_pushint_def step_try_catch_def step_catch_revert_def
  by (rule safe item_intros assms safe_from_stack [OF stack_results_ok(3)] items_ok_drop_top | assumption
    | simp add: adjust_def; fail)+

lemma safe_external_error:
  assumes "\<And>v. item_ok (exc_value (g v))"
  shows "safe (\<lambda>e. let (v, e) = (case from_stack (stack_drop 0) e of
      (Inr item, e) \<Rightarrow> (case as_integer item of Inr v \<Rightarrow> v | Inl _ \<Rightarrow> Value 0, e) | (Inl _, e) \<Rightarrow> (Value 0, e)) in
    (Inl (TvmExceptionFull (g v)), e)) V"
proof (rule safe_state, goal_cases)
  case (1 e)
  obtain r e1 where run: "from_stack (stack_drop 0) e = (r, e1)" by fastforce
  show ?case
    using soundD(1,2) [OF safe_from_stack [OF stack_results_ok(1)] 1 run] run assms by (cases r) (auto simp: Let_def)
qed

lemma safe_make_external_error [safe]: "safe (make_external_error T) any"
  unfolding make_external_error_def
  by (rule safe safe_from_stack [OF stack_results_ok(1)] safe_external_error | assumption
    | simp add: from_code_and_value_def from_number_and_value_def split: option.split; fail)+

section \<open>Exception dispatch\<close>

definition exception_ok :: "('c, 's, 'b) exception_data \<Rightarrow> bool" where
  "exception_ok ex = item_ok (exc_value ex)"

lemma tvm_exception_full_ok: "error_ok er \<Longrightarrow> tvm_exception_full er = Some ex \<Longrightarrow> exception_ok ex"
  by (cases er) (auto simp: exception_ok_def from_code_def from_code_and_value_def)

lemma safe_step_up [safe]: "safe (\<lambda>e. (Inl er, e \<lparr> step := step e + 1 \<rparr>)) V" if "error_ok er"
  by (rule safe_state) (simp add: engine_simps that)

lemma safe_charge_exception [safe]: "error_ok er \<Longrightarrow> safe (charge_exception er) exception_ok"
  unfolding charge_exception_def
  by (rule safe safe_throw safe_case_result safe_fail_with | assumption
    | rule safe_state, simp add: engine_simps tvm_exception_full_ok; fail)+

lemma safe_push_exception [safe]: "exception_ok ex \<Longrightarrow> safe (push_exception T ex) any"
  unfolding push_exception_def exception_ok_def by (rule safe item_intros | assumption)+

lemma safe_quit_with [safe]: "item_ok v \<Longrightarrow> safe (quit_with T n v) any"
  unfolding quit_with_def by (rule safe safe_upd_cont_var | simp; fail)+

lemma safe_raise_exception [safe]: "error_ok er \<Longrightarrow> safe (raise_exception T er) any"
  unfolding raise_exception_def
  by (rule safe safe_throw safe_set_cont_ctrl | simp add: exception_ok_def slot_ok_def; fail)+

lemma catch_nargs_ok: "cont_ok k \<Longrightarrow> cont_ok (catch_nargs k)"
  by (simp add: catch_nargs_def split: continuation_type.split)

lemma safe_raise_exception_bugfix0 [safe]: "error_ok er \<Longrightarrow> safe (raise_exception_bugfix0 T er) any"
  unfolding raise_exception_bugfix0_def
  by (rule safe safe_throw safe_upd_cont_var catch_nargs_ok | assumption
    | simp add: exception_ok_def slot_ok_def adjust_def; fail)+

lemma safe_dispatch_error [safe]: "error_ok er \<Longrightarrow> safe (dispatch_error T er) any"
  unfolding dispatch_error_def by (rule safe | assumption)+

section \<open>The machine\<close>

lemma safe_implicit_step [safe]: "ton_ok T \<Longrightarrow> safe (implicit_step T) any"
proof -
  assume T: "ton_ok T"
  have "safe (case r of Some reference \<Rightarrow> step_next_ref T reference
   | None \<Rightarrow> (case ty of
         Ordinary \<Rightarrow> step_ordinary
       | PushInt code \<Rightarrow> step_pushint T code
       | Quit exit_code \<Rightarrow> Pair (Inr (Some exit_code))
       | TryCatch \<Rightarrow> step_try_catch T
       | WhileLoopCondition body cond \<Rightarrow> step_while_loop T body cond
       | RepeatLoopBody code _ \<Rightarrow> step_repeat_loop T code
       | UntilLoopCondition body \<Rightarrow> step_until_loop T body
       | AgainLoopBody sl \<Rightarrow> step_again_loop T sl
       | ExcQuit \<Rightarrow> make_external_error T
       | CatchRevert d \<Rightarrow> step_catch_revert T d)) any" (is "safe (?m r ty) any") for r ty
    by (cases r; cases ty; simp only: option.case continuation_type.case; (rule safe T)+)
  then have "safe (\<lambda>e. ?m (reference_opt T (code_of (cc e)) 0) (type_of (cc e)) e) any"
    unfolding sound_def by blast
  moreover have "implicit_step T = (\<lambda>e. ?m (reference_opt T (code_of (cc e)) 0) (type_of (cc e)) e)"
    unfolding implicit_step_def by (rule ext) (simp split: continuation_type.split option.split)
  ultimately show ?thesis by simp
qed

lemma check_gas_ok: "check_gas_remaining g = Inl er \<Longrightarrow> error_ok er"
  by (auto simp: check_gas_remaining_def from_code_and_value_def split: if_splits)

lemma soundE:
  assumes "safe m V" "engine_ok e" "frame e0 e"
  obtains r e' where "m e = (r, e')" "engine_ok e'" "frame e0 e'" "result_ok V r"
proof -
  obtain r e' where m: "m e = (r, e')" by fastforce
  show thesis
    using soundD [OF assms(1,2) m] machine.R_trans [OF assms(3)] m
    by (intro that) (auto simp: result_ok_def split: sum.split)
qed

lemma safe_seek_round [safe]: "ton_ok T \<Longrightarrow> safe (seek_round T) any"
proof (rule safe_state, goal_cases)
  case (1 e)
  obtain r e' where step: "implicit_step T e = (r, e')" "engine_ok e'" "frame e e'" "result_ok any r"
    by (rule soundE [OF safe_implicit_step [OF 1(1)] 1(2) frame_refl])
  have "error_ok er" if "bindR (check_gas_remaining (egas e')) (\<lambda>_. r) = Inl er" for er
    using that step(4) check_gas_ok [of "egas e'"] by (auto simp: bindR_eq_Inl)
  then show ?case
    using step soundE [OF safe_dispatch_error step(2,3), of _ T]
    by (auto simp: seek_round_def split: sum.split) (metis fst_conv snd_conv)+
qed

lemma seek_next_cmd_Suc:
  "seek_next_cmd T (Suc n) = (\<lambda>e. if remaining_bits T (code_of (cc e)) \<noteq> 0 then (Inr None, e)
     else bindE (seek_round T) (\<lambda>x. case x of None \<Rightarrow> seek_next_cmd T n | Some y \<Rightarrow> returnE (Some y)) e)"
  by (rule ext) (auto simp: bindE_def split: prod.split sum.split option.split)

lemma execute_loop_Suc:
  "execute_loop T g (Suc n) = bindE (seek_next_cmd T n) (\<lambda>r. case r of
     Some x \<Rightarrow> returnE x | None \<Rightarrow> thenE (run_cmd T g) (execute_loop T g n))"
  by (rule ext) (auto simp: bindE_def thenE_def split: prod.split sum.split option.split)

lemma safe_seek_next_cmd [safe]:
  assumes T: "ton_ok T"
  shows "safe (seek_next_cmd T n) any"
proof (induction n)
  case 0
  show ?case by (rule safe_state) simp
next
  case (Suc n)
  show ?case unfolding seek_next_cmd_Suc by (rule safe Suc.IH T)+
qed

lemma safe_run_cmd [safe]:
  assumes T: "ton_ok T" and g: "safe g (\<lambda>h. safe h any)"
  shows "safe (run_cmd T g) any"
proof (rule safe_state, goal_cases)
  case (1 e)
  let ?e = "e \<lparr> cmd_code_proto := slice_proto_from T (code_of (cc e)) \<rparr>"
  have start: "engine_ok ?e" "frame e ?e" using 1 by (simp_all add: engine_simps)
  obtain r1 e1 where h: "g ?e = (r1, e1)" "engine_ok e1" "frame e e1" "result_ok (\<lambda>h. safe h any) r1"
    by (rule soundE [OF g start])
  define p where "p = (case (r1, e1) of (Inl er, e) \<Rightarrow> (Some er, snd (basic_use_gas T 8 e))
      | (Inr h, e) \<Rightarrow> (case h e of
            (Inl er, e) \<Rightarrow> (Some (update_error_description er), e)
          | (Inr _, e) \<Rightarrow> (case check_gas_remaining (egas e) of Inl er \<Rightarrow> (Some er, e) | Inr _ \<Rightarrow> (None, e))))"
  have p: "engine_ok (snd p) \<and> frame e (snd p) \<and> (\<forall>er. fst p = Some er \<longrightarrow> error_ok er)"
  proof (cases r1)
    case (Inl er)
    obtain r e' where "basic_use_gas T 8 e1 = (r, e')" "engine_ok e'" "frame e e'"
      by (rule soundE [OF safe_basic_use_gas h(2,3)])
    then show ?thesis using Inl h(4) by (simp add: p_def)
  next
    case (Inr m)
    then have "safe m any" using h(4) by simp
    then obtain r e' where m: "m e1 = (r, e')" "engine_ok e'" "frame e e'" "result_ok any r"
      by (rule soundE [OF _ h(2,3)])
    have "error_ok (update_error_description er)" if "error_ok er" for er :: "('a, 'b, 'c) tvm_error"
      using that by (cases er) (simp_all add: from_code_def from_code_and_value_def)
    then show ?thesis using Inr m check_gas_ok [of "egas e'"]
      by (cases r) (auto simp: p_def split: sum.split)
  qed
  have "safe (thenE clear_params (case fst p of None \<Rightarrow> returnE ()
      | Some er \<Rightarrow> thenE (dispatch_error T er) (returnE ()))) any"
    using p by (auto intro!: safe split: option.split)
  then obtain r' e' where "thenE clear_params (case fst p of None \<Rightarrow> returnE ()
      | Some er \<Rightarrow> thenE (dispatch_error T er) (returnE ())) (snd p) = (r', e')"
    "engine_ok e'" "frame e e'" "result_ok any r'"
    using p by (blast elim: soundE)
  moreover have "run_cmd T g e = thenE clear_params (case fst p of None \<Rightarrow> returnE ()
      | Some er \<Rightarrow> thenE (dispatch_error T er) (returnE ())) (snd p)"
    unfolding run_cmd_def Let_def h(1) p_def by (simp add: split_beta)
  ultimately show ?case by simp
qed

lemma safe_execute:
  assumes "ton_ok T" and "safe g (\<lambda>h. safe h any)"
  shows "safe (execute T g fuel) any"
proof -
  have "safe (execute_loop T g n) any" for n
  proof (induction n)
    case 0
    show ?case by (rule safe_state) simp
  next
    case (Suc n)
    show ?case unfolding execute_loop_Suc by (rule safe Suc.IH assms)+
  qed
  then show ?thesis unfolding execute_def by (intro safe_bind [OF _ safe_then [OF safe_commit safe_return]])
qed

lemma codepage_handlers_safe: "ton_ok T \<Longrightarrow> all_safe (codepage_handlers T)"
  unfolding codepage_handlers_def all_safe_simps execute_nop_def execute_setcp_def execute_setcpx_def
    set_code_page_def
  by (intro conjI TrueI; (rule safe safe_modify | assumption | simp add: engine_simps; fail)+)

end
