(* ===== verification/Safety_Cells.thy ===== *)
theory Safety_Cells
  imports Safety_Control
begin

text \<open>
  The instructions on cells, slices, builders and dictionaries keep the invariant of \<open>Safety\<close>.
\<close>

section \<open>Operands and crates\<close>

lemma crate_results:
  assumes "ton_ok T"
  shows "result_ok any (with_raw (builders T) bytes n)" "result_ok any (with_raw_and_refs (builders T) bytes n cs)"
    "result_ok any (fst (append_builder (builders T) x b))" "result_ok any (fst (append_raw (builders T) bytes n b))"
    "result_ok any (fst (append_bits (builders T) v n b))" "result_ok any (fst (checked_append_reference (builders T) c b))"
    "result_ok any (fst (checked_append_references_and_data (builders T) s b))"
    "result_ok any (builder_into_cell (builders T) b)"
    "result_ok any (fst (get_next_bits (slices T) n s))" "result_ok any (fst (get_next_bytes (slices T) n s))"
    "result_ok any (fst (get_next_slice (slices T) n s))" "result_ok any (load_builder (slices T) b)"
    "result_ok any (load_bitstring (slices T) b)"
    "result_ok any (is_masterchain (blocks T) s)" "result_ok any (fst (append_u32 (blocks T) n b))"
    "result_ok any (fst (append_bytestring (blocks T) s b))"
    "result_ok any (fst (get_next_bit (slices T) s))"
  using assms by (simp_all add: ton_ok_def builders_ok_def slices_ok_def blocks_ok_def)

lemmas crate_rules = safe_lift safe_with_object ton_ok_results crate_results safe_get_any

lemma safe_operand_vars [safe]:
  "safe (slice_var i) any" "safe (builder_var i) any" "safe (cell_var i) any" "safe (var_builder_mut T i) any"
  "safe (into_range t hi x) any" "safe (push_nat n) any" "safe (push_bool q) any" "safe (push_builder b) any"
  "safe (push_slice s) any"
  unfolding slice_var_def builder_var_def cell_var_def var_builder_mut_def into_range_def push_nat_def push_bool_def
    push_builder_def push_slice_def
  by (rule safe safe_lift item_intros as_ok error_ok_exc | assumption)+

lemma integer_as_builder_ok: "ton_ok T \<Longrightarrow> result_ok any (integer_as_builder T enc n x)"
  unfolding integer_as_builder_def by (rule result_ok_bind [of any]) (simp_all add: crate_results)

section \<open>Building cells\<close>

lemma safe_size_b [safe]: "ton_ok T \<Longrightarrow> safe (size_b T name how) any"
  unfolding size_b_def by (rule safe | assumption)+

lemma safe_special_builder [safe]: "safe (special_builder T b) any"
  unfolding special_builder_def by (rule safe safe_case_list | simp add: safe split: sum.split)+

lemma safe_append_data [safe]: "ton_ok T \<Longrightarrow> safe (append_data T var x q finalize) any"
  unfolding append_data_def by (rule safe crate_rules | assumption)+

lemma safe_case_outcome:
  "result_ok any r \<Longrightarrow> (\<And>x. safe (f x) V) \<Longrightarrow> (\<And>er. error_ok er \<Longrightarrow> safe (g er) V) \<Longrightarrow>
   safe (case r of Inl er \<Rightarrow> g er | Inr x \<Rightarrow> f x) V"
  by (cases r) simp_all

lemma safe_store_data [safe]: "ton_ok T \<Longrightarrow> result_ok any x \<Longrightarrow> safe (store_data T var x q finalize) any"
  unfolding store_data_def by (rule safe safe_case_outcome safe_throw item_intros | assumption)+

lemma safe_operands [safe]: "(\<And>i. safe (f i) any) \<Longrightarrow> safe (operands q i f) any"
  unfolding operands_def by (rule safe | assumption)+

lemma safe_store_bits [safe]: "ton_ok T \<Longrightarrow> safe (store_bits T b n q) any"
  unfolding store_bits_def by (rule safe crate_rules | assumption)+

lemma safe_append_cell [safe]: "ton_ok T \<Longrightarrow> safe (append_cell T i b) any"
  unfolding append_cell_def by (rule safe crate_rules | assumption)+

lemma safe_slice_depth [safe]: "ton_ok T \<Longrightarrow> safe (slice_depth T s n) any"
  by (induction n; unfold slice_depth.simps; (rule safe crate_rules | assumption)+)

lemma ok_Inr: "result_ok any (Inr x)"
  by simp

lemma safe_nat_var [safe]: "safe (nat_var hi i) any"
  unfolding nat_var_def by (rule safe)+

lemma dict_builder_ok:
  "ton_ok T \<Longrightarrow> result_ok any (case d of Some x \<Rightarrow> with_raw_and_refs (builders T) bs n [x] | None \<Rightarrow> with_raw (builders T) bs' n')"
  by (simp add: crate_results split: option.split)

lemmas store_rules = safe crate_rules integer_as_builder_ok dict_builder_ok ok_Inr as_ok item_intros

lemma store_routines_safe:
  assumes "ton_ok T"
  shows "safe (store_b T name how) any" "safe (store_r T name how) any" "safe (store_br T name how) any"
    "safe (store_s T name how) any" "safe (execute_stdict T) any" "safe (check_b T name how) any"
    "safe (store T enc name how) any" "safe (store_x T enc name how limit) any" "safe (store_l T enc name n) any"
    "safe (stbits T name q) any"
  unfolding store_b_def store_r_def store_br_def store_s_def execute_stdict_def check_b_def store_def
    store_x_def store_l_def stbits_def Let_def
  by (rule store_rules assms | assumption)+

lemma store_instructions_safe:
  assumes "ton_ok T"
  shows "safe (execute_endc T) any" "safe (execute_endxc T) any" "safe (execute_newc T) any"
    "safe (execute_stsame T) any" "safe (execute_stsliceconst T) any" "safe (execute_strefconst T) any"
    "safe (execute_stref2const T) any" "safe (execute_bdepth T) any" "safe (execute_cdepth T) any"
    "safe (execute_sdepth T) any"
  unfolding execute_endc_def execute_endxc_def execute_newc_def execute_stsame_def execute_stsliceconst_def
    execute_strefconst_def execute_stref2const_def execute_bdepth_def execute_cdepth_def execute_sdepth_def
  by (rule store_rules assms | assumption)+

lemma serialize_handlers_safe: "ton_ok T \<Longrightarrow> all_safe (serialize_handlers T)"
  unfolding serialize_handlers_def store_handler_defs all_safe_simps
  by (intro conjI TrueI safe_size_b store_routines_safe store_instructions_safe)

section \<open>Taking cells apart\<close>

abbreviation item_first :: "('c, 's, 'b) stack_item \<times> 'a \<Rightarrow> bool" where
  "item_first \<equiv> \<lambda>p. item_ok (fst p)"

lemma safe_return_first: "item_ok x \<Longrightarrow> safe (returnE (x, s)) item_first"
  by (rule safe_returnI) simp

lemma safe_load_slice [safe]: "ton_ok T \<Longrightarrow> safe (load_slice T name len how) any"
  unfolding load_slice_def by (rule safe | assumption)+

lemma safe_proc_slice [safe]: "(\<And>s. safe (f s) item_first) \<Longrightarrow> safe (proc_slice T len how f) any"
  unfolding proc_slice_def by (rule safe safe_lift as_ok | assumption | simp; fail)+

lemma safe_take_integer [safe]: "ton_ok T \<Longrightarrow> safe (take_integer T enc len s) item_first"
  unfolding take_integer_def
  by (rule safe crate_rules | assumption)+ (simp add: safe safe_return_first split: sum.split)

lemma safe_if_ok [safe]: "safe m any \<Longrightarrow> safe (if_ok m) any"
  unfolding if_ok_def sound_def by (fastforce split: prod.split sum.split tvm_error.split)

lemma safe_expect [safe]:
  "(\<And>x. safe (f x) V) \<Longrightarrow> safe (case r of Inr x \<Rightarrow> f x | Inl _ \<Rightarrow> throwE Panic) V"
  by (simp add: safe split: sum.split)

lemmas load_rules = safe crate_rules safe_return_first item_intros as_ok

lemma load_routines_safe:
  assumes "ton_ok T"
  shows "safe (ld_int T enc name len how) any" "safe (ld_slice T name len how) any" "safe (sdbegins T name how) any"
    "safe (cut T name n in_bits in_refs) any" "safe (sbitrefs T name tg) any" "safe (schkbits T name limit q) any"
    "safe (schkrefs T name q) any" "safe (schkbitrefs T name q) any" "safe (pldref T name how) any"
    "safe (ldbit T name q) any" "safe (split T name q) any"
  unfolding ld_int_def ld_slice_def sdbegins_def cut_def sdcut_def counted_var_def sbitrefs_def schkbits_def
    schkrefs_def schkbitrefs_def report_def pldref_def ldbit_def push_trimmed_def split_def Let_def
  by (rule load_rules assms | assumption)+

lemma load_instructions_safe:
  assumes "ton_ok T"
  shows "safe (execute_ctos T) any" "safe (execute_xctos T) any" "safe (execute_xload T) any"
    "safe (execute_xloadq T) any" "safe (execute_ends T) any" "safe (execute_ldref T) any"
    "safe (execute_ldrefrtos T) any" "safe (execute_plduz T) any" "safe (execute_ldsame T) any"
  unfolding execute_ctos_def execute_xctos_def execute_xload_def execute_xloadq_def execute_ends_def execute_ldref_def
    execute_ldrefrtos_def execute_plduz_def execute_ldsame_def push_trimmed_def Let_def
  by (rule load_rules assms | assumption)+

lemma safe_load_sized: "ton_ok T \<Longrightarrow> safe (load_sized T cell) any"
  unfolding load_sized_def by (rule load_rules | assumption)+

lemma frame_trans: "frame e e' \<Longrightarrow> frame e' e'' \<Longrightarrow> frame e e''"
  by (simp add: frame_def) (meson subset_trans)

lemma datasize_loop_sound:
  "ton_ok T \<Longrightarrow> engine_ok e \<Longrightarrow>
   engine_ok (snd (datasize_loop T limit visited cs n e)) \<and> frame e (snd (datasize_loop T limit visited cs n e)) \<and>
   (case fst (datasize_loop T limit visited cs n e) of Inl er \<Rightarrow> error_ok er | Inr x \<Rightarrow> True)"
proof (induction T limit visited cs n e rule: datasize_loop.induct)
  case (1 T limit visited cs n e)
  obtain r e' where l: "load_sized T (last cs) e = (r, e')" by fastforce
  note L = soundD [OF safe_load_sized [OF 1(3)] 1(4) l]
  show ?case
  proof (cases "cs = [] \<or> repr_hash T (last cs) \<in> visited \<or> limit \<le> size_cells n")
    case True
    then show ?thesis using 1(1,3,4) by (subst (1 2 3) datasize_loop.simps) (auto simp: Let_def)
  next
    case False
    then show ?thesis using 1(2) [OF _ refl refl refl _ _ l [symmetric]] 1(3,4) l L
      by (subst (1 2 3) datasize_loop.simps) (cases r; auto simp: Let_def intro: frame_trans)
  qed
qed

lemma safe_datasize_loop [safe]: "ton_ok T \<Longrightarrow> safe (datasize_loop T limit visited cs n) any"
  using datasize_loop_sound unfolding sound_def by blast

lemma safe_fast_slice_size [safe]: "ton_ok T \<Longrightarrow> safe (fast_slice_size T s n) any"
  by (induction n; unfold fast_slice_size.simps; (rule load_rules | assumption)+)

lemma safe_sizes [safe]:
  "ton_ok T \<Longrightarrow> safe (fast_size T limit v) any" "ton_ok T \<Longrightarrow> safe (counted_size T limit v) any"
  unfolding fast_size_def counted_size_def Let_def by (cases v; simp; (rule safe | assumption)+)+

lemma safe_datasize: "ton_ok T \<Longrightarrow> safe (datasize T name how) any"
  unfolding datasize_def by (rule load_rules safe_sizes error_ok_exc | assumption)+

lemma deserialize_handlers_safe: "ton_ok T \<Longrightarrow> all_safe (deserialize_handlers T)"
  unfolding deserialize_handlers_def load_handler_defs all_safe_simps
  by (intro conjI TrueI load_routines_safe load_instructions_safe safe_datasize)

section \<open>Comparison, currencies and signatures\<close>

lemma safe_slice_shapes:
  "ton_ok T \<Longrightarrow> (\<And>s. item_ok (f s)) \<Longrightarrow> safe (slice_unary T name f) any"
  "ton_ok T \<Longrightarrow> (\<And>s t. item_ok (g s t)) \<Longrightarrow> safe (slice_binary T name g) any"
  "ton_ok T \<Longrightarrow> (\<And>r0 r1. safe (h r0 r1) item_ok) \<Longrightarrow> safe (slice_prefix T name h) any"
  unfolding slice_unary_def slice_binary_def slice_prefix_def Let_def by (rule safe | assumption | blast)+

lemma safe_lexcmp: "safe (lexcmp T r1 r0) item_ok"
  unfolding lexcmp_def by (auto intro!: safe_returnI safe_throws split: option.split sum.split)

lemma safe_return_bool: "safe (returnE (item_boolean q)) item_ok"
  by (rule safe_returnI) simp

lemma safe_load_var: "ton_ok T \<Longrightarrow> safe (load_var T name m sign) any"
  unfolding load_var_def by (rule load_rules | assumption)+

lemma safe_append_checked:
  "safe (case p of (Inr x, b) \<Rightarrow> push_builder b | (Inl er, b') \<Rightarrow> throwE Panic) any"
  by (auto intro: safe split: prod.split sum.split)

lemma safe_store_var: "ton_ok T \<Longrightarrow> safe (store_var T name m sign) any"
  unfolding store_var_def Let_def by (rule load_rules error_ok_exc safe_append_checked | assumption)+

lemma safe_signed_data [safe]: "ton_ok T \<Longrightarrow> safe (signed_data T h) any"
  unfolding signed_data_def by (rule load_rules integer_as_builder_ok | assumption)+

lemma crypto_instructions_safe:
  assumes "ton_ok T"
  shows "safe (execute_hashcu T) any" "safe (execute_hashsu T) any" "safe (execute_sha256u T) any"
    "safe (check_signature T name h) any"
  unfolding execute_hashcu_def execute_hashsu_def execute_sha256u_def check_signature_def Let_def
  by (rule load_rules safe_signed_data integer_as_builder_ok assms | assumption)+

lemma slice_handlers_safe: "ton_ok T \<Longrightarrow> all_safe (slice_handlers T)"
  unfolding slice_handlers_def slice_handler_defs all_safe_simps Let_def count_bits_def
  by (intro conjI TrueI safe_slice_shapes safe_lexcmp safe_return_bool safe_load_var safe_store_var
    crypto_instructions_safe item_intros)

section \<open>Dictionaries\<close>

lemma consumer_ok_engine: "ton_ok T \<Longrightarrow> consumer_ok (gas_consumer_of T)"
  unfolding consumer_ok_def gas_consumer_of_def by (simp add: safe)

lemma dict_results:
  assumes "ton_ok T"
  shows "update_ok (set_with_gas (updates T))" "update_ok (add_with_gas (updates T))"
    "update_ok (replace_with_gas (updates T))" "update_ok (set_builder_with_gas (updates T))"
    "update_ok (add_builder_with_gas (updates T))" "update_ok (replace_builder_with_gas (updates T))"
    "update_ok (setref_with_gas (updates T))" "update_ok (addref_with_gas (updates T))"
    "update_ok (replaceref_with_gas (updates T))" "update_ok (remove_with_gas (updates T))"
    "update_ok (pfx_set_with_gas (pfx T))" "update_ok (pfx_replace_with_gas (pfx T))"
    "update_ok (pfx_remove_with_gas (pfx T))"
    "result_ok any (pfx_is_prefix (pfx T) d k)" "result_ok any (pfx_get (pfx T) d k)"
  using assms by (simp_all add: ton_ok_def updates_ok_def pfx_ok_def)

lemma safe_update: "ton_ok T \<Longrightarrow> update_ok upd \<Longrightarrow> safe (upd d k v (gas_consumer_of T)) any"
  using consumer_ok_engine unfolding update_ok_def by blast

lemma safe_searches:
  assumes "ton_ok T"
  shows "safe (find_leaf (searches T) d k a b c (gas_consumer_of T)) any"
    "safe (get_min (searches T) d a (gas_consumer_of T)) any" "safe (get_max (searches T) d a (gas_consumer_of T)) any"
    "safe (into_subtree_with_prefix (searches T) d k (gas_consumer_of T)) any"
    "safe (into_subtree_without_prefix (searches T) d k (gas_consumer_of T)) any"
    "safe (pfx_get_with_gas (pfx T) d k (gas_consumer_of T)) any"
    "safe (pfx_get_prefix_leaf_with_gas (pfx T) d k (gas_consumer_of T)) any"
  using assms consumer_ok_engine [OF assms] by (simp_all add: ton_ok_def searches_ok_def pfx_ok_def)

abbreviation key_ok :: "('c, 's, 'b) key_reader \<Rightarrow> bool" where
  "key_ok f \<equiv> (\<forall>x n. result_ok any (f x n))"

lemma integer_as_slice_ok: "ton_ok T \<Longrightarrow> result_ok any (integer_as_slice T enc n x)"
  unfolding integer_as_slice_def by (rule result_ok_bind [OF integer_as_builder_ok]) (simp_all add: crate_results)

lemma keyreaders_ok:
  assumes "ton_ok T"
  shows "key_ok (keyreader_from_slice T)" "key_ok (keyreader_from_int T)" "key_ok (keyreader_from_uint T)"
  unfolding keyreader_from_slice_def keyreader_from_int_def keyreader_from_uint_def
  by (auto intro!: result_ok_bind [of any] simp: integer_as_slice_ok [OF assms])

lemma read_key_ok: "ton_ok T \<Longrightarrow> result_ok any (read_key T x n how)"
  using keyreaders_ok(1) [of T]
  unfolding read_key_def key_slice_def
  by (auto intro!: result_ok_bind [of any] split: sum.split tvm_error.split)

abbreviation found_ok :: "('c, 's, 'b) stack_item option \<times> 'h \<Rightarrow> bool" where
  "found_ok \<equiv> \<lambda>p. option_ok (fst p)"

abbreviation accessor_ok :: "('c, 's, 'b, 'h) val_accessor \<Rightarrow> bool" where
  "accessor_ok f \<equiv> (\<forall>d k. safe (f d k) found_ok)"

lemma unref_ok:
  assumes "ton_ok T"
  shows "result_ok item_ok (try_unref_leaf T s)" "result_ok option_ok (unref_opt T r)"
    "result_ok option_ok (unref_or_null T r)" "result_ok option_ok (slice_opt T r)"
proof -
  show leaf: "result_ok item_ok (try_unref_leaf T s)" for s
    unfolding try_unref_leaf_def by (auto intro!: result_ok_bind [of any] simp: ton_ok_results [OF assms])
  show "result_ok option_ok (unref_opt T r)" "result_ok option_ok (unref_or_null T r)"
    unfolding unref_opt_def unref_or_null_def
    by (auto intro!: result_ok_bind [OF leaf] split: option.split)
  show "result_ok option_ok (slice_opt T r)" by (cases r) (simp_all add: slice_opt_def)
qed

lemma safe_return_found: "option_ok x \<Longrightarrow> safe (returnE (x, d)) found_ok"
  by (rule safe_returnI) simp

lemma safe_dict_get: "ton_ok T \<Longrightarrow> (\<And>r. result_ok option_ok (f r)) \<Longrightarrow> safe (dict_get T f d key) found_ok"
  unfolding dict_get_def by (rule safe safe_hashmap safe_lift safe_return_found | assumption)+

lemma safe_dict_put:
  "ton_ok T \<Longrightarrow> update_ok upd \<Longrightarrow> (\<And>r. result_ok option_ok (f r)) \<Longrightarrow> safe (dict_put T upd f v d key) found_ok"
  unfolding dict_put_def by (rule safe safe_update safe_lift safe_return_found | assumption)+

lemma safe_withdraw_var [safe]: "safe (withdraw_var i) item_ok"
  unfolding withdraw_var_def by (rule safe safe_returnI item_intros | assumption)+

lemma safe_put:
  assumes "ton_ok T"
  shows "update_ok us \<Longrightarrow> safe (put_slice T us d key) found_ok" "update_ok ub \<Longrightarrow> safe (put_builder T ub d key) found_ok"
    "update_ok uc \<Longrightarrow> safe (put_ref T uc d key) found_ok"
  unfolding put_slice_def put_builder_def put_ref_def
  by (rule load_rules safe_dict_put unref_ok assms | assumption)+

lemma accessors_ok:
  assumes "ton_ok T"
  shows "accessor_ok (valreader_from_slice T)" "accessor_ok (valreader_from_ref T)"
    "accessor_ok (valreader_from_refopt T)" "accessor_ok (valwriter_add_slice T)" "accessor_ok (valwriter_add_builder T)"
    "accessor_ok (valwriter_add_ref T)" "accessor_ok (valwriter_remove_slice T)" "accessor_ok (valwriter_remove_ref T)"
    "accessor_ok (valwriter_replace_slice T)" "accessor_ok (valwriter_replace_builder T)"
    "accessor_ok (valwriter_replace_ref T)" "accessor_ok (valwriter_to_slice T)" "accessor_ok (valwriter_to_builder T)"
    "accessor_ok (valwriter_to_ref T)"
  unfolding valreader_from_slice_def valreader_from_ref_def valreader_from_refopt_def valwriter_add_slice_def
    valwriter_add_builder_def valwriter_add_ref_def valwriter_remove_slice_def valwriter_remove_ref_def
    valwriter_replace_slice_def valwriter_replace_builder_def valwriter_replace_ref_def valwriter_to_slice_def
    valwriter_to_builder_def valwriter_to_ref_def
  by (intro allI safe_dict_get safe_dict_put safe_put unref_ok dict_results assms)+

lemma accessors_with_test_ok:
  assumes "ton_ok T"
  shows "accessor_ok (valwriter_add_ref_without_unref T)" "accessor_ok (valwriter_add_or_remove_refopt T)"
  unfolding valwriter_add_ref_without_unref_def valwriter_add_or_remove_refopt_def
  by (rule allI load_rules safe_hashmap safe_return_found safe_update safe_dict_put dict_results unref_ok option_ok_simps assms
    | assumption | simp; fail)+

section \<open>Dictionary instructions\<close>

lemma safe_push_dict [safe]: "safe (push_dict T d) any"
  unfolding push_dict_def by (rule safe) (simp split: option.split)

lemma safe_dict_operands [safe]: "safe (dict_var T n) any" "safe (pfx_dict_var T n) any" "key_ok f \<Longrightarrow> safe (key_var i f n) any"
  unfolding dict_var_def pfx_dict_var_def key_var_def by (rule safe safe_lift as_ok | assumption | simp; fail)+

lemma safe_push_found [safe]: "option_ok x \<Longrightarrow> safe (push_found how x) any"
  unfolding push_found_def Let_def by (cases x; simp; (rule safe | assumption)+)

lemma safe_dict: "ton_ok T \<Longrightarrow> key_ok kr \<Longrightarrow> accessor_ok f \<Longrightarrow> safe (dict T name kr how f) any"
  unfolding dict_def Let_def by (rule safe safe_throw | assumption | simp; fail | erule allE, erule allE, assumption)+

abbreviation entry_ok :: "('b \<times> ('c, 's, 'b) stack_item) option \<Rightarrow> bool" where
  "entry_ok \<equiv> \<lambda>r. \<forall>p. r = Some p \<longrightarrow> item_ok (snd p)"

lemma safe_write_key [safe]: "ton_ok T \<Longrightarrow> safe (write_key T k how) item_ok"
  unfolding write_key_def by (rule load_rules safe_returnI | assumption)+

lemma safe_finders:
  assumes "ton_ok T"
  shows "safe (iter_reader T d key how) entry_ok" "safe (finder T d how) entry_ok"
proof -
  show "safe (iter_reader T d key how) entry_ok"
    unfolding iter_reader_def by (rule safe safe_searches safe_returnI assms)+ auto
  have leaf: "safe (if bit_set how D_REF then bindE (liftE (try_unref_leaf T v)) (\<lambda>x. returnE (Some (k, x)))
      else returnE (Some (k, Item_Slice v))) entry_ok" for k v
    by (rule safe safe_lift unref_ok safe_returnI assms | simp; fail)+
  have ends: "safe ((if bit_set how D_MIN then get_min (searches T) else get_max (searches T)) d
      (bit_set how D_SIGN) (gas_consumer_of T)) any"
    using safe_searches [OF assms] by simp
  show "safe (finder T d how) entry_ok"
    unfolding finder_def
    by (rule safe_bind [OF ends]) (rule safe_case_option safe_case_prod leaf safe_returnI | simp; fail)+
qed

lemma safe_jump [safe]: "ton_ok T \<Longrightarrow> safe (jump_to_value T how) any"
  unfolding jump_to_value_def by (rule safe | assumption)+

lemma safe_push_key [safe]: "ton_ok T \<Longrightarrow> item_ok v \<Longrightarrow> safe (push_key T k v how) any"
  unfolding push_key_def by (rule safe | assumption)+

lemma safe_entry:
  assumes "entry_ok r" "\<And>k v. item_ok v \<Longrightarrow> safe (f k v) any" "safe m any"
  shows "safe (case r of Some (k, v) \<Rightarrow> f k v | None \<Rightarrow> m) any"
  using assms by (auto split: option.split)

lemma safe_pfx_write [safe]: "ton_ok T \<Longrightarrow> safe (pfx_write T d key how) any"
  unfolding pfx_write_def Let_def
  by (rule load_rules safe_update safe_searches dict_results | assumption)+

lemma safe_pfx_operands [safe]: "ton_ok T \<Longrightarrow> safe (pfx_operands T q) any"
  unfolding pfx_operands_def by (rule safe | assumption)+

lemma safe_lookup_entry:
  "ton_ok T \<Longrightarrow> safe (case key of Some k \<Rightarrow> iter_reader T d k how | None \<Rightarrow> if b then finder T d how else returnE None) entry_ok"
  using safe_finders [of T] by (auto intro!: safe_returnI split: option.split)

lemma dict_routines_safe:
  assumes "ton_ok T"
  shows "key_ok kr \<Longrightarrow> safe (dictcont T name kr how) any" "safe (dictiter T name how) any"
    "safe (dict_find T name how) any" "safe (pfxdictset T name how) any" "safe (pfxdictget T name how) any"
    "safe (execute_dictpushconst T) any" "safe (load_dict T name how) any"
    "key_ok kr \<Longrightarrow> (\<And>d k. safe (into d k (gas_consumer_of T)) any) \<Longrightarrow> safe (subdict T name kr into) any"
  unfolding dictcont_def dictiter_def dict_find_def pfxdictset_def pfxdictget_def execute_dictpushconst_def load_dict_def
    subdict_def Let_def
  by (rule safe_bind [OF safe_lookup_entry [OF assms]] safe_bind [OF safe_finders(2) [OF assms]] safe_entry
    load_rules safe_push_dict safe_dict_operands safe_jump safe_push_key safe_pfx_write safe_pfx_operands safe_hashmap safe_update
    safe_searches dict_results read_key_ok assms | assumption)+

lemma dictionary_handlers_safe: "ton_ok T \<Longrightarrow> all_safe (dictionary_handlers T)"
  unfolding dictionary_handlers_def dict_handler_defs all_safe_simps
  by (intro conjI TrueI safe_dict dict_routines_safe keyreaders_ok accessors_ok accessors_with_test_ok safe_searches)

end
