(* ===== verification/Safety_Formats.thy ===== *)
theory Safety_Formats
  imports Safety_Cells
begin

text \<open>
  The cell formats keep the invariant of \<open>Safety\<close>: what is read from a cell is an item of the
  machine with well-typed save lists, whatever the cell holds.
\<close>

named_theorems results \<open>the judgement on results without the machine\<close>

declare result_ok_bind [results]

lemma result_rules [results]:
  "result_ok V (err c)"
  "(b \<Longrightarrow> result_ok V r) \<Longrightarrow> (\<not> b \<Longrightarrow> result_ok V q) \<Longrightarrow> result_ok V (if b then r else q)"
  "(\<And>a b. p = (a, b) \<Longrightarrow> result_ok V (f a b)) \<Longrightarrow> result_ok V (case p of (a, b) \<Rightarrow> f a b)"
  "(x = None \<Longrightarrow> result_ok V r) \<Longrightarrow> (\<And>y. x = Some y \<Longrightarrow> result_ok V (g y)) \<Longrightarrow>
   result_ok V (case x of None \<Rightarrow> r | Some y \<Rightarrow> g y)"
  "result_ok any (Inr y)"
  by (auto split: prod.split option.split)

lemma step_object_ok [results]: "result_ok any (fst (f x)) \<Longrightarrow> result_ok any (step_object f x)"
  by (auto simp: step_object_def split: prod.split sum.split)

lemma appends_ok [results]:
  "result_ok any (appends [] b)"
  "(\<And>b. result_ok any (fst (f b))) \<Longrightarrow> (\<And>b. result_ok any (appends fs b)) \<Longrightarrow> result_ok any (appends (f # fs) b)"
proof -
  assume f: "\<And>b. result_ok any (fst (f b))" "\<And>b. result_ok any (appends fs b)"
  show "result_ok any (appends (f # fs) b)" using f(1) [of b] f(2) by (cases "f b") (auto split: sum.split)
qed simp

lemma format_results:
  assumes "ton_ok T"
  shows "result_ok any (set_builder (formats T) h k b)" "result_ok any (fst (write_hashmap_data (formats T) h b))"
    "result_ok any (builder_from_cell (formats T) c)" "result_ok any (fst (get_next_u32 (formats T) s))"
  using assms by (simp_all add: ton_ok_def formats_ok_def)

lemmas format_rules = results ton_ok_results crate_results format_results integer_as_builder_ok

lemma slice_format_ok:
  assumes "ton_ok T"
  shows "result_ok any (slice_serialize T s)" "result_ok any (slice_deserialize T s)"
    "result_ok any (integer_item_builder T x)" "result_ok any (slice_item_builder T s)"
  unfolding integer_item_builder_def slice_item_builder_def slice_serialize_def slice_deserialize_def
  by (rule format_rules assms)+

section \<open>Writing\<close>

lemma safe_item_serialize_internal [safe]: "ton_ok T \<Longrightarrow> safe (item_serialize_internal T x) any"
  unfolding item_serialize_internal_def Let_def
  by (cases x; simp only: stack_item.case; (rule safe safe_lift format_rules slice_format_ok | assumption)+)

lemma safe_body_cell [safe]: "ton_ok T \<Longrightarrow> safe (body_cell T s) any"
  unfolding body_cell_def by (rule safe safe_lift slice_format_ok | assumption)+

lemma safe_serialize_type [safe]: "ton_ok T \<Longrightarrow> safe (serialize_type T ty) any"
  unfolding serialize_type_def Let_def
  by (cases ty; simp only: continuation_type.case; (rule safe safe_lift format_rules slice_format_ok | assumption)+)

lemma safe_cont_serialize_internal [safe]: "ton_ok T \<Longrightarrow> safe (cont_serialize_internal T k stack savelist) any"
  unfolding cont_serialize_internal_def Let_def
  by (rule safe safe_lift format_rules slice_format_ok | assumption)+

lemma safe_link_item [safe]: "ton_ok T \<Longrightarrow> safe (append_list T st b) any" "ton_ok T \<Longrightarrow> safe (link_item T st b) any"
  unfolding link_item_def append_list_def by (rule safe safe_lift format_rules | assumption)+

lemma safe_serialize_step [safe]: "ton_ok T \<Longrightarrow> safe (serialize_step T i st) any"
  unfolding serialize_step_def
  by (cases i; simp only: serialize_item.case; (rule safe safe_lift format_rules | assumption)+)

lemma items_serialize_loop_sound:
  "ton_ok T \<Longrightarrow> engine_ok e \<Longrightarrow> items_serialize_loop T is st e = (r, e') \<Longrightarrow>
   engine_ok e' \<and> frame e e' \<and> (case r of Inl er \<Rightarrow> error_ok er | Inr x \<Rightarrow> True)"
proof (induction T "is" st e arbitrary: r e' rule: items_serialize_loop.induct)
  case (2 T i "is" st e)
  obtain q e1 where s: "serialize_step T i st e = (q, e1)" by fastforce
  note L = soundD [OF safe_serialize_step [OF 2(2)] 2(3) s]
  show ?case using 2 s L by (cases q) (fastforce intro: frame_trans)+
qed auto

lemma safe_items_serialize [safe]: "ton_ok T \<Longrightarrow> safe (items_serialize T is) any"
proof -
  assume T: "ton_ok T"
  have loop: "safe (items_serialize_loop T is st) any" for st
    unfolding sound_def using items_serialize_loop_sound [OF T] by (metis prod.collapse)
  show ?thesis unfolding items_serialize_def by (rule loop safe)+
qed

lemma serialize_type_old_ok: "ton_ok T \<Longrightarrow> result_ok any (serialize_type_old T ty)"
  unfolding serialize_type_old_def body_cell_old_def Let_def
  by (cases ty; simp only: continuation_type.case; (rule format_rules slice_format_ok | assumption)+)

lemma serialize_old_ok:
  assumes "ton_ok T"
  shows "result_ok any (item_serialize_old T x)" "result_ok any (cont_serialize_old T k)"
    "result_ok any (chain_serialize_old T xs)" "result_ok any (savelist_serialize_old T h i gas sl)"
  using assms
  by (induction T x and T k and T xs and T h i gas sl
      rule: item_serialize_old_cont_serialize_old_chain_serialize_old_savelist_serialize_old.induct)
    (simp_all only: item_serialize_old.simps cont_serialize_old.simps chain_serialize_old.simps
      savelist_serialize_old.simps dict_builder_def Let_def,
    (rule format_rules slice_format_ok serialize_type_old_ok | assumption | simp; fail)+)

section \<open>Reading\<close>

lemma integer_item_ok: "ton_ok T \<Longrightarrow> result_ok item_first (integer_item T s)"
  unfolding integer_item_def
  by (rule result_ok_bind [of any] format_rules | assumption | simp split: sum.split)+

lemma safe_child [safe]: "ton_ok T \<Longrightarrow> safe (child_slice T s) any" "ton_ok T \<Longrightarrow> safe (child_body T s) any"
  unfolding child_slice_def child_body_def by (rule safe crate_rules slice_format_ok | assumption)+

lemma safe_deserialize_type [safe]: "ton_ok T \<Longrightarrow> safe (deserialize_type T s) any"
  unfolding deserialize_type_def by (rule safe crate_rules slice_format_ok format_results | assumption)+

lemma iterate_slices_ok:
  assumes "\<And>x k v. V x \<Longrightarrow> result_ok V (f x k v)" "V x" "\<And>er. snd p = Some er \<Longrightarrow> error_ok er"
  shows "result_ok V (iterate_slices f x p)"
  using assms
proof (induction f x p rule: iterate_slices.induct)
  case (3 f x k v kvs "end")
  then show ?case by (auto intro!: result_ok_bind [of V])
qed auto

lemma hashmap_slices_ok: "ton_ok T \<Longrightarrow> snd (hashmap_slices (formats T) h) = Some er \<Longrightarrow> error_ok er"
  by (simp add: ton_ok_def formats_ok_def)

fun de_item_ok :: "('c, 's, 'b) deserialize_item \<Rightarrow> bool" where
  "de_item_ok (De_Cont k) = cont_ok k"
| "de_item_ok i = True"

abbreviation parts_ok :: "('c, 's, 'b) deserialize_item list \<Rightarrow> bool" where
  "parts_ok \<equiv> list_all de_item_ok"

lemma savelist_items_ok:
  assumes "ton_ok T"
  shows "result_ok (\<lambda>p. parts_ok (fst p)) (savelist_items T s)"
proof -
  have "result_ok parts_ok (iterate_slices (\<lambda>is k v. bindR (step_object (get_next_int T 4) k) (\<lambda>(key, _).
           Inr (De_Items 1 v # De_SaveListItem key # is))) [] (hashmap_slices (formats T) h))" for h
    by (rule iterate_slices_ok) (auto intro!: result_ok_bind [of any] step_object_ok ton_ok_results assms
      dest: hashmap_slices_ok [OF assms])
  then show ?thesis unfolding savelist_items_def
    by (intro result_ok_bind [of any] result_rules result_ok_bind [of parts_ok] step_object_ok ton_ok_results crate_results assms)
      simp_all
qed

lemma safe_cont_deserialize_internal [safe]:
  assumes "ton_ok T" "parts_ok list"
  shows "safe (cont_deserialize_internal T list s) (\<lambda>p. parts_ok (fst p))"
proof -
  have stack: "safe (if present then bindE (with_object (get_next_int T 24) s) (\<lambda>(len, s).
              bindE (child_slice T s) (\<lambda>(child, s). returnE (De_Items len child, s)))
            else returnE (De_Items 0 (slice_default T), s)) (\<lambda>p. de_item_ok (fst p))" for present s
    by (rule safe crate_rules safe_returnI assms | simp; fail)+
  show ?thesis unfolding cont_deserialize_internal_def
    by (rule safe_bind [OF stack] safe_bind [OF safe_lift [OF savelist_items_ok]] safe crate_rules slice_format_ok
      assms(1) | rule safe_returnI, use assms(2) in simp)+
qed

abbreviation part_ok :: "('c, 's, 'b) stack_item option \<times> ('c, 's, 'b) deserialize_item list \<times> 's \<Rightarrow> bool" where
  "part_ok \<equiv> \<lambda>(r, list, s). option_ok r \<and> parts_ok list"

lemma safe_item_deserialize_internal [safe]:
  assumes "ton_ok T" "parts_ok list"
  shows "safe (item_deserialize_internal T list s) part_ok"
proof -
  have plain: "safe (bindE (liftE r) (\<lambda>(x, s). returnE (Some x, list, s))) part_ok" if "result_ok item_first r" for r
    by (rule safe_bind [OF safe_lift [OF that]]) (use assms(2) in \<open>auto intro!: safe_returnI\<close>)
  have cell: "result_ok item_first (bindR (step_object (checked_drain_reference T) s) (\<lambda>(c, s). Inr (Item_Cell c, s)))"
    "result_ok item_first (bindR (slice_deserialize T s) (\<lambda>(x, s). Inr (Item_Slice x, s)))"
    "result_ok item_first (bindR (step_object (checked_drain_reference T) s) (\<lambda>(c, s).
       bindR (builder_from_cell (formats T) c) (\<lambda>b. Inr (Item_Builder b, s))))" for s
    by (rule result_ok_bind [of any] format_rules slice_format_ok assms(1) | clarsimp split: prod.split; fail)+
  show ?thesis unfolding item_deserialize_internal_def Let_def
    by (rule plain cell integer_item_ok safe crate_rules assms | rule safe_returnI, use assms(2) in simp)+
qed

lemma safe_next_in_list [safe]: "ton_ok T \<Longrightarrow> safe (next_in_list T s) any"
  unfolding next_in_list_def by (auto intro!: safe split: prod.split sum.split)

lemma safe_read_items:
  assumes "ton_ok T" "parts_ok list" "items_ok items"
  shows "safe (read_items T k list items s) (\<lambda>(list, items, s). parts_ok list \<and> items_ok items)"
  using assms(2,3)
proof (induction k arbitrary: list items s)
  case 0
  then show ?case unfolding read_items.simps by (intro safe_returnI) simp
next
  case (Suc k)
  have "safe (case r of None \<Rightarrow> returnE (list, items, s) | Some x \<Rightarrow> read_items T k list (items @ [x]) s)
      (\<lambda>(list, items, s). parts_ok list \<and> items_ok items)" if "option_ok r" "parts_ok list" for r list s
    using that Suc.IH [of list "items @ [the r]" s] Suc.prems(2) by (cases r) (auto intro!: safe_returnI)
  then show ?case using Suc.prems(1)
    by (auto intro!: safe_bind [OF safe_item_deserialize_internal] safe_bind [OF safe_next_in_list] assms(1) safe_case_prod)
qed

definition reading_ok :: "('c, 's, 'b) deserialize_state \<Rightarrow> bool" where
  "reading_ok st = (parts_ok (de_list st) \<and> items_ok (de_items st) \<and>
     (\<forall>(items, len, s)\<in>set (de_items_stack st). items_ok items) \<and> (\<forall>sl\<in>set (de_savelists st). list_ok sl))"

lemma pop_items_ok: "reading_ok st \<Longrightarrow> items_ok new \<Longrightarrow> reading_ok (pop_items T new st)"
  by (auto simp: pop_items_def reading_ok_def split: list.split)

lemma reading_okD:
  assumes "reading_ok st"
  shows "items_ok (de_items st)" "de_items st = x # xs \<Longrightarrow> item_ok x"
    "de_savelists st = sl # sls \<Longrightarrow> list_ok sl"
    "de_savelists st = sl # sls \<Longrightarrow> reading_ok (st \<lparr> de_savelists := sls \<rparr>)"
    "list_ok sl' \<Longrightarrow> de_savelists st = sl # sls \<Longrightarrow> reading_ok (st \<lparr> de_savelists := sl' # sls \<rparr>)"
  using assms by (auto simp: reading_ok_def)

lemma deserialize_step_ok:
  assumes st: "reading_ok st" and i: "de_item_ok i"
  shows "result_ok reading_ok (deserialize_step T i st)"
proof (cases i)
  case (De_Cont k)
  then have "list_ok (savelist_of k)" using i by (cases k) simp
  then show ?thesis using De_Cont st
    by (cases "de_savelists st") (simp_all add: deserialize_step_def pop_items_ok reading_okD)
next
  case (De_SaveListItem index)
  have "result_ok reading_ok (bindR (savelist_put index x sl) (\<lambda>(_, sl). Inr (pop_items T [] (st \<lparr> de_savelists := sl # sls \<rparr>))))"
    if "de_savelists st = sl # sls" "de_items st = x # xs" for sl sls x xs
    using reading_okD [OF st] that
    by (intro result_ok_bind [OF savelist_put_result]) (auto intro!: pop_items_ok)
  then show ?thesis using De_SaveListItem st
    by (auto simp: deserialize_step_def intro!: pop_items_ok split: list.split)
qed (use st in \<open>auto simp: deserialize_step_def reading_okD intro!: pop_items_ok\<close>, auto simp: reading_ok_def)

lemma safe_items_deserialize_loop: "ton_ok T \<Longrightarrow> reading_ok st \<Longrightarrow> safe (items_deserialize_loop n T st) items_ok"
proof (induction n arbitrary: st)
  case 0
  then show ?case unfolding items_deserialize_loop.simps by (intro safe_throw) simp
next
  case (Suc n)
  have next_round: "safe (case list of [] \<Rightarrow> returnE items
      | i # list \<Rightarrow> bindE (liftE (deserialize_step T i (st \<lparr> de_list := list, de_items := items, de_slice := s \<rparr>)))
         (items_deserialize_loop n T)) items_ok" if "parts_ok list" "items_ok items" for list items s
    using that Suc.prems
    by (cases list) (auto intro!: safe_returnI safe_bind [OF safe_lift [OF deserialize_step_ok]] Suc.IH simp: reading_ok_def)
  have "safe (read_items T (de_length st - length (de_items st)) (de_list st) (de_items st) (de_slice st))
      (\<lambda>(list, items, s). parts_ok list \<and> items_ok items)"
    using Suc.prems by (intro safe_read_items) (simp_all add: reading_ok_def)
  then show ?case unfolding items_deserialize_loop.simps by (rule safe_bind) (auto intro!: safe_case_prod next_round)
qed

lemma safe_items_deserialize [safe]: "ton_ok T \<Longrightarrow> parts_ok list \<Longrightarrow> safe (items_deserialize T list) items_ok"
  using safe_items_deserialize_loop [of T] unfolding items_deserialize_def sound_def by (simp add: reading_ok_def)

lemma safe_cont_deserialize [safe]:
  assumes "ton_ok T"
  shows "safe (cont_deserialize T s) (\<lambda>p. cont_ok (fst p))"
proof -
  have got: "safe (case items of [] \<Rightarrow> throwE Panic
      | x # _ \<Rightarrow> bindE (liftE (as_continuation x)) (\<lambda>k. returnE (k, s))) (\<lambda>p. cont_ok (fst p))" if "items_ok items" for items s
    using that by (cases items) (auto intro!: safe_throw safe_bind [OF safe_lift_cont] safe_returnI)
  show ?thesis unfolding cont_deserialize_def
    by (rule safe_bind [OF safe_cont_deserialize_internal [OF assms]]) (auto intro!: safe_bind [OF safe_items_deserialize] safe_case_prod got assms)
qed

section \<open>Reading the old format\<close>

abbreviation old_item_ok :: "(('c, 's, 'b) stack_item \<times> i64) \<times> 's \<Rightarrow> bool" where
  "old_item_ok \<equiv> \<lambda>((x, gas), s). item_ok x"

lemma child_body_old_ok: "ton_ok T \<Longrightarrow> result_ok any (child_body_old T s)"
  unfolding child_body_old_def by (rule format_rules slice_format_ok | assumption)+

lemma deserialize_type_old_ok: "ton_ok T \<Longrightarrow> result_ok any (deserialize_type_old T s)"
  unfolding deserialize_type_old_def by (rule format_rules child_body_old_ok | assumption)+

lemma tuple_chain_old_ok:
  assumes "ton_ok T" "\<And>s. result_ok old_item_ok (rd s)" "items_ok xs"
  shows "result_ok (\<lambda>(xs, gas). items_ok xs) (tuple_chain_old T rd n cell xs gas)"
  using assms(3)
proof (induction n arbitrary: cell xs gas)
  case (Suc n)
  then show ?case unfolding tuple_chain_old.simps
    by (intro result_ok_bind [OF ton_ok_results(6) [OF assms(1)]] result_ok_bind [OF assms(2)])
      (auto intro!: result_ok_bind [of any] step_object_ok ton_ok_results assms(1))
qed simp

lemma stack_chain_old_ok:
  assumes "ton_ok T" "\<And>s. result_ok old_item_ok (rd s)" "items_ok xs"
  shows "result_ok (\<lambda>(xs, gas). items_ok xs) (stack_chain_old T rd n cell xs gas)"
  using assms(3)
proof (induction n arbitrary: cell xs gas)
  case (Suc n)
  then show ?case unfolding stack_chain_old.simps
    by (intro result_ok_bind [OF ton_ok_results(6) [OF assms(1)]] result_ok_bind [OF assms(2)]) auto
qed simp

lemma tuple_deserialize_old_ok:
  assumes "ton_ok T" "\<And>s. result_ok old_item_ok (rd s)"
  shows "result_ok old_item_ok (tuple_deserialize_old T rd s)"
proof -
  have first: "result_ok (\<lambda>((xs, gas), s). items_ok xs)
      (if len > 0 then bindR (rd s) (\<lambda>((x, gas), s). Inr (([x], gas), s)) else Inr (([], 0), s))" for len :: nat and s
    by (auto intro!: result_ok_bind [OF assms(2)])
  show ?thesis unfolding tuple_deserialize_old_def
    by (intro result_ok_bind [of any] step_object_ok ton_ok_results assms(1) result_rules(3) result_ok_bind [OF first])
      (auto intro!: result_ok_bind [of any] step_object_ok ton_ok_results assms(1)
        result_ok_bind [OF tuple_chain_old_ok [OF assms(1,2)]])
qed

lemma stack_deserialize_old_ok:
  assumes "ton_ok T" "\<And>s. result_ok old_item_ok (rd s)"
  shows "result_ok (\<lambda>((xs, gas), s). items_ok xs) (stack_deserialize_old T rd s)"
  unfolding stack_deserialize_old_def
  by (auto intro!: result_ok_bind [OF step_object_ok [OF crate_results(17) [OF assms(1)]]]
    result_ok_bind [OF step_object_ok [OF ton_ok_results(3) [OF assms(1)]]] result_ok_bind [OF assms(2)]
    result_ok_bind [OF step_object_ok [OF ton_ok_results(10) [OF assms(1)]]]
    result_ok_bind [OF stack_chain_old_ok [OF assms(1,2)]])

lemma savelist_deserialize_old_ok:
  assumes "ton_ok T" "\<And>s. result_ok old_item_ok (rd s)"
  shows "result_ok (\<lambda>((sl, gas), s). list_ok sl) (savelist_deserialize_old T rd s)"
proof -
  have entry: "result_ok (\<lambda>(sl, gas). list_ok sl) ((\<lambda>(sl, gas) k v.
           bindR (step_object (get_next_int T 4) k) (\<lambda>(key, _).
           bindR (rd v) (\<lambda>((x, gas2), _).
           bindR (savelist_put key x sl) (\<lambda>(_, sl). Inr (sl, gas + gas2))))) p k v)" if "case p of (sl, gas) \<Rightarrow> list_ok sl" for p k v
    using that by (auto intro!: result_ok_bind [OF step_object_ok [OF ton_ok_results(3) [OF assms(1)]]]
      result_ok_bind [OF assms(2)] result_ok_bind [OF savelist_put_result])
  have all: "result_ok (\<lambda>(sl, gas). list_ok sl) (iterate_slices (\<lambda>(sl, gas) k v.
           bindR (step_object (get_next_int T 4) k) (\<lambda>(key, _).
           bindR (rd v) (\<lambda>((x, gas2), _).
           bindR (savelist_put key x sl) (\<lambda>(_, sl). Inr (sl, gas + gas2)))))
         (savelist_new, g) (hashmap_slices (formats T) h))" for h g
    by (rule iterate_slices_ok [OF entry]) (auto dest: hashmap_slices_ok [OF assms(1)])
  show ?thesis unfolding savelist_deserialize_old_def Let_def
    by (auto intro!: result_ok_bind [OF step_object_ok [OF crate_results(17) [OF assms(1)]]] result_ok_bind [OF all]
      split: prod.split sum.split)
qed

lemma cont_deserialize_old_ok:
  assumes "ton_ok T" "\<And>s. result_ok old_item_ok (rd s)"
  shows "result_ok (\<lambda>((k, gas), s). cont_ok k) (cont_deserialize_old T rd s)"
  unfolding cont_deserialize_old_def
  by (auto intro!: result_ok_bind [OF deserialize_type_old_ok [OF assms(1)]]
    result_ok_bind [OF step_object_ok [OF ton_ok_results(3) [OF assms(1)]]] result_ok_bind [OF stack_deserialize_old_ok [OF assms]]
    result_ok_bind [OF savelist_deserialize_old_ok [OF assms]] result_ok_bind [OF slice_format_ok(2) [OF assms(1)]])

lemma item_deserialize_old_ok: "ton_ok T \<Longrightarrow> result_ok old_item_ok (item_deserialize_old T n s)"
proof (induction n arbitrary: s)
  case (Suc n)
  have cont: "result_ok old_item_ok (bindR (cont_deserialize_old T (item_deserialize_old T n) s) (\<lambda>((k, gas), s).
       Inr ((Item_Continuation k, gas), s)))" for s
    by (rule result_ok_bind [OF cont_deserialize_old_ok [OF Suc(2) Suc.IH [OF Suc(2)]]]) auto
  have plain: "result_ok old_item_ok (bindR (integer_item T s) (\<lambda>(x, s). Inr ((x, 0), s)))"
    "result_ok old_item_ok (bindR (step_object (checked_drain_reference T) s) (\<lambda>(c, s). Inr ((Item_Cell c, 0), s)))"
    "result_ok old_item_ok (bindR (slice_deserialize T s) (\<lambda>(x, s). Inr ((Item_Slice x, load_cell_price True), s)))"
    "result_ok old_item_ok (bindR (step_object (checked_drain_reference T) s) (\<lambda>(c, s).
       bindR (builder_from_cell (formats T) c) (\<lambda>b. Inr ((Item_Builder b, 0), s))))"
    "result_ok old_item_ok (Inr ((Item_None, 0), s))" for s
    by (rule result_ok_bind [OF integer_item_ok [OF Suc.prems]])
      (auto intro!: result_ok_bind [of any] step_object_ok ton_ok_results slice_format_ok format_results Suc.prems)
  show ?case unfolding item_deserialize_old.simps
    by (rule result_ok_bind [OF step_object_ok [OF ton_ok_results(2) [OF Suc.prems]]] result_rules(1-3) plain cont
      tuple_deserialize_old_ok [OF Suc.prems Suc.IH [OF Suc.prems]])+
qed simp

section \<open>Instructions\<close>

lemma cont_cell_handlers_safe:
  assumes "ton_ok T"
  shows "all_safe (cont_cell_handlers T)"
proof -
  have ld: "safe (if new then cont_deserialize T s
            else bindE (liftE (cont_deserialize_old T (item_deserialize_old T OLD_DEPTH) s)) (\<lambda>((k, gas), s).
              thenE (engine_use_gas gas) (returnE (k, s)))) (\<lambda>p. cont_ok (fst p))" for new s
    by (rule safe_if, rule safe_cont_deserialize [OF assms],
      rule safe_bind [OF safe_lift [OF cont_deserialize_old_ok [OF assms item_deserialize_old_ok [OF assms]]]])
      (auto intro!: safe_case_prod safe_then [OF safe_gas(1)] safe_returnI)
  have "safe (execute_ldcont T) any"
    unfolding execute_ldcont_def new_format_def
    by (rule safe_bind [OF ld] safe crate_rules assms item_intros | simp; fail)+
  moreover have "safe (execute_stcont T) any"
    unfolding execute_stcont_def new_format_def cont_serialize_def
    by (rule safe crate_rules as_ok serialize_old_ok ok_Inr assms | assumption)+
  ultimately show ?thesis by (simp add: cont_cell_handlers_def all_safe_simps)
qed

end
