(* ===== verification/Safety_Machine.thy ===== *)
theory Safety_Machine
  imports Safety_Formats
begin

text \<open>
  The instructions on random numbers, output actions and addresses keep the invariant of
  \<open>Safety\<close>, and with them every instruction of the machine: the judgement for the whole run of
  \<open>execute_cp0\<close>.
\<close>

section \<open>Random numbers\<close>

lemma safe_rand_bytes [safe]:
  "ton_ok T \<Longrightarrow> safe (uint256_bytes T x) any" "safe (uint256_of T bs) any" "safe rand_seed any"
  unfolding uint256_bytes_def uint256_of_def rand_seed_def
  by (rule safe crate_rules integer_as_builder_ok as_ok | assumption)+

lemma rand_handlers_safe: "ton_ok T \<Longrightarrow> all_safe (rand_handlers T)"
  unfolding rand_handlers_def execute_addrand_def execute_rand_def execute_randu256_def all_safe_simps Let_def
  by (intro conjI TrueI; (rule safe item_intros | assumption)+)

section \<open>Output actions\<close>

lemma appended_ok:
  "result_ok any (fst (f b)) \<Longrightarrow> (\<And>b. result_ok any (g b)) \<Longrightarrow>
   result_ok any (bindR (step_object f b) (\<lambda>(_, b). g b))"
  by (rule result_ok_bind [of any]) (auto intro: step_object_ok)

lemma amounts_ok:
  assumes "ton_ok T"
  shows "result_ok any (serialize_grams T n)" "result_ok any (serialize_currency_collection T n other)"
  unfolding serialize_currency_collection_def serialize_grams_def Let_def
  by (rule result_ok_bind [of any] appended_ok crate_results ok_Inr assms | cases other; simp; fail
    | cases other; simp; intro appended_ok crate_results ok_Inr assms)+

lemma safe_add_action [safe]: "ton_ok T \<Longrightarrow> safe (add_action T n c b) any"
  unfolding add_action_def by (rule safe crate_rules as_ok item_intros | assumption)+

lemma safe_action_parts [safe]:
  "ton_ok T \<Longrightarrow> safe (byte_builder T n) any" "safe (grams_var i) any"
  unfolding byte_builder_def grams_var_def by (rule safe crate_rules | assumption)+

lemma action_handlers_safe:
  assumes "ton_ok T"
  shows "safe (execute_changelib T) any" "safe (execute_sendrawmsg T) any" "safe (execute_setcode T) any"
    "safe (execute_setlibcode T) any" "safe (execute_copyleft T) any" "safe (execute_rawreserve T) any"
    "safe (execute_rawreservex T) any"
  unfolding execute_changelib_def execute_sendrawmsg_def execute_setcode_def execute_setlibcode_def
    execute_copyleft_def execute_rawreserve_def execute_rawreservex_def
  by (rule safe store_rules amounts_ok assms | assumption)+

section \<open>Addresses\<close>

lemma parse_address_ok: "parse_address T s = Inr (xs, r) \<Longrightarrow> items_ok xs"
  unfolding parse_address_def Let_def
  by (auto simp: bindR_def prefix_item_def split: sum.splits if_splits prod.splits option.split)

lemma safe_attempt: "safe m V \<Longrightarrow> safe (attemptE m) (pred_option V)"
  unfolding attemptE_def sound_def by (fastforce split: prod.split sum.split)

lemma safe_load_address:
  assumes "ton_ok T" "\<And>xs. items_ok xs \<Longrightarrow> safe (op_addr xs) items_ok"
  shows "safe (load_address T B name op_addr) any"
proof -
  have got: "safe (case parse_address T s of
         Inl _ \<Rightarrow> returnE False
       | Inr (addr, _) \<Rightarrow> bindE (attemptE (op_addr addr)) (\<lambda>r. case r of
           None \<Rightarrow> returnE False
         | Some xs \<Rightarrow> thenE (push_items xs) (returnE True))) any" for s
    using parse_address_ok [of T s] assms(2)
    by (auto intro!: safe safe_bind [OF safe_attempt] split: sum.split option.split)
  show ?thesis unfolding load_address_def by (rule safe_bind [OF got] safe crate_rules as_ok item_intros assms(1))+
qed

lemma rewrite_std_ok:
  assumes "items_ok xs"
  shows "result_ok items_ok (rewrite_std T B xs)"
proof -
  have part: "result_ok any (case x of
      Item_Slice p \<Rightarrow> let n = remaining_bits T p in
        if n > 256 then err CellUnderflow
        else if n > 0 then
          bindR (lift_code (integer_from (get_bigint T p))) (\<lambda>prefix.
          bindR (lift_code (and_int B y (int_mask (256 - n)))) (\<lambda>y. lift_code (or_int B y prefix)))
        else Inr y
    | _ \<Rightarrow> Inr y)" for x y
    by (cases x) (auto simp: Let_def intro!: result_ok_bind [of any])
  have y: "result_ok any (if remaining_bits T s = 256 then lift_code (integer_from (get_bigint T s)) else err CellUnderflow)" for s
    by simp
  have "result_ok items_ok (Inr [xs ! 2, Item_Integer y])" if "length xs = 4" for y
    using that assms by (simp add: items_ok_parts)
  then show ?thesis unfolding rewrite_std_def
    by (cases "length xs = 4"; simp only: if_True if_False simp_thms)
      (rule result_ok_bind [OF as_ok(6)] result_ok_bind [OF y] result_ok_bind [OF part] error_ok_exc | simp)+
qed

lemma safe_rewrite_var:
  assumes "ton_ok T" "items_ok xs"
  shows "safe (rewrite_var T xs) items_ok"
proof -
  have got: "safe (case x of
        Item_Slice p \<Rightarrow> let n = remaining_bits T p in
          if n > remaining_bits T addr then errE CellUnderflow
          else if n > 0 then
            bindE (with_object (append_bytestring (blocks T) (shrink_data T n None addr)) (slice_as_builder (slices T) p))
              (\<lambda>(_, b). finalize_cell_and_load T b)
          else returnE addr
      | _ \<Rightarrow> returnE addr) any" for x addr
    unfolding finalize_cell_and_load_def Let_def
    by (cases x; simp only: stack_item.case; (rule safe crate_rules assms(1))+)
  have "safe (returnE [xs ! 2, Item_Slice s]) items_ok" if "length xs = 4" for s
    using that assms(2) by (intro safe_returnI) (simp add: items_ok_parts)
  then show ?thesis unfolding rewrite_var_def
    by (intro safe_if safe safe_bind [OF safe_lift [OF as_ok(6)]] safe_bind [OF got])
qed

lemma address_handlers_safe:
  assumes "ton_ok T"
  shows "safe (execute_ldmsgaddr T B) any" "safe (execute_parsemsgaddr T B) any"
    "safe (execute_rewrite_std_addr T B) any" "safe (execute_rewrite_var_addr T B) any"
proof -
  have got: "safe (case parse_address T s of
        Inr (_, remainder) \<Rightarrow> thenE (push_slice (shrink_by_remainder (blocks T) s remainder)) (thenE (push_slice remainder)
          (whenE (quiet B) (push_item (item_boolean True))))
      | Inl _ \<Rightarrow>
          if quiet B then bindE pop_var (\<lambda>v. thenE (push_item v) (push_item (item_boolean False)))
          else errE CellUnderflow) any" for s
    by (cases "parse_address T s") (auto intro!: safe)
  show "safe (execute_ldmsgaddr T B) any"
    unfolding execute_ldmsgaddr_def by (rule got safe assms)+
  show "safe (execute_parsemsgaddr T B) any" "safe (execute_rewrite_std_addr T B) any"
    "safe (execute_rewrite_var_addr T B) any"
    unfolding execute_parsemsgaddr_def execute_rewrite_std_addr_def execute_rewrite_var_addr_def
    by (rule safe_load_address safe_lift rewrite_std_ok safe_rewrite_var safe_returnI assms | simp)+
qed

lemma blockchain_handlers_safe: "ton_ok T \<Longrightarrow> all_safe (blockchain_handlers T)"
  unfolding blockchain_handlers_def all_safe_simps
  by (intro conjI TrueI action_handlers_safe address_handlers_safe)

section \<open>The machine\<close>

lemma handler_of_safe:
  assumes T: "ton_ok T" and rest: "safe (rest name) any"
  shows "safe (handler_of T rest name) any"
proof -
  have "all_safe (modelled_handlers T)"
    unfolding modelled_handlers_def all_safe_simps execute_unknown_def
    by (intro conjI safe codepage_handlers_safe stack_handlers_safe math_handlers_safe tuple_handlers_safe
      gas_handlers_safe config_handlers_safe continuation_handlers_safe loop_handlers_safe
      exception_handlers_safe serialize_handlers_safe deserialize_handlers_safe slice_handlers_safe
      dictionary_handlers_safe rand_handlers_safe blockchain_handlers_safe cont_cell_handlers_safe T)
  then show ?thesis using rest
    by (auto simp: handler_of_def all_safe_def list_all_iff dest!: map_of_SomeD split: option.split)
qed

lemma safe_get_handler [safe]: "safe (get_handler T h) any"
proof (induction h)
  case (Handlers ds ss)
  have step: "get_handler T (Handlers ds ss) = bindE (next_cmd T) (\<lambda>c. case ds ! unat c of
      Some (Direct name) \<Rightarrow> returnE name
    | Some (Subset i) \<Rightarrow> if i < length ss then get_handler T (ss ! i) else throwE Panic
    | None \<Rightarrow> returnE execute_unknown_name)"
    by (rule ext, subst get_handler.simps)
      (auto simp: bindE_def split: prod.split sum.split option.split handler_slot.split)
  have sub: "safe (get_handler T (ss ! i)) any" if "i < length ss" for i
    using Handlers.IH that by simp
  have "safe (case ds ! unat c of Some (Direct name) \<Rightarrow> returnE name
    | Some (Subset i) \<Rightarrow> if i < length ss then get_handler T (ss ! i) else throwE Panic
    | None \<Rightarrow> returnE execute_unknown_name) any" for c
    using sub by (auto intro!: safe split: option.split handler_slot.split)
  then show ?case unfolding step by (intro safe_bind [OF safe_next_cmd])
qed

lemma safe_lookup_handler:
  assumes "ton_ok T" "\<And>name. safe (rest name) any"
  shows "safe (lookup_handler T rest h) (\<lambda>m. safe m any)"
  unfolding lookup_handler_def by (rule safe_bind [OF safe_get_handler] safe_returnI handler_of_safe assms)+

lemma safe_execute_cp0:
  assumes "ton_ok T" "\<And>name. safe (rest name) any"
  shows "safe (execute_cp0 T rest fuel) any"
  unfolding execute_cp0_def by (rule safe safe_execute safe_lookup_handler assms)+

end
