(* ===== verification/Example_Crates.thy ===== *)
theory Example_Crates
  imports Safety_Machine
begin

text \<open>
  A small model of the crates outside the repository, to evaluate the machine on concrete input:
  a slice is a list of octets, there is one empty cell, and there are no references, builders or
  dictionaries.  The numbers of the exception codes are those of the machine's description.
\<close>

fun exception_number :: "exception_code \<Rightarrow> int" where
  "exception_number NormalTermination = 0"
| "exception_number AlternativeTermination = 1"
| "exception_number StackUnderflow = 2"
| "exception_number StackOverflow = 3"
| "exception_number IntegerOverflow = 4"
| "exception_number RangeCheckError = 5"
| "exception_number InvalidOpcode = 6"
| "exception_number TypeCheckError = 7"
| "exception_number CellOverflow = 8"
| "exception_number CellUnderflow = 9"
| "exception_number DictionaryError = 10"
| "exception_number UnknownError = 11"
| "exception_number FatalErrorCode = 12"
| "exception_number IllegalInstruction = 14"
| "exception_number OutOfGas = 13"

fun octet_of :: "u8 list \<Rightarrow> ('c, 's, 'b, u8) ext_result \<times> u8 list" where
  "octet_of [] = (Inl (CodeError CellUnderflow), [])"
| "octet_of (b # bs) = (Inr b, bs)"

definition no_result :: "('c, 's, 'b, 'a) ext_result" where
  "no_result = Inl (CodeError CellUnderflow)"

definition no_update :: "('c, 's, 'b, 'h, 'v) dict_update" where
  "no_update d k v g = returnE (None, d)"

definition no_builders :: "(unit, u8 list, unit) builder_ops" where
  "no_builders = \<lparr>
     builder_new = (), bits_free = (\<lambda>_. 0), references_free = (\<lambda>_. 0), bits_used = (\<lambda>_. 0),
     references_used = (\<lambda>_. 0), length_in_bits = (\<lambda>_. 0), builder_data = (\<lambda>_. []), builder_references = (\<lambda>_. []),
     builder_set_type = (\<lambda>_ b. b), can_append = (\<lambda>_ _. False), check_enough_space = (\<lambda>_ _. False),
     check_enough_refs = (\<lambda>_ _. False), with_raw = (\<lambda>_ _. no_result), with_raw_and_refs = (\<lambda>_ _ _. no_result),
     append_builder = (\<lambda>_ b. (no_result, b)), append_raw = (\<lambda>_ _ b. (no_result, b)),
     append_bits = (\<lambda>_ _ b. (no_result, b)), checked_append_reference = (\<lambda>_ b. (no_result, b)),
     checked_append_references_and_data = (\<lambda>_ b. (no_result, b)), builder_into_cell = (\<lambda>_. no_result) \<rparr>"

definition no_slices :: "(unit, u8 list, unit) slice_ops" where
  "no_slices = \<lparr>
     get_next_bit = (\<lambda>s. (no_result, s)), get_next_bits = (\<lambda>_ s. (no_result, s)), get_next_bytes = (\<lambda>_ s. (no_result, s)),
     get_next_slice = (\<lambda>_ s. (no_result, s)), get_bit_opt = (\<lambda>_ _. None), get_bytestring = (\<lambda>_ s. s),
     slice_is_empty = (\<lambda>s. s = []), is_empty_root = (\<lambda>_. True), shrunk_data = (\<lambda>_ _ s. s),
     common_prefix = (\<lambda>_ _. (None, None, None)), slice_as_builder = (\<lambda>_. ()), load_builder = (\<lambda>_. no_result),
     load_bitstring = (\<lambda>_. no_result) \<rparr>"

definition no_updates :: "('c, 's, 'b, 'h) update_ops" where
  "no_updates = \<lparr>
     set_with_gas = no_update, add_with_gas = no_update, replace_with_gas = no_update,
     set_builder_with_gas = no_update, add_builder_with_gas = no_update, replace_builder_with_gas = no_update,
     setref_with_gas = no_update, addref_with_gas = no_update, replaceref_with_gas = no_update,
     remove_with_gas = no_update \<rparr>"

definition no_searches :: "('c, 's, 'b, 'h) search_ops" where
  "no_searches = \<lparr>
     hashmap_data = (\<lambda>_. None), find_leaf = (\<lambda>_ _ _ _ _ _. returnE None), get_min = (\<lambda>_ _ _. returnE None),
     get_max = (\<lambda>_ _ _. returnE None), into_subtree_with_prefix = (\<lambda>d _ _. returnE d),
     into_subtree_without_prefix = (\<lambda>d _ _. returnE d) \<rparr>"

definition no_pfx :: "('c, 's, 'b, unit) pfx_ops" where
  "no_pfx = \<lparr>
     pfx_with_hashmap = (\<lambda>_ _. ()), pfx_is_prefix = (\<lambda>_ _. Inr False), pfx_get = (\<lambda>_ _. Inr None),
     pfx_get_with_gas = (\<lambda>_ _ _. returnE None), pfx_get_prefix_leaf_with_gas = (\<lambda>_ s _. returnE (s, None, s)),
     pfx_set_with_gas = no_update, pfx_replace_with_gas = no_update, pfx_remove_with_gas = no_update \<rparr>"

definition flat_cells :: "('c, 's, 'b) cell_ops" where
  "flat_cells = \<lparr>
     max_level = 3, cell_depth = (\<lambda>_ _. 0), references_count = (\<lambda>_. 0), tree_cell_count = (\<lambda>_. 1),
     tree_bits_count = (\<lambda>_. 0), cell_type_try_from = (\<lambda>_. no_result) \<rparr>"

definition no_crypto :: crypto_ops where
  "no_crypto = \<lparr>
     calc_file_hash = (\<lambda>_. 0), public_key_ok = (\<lambda>_. False), signature_ok = (\<lambda>_. False),
     signature_verify = (\<lambda>_ _ _. False) \<rparr>"

definition no_blocks :: "('c, 's, 'b) block_ops" where
  "no_blocks = \<lparr>
     ACTION_SEND_MSG = 1, ACTION_SET_CODE = 2, ACTION_RESERVE = 3, ACTION_CHANGE_LIB = 4, ACTION_COPYLEFT = 5,
     is_masterchain = (\<lambda>_. Inr False),
     append_u32 = (\<lambda>_ b. (no_result, b)), append_bytestring = (\<lambda>_ b. (no_result, b)),
     shrink_by_remainder = (\<lambda>s _. s), get_next_i32 = (\<lambda>s. (no_result, s)),
     sha256 = (\<lambda>_. replicate 32 0), sha512 = (\<lambda>_. replicate 64 0) \<rparr>"

definition no_formats :: "('c, 's, 'b, unit) format_ops" where
  "no_formats = \<lparr>
     hashmap_default = (), with_bit_len = (\<lambda>_. ()), set_builder = (\<lambda>_ _ _. no_result), hashmap_root = (\<lambda>_. None),
     write_hashmap_data = (\<lambda>_ b. (no_result, b)), hashmap_slices = (\<lambda>_. ([], None)), builder_from_cell = (\<lambda>_. no_result),
     get_next_u32 = (\<lambda>s. (no_result, s)) \<rparr>"

definition octet_crates :: "(unit, u8 list, unit, unit) ton" where
  "octet_crates = \<lparr>
     bigint = schoolbook_bigint, builders = no_builders, slices = no_slices, cells = flat_cells, crypto = no_crypto,
     updates = no_updates, searches = no_searches, pfx = no_pfx, blocks = no_blocks, formats = no_formats,
     code_number = exception_number, code_from_usize = (\<lambda>_. None),
     capability_bits = (\<lambda>c. case c of CapsTvmBugfixes2022 \<Rightarrow> 1 | _ \<Rightarrow> 2),
     slice_default = [], builder_default = (), cell_default = (),
     remaining_bits = (\<lambda>s. 8 * length s), remaining_references = (\<lambda>_. 0), slice_pos = (\<lambda>_. 0),
     get_references = (\<lambda>_. (0, 0)), reference_opt = (\<lambda>_ _. None), slice_reference = (\<lambda>_ _. no_result),
     checked_drain_reference = (\<lambda>s. (no_result, s)), get_next_byte = octet_of,
     get_next_int = (\<lambda>_ s. (no_result, s)), get_next_hash = (\<lambda>s. (no_result, s)),
     move_by = (\<lambda>_ s. (no_result, s)), shrink_data = (\<lambda>_ _ s. s), shrink_references = (\<lambda>_ _ s. s),
     trim_right = (\<lambda>s. s), get_dictionary_opt = (\<lambda>s. (None, s)), cell_opt = (\<lambda>_. None),
     slice_load_cell = (\<lambda>_. no_result), slice_load_cell_ref = (\<lambda>_. no_result), into_cell = (\<lambda>_. ()),
     slice_hash_eq = (\<lambda>_ _. False), repr_hash = (\<lambda>_. 0), cell_type_of = (\<lambda>_. OrdinaryCell),
     cell_reference = (\<lambda>_ _. no_result), virtualize = (\<lambda>_ c. c), builder_finalize = (\<lambda>_ _. no_result),
     with_hashmap = (\<lambda>_ _. ()), key_i32 = (\<lambda>_. no_result),
     hashmap_get_with_gas = (\<lambda>_ _ _. returnE None) \<rparr>"

lemma octet_crates_ok: "ton_ok octet_crates"
proof -
  have "\<forall>s. result_ok any (fst (octet_of s))"
  proof
    fix s
    show "result_ok any (fst (octet_of s))" by (cases s) simp_all
  qed
  moreover have "builders_ok no_builders" "slices_ok no_slices" "updates_ok no_updates" "searches_ok no_searches" "pfx_ok no_pfx"
    "blocks_ok no_blocks" "formats_ok no_formats"
    by (simp_all add: builders_ok_def no_builders_def slices_ok_def no_slices_def updates_ok_def no_updates_def update_ok_def
      searches_ok_def no_searches_def pfx_ok_def no_pfx_def no_update_def no_result_def
      blocks_ok_def no_blocks_def formats_ok_def no_formats_def safe_return)
  ultimately show ?thesis by (simp add: ton_ok_def octet_crates_def no_result_def safe_return)
qed

lemma fresh_engine_ok: "engine_ok (with_capabilities T caps)"
  by (simp add: engine_ok_def with_capabilities_def instr_ext_new_def committed_ok_def committed_new_empty_def)

end
