(* ===== verification/Machine_Theorems.thy ===== *)
theory Machine_Theorems
  imports Example_Crates
begin

text \<open>
  The invariant over whole runs: setting up establishes it, and the machine of code page 0 keeps
  it through every instruction, implicit step and exception, and when it stops.
\<close>

section \<open>Setting up\<close>

lemma put_unwrap_ok:
  "can_put i x \<Longrightarrow> thenE (put_unwrap i x) m e = m (e \<lparr> ctrls := (ctrls e)[adjust i := Some x] \<rparr>)"
  by (simp add: put_unwrap_def ctrls_put_def savelist_put_def check_can_put_def put_opt_def thenE_def bindE_def)

definition setup_registers ::
  "('c, 's, 'b, 'h) ton \<Rightarrow> 's \<Rightarrow> bool \<Rightarrow> ('c, 's, 'b) save_list" where
  "setup_registers T code catch = [
     Some (Item_Continuation (with_type (slice_default T) (Quit (code_number T NormalTermination)))),
     Some (Item_Continuation (with_type (slice_default T) (Quit (code_number T AlternativeTermination)))),
     if catch then Some (Item_Continuation (with_type (slice_default T) ExcQuit)) else None,
     Some (Item_Continuation (with_code code)),
     Some (Item_Cell (cell_default T)), Some (Item_Cell (cell_default T)),
     Some (into_temp_data_item T (old_default T (into_cell T code)))]"

lemma fill_registers:
  "savelist_new[adjust 0 := a, adjust 1 := b, adjust 2 := c, adjust 3 := d, adjust 4 := x, adjust 5 := y,
     adjust 7 := z] = [a, b, c, d, x, y, z]"
  "savelist_new[adjust 0 := a, adjust 1 := b, adjust 3 := d, adjust 4 := x, adjust 5 := y,
     adjust 7 := z] = [a, b, None, d, x, y, z]"
  by (simp_all add: savelist_new_def NUMREGS_def adjust_def numeral_eq_Suc)

definition regs_of :: "('c, 's, 'b) save_list option \<Rightarrow> ('c, 's, 'b) save_list" where
  "regs_of regs = (case regs of Some sl \<Rightarrow> sl | None \<Rightarrow> savelist_new)"

definition stack_given :: "('c, 's, 'b) item_stack option \<Rightarrow> ('c, 's, 'b) item_stack" where
  "stack_given stack = (case stack of Some st \<Rightarrow> st | None \<Rightarrow> [])"

lemma savelist_apply_new: "length sl = 7 \<Longrightarrow> fst (savelist_apply sl savelist_new) = sl"
  by (simp add: savelist_apply_eq) (auto intro: nth_equalityI)

text \<open>The contract information is a tuple of well formed items whatever the capabilities are.\<close>

lemma info_tuple: "is_ok (as_tuple (into_temp_data_item T i))"
  by (simp add: into_temp_data_item_def)

lemma additional_params_ok:
  "items_ok acc \<Longrightarrow> items_ok (map snd ps) \<Longrightarrow> items_ok (additional_params caps n ps acc)"
  by (induction caps n ps acc rule: additional_params.induct) auto

lemma info_ok: "item_ok (into_temp_data_item T i)"
proof -
  have parts: "item_ok (cell_item c)" "item_ok (item_int n)" for c n by (simp_all add: cell_item_def item_int_def split: option.split)
  have lists: "items_ok (info_params i)" "items_ok (map snd (info_additional T i))"
    by (simp_all only: info_params_def info_additional_def list.map snd_conv items_ok_simps item_ok_simps item_ok.simps
      simp_thms parts)
  show ?thesis by (simp add: into_temp_data_item_def lists additional_params_ok)
qed

lemma setup_run:
  "\<exists>e. setup_with_libraries T code regs stack g libs (with_capabilities T caps) = (Inr (), e) \<and>
    ctrls e = fst (savelist_apply
      (setup_registers T code (bugfixes2022 T (with_capabilities T caps :: ('c, 's, 'b, 'h) engine)))
      (regs_of regs)) \<and>
    cc e = set_stack (stack_given stack) (with_code code) \<and>
    egas e = (case g of Some g \<Rightarrow> g | None \<Rightarrow> gas_test) \<and> libraries e = libs \<and>
    vars (cmd e) = [] \<and> cstate e = committed_new_empty"
proof -
  have new: "ctrls (with_capabilities T caps) = savelist_new" "cc (with_capabilities T caps) = new_empty (slice_default T)"
    "vars (cmd (with_capabilities T caps)) = []" "cstate (with_capabilities T caps) = committed_new_empty"
    by (simp_all add: with_capabilities_def instr_ext_new_def)
  define info where "info = into_temp_data_item T (old_default T (into_cell T code))"
  have "is_ok (as_tuple info)" by (simp add: info_def info_tuple)
  then show ?thesis
    unfolding setup_with_libraries_def setup_registers_def unfolding info_def [symmetric]
    by (cases regs; cases stack; cases "bugfixes2022 T (with_capabilities T caps :: ('c, 's, 'b, 'h) engine)")
      (simp_all add: put_unwrap_ok can_put_def upd_stack_def set_cc_code_def new
        new_empty_def with_code_def regs_of_def stack_given_def savelist_apply_new
        whenE_def fill_registers [unfolded One_nat_def] savelist_apply_new)
qed

lemma setup_registers_ok: "list_ok (setup_registers T code catch)"
proof -
  have "savelist_ok (setup_registers T code catch)"
    using info_tuple by (auto simp: savelist_ok_def setup_registers_def NUMREGS_def can_put_def reg_of_slot_def
      less_Suc_eq numeral_eq_Suc split: if_splits)
  moreover have "cont_ok (with_type s ty)" "cont_ok (with_code s)" for s ty
    by (simp_all add: with_type_def with_code_def)
  ultimately show ?thesis
    using info_ok by (simp add: list_ok_def setup_registers_def option_ok_def)
qed

text \<open>C10: a new machine can always be set up: with well formed registers and stack
  items from the caller, none of the \<open>unwrap\<close>s of \<open>setup_with_libraries\<close> panics, the invariant
  of the machine holds afterwards, and every register holds the caller's value or, where the caller
  gave none, the default of the source.\<close>

theorem setup_establishes_invariant:
  assumes "list_ok (regs_of regs)" "items_ok (stack_given stack)"
  shows "\<exists>e. setup_with_libraries T code regs stack g libs (with_capabilities T caps) = (Inr (), e) \<and>
    engine_ok e \<and> cc e = set_stack (stack_given stack) (with_code code) \<and>
    (\<forall>k<7. ctrls e ! k = (case regs_of regs ! k of Some v \<Rightarrow> Some v
       | None \<Rightarrow> setup_registers T code (caps AND capability_bits T CapsTvmBugfixes2022 =
           capability_bits T CapsTvmBugfixes2022) ! k))"
proof -
  let ?sl = "setup_registers T code (caps AND capability_bits T CapsTvmBugfixes2022 =
           capability_bits T CapsTvmBugfixes2022)"
  obtain e where e: "setup_with_libraries T code regs stack g libs (with_capabilities T caps) = (Inr (), e)"
    "ctrls e = fst (savelist_apply ?sl (regs_of regs))" "cc e = set_stack (stack_given stack) (with_code code)"
    "vars (cmd e) = []" "cstate e = committed_new_empty"
    using setup_run [of T code regs stack g libs caps]
    by (auto simp: bugfixes2022_def check_capabilities_def with_capabilities_def)
  have sl: "list_ok ?sl" by (rule setup_registers_ok)
  have ok: "list_ok (ctrls e)" unfolding e(2) by (rule list_ok_apply) fact+
  have "engine_ok e"
    using assms(2) ok by (simp add: engine_ok_def e(3-5) with_code_def committed_ok_def committed_new_empty_def)
  moreover have "\<forall>k<7. ctrls e ! k = (case regs_of regs ! k of Some v \<Rightarrow> Some v | None \<Rightarrow> ?sl ! k)"
    using list_ok_length [OF sl] list_ok_length [OF assms(1)] by (simp add: e(2) savelist_apply_eq)
  ultimately show ?thesis using e by blast
qed

theorem setup_establishes_invariant_witness:
  "\<exists>e. setup_with_libraries octet_crates [0] None (Some [item_int 7]) None []
      (with_capabilities octet_crates 0) = (Inr (), e) \<and> engine_ok e"
proof -
  have "list_ok (regs_of None)" "items_ok (stack_given (Some [item_int 7]))"
    by (simp_all add: regs_of_def stack_given_def item_int_def)
  from setup_establishes_invariant [OF this, of octet_crates "[0]" None "[]" 0] show ?thesis by blast
qed

section \<open>Running\<close>

text \<open>C2: every run of the machine on code page 0 keeps the invariant, whatever the program: the
  registers hold items of their kinds, save lists have seven slots of the right kinds in \<open>cc\<close>,
  the registers, the stack and every item inside, and committed registers are cells.  The run keeps
  the capabilities, block version, time and libraries, never forgets a visited cell, and what an exception
  carries is a well formed item.  The handlers not modelled and the crates are asked for the same.\<close>

theorem machine_keeps_invariant:
  assumes "ton_ok T" "\<And>name. safe (rest name) any" "engine_ok e"
    "execute_cp0 T rest fuel e = (r, e')"
  shows "engine_ok e' \<and> frame e e' \<and> (\<forall>er. r = Inl er \<longrightarrow> error_ok er)"
  using soundD [OF safe_execute_cp0 [OF assms(1,2)] assms(3,4)] by blast

theorem machine_keeps_invariant_witness:
  "engine_ok (snd (execute_cp0 octet_crates (\<lambda>_. errE InvalidOpcode) 3
     (with_capabilities octet_crates 0 :: (unit, u8 list, unit, unit) engine)))"
  by (rule machine_keeps_invariant [OF octet_crates_ok _ fresh_engine_ok prod.collapse [symmetric], THEN conjunct1])
    (rule safe_throws)

end
