(* ===== verification/Machine_Steps.thy ===== *)
theory Machine_Steps
  imports Machine_Theorems
begin

text \<open>
  The machine as a transition system.  A step is one explicit instruction or one implicit step at
  the end of a continuation's code; the loops of \<open>execute\<close> and \<open>seek_next_cmd\<close>, which the model
  runs with fuel, compute exactly the finite runs of this system.
\<close>

section \<open>Steps\<close>

type_synonym ('c, 's, 'b, 'h) fetch = "('c, 's, 'b, 'h, ('c, 's, 'b, 'h) handler) action"

inductive machine_step ::
  "('c, 's, 'b, 'h) ton \<Rightarrow> ('c, 's, 'b, 'h) fetch \<Rightarrow> ('c, 's, 'b, 'h) engine \<Rightarrow> ('c, 's, 'b, 'h) engine \<Rightarrow> bool"
  for T fetch where
  implicit: "remaining_bits T (code_of (cc e)) = 0 \<Longrightarrow> seek_round T e = (Inr None, e') \<Longrightarrow> machine_step T fetch e e'"
| explicit: "remaining_bits T (code_of (cc e)) \<noteq> 0 \<Longrightarrow> run_cmd T fetch e = (Inr (), e') \<Longrightarrow> machine_step T fetch e e'"

inductive machine_stops ::
  "('c, 's, 'b, 'h) ton \<Rightarrow> ('c, 's, 'b, 'h) fetch \<Rightarrow> ('c, 's, 'b, 'h) engine \<Rightarrow>
   ('c, 's, 'b) tvm_error + int \<Rightarrow> ('c, 's, 'b, 'h) engine \<Rightarrow> bool"
  for T fetch where
  halt: "remaining_bits T (code_of (cc e)) = 0 \<Longrightarrow> seek_round T e = (Inr (Some n), e') \<Longrightarrow>
    machine_stops T fetch e (Inr n) e'"
| fault: "remaining_bits T (code_of (cc e)) = 0 \<Longrightarrow> seek_round T e = (Inl er, e') \<Longrightarrow>
    machine_stops T fetch e (Inl er) e'"
| crash: "remaining_bits T (code_of (cc e)) \<noteq> 0 \<Longrightarrow> run_cmd T fetch e = (Inl er, e') \<Longrightarrow>
    machine_stops T fetch e (Inl er) e'"

inductive_simps machine_step_iff: "machine_step T fetch e e'"
inductive_simps machine_stops_iff: "machine_stops T fetch e r e'"

lemma step_or_stop:
  "(\<exists>e'. machine_step T fetch e e') \<or> (\<exists>r e'. machine_stops T fetch e r e')"
proof -
  obtain r e' where a: "seek_round T e = (r, e')" by fastforce
  obtain r' e'' where b: "run_cmd T fetch e = (r', e'')" by fastforce
  show ?thesis
    using a b by (cases r; cases r'; cases "remaining_bits T (code_of (cc e)) = 0")
      (fastforce simp: machine_step_iff machine_stops_iff intro: option.exhaust)+
qed

lemma step_functional:
  "machine_step T fetch e a \<Longrightarrow> machine_step T fetch e b \<Longrightarrow> a = b"
  "machine_step T fetch e a \<Longrightarrow> \<not> machine_stops T fetch e r b"
  "machine_stops T fetch e r a \<Longrightarrow> machine_stops T fetch e r' b \<Longrightarrow> r = r' \<and> a = b"
  by (auto simp: machine_step_iff machine_stops_iff)

section \<open>The loops and the steps\<close>

text \<open>A run with fuel, cut off or not, is a run of the transition system.\<close>

lemma seek_next_cmd_steps:
  assumes "seek_next_cmd T n e = (r, e')"
  shows "r = Inl OutOfFuel \<or> (\<exists>f. (machine_step T fetch)\<^sup>*\<^sup>* e f \<and>
    (case r of Inr None \<Rightarrow> f = e' \<and> remaining_bits T (code_of (cc e')) \<noteq> 0
     | Inr (Some v) \<Rightarrow> machine_stops T fetch f (Inr v) e'
     | Inl er \<Rightarrow> machine_stops T fetch f (Inl er) e'))"
  using assms
proof (induction n arbitrary: e)
  case 0
  then show ?case by (auto split: if_splits)
next
  case (Suc n)
  show ?case
  proof (cases "remaining_bits T (code_of (cc e)) = 0")
    case True
    obtain r1 e1 where round: "seek_round T e = (r1, e1)" by fastforce
    show ?thesis
    proof (cases "r1 = Inr None")
      case goes: True
      then have "machine_step T fetch e e1" using True round by (simp add: machine_step.implicit)
      moreover have "seek_next_cmd T n e1 = (r, e')" using Suc.prems True round goes by simp
      ultimately show ?thesis using Suc.IH [of e1] by (meson converse_rtranclp_into_rtranclp)
    next
      case False
      then have "r1 = r \<and> e1 = e'" using Suc.prems True round by (auto split: sum.splits option.splits)
      then show ?thesis
        using True round False by (auto simp: machine_stops_iff split: sum.splits option.splits)
    qed
  next
    case False
    then show ?thesis using Suc.prems by auto
  qed
qed

lemma seek_next_cmd_mono:
  "seek_next_cmd T n e = (r, e') \<Longrightarrow> r \<noteq> Inl OutOfFuel \<Longrightarrow> n \<le> m \<Longrightarrow> seek_next_cmd T m e = (r, e')"
proof (induction n arbitrary: e m)
  case 0
  then show ?case by (cases m) (auto split: if_splits)
next
  case (Suc n)
  then obtain k where "m = Suc k" "n \<le> k" by (cases m) auto
  then show ?case using Suc.prems(1,2) Suc.IH [of _ k] by (auto split: if_splits prod.splits sum.splits option.splits)
qed

lemma execute_loop_cases:
  assumes "execute_loop T fetch (Suc n) e = (r, e')"
  obtains (stop) er where "seek_next_cmd T n e = (Inl er, e')" "r = Inl er"
  | (halt) v where "seek_next_cmd T n e = (Inr (Some v), e')" "r = Inr v"
  | (crash) f er where "seek_next_cmd T n e = (Inr None, f)" "run_cmd T fetch f = (Inl er, e')" "r = Inl er"
  | (run) f g where "seek_next_cmd T n e = (Inr None, f)" "run_cmd T fetch f = (Inr (), g)"
      "execute_loop T fetch n g = (r, e')"
  using assms by (auto split: prod.splits sum.splits option.splits)

lemma execute_loop_mono:
  "execute_loop T fetch n e = (r, e') \<Longrightarrow> r \<noteq> Inl OutOfFuel \<Longrightarrow> n \<le> m \<Longrightarrow> execute_loop T fetch m e = (r, e')"
proof (induction n arbitrary: e m)
  case 0
  then show ?case by simp
next
  case (Suc n)
  then obtain k where k: "m = Suc k" "n \<le> k" by (cases m) auto
  note seek = seek_next_cmd_mono [OF _ _ k(2)]
  from Suc.prems(1) show ?case
  proof (cases rule: execute_loop_cases)
    case (stop er)
    then show ?thesis using seek [OF stop(1)] Suc.prems(2) k by simp
  next
    case (halt v)
    then show ?thesis using seek [OF halt(1)] k by simp
  next
    case (crash f er)
    then show ?thesis using seek [OF crash(1)] k by simp
  next
    case (run f g)
    then show ?thesis using Suc.IH [OF run(3) Suc.prems(2) k(2)] seek [OF run(1)] k by simp
  qed
qed

lemma execute_loop_steps:
  "execute_loop T fetch n e = (r, e') \<Longrightarrow> r \<noteq> Inl OutOfFuel \<Longrightarrow>
   \<exists>f. (machine_step T fetch)\<^sup>*\<^sup>* e f \<and> machine_stops T fetch f r e'"
proof (induction n arbitrary: e)
  case 0
  then show ?case by simp
next
  case (Suc n)
  from Suc.prems(1) show ?case
  proof (cases rule: execute_loop_cases)
    case (stop er)
    then show ?thesis using seek_next_cmd_steps [OF stop(1), of fetch] Suc.prems(2) by auto
  next
    case (halt v)
    then show ?thesis using seek_next_cmd_steps [OF halt(1), of fetch] by auto
  next
    case (crash f er)
    then show ?thesis
      using seek_next_cmd_steps [OF crash(1), of fetch] by (auto simp: machine_stops_iff)
  next
    case (run f g)
    then have "(machine_step T fetch)\<^sup>*\<^sup>* e f" "machine_step T fetch f g"
      using seek_next_cmd_steps [OF run(1), of fetch] by (auto simp: machine_step_iff)
    then show ?thesis using Suc.IH [OF run(3) Suc.prems(2)] by (meson rtranclp.rtrancl_into_rtrancl rtranclp_trans)
  qed
qed

lemma stops_execute_loop:
  assumes "machine_stops T fetch e r e'"
  shows "execute_loop T fetch 2 e = (r, e')"
  using assms by (auto simp: machine_stops_iff numeral_2_eq_2)

lemma step_execute_loop:
  assumes "machine_step T fetch e e1" "execute_loop T fetch n e1 = (r, e')" "r \<noteq> Inl OutOfFuel"
  shows "execute_loop T fetch (Suc n) e = (r, e')"
proof (cases n)
  case 0
  then show ?thesis using assms(2,3) by simp
next
  case (Suc k)
  from assms(1) show ?thesis
  proof cases
    case implicit
    then have seek: "seek_next_cmd T n e = seek_next_cmd T k e1" using Suc by simp
    from assms(2) [unfolded Suc] show ?thesis
    proof (cases rule: execute_loop_cases)
      case (run f g)
      then show ?thesis using execute_loop_mono [OF run(3) assms(3), of n] seek Suc by simp
    qed (use seek in auto)
  next
    case explicit
    then show ?thesis using assms(2) Suc by simp
  qed
qed

lemma steps_execute_loop:
  assumes "(machine_step T fetch)\<^sup>*\<^sup>* e f" "machine_stops T fetch f r e'" "r \<noteq> Inl OutOfFuel"
  shows "\<exists>n. execute_loop T fetch n e = (r, e')"
  using assms(1)
proof (induction rule: converse_rtranclp_induct)
  case base
  then show ?case using stops_execute_loop [OF assms(2)] by blast
next
  case (step e e1)
  then show ?case using step_execute_loop [OF step(1) _ assms(3)] by blast
qed

text \<open>C3: the fuel of the model is only a bound.  The loops of \<open>execute\<close> and
  \<open>seek_next_cmd\<close> return a result for some fuel exactly when the machine reaches it in finitely many
  steps, an instruction or an implicit step each; more fuel never changes a result; and no other
  result is possible.\<close>

theorem execute_loop_runs:
  assumes "r \<noteq> Inl OutOfFuel"
  shows "((\<exists>n. execute_loop T fetch n e = (r, e')) \<longleftrightarrow> (\<exists>n. \<forall>m\<ge>n. execute_loop T fetch m e = (r, e'))) \<and>
    ((\<exists>n. execute_loop T fetch n e = (r, e')) \<longleftrightarrow>
      (\<exists>f. (machine_step T fetch)\<^sup>*\<^sup>* e f \<and> machine_stops T fetch f r e'))"
  using assms execute_loop_mono execute_loop_steps steps_execute_loop by (metis order_refl)

theorem execute_loop_runs_witness:
  "\<exists>n. \<forall>m\<ge>n. fst (execute_loop octet_crates (errE InvalidOpcode) m
     ((with_capabilities octet_crates 0) \<lparr> cc := with_type [] (Quit 3) \<rparr>)) = Inr 3"
proof -
  let ?e = "(with_capabilities octet_crates 0) \<lparr> cc := with_type [] (Quit 3) \<rparr>"
  have "execute_loop octet_crates (errE InvalidOpcode) 2 ?e = (Inr 3, ?e)"
    by (rule stops_execute_loop) (simp add: machine_stops_iff octet_crates_def
      with_type_def seek_round_def implicit_step_def leaves_loop_def check_gas_remaining_def with_capabilities_def
      gas_empty_def)
  then have "\<exists>n. \<forall>m\<ge>n. execute_loop octet_crates (errE InvalidOpcode) m ?e = (Inr 3, ?e)"
    using execute_loop_runs [of "Inr 3" octet_crates "errE InvalidOpcode" ?e ?e] by blast
  then show ?thesis by fastforce
qed

end
