(* ===== verification/Control_Theorems.thy ===== *)
theory Control_Theorems
  imports Example_Crates
begin

text \<open>
  Calls and returns: what the micro-operations do on ordinary continuations, and that a return undoes
  a call.
\<close>

section \<open>The micro-operations on plain continuations\<close>

lemma tag_order:
  "\<not> VAR < CC" "CC < VAR" "CC < CTRL" "CTRL < VAR" "\<not> CTRL < CC" "\<not> VAR < CTRL" "CTRL < CC_SAVELIST"
  "\<not> CC_SAVELIST < CTRL" "VAR < VAR_SAVELIST" "\<not> VAR_SAVELIST < VAR" "VAR < CTRL_SAVELIST" "\<not> CTRL_SAVELIST < VAR"
  "CTRL < CTRL_SAVELIST" "\<not> CTRL_SAVELIST < CTRL" "\<not> CTRL < CTRL"
  by (simp_all add: CC_def CTRL_def VAR_def CC_SAVELIST_def CTRL_SAVELIST_def VAR_SAVELIST_def SAVELIST_def)

lemma ctrl_addr_eq: "i < 16 \<Longrightarrow> j < 16 \<Longrightarrow> ctrl_addr i = ctrl_addr j \<longleftrightarrow> i = j"
  by (metis addr_tag(3))

definition var_set :: "nat \<Rightarrow> ('c, 's, 'b) stack_item \<Rightarrow> ('c, 's, 'b, 'h) engine \<Rightarrow> ('c, 's, 'b, 'h) engine" where
  "var_set i x e = e \<lparr> cmd := (cmd e) \<lparr> vars := (vars (cmd e))[i := x] \<rparr> \<rparr>"

definition ctrl_set :: "nat \<Rightarrow> ('c, 's, 'b) stack_item option \<Rightarrow> ('c, 's, 'b, 'h) engine \<Rightarrow> ('c, 's, 'b, 'h) engine" where
  "ctrl_set i v e = e \<lparr> ctrls := (ctrls e)[adjust i := v] \<rparr>"

lemmas micro_defs = swap_def swap_ordered_def address tag_order is_list_tag_def swap_cc_with_def
  continuation_by_address_def item_by_address_def cmd_var_def set_continuation_by_address_def
  exec_simps set_var_def var_set_def ctrl_set_def ctrl_get_def savelist_get_def set_ctrl_def

lemma swap_var_cc:
  assumes "i < 16" "i < length (vars (cmd e))" "vars (cmd e) ! i = Item_Continuation k"
  shows "swap (var_addr i) CC e = (Inr (), var_set i (Item_Continuation (cc e)) (e \<lparr> cc := k \<rparr>))"
  using assms by (simp add: micro_defs)

lemma swap_ctrl_cc:
  assumes "i < 7" "length (ctrls e) = 7" "ctrls e ! adjust i = Some (Item_Continuation k)"
  shows "swap (ctrl_addr i) CC e = (Inr (), ctrl_set i (Some (Item_Continuation (cc e))) (e \<lparr> cc := k \<rparr>))"
  using assms by (simp add: micro_defs adjust_def)

lemma swap_c0_cc_savelist:
  assumes "length (ctrls e) = 7" "length (savelist_of (cc e)) = 7" "ctrls e ! 0 = Some (Item_Continuation c0)"
    "savelist_of (cc e) ! 0 = None"
  shows "swap (ctrl_addr 0) (savelist_addr CC 0) e = (Inr (), ctrl_set 0 None (e \<lparr> cc := set_savelist
    ((savelist_of (cc e))[0 := Some (Item_Continuation c0)]) (cc e) \<rparr>))"
  using assms by (auto simp: micro_defs adjust_def swap_between_lists_def info_of_def info_get_def
    info_list_def list_index_def put_to_list_from_list_def can_put_def info_set_list_def savelist_remove_def
    put_to_list_def savelist_put_def check_can_put_def put_opt_def upd_cc_def)

lemma swap_var_c0:
  assumes "i < 16" "i < length (vars (cmd e))" "vars (cmd e) ! i = Item_Continuation k" "length (ctrls e) = 7"
    "ctrls e ! 0 = None"
  shows "swap (var_addr i) (ctrl_addr 0) e =
    (Inr (), var_set i Item_None (ctrl_set 0 (Some (Item_Continuation k)) e))"
  using assms by (auto simp: micro_defs adjust_def swap_with_list_def info_of_def info_get_def info_item_def
    info_list_def list_index_def put_to_list_from_item_def can_put_def info_set_list_def savelist_remove_def
    put_to_list_def savelist_put_def check_can_put_def put_opt_def upd_cc_def info_set_item_def)

text \<open>A continuation that takes the whole stack: no limit on its arguments and no stack of its own.\<close>

definition plain :: "('c, 's, 'b) continuation_data \<Rightarrow> bool" where
  "plain k \<longleftrightarrow> nargs_of k = - 1 \<and> stack_of k = []"

lemma set_stack_id: "stack_of k = st \<Longrightarrow> set_stack st k = k"
  by auto

lemmas pop_all_defs = pop_all_def pop_range_def micro_defs plain_def stack_depth_def cmd_param_def
    move_stack_from_cc_def move_items_def Let_def depth_def cc_stack_def upd_stack_def

lemma pop_all_var:
  assumes "i < 16" "i < length (vars (cmd e))" "vars (cmd e) ! i = Item_Continuation k" "plain k"
    "first_param par_pargs (params (cmd e)) = None"
  shows "pop_all (var_addr i) e =
    (Inr (), var_set i (Item_Continuation (set_stack (cc_stack e) k)) (upd_stack (\<lambda>_. []) e))"
proof (cases "cc_stack e = []")
  case True
  then have "(vars (cmd e))[i := Item_Continuation (set_stack [] k)] = vars (cmd e)" "set_stack [] (cc e) = cc e"
    using assms set_stack_id by (metis list_update_id plain_def) (simp add: set_stack_id cc_stack_def True [unfolded cc_stack_def])
  then show ?thesis using assms True by (simp add: pop_all_defs)
next
  case False
  then show ?thesis using assms by (simp add: pop_all_defs)
qed

lemma pop_all_ctrl:
  assumes "i < 7" "length (ctrls e) = 7" "ctrls e ! adjust i = Some (Item_Continuation k)" "plain k"
    "first_param par_pargs (params (cmd e)) = None"
  shows "pop_all (ctrl_addr i) e =
    (Inr (), ctrl_set i (Some (Item_Continuation (set_stack (cc_stack e) k))) (upd_stack (\<lambda>_. []) e))"
proof (cases "cc_stack e = []")
  case True
  then have "(ctrls e)[adjust i := Some (Item_Continuation (set_stack [] k))] = ctrls e" "set_stack [] (cc e) = cc e"
    using assms set_stack_id by (metis list_update_id plain_def) (simp add: set_stack_id cc_stack_def True [unfolded cc_stack_def])
  then show ?thesis using assms True by (simp add: pop_all_defs adjust_def)
next
  case False
  then show ?thesis using assms by (simp add: pop_all_defs adjust_def)
qed

section \<open>Calls\<close>

text \<open>The continuation a call leaves in \<open>c0\<close>.\<close>

definition return_point ::
  "('c, 's, 'b) continuation_data \<Rightarrow> ('c, 's, 'b) continuation_data \<Rightarrow> ('c, 's, 'b) continuation_data" where
  "return_point caller c0 = ContinuationData (code_of caller) (- 1)
     (savelist_new[0 := Some (Item_Continuation c0)]) [] (type_of caller)"

lemma fetch_one:
  assumes "cc_stack e = st @ [x]" "vars (cmd e) = []"
  shows "fetch_stack 1 e = (Inr (), upd_stack (\<lambda>_. st) e \<lparr> cmd := (cmd e) \<lparr> vars := [x] \<rparr> \<rparr>)"
  using assms by (simp add: fetch_stack_def exec_simps stack_depth_def from_stack_def drop_range_def append_vars_def
    depth_def upd_stack_def)

lemma savelist_apply_empty: "length sl = 7 \<Longrightarrow> savelist_apply sl savelist_new = (sl, savelist_new)"
  by (simp add: savelist_apply_eq prod_eq_iff) (auto intro: nth_equalityI simp: savelist_new_def NUMREGS_def)

lemma callx_switch_run:
  assumes "i < 16" "i < length (vars (cmd e))" "vars (cmd e) ! i = Item_Continuation k" "savelist_of k ! 0 = None"
    "length (ctrls e) = 7" "length (savelist_of (cc e)) = 7"
    "ctrls e ! 0 = Some (Item_Continuation c0)" "savelist_of (cc e) ! 0 = None"
  shows "callx_switch i e = (Inr (), var_set i Item_None (ctrl_set 0 (Some (Item_Continuation (set_savelist
    ((savelist_of (cc e))[0 := Some (Item_Continuation c0)]) (cc e)))) (e \<lparr> cc := k \<rparr>)))"
proof -
  let ?cc = "set_savelist ((savelist_of (cc e))[0 := Some (Item_Continuation c0)]) (cc e)"
  let ?e1 = "ctrl_set 0 None (e \<lparr> cc := ?cc \<rparr>)"
  let ?e2 = "var_set i (Item_Continuation ?cc) (?e1 \<lparr> cc := k \<rparr>)"
  have "swap (ctrl_addr 0) (savelist_addr CC 0) e = (Inr (), ?e1)"
    by (rule swap_c0_cc_savelist) fact+
  moreover have "swap (var_addr i) CC ?e1 = (Inr (), ?e2)"
    using assms swap_var_cc [of i ?e1 k] by (simp add: ctrl_set_def)
  moreover have "swap (var_addr i) (ctrl_addr 0) ?e2 =
      (Inr (), var_set i Item_None (ctrl_set 0 (Some (Item_Continuation ?cc)) ?e2))"
    using assms by (intro swap_var_c0) (auto simp: ctrl_set_def var_set_def adjust_def)
  ultimately show ?thesis
    using assms by (simp add: callx_switch_def cont_var_def cmd_var_def exec_simps has_saved_def adjust_def)
      (simp add: var_set_def ctrl_set_def adjust_def)
qed

definition standard_call ::
  "('c, 's, 'b, 'h) engine \<Rightarrow> ('c, 's, 'b) item_stack \<Rightarrow> ('c, 's, 'b) continuation_data \<Rightarrow>
   ('c, 's, 'b) continuation_data \<Rightarrow> bool" where
  "standard_call e st k c0 \<longleftrightarrow>
     cc_stack e = st @ [Item_Continuation k] \<and> plain k \<and> savelist_of k = savelist_new \<and>
     savelist_of (cc e) = savelist_new \<and> length (ctrls e) = 7 \<and> ctrls e ! 0 = Some (Item_Continuation c0) \<and>
     vars (cmd e) = [] \<and> params (cmd e) = []"

lemma callx_run:
  assumes "standard_call e st k c0"
  shows "\<exists>e'. callx T 0 False e = (Inr (), e') \<and> cc e' = set_stack st k \<and>
    ctrls e' = (ctrls e)[0 := Some (Item_Continuation (return_point (cc e) c0))] \<and> egas e' = egas e"
proof -
  have a: "cc_stack e = st @ [Item_Continuation k]" "plain k" "savelist_of k = savelist_new"
    "savelist_of (cc e) = savelist_new" "length (ctrls e) = 7" "ctrls e ! 0 = Some (Item_Continuation c0)"
    "vars (cmd e) = []" "params (cmd e) = []"
    using assms by (auto simp: standard_call_def)
  define e1 where "e1 = upd_stack (\<lambda>_. st) e \<lparr> cmd := (cmd e) \<lparr> vars := [Item_Continuation k] \<rparr> \<rparr>"
  define e2 where "e2 = var_set 0 (Item_Continuation (set_stack (cc_stack e1) k)) (upd_stack (\<lambda>_. []) e1)"
  have e1: "fetch_stack 1 e = (Inr (), e1)" unfolding e1_def by (rule fetch_one) fact+
  have e2: "pop_all (var_addr 0) e1 = (Inr (), e2)"
    unfolding e2_def by (rule pop_all_var) (use a in \<open>simp_all add: e1_def\<close>)
  have cc2: "cc e2 = set_stack [] (cc e)" "ctrls e2 = ctrls e" "egas e2 = egas e"
    "vars (cmd e2) = [Item_Continuation (set_stack st k)]" "params (cmd e2) = []"
    using a by (simp_all add: e2_def e1_def var_set_def upd_stack_def cc_stack_def)
  have e3: "callx_switch 0 e2 = (Inr (), var_set 0 Item_None (ctrl_set 0 (Some (Item_Continuation (set_savelist
    (savelist_new[0 := Some (Item_Continuation c0)]) (cc e2)))) (e2 \<lparr> cc := set_stack st k \<rparr>)))"
    using callx_switch_run [of 0 e2 "set_stack st k" c0] a by (simp add: cc2)
  have rp: "set_nargs (- 1) (set_savelist (savelist_new[0 := Some (Item_Continuation c0)]) (set_stack [] (cc e))) =
      return_point (cc e) c0" by (cases "cc e") (simp add: return_point_def)
  have k: "set_savelist savelist_new (set_stack st k) = set_stack st k" using a(3) by (cases k) simp
  show ?thesis
    using a(5) e1 by (auto simp: callx_def exec_simps var_count_def a(7) e2 e3 apply_savelist_def callx_nargs_def
      cmd_param_def set_nargs_at_def micro_defs cc2 savelist_apply_empty a(3) k adjust_def rp)
qed

lemma return_point_simps [simp]:
  "code_of (return_point k c0) = code_of k" "nargs_of (return_point k c0) = - 1" "stack_of (return_point k c0) = []"
  "type_of (return_point k c0) = type_of k"
  "savelist_of (return_point k c0) = savelist_new[0 := Some (Item_Continuation c0)]"
  "plain (return_point k c0)"
  by (simp_all add: return_point_def plain_def)

lemma savelist_apply_c0:
  "length sl = 7 \<Longrightarrow> savelist_apply sl (savelist_new[0 := Some x]) = (sl[0 := Some x], savelist_new)"
  by (simp add: savelist_apply_eq prod_eq_iff nth_list_update)
    (auto intro!: nth_equalityI simp: nth_list_update savelist_new_def NUMREGS_def)

lemma ret_run:
  assumes "length (ctrls e) = 7" "ctrls e ! 0 = Some (Item_Continuation (return_point caller c0))" "params (cmd e) = []"
  shows "\<exists>e'. ret T e = (Inr (), e') \<and>
    cc e' = ContinuationData (code_of caller) (- 1) savelist_new (cc_stack e) (type_of caller) \<and>
    ctrls e' = (ctrls e)[0 := Some (Item_Continuation c0)] \<and> egas e' = egas e"
proof -
  let ?k = "set_stack (cc_stack e) (return_point caller c0)"
  define e1 where "e1 = ctrl_set 0 (Some (Item_Continuation ?k)) (upd_stack (\<lambda>_. []) e)"
  have e1: "pop_all (ctrl_addr 0) e = (Inr (), e1)"
    unfolding e1_def by (rule pop_all_ctrl) (use assms in \<open>simp_all add: adjust_def\<close>)
  have at: "ctrls e1 ! 0 = Some (Item_Continuation ?k)" "length (ctrls e1) = 7" "egas e1 = egas e"
    "ctrls e1 = (ctrls e)[0 := Some (Item_Continuation ?k)]"
    using assms by (auto simp: e1_def ctrl_set_def upd_stack_def adjust_def)
  have e2: "swap (ctrl_addr 0) CC e1 =
      (Inr (), ctrl_set 0 (Some (Item_Continuation (cc e1))) (e1 \<lparr> cc := ?k \<rparr>))"
    by (rule swap_ctrl_cc) (use at in \<open>simp_all add: adjust_def\<close>)
  show ?thesis
    using assms(1) by (simp add: ret_def switch_def exec_simps e1 e2 apply_savelist_def has_saved_def adjust_def
      ctrl_set_def at savelist_apply_c0 Let_def ctrl_addr_eq) (cases caller; simp add: return_point_def)
qed

text \<open>C5: a call returns to its caller.  \<open>CALLX\<close> of an ordinary continuation enters its code with
  the whole stack and no gas spent beyond the instruction's; from any later state whose registers
  are those at entry, whatever else has changed, a return resumes the caller's code with the
  stack of that state, and all control registers are what they were before the call.\<close>

theorem call_then_return:
  assumes "standard_call e st k c0"
  shows "\<exists>e1. callx T 0 False e = (Inr (), e1) \<and> code_of (cc e1) = code_of k \<and> cc_stack e1 = st \<and>
    egas e1 = egas e \<and>
    (\<forall>e2. ctrls e2 = ctrls e1 \<and> params (cmd e2) = [] \<longrightarrow>
      (\<exists>e3. ret T e2 = (Inr (), e3) \<and> code_of (cc e3) = code_of (cc e) \<and> type_of (cc e3) = type_of (cc e) \<and>
        cc_stack e3 = cc_stack e2 \<and> ctrls e3 = ctrls e \<and> egas e3 = egas e2))"
proof -
  obtain e1 where e1: "callx T 0 False e = (Inr (), e1)" "cc e1 = set_stack st k"
    "ctrls e1 = (ctrls e)[0 := Some (Item_Continuation (return_point (cc e) c0))]" "egas e1 = egas e"
    using callx_run [OF assms] by blast
  have c0: "length (ctrls e) = 7" "ctrls e ! 0 = Some (Item_Continuation c0)"
    using assms by (simp_all add: standard_call_def)
  have "\<exists>e3. ret T e2 = (Inr (), e3) \<and> code_of (cc e3) = code_of (cc e) \<and> type_of (cc e3) = type_of (cc e) \<and>
        cc_stack e3 = cc_stack e2 \<and> ctrls e3 = ctrls e \<and> egas e3 = egas e2"
    if "ctrls e2 = ctrls e1" "params (cmd e2) = []" for e2
  proof -
    have "length (ctrls e2) = 7" "ctrls e2 ! 0 = Some (Item_Continuation (return_point (cc e) c0))"
      using c0(1) by (auto simp: that e1(3))
    from ret_run [OF this that(2), of T] show ?thesis
      using c0 by (auto simp: cc_stack_def that e1(3)) (metis list_update_id)
  qed
  then show ?thesis using e1 by (auto simp: cc_stack_def)
qed

theorem call_then_return_witness:
  "\<exists>e1. callx octet_crates 0 False ((with_capabilities octet_crates 0)
       \<lparr> cc := set_stack [item_int 5, Item_Continuation (with_code [0xF0])] (with_code [0x01, 0x02]),
         ctrls := savelist_new[0 := Some (Item_Continuation (with_type [] (Quit 0)))] \<rparr>) = (Inr (), e1) \<and>
     code_of (cc e1) = [0xF0] \<and>
     (\<exists>e3. ret octet_crates (e1 \<lparr> cc := with_code [] \<rparr> \<lparr> cmd := instr_ext_new ''RET'' \<rparr>) = (Inr (), e3) \<and>
       code_of (cc e3) = [0x01, 0x02])"
proof -
  define e where "e = (with_capabilities octet_crates 0)
       \<lparr> cc := set_stack [item_int 5, Item_Continuation (with_code [0xF0])] (with_code [0x01, 0x02]),
         ctrls := savelist_new[0 := Some (Item_Continuation (with_type [] (Quit 0)))] \<rparr>"
  have call: "standard_call e [item_int 5] (with_code [0xF0]) (with_type [] (Quit 0))"
    by (simp add: e_def standard_call_def cc_stack_def plain_def with_code_def with_capabilities_def instr_ext_new_def)
  from call_then_return [OF call, of octet_crates] obtain e1 where
    e1: "callx octet_crates 0 False e = (Inr (), e1)" "code_of (cc e1) = code_of (with_code [0xF0] :: (unit, u8 list, unit) continuation_data)"
    and resume: "\<forall>e2. ctrls e2 = ctrls e1 \<and> params (cmd e2) = [] \<longrightarrow>
      (\<exists>e3. ret octet_crates e2 = (Inr (), e3) \<and> code_of (cc e3) = code_of (cc e) \<and> type_of (cc e3) = type_of (cc e) \<and>
        cc_stack e3 = cc_stack e2 \<and> ctrls e3 = ctrls e \<and> egas e3 = egas e2)"
    by blast
  have "code_of (cc e) = [0x01, 0x02]" "code_of (cc e1) = [0xF0]"
    using e1(2) by (simp_all add: e_def with_code_def)
  then show ?thesis
    using e1(1) resume [rule_format, of "e1 \<lparr> cc := with_code [] \<rparr> \<lparr> cmd := instr_ext_new ''RET'' \<rparr>"]
    unfolding e_def [symmetric] by (auto simp: instr_ext_new_def)
qed

end
