(* ===== verification/Instruction_Theorems.thy ===== *)
theory Instruction_Theorems
  imports Control_Theorems
begin

text \<open>
  What single instructions do to the registers, the tuples and the variables: the instructions that
  write a control register and those that read it back, the tuples of globals, and the instructions
  whose failures the machine's documentation does not describe.
\<close>

section \<open>Instructions that never succeed\<close>

definition fails :: "('c, 's, 'b, 'h, 'a) action \<Rightarrow> bool" where
  "fails m \<longleftrightarrow> (\<forall>e. \<exists>er e'. m e = (Inl er, e'))"

named_theorems fails

lemma fails_throw [fails]: "fails (throwE er)" "fails (errE c)"
  by (simp_all add: fails_def throwE_def errE_def)

lemma fails_bind [fails]: "(\<And>x. fails (f x)) \<Longrightarrow> fails (bindE m f)"
  unfolding fails_def bindE_def by (metis (mono_tags, lifting) old.prod.case old.sum.exhaust old.sum.simps(5,6) surj_pair)

lemma fails_first [fails]: "fails m \<Longrightarrow> fails (bindE m f)"
  unfolding fails_def bindE_def by (metis (mono_tags, lifting) old.prod.case old.sum.simps(5))

lemma fails_then [fails]: "fails n \<Longrightarrow> fails (thenE m n)"
  unfolding thenE_def by (rule fails_bind)

text \<open>A number cannot be put in a control register.\<close>

lemma number_in_register:
  assumes "vars (cmd e) ! 0 = Item_Integer x" "i < 16"
  shows "\<exists>er e'. swap (var_addr 0) (ctrl_addr i) e = (Inl er, e')"
  using assms by (auto simp: micro_defs swap_with_list_def info_of_def info_get_def info_item_def
    info_list_def list_index_def put_to_list_from_item_def can_put_def errE_def)

lemma regs_less: "i \<in> set REGS \<Longrightarrow> i < 16"
  by (auto simp: REGS_def)

lemma as_small_integer_item: "as_small_integer x = Inr n \<Longrightarrow> \<exists>v. x = Item_Integer v"
  by (cases x) (simp_all add: as_small_integer_def as_int_in_def err_def)

lemma fails_small_var:
  assumes "\<And>e x n. vars (cmd e) ! i = Item_Integer x \<Longrightarrow> \<exists>er e'. f n e = (Inl er, e')"
  shows "fails (bindE (small_var i) f)"
  unfolding fails_def
proof
  fix e
  show "\<exists>er e'. bindE (small_var i) f e = (Inl er, e')"
  proof (cases "as_small_integer (vars (cmd e) ! i)")
    case (Inr n)
    then obtain x where "vars (cmd e) ! i = Item_Integer x" using as_small_integer_item by blast
    from assms [OF this, of n] Inr show ?thesis by (simp add: small_var_def cmd_var_def exec_simps)
  qed (simp add: small_var_def cmd_var_def exec_simps)
qed

text \<open>C24: POPCTRX never succeeds.  The instruction is to pop a register's number and its new value;
  it stores the number instead of the value, and no register accepts a number.\<close>

theorem popctrx_fails:
  fixes T :: "('c, 's, 'b, 'h) ton"
  shows "\<exists>er e'. execute_popctrx T e = (Inl er, e')"
proof -
  have "fails (bindE (small_var 0) (\<lambda>creg. if creg \<notin> set REGS then errE RangeCheckError
      else swap (var_addr 0) (ctrl_addr creg)) :: ('c, 's, 'b, 'h) handler)"
  proof (rule fails_small_var)
    fix e :: "('c, 's, 'b, 'h) engine" and x n
    assume "vars (cmd e) ! 0 = Item_Integer x"
    then show "\<exists>er e'. (if n \<notin> set REGS then errE RangeCheckError else swap (var_addr 0) (ctrl_addr n)) e = (Inl er, e')"
      using number_in_register [of e x n] by (cases "n \<in> set REGS") (simp_all add: regs_less errE_def throwE_def)
  qed
  then have "fails (execute_popctrx T)" unfolding execute_popctrx_def by (intro fails_then)
  then show ?thesis unfolding fails_def by blast
qed

lemma cmd_creg_state: "cmd_creg e = (r, e') \<Longrightarrow> e' = e"
  by (auto simp: cmd_creg_def cmd_param_def unwrapE_def exec_simps split: option.splits)

lemma save_absent:
  fixes e :: "('c, 's, 'b, 'h) engine"
  assumes "\<not> is_ok (fst (engine_ctrl i e))"
  shows "\<exists>er e'. save i e = (Inl er, e')"
proof -
  have "\<exists>er e'. bindE (ctrl_get i) (\<lambda>c. case c of None \<Rightarrow> errE TypeCheckError | Some x \<Rightarrow> f x) e = (Inl er, e')"
    for f :: "('c, 's, 'b) stack_item \<Rightarrow> ('c, 's, 'b, 'h) handler"
    using assms by (cases "fst (ctrl_get i e)")
      (auto simp: engine_ctrl_def bindE_def errE_def throwE_def returnE_def split: option.splits prod.splits)
  note absent = this
  obtain r e' where c: "cmd_creg e = (r, e')" by fastforce
  then have "e' = e" by (rule cmd_creg_state)
  then show ?thesis using c absent by (cases r) (auto simp: save_def bindE_def [of cmd_creg])
qed

lemma save_present: "save i e = (Inr (), e') \<Longrightarrow> is_ok (fst (engine_ctrl i e))"
  using save_absent [of i e] by auto

text \<open>C25: SAVEBOTH never succeeds, whatever the registers hold.  The instruction is to save a
  register in both \<open>c0\<close> and \<open>c1\<close>; it refuses when one of them is present, and when both are absent
  there is nowhere to save to.\<close>

theorem saveboth_fails: "\<exists>er e'. execute_saveboth T e = (Inl er, e')"
proof -
  have "fails saveboth_body"
    unfolding fails_def saveboth_body_def
    by (auto simp: err_def thenE_def bindE_def split: prod.splits sum.splits dest: save_present)
  then have "fails (execute_saveboth T)" unfolding execute_saveboth_def by (intro fails_then)
  then show ?thesis unfolding fails_def by blast
qed

end
