(* ===== verification/Cell_Laws.thy ===== *)
theory Cell_Laws
  imports Example_Crates
begin

text \<open>
  What is documented of slices and builders as strings of bits, and what the instructions on cells
  do with the bits.  \<open>bit_crate T slice_bits builder_bits\<close> reads a slice and a builder as the
  list of their data bits and states the effect of the operations of the crates on it.
\<close>

unbundle bit_operations_syntax

section \<open>Bits\<close>

text \<open>The \<open>n\<close> low bits of a number, the most significant one first.\<close>

definition int_bits :: "nat \<Rightarrow> int \<Rightarrow> bool list" where
  "int_bits n v = map (\<lambda>i. bit v (n - 1 - i)) [0..<n]"

definition octet_bits :: "octet \<Rightarrow> bool list" where
  "octet_bits b = int_bits 8 (uint b)"

definition octets_bits :: "octet list \<Rightarrow> bool list" where
  "octets_bits bs = concat (map octet_bits bs)"

lemma length_int_bits [simp]: "length (int_bits n v) = n"
  by (simp add: int_bits_def)

lemma nth_int_bits [simp]: "i < n \<Longrightarrow> int_bits n v ! i = bit v (n - 1 - i)"
  by (simp add: int_bits_def)

lemma length_octets_bits [simp]: "length (octets_bits bs) = 8 * length bs"
  by (induction bs) (simp_all add: octets_bits_def octet_bits_def)

lemma octets_bits_simps [simp]:
  "octets_bits [] = []" "octets_bits (b # bs) = octet_bits b @ octets_bits bs"
  "octets_bits (bs @ cs) = octets_bits bs @ octets_bits cs"
  by (simp_all add: octets_bits_def)

lemma int_bits_append: "int_bits m (drop_bit n v) @ int_bits n v = int_bits (m + n) v"
  by (rule nth_equalityI) (auto simp: nth_append bit_drop_bit_eq intro!: arg_cong [where f = "bit v"])

lemma octet_bits_of_int: "octet_bits (word_of_int v) = int_bits 8 v"
  by (rule nth_equalityI) (auto simp: octet_bits_def uint_word_of_int_eq bit_take_bit_iff)

lemma octets_bits_of: "octets_bits (octets_of m v) = int_bits (8 * m) v"
proof (induction m arbitrary: v)
  case (Suc m)
  have "v div 256 = drop_bit 8 v" by (simp add: drop_bit_eq_div)
  then show ?case using int_bits_append [of "8 * m" 8 v] by (simp add: Suc octet_bits_of_int ac_simps)
qed (simp add: int_bits_def)

lemma take_int_bits: "take n (int_bits (n + k) (push_bit k v)) = int_bits n v"
  by (rule nth_equalityI) (auto simp: bit_push_bit_iff intro!: arg_cong [where f = "bit v"])

lemma drop_int_bits: "drop n (int_bits (n + k) (push_bit k v)) = replicate k False"
  by (rule nth_equalityI) (auto simp: bit_push_bit_iff)

lemma octets_bits_inject: "length bs = length cs \<Longrightarrow> octets_bits bs = octets_bits cs \<Longrightarrow> bs = cs"
proof (induction bs cs rule: list_induct2)
  case (Cons b bs c cs)
  then have bits: "octet_bits b = octet_bits c" "octets_bits bs = octets_bits cs"
    by (simp_all add: octet_bits_def)
  have "bit b i = bit c i" if "i < 8" for i
    using arg_cong [OF bits(1), of "\<lambda>xs. xs ! (7 - i)"] that by (simp add: octet_bits_def bit_uint_iff)
  then have "b = c" by (intro bit_word_eqI) simp
  then show ?case using Cons.IH [OF bits(2)] by simp
qed simp

section \<open>Slices and builders\<close>

definition padded :: "bool list \<Rightarrow> octet list \<Rightarrow> bool" where
  "padded xs bs \<longleftrightarrow> length bs = bits_to_bytes (length xs) \<and>
     octets_bits bs = xs @ replicate (padding (length xs)) False"

text \<open>What the machine relies on: reading bits within a slice, building from raw octets within the
  capacity of a cell, and appending where the crate says there is room.\<close>

definition slice_laws :: "('c, 's, 'b, 'h) ton \<Rightarrow> ('s \<Rightarrow> bool list) \<Rightarrow> bool" where
  "slice_laws T slice_bits \<longleftrightarrow>
     (\<forall>s. remaining_bits T s = length (slice_bits s)) \<and>
     (\<forall>n s. n \<le> length (slice_bits s) \<longrightarrow>
        (\<exists>bs s'. get_next_bits (slices T) n s = (Inr bs, s') \<and> padded (take n (slice_bits s)) bs \<and>
           slice_bits s' = drop n (slice_bits s)))"

definition builder_laws :: "('c, 's, 'b, 'h) ton \<Rightarrow> ('b \<Rightarrow> bool list) \<Rightarrow> bool" where
  "builder_laws T builder_bits \<longleftrightarrow>
     (\<forall>bs n. n \<le> 1023 \<longrightarrow> n \<le> 8 * length bs \<longrightarrow>
        (\<exists>b. with_raw (builders T) bs n = Inr b \<and> builder_bits b = take n (octets_bits bs))) \<and>
     (\<forall>x b. can_append (builders T) b x \<longrightarrow>
        (\<exists>b'. append_builder (builders T) x b = (Inr (), b') \<and> builder_bits b' = builder_bits b @ builder_bits x))"

definition bit_crate ::
  "('c, 's, 'b, 'h) ton \<Rightarrow> ('s \<Rightarrow> bool list) \<Rightarrow> ('b \<Rightarrow> bool list) \<Rightarrow> bool" where
  "bit_crate T slice_bits builder_bits \<longleftrightarrow> slice_laws T slice_bits \<and> builder_laws T builder_bits"

lemma padded_unique: "padded xs bs \<Longrightarrow> padded xs cs \<Longrightarrow> bs = cs"
  unfolding padded_def by (simp add: octets_bits_inject)

lemma bit_crateD:
  assumes "bit_crate T sb bb"
  shows "remaining_bits T s = length (sb s)"
    "n \<le> length (sb s) \<Longrightarrow> \<exists>bs s'. get_next_bits (slices T) n s = (Inr bs, s') \<and> padded (take n (sb s)) bs \<and>
       sb s' = drop n (sb s)"
    "n \<le> 1023 \<Longrightarrow> n \<le> 8 * length bs \<Longrightarrow>
       \<exists>b. with_raw (builders T) bs n = Inr b \<and> bb b = take n (octets_bits bs)"
    "can_append (builders T) b x \<Longrightarrow>
       \<exists>b'. append_builder (builders T) x b = (Inr (), b') \<and> bb b' = bb b @ bb x"
  using assms by (simp_all add: bit_crate_def slice_laws_def builder_laws_def)

section \<open>Integers in cells\<close>

text \<open>The bits an encoding writes.\<close>

definition encoding_bits :: "encoding \<Rightarrow> nat \<Rightarrow> int \<Rightarrow> bool list" where
  "encoding_bits enc n v = take n (octets_bits (encoded enc n v))"

definition big_endian :: "encoding \<Rightarrow> bool" where
  "big_endian enc \<longleftrightarrow> enc = SignedIntegerBigEndianEncoding \<or> enc = UnsignedIntegerBigEndianEncoding"

lemma length_encoded: "bits_to_bytes n \<le> length (encoded enc n v)"
  by (cases enc) simp_all

lemma n_le_encoded: "n \<le> 8 * length (encoded enc n v)"
  using length_encoded [of n enc v] bits_to_bytes_pad [of n] by linarith

lemma length_encoding_bits [simp]: "length (encoding_bits enc n v) = n"
  using n_le_encoded [of n enc v] by (simp add: encoding_bits_def)

lemma big_endian_bits:
  assumes "big_endian enc" "0 < n"
  shows "octets_bits (encoded enc n v) = int_bits n v @ replicate (padding n) False"
    "length (encoded enc n v) = bits_to_bytes n"
proof -
  have "0 < bits_to_bytes n" using assms(2) bits_to_bytes_pad [of n] by simp
  then have e: "encoded enc n v = octets_of (bits_to_bytes n) (push_bit (padding n) v)"
    using assms(1) by (auto simp: big_endian_def max_def)
  show "octets_bits (encoded enc n v) = int_bits n v @ replicate (padding n) False"
    unfolding e octets_bits_of bits_to_bytes_pad
    by (rule append_take_drop_id [of n, THEN subst]) (simp only: take_int_bits drop_int_bits)
  show "length (encoded enc n v) = bits_to_bytes n" unfolding e by simp
qed

lemma encoding_bits_big_endian: "big_endian enc \<Longrightarrow> 0 < n \<Longrightarrow> encoding_bits enc n v = int_bits n v"
  by (simp add: encoding_bits_def big_endian_bits)

lemma encoded_padded:
  assumes "whole_octets enc n" "0 < n"
  shows "padded (encoding_bits enc n v) (encoded enc n v)"
proof (cases "big_endian enc")
  case True
  then show ?thesis using assms(2) by (simp add: padded_def big_endian_bits encoding_bits_big_endian)
next
  case False
  then have "n mod 8 = 0" using assms(1) by (cases enc) (auto simp: big_endian_def whole_octets_def)
  then have p: "padding n = 0" by (rule padding_0)
  have l: "length (encoded enc n v) = bits_to_bytes n" using False by (cases enc) (simp_all add: big_endian_def)
  then have "take n (octets_bits (encoded enc n v)) = octets_bits (encoded enc n v)"
    using bits_to_bytes_pad [of n] p by simp
  then show ?thesis using l p unfolding padded_def encoding_bits_def [symmetric] length_encoding_bits
    by (simp add: encoding_bits_def)
qed

lemma integer_as_builder_bits:
  assumes N: "bigint_ok (bigint T)" and C: "bit_crate T sb bb" and n: "n \<le> 1023"
  shows "case integer_as_builder T enc n x of
      Inr b \<Rightarrow> (\<exists>v. x = Value v \<and> fits enc n v \<and> bb b = encoding_bits enc n v)
    | Inl er \<Rightarrow> (x = NaN \<and> er = exc IntegerOverflow) \<or> (\<exists>v. x = Value v \<and> \<not> fits enc n v \<and> er = exc RangeCheckError)"
proof (cases x)
  case NaN
  then show ?thesis
    by (simp add: integer_as_builder_def integer_as_buffer_def is_nan_def lift_code_def exc_def)
next
  case (Value v)
  then show ?thesis
    using serialize_layout [OF N, of enc n v] bit_crateD(3) [OF C n n_le_encoded, of enc v]
    by (auto simp: integer_as_builder_def lift_code_def encoding_bits_def)
qed

lemma take_integer_encoded:
  assumes N: "bigint_ok (bigint T)" and C: "bit_crate T sb bb" and w: "whole_octets enc n" "0 < n"
    and f: "fits enc n v" "n \<le> (if signed_encoding enc then 257 else 256)"
    and s: "sb s = encoding_bits enc n v @ rest"
  shows "\<exists>s'. take_integer T enc n s e = (Inr (Item_Integer (Value v), s'), e) \<and> sb s' = rest"
proof -
  have t: "take n (sb s) = encoding_bits enc n v" "drop n (sb s) = rest" "n \<le> length (sb s)" unfolding s by simp_all
  obtain bs s' where g: "get_next_bits (slices T) n s = (Inr bs, s')" "padded (encoding_bits enc n v) bs" "sb s' = rest"
    using bit_crateD(2) [OF C t(3)] unfolding t by blast
  have "bs = encoded enc n v" by (rule padded_unique [OF g(2) encoded_padded [OF w]])
  then have "deserialize enc (bigint T) n bs = Inr (Value v)"
    using deserialize_eq [OF N w(1)] decoded_encoded [OF f(1) w(1)] fits_integer_ok [OF f] by simp
  then show ?thesis using g by (simp add: take_integer_def with_object_def exec_simps)
qed

section \<open>Crates of bit strings\<close>

text \<open>Cells without references: a slice, a builder and a cell are the lists of their bits.\<close>

definition bits_int :: "bool list \<Rightarrow> int" where
  "bits_int xs = horner_sum of_bool 2 (rev xs)"

definition bits_octets :: "bool list \<Rightarrow> octet list" where
  "bits_octets xs = octets_of (bits_to_bytes (length xs)) (push_bit (padding (length xs)) (bits_int xs))"

definition taken :: "nat \<Rightarrow> (bool list \<Rightarrow> 'a) \<Rightarrow> bool list \<Rightarrow> ('c, 's, 'b, 'a) ext_result \<times> bool list" where
  "taken n f s = (if n \<le> length s then (Inr (f (take n s)), drop n s) else (no_result, s))"

definition appended :: "bool list \<Rightarrow> bool list \<Rightarrow> ('c, 's, 'b, unit) ext_result \<times> bool list" where
  "appended x b = (if length b + length x \<le> 1023 then (Inr (), b @ x) else (no_result, b))"

definition bit_slices :: "(bool list, bool list, bool list) slice_ops" where
  "bit_slices = \<lparr>
     get_next_bit = taken 1 hd, get_next_bits = (\<lambda>n. taken n bits_octets), get_next_bytes = (\<lambda>n. taken (8 * n) bits_octets),
     get_next_slice = (\<lambda>n. taken n id), get_bit_opt = (\<lambda>s i. if i < length s then Some (s ! i) else None),
     get_bytestring = (\<lambda>_. bits_octets), slice_is_empty = (\<lambda>s. s = []), is_empty_root = (\<lambda>s. s = []),
     shrunk_data = (\<lambda>lo hi s. take lo s),
     common_prefix = (\<lambda>_ _. (None, None, None)),
     slice_as_builder = id, load_builder = Inr, load_bitstring = Inr \<rparr>"

definition bit_builders :: "(bool list, bool list, bool list) builder_ops" where
  "bit_builders = \<lparr>
     builder_new = [], bits_free = (\<lambda>b. 1023 - length b), references_free = (\<lambda>_. 0), bits_used = length,
     references_used = (\<lambda>_. 0), length_in_bits = length, builder_data = bits_octets, builder_references = (\<lambda>_. []),
     builder_set_type = (\<lambda>_ b. b), can_append = (\<lambda>b x. length b + length x \<le> 1023),
     check_enough_space = (\<lambda>b n. length b + n \<le> 1023), check_enough_refs = (\<lambda>_ n. n = 0),
     with_raw = (\<lambda>bs n. if n \<le> 1023 \<and> n \<le> 8 * length bs then Inr (take n (octets_bits bs)) else no_result),
     with_raw_and_refs = (\<lambda>_ _ _. no_result), append_builder = appended,
     append_raw = (\<lambda>bs n. appended (take n (octets_bits bs))), append_bits = (\<lambda>v n. appended (int_bits n (int v))),
     checked_append_reference = (\<lambda>_ b. (no_result, b)), checked_append_references_and_data = appended,
     builder_into_cell = Inr \<rparr>"

definition bit_crates :: "(bool list, bool list, bool list, unit) ton" where
  "bit_crates = \<lparr>
     bigint = schoolbook_bigint, builders = bit_builders, slices = bit_slices, cells = flat_cells, crypto = no_crypto,
     updates = no_updates, searches = no_searches, pfx = no_pfx, blocks = no_blocks, formats = no_formats,
     code_number = exception_number, code_from_usize = (\<lambda>_. None), capability_bits = (\<lambda>_. 1),
     slice_default = [], builder_default = [], cell_default = [],
     remaining_bits = length, remaining_references = (\<lambda>_. 0), slice_pos = (\<lambda>_. 0),
     get_references = (\<lambda>_. (0, 0)), reference_opt = (\<lambda>_ _. None), slice_reference = (\<lambda>_ _. no_result),
     checked_drain_reference = (\<lambda>s. (no_result, s)), get_next_byte = taken 8 (\<lambda>xs. hd (bits_octets xs)),
     get_next_int = (\<lambda>n. taken n (\<lambda>xs. nat (bits_int xs))), get_next_hash = (\<lambda>s. (no_result, s)),
     move_by = (\<lambda>n. taken n (\<lambda>_. ())),
     shrink_data = (\<lambda>lo hi s. drop lo (case hi of None \<Rightarrow> s | Some h \<Rightarrow> take h s)), shrink_references = (\<lambda>_ _ s. s),
     trim_right = id, get_dictionary_opt = (\<lambda>s. (None, s)), cell_opt = Some,
     slice_load_cell = Inr, slice_load_cell_ref = Inr, into_cell = id,
     slice_hash_eq = (\<lambda>_ _. False), repr_hash = (\<lambda>c. word_of_int (bits_int (True # c))), cell_type_of = (\<lambda>_. OrdinaryCell),
     cell_reference = (\<lambda>_ _. no_result), virtualize = (\<lambda>_ c. c), builder_finalize = (\<lambda>_. Inr),
     with_hashmap = (\<lambda>_ _. ()), key_i32 = (\<lambda>_. no_result),
     hashmap_get_with_gas = (\<lambda>_ _ _. returnE None) \<rparr>"

lemma int_bits_int [simp]: "int_bits (length xs) (bits_int xs) = xs"
  by (rule nth_equalityI) (auto simp: bits_int_def bit_horner_sum_bit_iff rev_nth)

lemma bits_octets_padded: "padded xs (bits_octets xs)"
  unfolding padded_def bits_octets_def octets_bits_of bits_to_bytes_pad
  by (simp, rule append_take_drop_id [of "length xs", THEN subst]) (simp only: take_int_bits drop_int_bits int_bits_int)

lemma bit_crates_laws: "bit_crate bit_crates id id"
  by (simp add: bit_crate_def slice_laws_def builder_laws_def bit_crates_def bit_slices_def bit_builders_def
    taken_def appended_def bits_octets_padded)

text \<open>A little-endian encoding at a width that is not a whole number of octets cuts the low bits of its last
  octet, the most significant one.\<close>

lemma numeral_eq_0_octet: "(256 :: octet) = 0"
  by simp

lemma rev_octets_power: "rev (octets_of (Suc k) (256 ^ k)) = replicate k 0 @ [1]"
proof (induction k)
  case (Suc k)
  have "(256 :: octet) * w = 0" for w by (metis mult_zero_left numeral_eq_0_octet)
  then show ?case using Suc by simp
qed simp

lemma rev_octets_zero: "rev (octets_of k 0) = replicate k 0"
  by (induction k) simp_all

lemma octets_bits_zero: "octets_bits (replicate k 0) = replicate (8 * k) False"
  by (induction k) (simp_all add: octet_bits_def int_bits_def replicate_add [symmetric] numeral_eq_Suc)

lemma little_endian_cut:
  assumes "0 < n mod 8"
  shows "encoding_bits UnsignedIntegerLittleEndianEncoding n (256 ^ (n div 8)) = replicate n False"
    "encoding_bits UnsignedIntegerLittleEndianEncoding n 0 = replicate n False"
proof -
  have bytes: "bits_to_bytes n = Suc (n div 8)" using assms unfolding bits_to_bytes_eq by presburger
  have n: "n = 8 * (n div 8) + n mod 8" by simp
  have one: "take r (octet_bits 1) = replicate r False" if "r < 8" for r
    using that by (intro nth_equalityI) (auto simp: octet_bits_def bit_1_iff)
  show "encoding_bits UnsignedIntegerLittleEndianEncoding n (256 ^ (n div 8)) = replicate n False"
    unfolding encoding_bits_def encoded.simps bytes rev_octets_power octets_bits_simps octets_bits_zero
    by (subst (1 3) n) (simp add: one replicate_add [symmetric])
  show "encoding_bits UnsignedIntegerLittleEndianEncoding n 0 = replicate n False"
    unfolding encoding_bits_def encoded.simps bytes rev_octets_zero octets_bits_zero using n by simp
qed

text \<open>C28: the unsigned little-endian encoding is not faithful at a width that is not a whole number of octets, which it
  accepts: zero and the number whose only bit is the lowest of the last octet are stored as the same bits.\<close>

theorem little_endian_partial_octet:
  assumes "bigint_ok (bigint T)" "bit_crate T sb bb" "n \<le> 1023" "0 < n mod 8"
  shows "\<exists>b b'. integer_as_builder T UnsignedIntegerLittleEndianEncoding n (Value 0) = Inr b \<and>
    integer_as_builder T UnsignedIntegerLittleEndianEncoding n (Value (256 ^ (n div 8))) = Inr b' \<and> bb b = bb b'"
proof -
  let ?v = "256 ^ (n div 8) :: int"
  have "?v = 2 ^ (8 * (n div 8))" by (simp add: power_mult)
  also have "\<dots> < 2 ^ n" by (rule power_strict_increasing) (use assms(4) in presburger, simp)
  finally have "fits UnsignedIntegerLittleEndianEncoding n ?v" "fits UnsignedIntegerLittleEndianEncoding n 0"
    by (simp_all add: fits_def)
  then show ?thesis
    using integer_as_builder_bits [OF assms(1-3), where enc = UnsignedIntegerLittleEndianEncoding and x = "Value ?v"]
      integer_as_builder_bits [OF assms(1-3), where enc = UnsignedIntegerLittleEndianEncoding and x = "Value 0"]
      little_endian_cut [OF assms(4)]
    by (auto split: sum.splits)
qed

theorem little_endian_partial_octet_witness:
  "integer_as_builder bit_crates UnsignedIntegerLittleEndianEncoding 46 (Value (2 ^ 40)) =
   integer_as_builder bit_crates UnsignedIntegerLittleEndianEncoding 46 (Value 0)"
proof -
  have "bigint_ok (bigint bit_crates)" by (simp add: bit_crates_def bigint_ok_schoolbook)
  from little_endian_partial_octet [OF this bit_crates_laws, of 46] show ?thesis by auto
qed

text \<open>C22: an instruction that stores an integer, on every branch.  Not-a-number is an integer
  overflow, a number out of range of the encoding a range check error, and a builder without room a
  cell overflow, each without a change of the machine.  Otherwise the builder on top of the stack
  holds the bits of the old one followed by the encoding of the number, for the big-endian
  encodings the \<open>n\<close> bits of its two's complement representation.\<close>

theorem store_integer_appends:
  assumes "bigint_ok (bigint T)" "bit_crate T sb bb" "n \<le> 1023" "i < length (vars (cmd e))" "vars (cmd e) ! i = Item_Builder b"
  shows "(case x of NaN \<Rightarrow> store_data T i (integer_as_builder T enc n x) False False e = (Inl (exc IntegerOverflow), e)
    | Value v \<Rightarrow>
        if \<not> fits enc n v then store_data T i (integer_as_builder T enc n x) False False e = (Inl (exc RangeCheckError), e)
        else \<exists>y. bb y = encoding_bits enc n v \<and> (big_endian enc \<and> 0 < n \<longrightarrow> bb y = int_bits n v) \<and>
          (if can_append (builders T) b y
           then \<exists>b'. bb b' = bb b @ bb y \<and>
             store_data T i (integer_as_builder T enc n x) False False e =
               (Inr (), upd_stack (push (Item_Builder b'))
                  (e \<lparr> cmd := (cmd e) \<lparr> vars := (vars (cmd e))[i := Item_Builder (builder_default T)] \<rparr> \<rparr>))
           else store_data T i (integer_as_builder T enc n x) False False e = (Inl (exc CellOverflow), e)))"
proof -
  note I = integer_as_builder_bits [OF assms(1,2,3), where enc = enc and x = x]
  note run = store_data_def append_data_def var_builder_mut_def builder_var_def cmd_var_def set_var_def
    push_builder_def push_item_def with_object_def errE_def exec_simps
  show ?thesis
  proof (cases "integer_as_builder T enc n x")
    case (Inl er)
    then show ?thesis using I by (cases x) (auto simp: run)
  next
    case (Inr y)
    then obtain v where v: "x = Value v" "fits enc n v" "bb y = encoding_bits enc n v" using I by auto
    show ?thesis
    proof (cases "can_append (builders T) b y")
      case True
      then obtain b' where "append_builder (builders T) y b = (Inr (), b')" "bb b' = bb b @ bb y"
        using bit_crateD(4) [OF assms(2)] by blast
      then show ?thesis using assms(4,5) Inr v True encoding_bits_big_endian
        by (simp add: run) (intro exI [of _ y]; auto)
    next
      case False
      then show ?thesis using assms(4,5) Inr v encoding_bits_big_endian
        by (simp add: run) (intro exI [of _ y]; simp)
    qed
  qed
qed

theorem store_integer_appends_witness:
  "\<exists>e'. store_data bit_crates 1 (integer_as_builder bit_crates UnsignedIntegerBigEndianEncoding 8 (Value 5)) False False
       ((with_capabilities bit_crates 0) \<lparr> cmd := (instr_ext_new ''STU'') \<lparr> vars := [item_int 5, Item_Builder [True]] \<rparr> \<rparr>)
     = (Inr (), e') \<and> stack_of (cc e') = [Item_Builder ([True] @ int_bits 8 5)]"
proof -
  let ?e = "(with_capabilities bit_crates 0) \<lparr> cmd := (instr_ext_new ''STU'') \<lparr> vars := [item_int 5, Item_Builder [True]] \<rparr> \<rparr>"
  have b: "bigint_ok (bigint bit_crates)" by (simp add: bit_crates_def bigint_ok_schoolbook)
  have a: "can_append (builders bit_crates) [True] (y :: bool list) \<longleftrightarrow> length y \<le> 1022" for y
    by (auto simp: bit_crates_def bit_builders_def)
  show ?thesis
    using store_integer_appends [OF b bit_crates_laws, where n = 8 and i = 1 and e = ?e and b = "[True]"
      and enc = UnsignedIntegerBigEndianEncoding and x = "Value 5"]
    by (auto simp: a big_endian_def fits_def upd_stack_def with_capabilities_def push_def new_empty_def with_type_def)
qed

text \<open>C23: what was stored is loaded.  From a slice that starts with the bits an encoding wrote,
  loading an integer of the same length returns the number and the rest of the slice, for every
  encoding the machine has.\<close>

theorem stored_integer_loads:
  assumes "bigint_ok (bigint T)" "bit_crate T sb bb" "whole_octets enc n" "0 < n"
    "n \<le> (if signed_encoding enc then 257 else 256)"
    "integer_as_builder T enc n x = Inr b" "sb s = bb b @ rest"
  shows "\<exists>s'. take_integer T enc n s e = (Inr (Item_Integer x, s'), e) \<and> sb s' = rest"
proof -
  have "n \<le> 1023" using assms(5) by (auto split: if_splits)
  then obtain v where "x = Value v" "fits enc n v" "bb b = encoding_bits enc n v"
    using integer_as_builder_bits [OF assms(1,2), where n = n and enc = enc and x = x] assms(6) by auto
  then show ?thesis using take_integer_encoded [OF assms(1-4)] assms(5,7) by simp
qed

theorem stored_integer_loads_witness:
  "\<exists>s'. take_integer bit_crates SignedIntegerBigEndianEncoding 4 ([True, True, False, True] @ [True, False])
      (with_capabilities bit_crates 0) = (Inr (Item_Integer (Value (- 3)), s'), with_capabilities bit_crates 0) \<and>
     s' = [True, False]"
proof -
  have b: "bigint_ok (bigint bit_crates)" by (simp add: bit_crates_def bigint_ok_schoolbook)
  have i: "integer_as_builder bit_crates SignedIntegerBigEndianEncoding 4 (Value (- 3)) = Inr [True, True, False, True]"
    by code_simp
  show ?thesis
    using stored_integer_loads [OF b bit_crates_laws _ _ _ i, where s = "[True, True, False, True] @ [True, False]"
      and rest = "[True, False]" and e = "with_capabilities bit_crates 0"]
    by (simp add: whole_octets_def)
qed

end
