(* ===== verification/Contract_Theorems.thy ===== *)
theory Contract_Theorems
  imports Contract_Info Example_Crates
begin

text \<open>
  The contract information and the instructions that read it agree: what each opcode of the configuration
  instructions pushes on a machine whose \<open>c7\<close> was made by \<open>Contract_Info\<close>.
\<close>

unbundle bit_operations_syntax

text \<open>The place of an additional parameter does not depend on the others.\<close>

definition placed :: "u64 \<Rightarrow> (u64 \<times> ('c, 's, 'b) stack_item) list \<Rightarrow> ('c, 's, 'b) stack_item list \<Rightarrow> bool" where
  "placed caps ps acc \<longleftrightarrow> length acc \<le> length ps \<and>
     (\<forall>k < length ps. if caps AND fst (ps ! k) \<noteq> 0 then k < length acc \<and> acc ! k = snd (ps ! k)
        else k < length acc \<longrightarrow> acc ! k = Item_None)"

lemma placed_step:
  assumes "placed caps ps acc"
  shows "placed caps (ps @ [(cap, x)])
    (if caps AND cap \<noteq> 0 then acc @ replicate (length ps - length acc) Item_None @ [x] else acc)"
proof -
  define acc' where "acc' = (if caps AND cap \<noteq> 0 then acc @ replicate (length ps - length acc) Item_None @ [x] else acc)"
  have len: "length acc \<le> length ps" using assms by (simp add: placed_def)
  have old: "if caps AND fst (ps ! k) \<noteq> 0 then k < length acc' \<and> acc' ! k = snd (ps ! k)
      else k < length acc' \<longrightarrow> acc' ! k = Item_None" if "k < length ps" for k
  proof -
    have "if caps AND fst (ps ! k) \<noteq> 0 then k < length acc \<and> acc ! k = snd (ps ! k)
        else k < length acc \<longrightarrow> acc ! k = Item_None"
      using assms that by (simp add: placed_def)
    moreover have "k - length acc < length ps - length acc" if "\<not> k < length acc"
      using that \<open>k < length ps\<close> by simp
    ultimately show ?thesis by (cases "k < length acc") (simp_all add: acc'_def nth_append split: if_splits)
  qed
  have new: "if caps AND cap \<noteq> 0 then length ps < length acc' \<and> acc' ! length ps = x
      else length ps < length acc' \<longrightarrow> acc' ! length ps = Item_None"
    using len by (simp add: acc'_def nth_append)
  show ?thesis unfolding placed_def acc'_def [symmetric]
  proof (intro conjI allI impI)
    fix k assume "k < length (ps @ [(cap, x)])"
    then consider "k < length ps" | "k = length ps" by fastforce
    then show "if caps AND fst ((ps @ [(cap, x)]) ! k) \<noteq> 0 then k < length acc' \<and> acc' ! k = snd ((ps @ [(cap, x)]) ! k)
      else k < length acc' \<longrightarrow> acc' ! k = Item_None"
      using old [of k] new by cases (simp_all add: nth_append)
  qed (use len in \<open>simp add: acc'_def\<close>)
qed

lemma placed_all: "placed caps ps acc \<Longrightarrow> placed caps (ps @ qs) (additional_params caps (length ps) qs acc)"
proof (induction qs arbitrary: ps acc)
  case (Cons q qs)
  obtain cap x where q: "q = (cap, x)" by fastforce
  show ?case
    using Cons.IH [OF placed_step [OF Cons.prems, of cap x]] by (simp only: q additional_params.simps append_assoc
      append_Cons append_Nil length_append list.size add_Suc_right add_0_right One_nat_def)
qed simp

lemma additional_params_placed: "placed caps ps (additional_params caps 0 ps [])"
proof -
  have "placed caps [] []" by (simp add: placed_def)
  from placed_all [OF this, of ps] show ?thesis by simp
qed

lemma placedD:
  assumes "placed caps ps acc" "k < length ps" "ps ! k = (cap, x)"
  shows "caps AND cap \<noteq> 0 \<Longrightarrow> k < length acc \<and> acc ! k = x"
    "caps AND cap = 0 \<Longrightarrow> k < length acc \<Longrightarrow> acc ! k = Item_None"
  using assms(1) [unfolded placed_def, THEN conjunct2, rule_format, OF assms(2)] assms(3) by simp_all

lemma info_places:
  assumes "ctrls e ! 6 = Some (into_temp_data_item T i)" "length (ctrls e) = 7"
  shows "(\<forall>n < 10. smci_param n e = (Inr (info_params i ! n), e)) \<and>
    (\<forall>k < 4. let (cap, x) = info_additional T i ! k in
      if info_capabilities i AND cap \<noteq> 0 then smci_param (10 + k) e = (Inr x, e)
      else smci_param (10 + k) e \<in> {(Inr Item_None, e), (Inl (exc RangeCheckError), e)})"
proof -
  define xs where "xs = additional_params (info_capabilities i) 0 (info_additional T i) []"
  have p: "placed (info_capabilities i) (info_additional T i) xs"
    unfolding xs_def by (rule additional_params_placed)
  have len: "length (info_params i) = 10" "length (info_additional T i) = 4"
    by (simp_all only: info_params_def info_additional_def list.size)
  have c7: "ctrls e ! 6 = Some (Item_Tuple [Item_Tuple (info_params i @ xs)])"
    using assms(1) by (simp add: into_temp_data_item_def xs_def)
  have read: "smci_param n e = (if n < length (info_params i @ xs) then Inr ((info_params i @ xs) ! n)
      else Inl (exc RangeCheckError), e)" for n
    using c7 assms(2) by (simp add: smci_param_def engine_ctrl_def ctrl_get_def savelist_get_def adjust_def
      exec_simps err_def)
  show ?thesis
  proof (intro conjI allI impI)
    fix n :: nat assume "n < 10"
    then show "smci_param n e = (Inr (info_params i ! n), e)" by (simp add: read len nth_append)
  next
    fix k :: nat assume "k < 4"
    then show "let (cap, x) = info_additional T i ! k in
      if info_capabilities i AND cap \<noteq> 0 then smci_param (10 + k) e = (Inr x, e)
      else smci_param (10 + k) e \<in> {(Inr Item_None, e), (Inl (exc RangeCheckError), e)}"
    proof -
      obtain cap x where kx: "info_additional T i ! k = (cap, x)" by (cases "info_additional T i ! k")
      have "k < length (info_additional T i)" using \<open>k < 4\<close> by (simp add: len)
      note at_k = placedD [OF p this kx]
      show ?thesis using at_k
        by (cases "info_capabilities i AND cap = 0") (simp_all add: kx read len nth_append)
    qed
  qed
qed

section \<open>From the opcodes to the handlers\<close>

text \<open>The instructions that read one parameter, with the capability they ask for.\<close>

definition info_reader :: "('c, 's, 'b, 'h) ton \<Rightarrow> string \<Rightarrow> capability option \<Rightarrow> ('c, 's, 'b, 'h) handler" where
  "info_reader T name cap = (case cap of None \<Rightarrow> extract_config T name
   | Some c \<Rightarrow> thenE (check_capability T c) (extract_config T name))"

definition info_readers :: "(u8 \<times> string \<times> string \<times> capability option) list" where
  "info_readers = [
     (0x20, ''execute_getparam'', ''GETPARAM'', None),
     (0x21, ''execute_getparam'', ''GETPARAM'', None),
     (0x22, ''execute_getparam'', ''GETPARAM'', None),
     (0x23, ''execute_now'', ''NOW'', None),
     (0x24, ''execute_blocklt'', ''BLOCKLT'', None),
     (0x25, ''execute_ltime'', ''LTIME'', None),
     (0x26, ''execute_randseed'', ''RANDSEED'', None),
     (0x27, ''execute_balance'', ''BALANCE'', None),
     (0x28, ''execute_my_addr'', ''MYADDR'', None),
     (0x29, ''execute_config_root'', ''CONFIGROOT'', None),
     (0x2A, ''execute_my_code'', ''MYCODE'', Some CapMycode),
     (0x2B, ''execute_init_code_hash'', ''INITCODEHASH'', Some CapInitCodeHash),
     (0x2C, ''execute_storage_fees_collected'', ''STORAGEFEE'', Some CapStorageFeeToTvm),
     (0x2D, ''execute_seq_no'', ''SEQNO'', Some CapDelections)]"

definition config_opcodes :: "table_op list" where
  "config_opcodes = (case add_code_page_0_gas_rand_config of [AddSubset _ subs] \<Rightarrow> subs | _ \<Rightarrow> [])"

lemma config_entry: "entry_of new_code_page_0 0xF8 = Some (Node config_opcodes)"
  by code_simp

lemma reader_entries:
  "list_all (\<lambda>(op, f, _). entry_of config_opcodes (unat op) = Some (Leaf f)) info_readers"
  by code_simp

lemma map_of_skip: "k \<notin> set (map fst xs) \<Longrightarrow> map_of (xs @ ys) k = map_of ys k"
  by (induction xs) auto

lemma other_tables:
  "list_all (\<lambda>(_, f, _). f \<notin> set (map fst ((execute_unknown_name, execute_unknown) # codepage_handlers T @ stack_handlers T @
     math_handlers T @ tuple_handlers T @ gas_handlers T))) info_readers"
  unfolding codepage_handlers_def stack_handlers_def math_handlers_def tuple_handlers_def gas_handlers_def
    set_index_handlers_def tuple_length_handlers_def tuple_index_handlers_def untuple_handlers_def tuple_create_handlers_def
    nullzero_handlers_def global_handlers_def append.simps list.map fst_conv
  by code_simp

lemma own_table:
  "list_all (\<lambda>(_, f, name, cap). map_of (config_handlers T) f = Some (info_reader T name cap)) info_readers"
  by (simp add: info_readers_def info_reader_def config_handlers_def config_info_handlers_def execute_balance_def
    execute_my_code_def execute_randseed_def execute_init_code_hash_def execute_seq_no_def execute_storage_fees_collected_def)

lemma reader_handler:
  assumes "(op, f, name, cap) \<in> set info_readers"
  shows "handler_of T rest f = info_reader T name cap"
proof -
  have f: "map_of (config_handlers T) f = Some (info_reader T name cap)"
    using own_table [unfolded list_all_iff, THEN bspec, OF assms] by simp
  note others = other_tables [unfolded list_all_iff, THEN bspec, OF assms, unfolded prod.case]
  have "\<exists>post. modelled_handlers T = ((execute_unknown_name, execute_unknown) # codepage_handlers T @ stack_handlers T @
      math_handlers T @ tuple_handlers T @ gas_handlers T) @ config_handlers T @ post"
    by (simp add: modelled_handlers_def)
  then obtain post where "map_of (modelled_handlers T) f = map_of (config_handlers T @ post) f"
    using map_of_skip [OF others] by metis
  then show ?thesis using f by (simp add: handler_of_def map_add_find_right)
qed

text \<open>The handler that the two code bytes lead to.\<close>

lemma reader_fetch:
  assumes "build new_code_page_0 handlers_new = Some h" "(op, f, name, cap) \<in> set info_readers"
    "get_next_byte T (code_of (cc e)) = (Inr 0xF8, s)" "get_next_byte T s = (Inr op, s')"
  shows "lookup_handler T rest h e =
    (Inr (info_reader T name cap), e \<lparr> cc := set_code s' (set_code s (cc e)), last_cmd := op \<rparr>)"
proof -
  have "get_handler T h = find_handler T new_code_page_0"
    using build_get_handler [OF new_code_page_0_well_formed] assms(1) by (fastforce intro: ext)
  moreover have "entry_of config_opcodes (unat op) = Some (Leaf f)"
    using reader_entries assms(2) by (auto simp: list_all_iff)
  ultimately show ?thesis using assms(3,4) config_entry
    by (simp add: lookup_handler_def find_handler.simps next_cmd_def exec_simps reader_handler [OF assms(2)])
qed

text \<open>What such a handler does.\<close>

lemma extract_config_run:
  "\<exists>e'. extract_config T name e = (let n = nibble_lo (last_cmd e) in bindE (smci_param n) push_item e') \<and>
    cc e' = cc e \<and> ctrls e' = ctrls e"
  by (simp add: extract_config_def load_opts_def load_instruction_def extract_instruction_def extract_options_def
    extract_length_def push_length_def get_last_cmd_def push_param_def basic_use_gas_def engine_use_gas_def
    cmd_length_def cmd_param_def exec_simps instr_new_def set_opts_def Let_def unwrapE_def) (rule exI, rule conjI, rule refl, simp)

text \<open>The documented parameters: the second byte of the opcode, the capability that switches it on, and the value.\<close>

definition info_opcodes ::
  "('c, 's, 'b, 'h) ton \<Rightarrow> ('c, 's) smart_contract_info \<Rightarrow> (u8 \<times> u64 option \<times> ('c, 's, 'b) stack_item) list" where
  "info_opcodes T i = [
     (0x20, None, item_int 0x076ef1ea),
     (0x21, None, item_int (int (info_actions i))),
     (0x22, None, item_int (int (msgs_sent i))),
     (0x23, None, item_int (int (unix_time i))),
     (0x24, None, item_int (int (block_lt i))),
     (0x25, None, item_int (int (trans_lt i))),
     (0x26, None, Item_Integer (info_rand_seed i)),
     (0x27, None, Item_Tuple [item_int (int (max (balance_remaining_grams i) (balance_grams i))),
        cell_item (case balance_remaining_other i of Some c \<Rightarrow> Some c | None \<Rightarrow> balance_other i)]),
     (0x28, None, Item_Slice (myself i)),
     (0x29, None, cell_item (config_params i)),
     (0x2A, Some (capability_bits T CapMycode), Item_Cell (mycode i)),
     (0x2B, Some (capability_bits T CapInitCodeHash), item_int (uint (init_code_hash i))),
     (0x2C, Some (capability_bits T CapStorageFeeToTvm), item_int (int (storage_fee_collected i))),
     (0x2D, Some (capability_bits T CapDelections), item_int (int (seq_no i)))]"

lemma hash_value: "bigint_ok N \<Longrightarrow> from_bytes_be N (octets_of 32 (uint (h :: hash))) = uint h"
proof -
  assume "bigint_ok N"
  then have "from_bytes_be N (octets_of 32 (uint h)) = octets_value (octets_of 32 (uint h))" by (simp only: bigint_ok_def)
  also have "\<dots> = uint h mod 256 ^ 32" by (rule octets_value_of)
  also have "\<dots> = uint h" using uint_bounded [of h] by simp
  finally show ?thesis .
qed

lemma info_columns:
  "map (\<lambda>(op, cap, x). (op, cap)) (info_opcodes T i) =
    map (\<lambda>(op, f, name, cap). (op, map_option (capability_bits T) cap)) info_readers"
  "map (\<lambda>(op, cap, x). nibble_lo op) (info_opcodes T i) = [0..<14]"
  "map (\<lambda>(op, cap, x). x) (take 10 (info_opcodes T i)) = info_params i"
  "list_all (\<lambda>(op, cap, x). cap = None) (take 10 (info_opcodes T i))"
  "bigint_ok (bigint T) \<Longrightarrow>
    map (\<lambda>(op, cap, x). (the cap, x)) (drop 10 (info_opcodes T i)) = info_additional T i"
  "list_all (\<lambda>(op, cap, x). cap \<noteq> None) (drop 10 (info_opcodes T i))"
proof -
  show "map (\<lambda>(op, cap, x). nibble_lo op) (info_opcodes T i) = [0..<14]"
    by (simp add: info_opcodes_def nibble_lo_def upt_rec)
  show "bigint_ok (bigint T) \<Longrightarrow>
    map (\<lambda>(op, cap, x). (the cap, x)) (drop 10 (info_opcodes T i)) = info_additional T i"
    by (simp only: info_additional_def from_unsigned_bytes_be_def hash_value) (simp add: info_opcodes_def item_int_def)
qed (simp_all add: info_opcodes_def info_readers_def info_params_def)

lemma info_opcode_at:
  assumes "(op, cap, x) \<in> set (info_opcodes T i)" "bigint_ok (bigint T)"
  shows "\<exists>f name c. (op, f, name, c) \<in> set info_readers \<and> cap = map_option (capability_bits T) c"
    and "if cap = None then nibble_lo op < 10 \<and> info_params i ! nibble_lo op = x
      else \<exists>k<4. nibble_lo op = 10 + k \<and> info_additional T i ! k = (the cap, x)"
proof -
  have "(op, cap) \<in> set (map (\<lambda>(op, cap, x). (op, cap)) (info_opcodes T i))" using assms(1) by force
  then show "\<exists>f name c. (op, f, name, c) \<in> set info_readers \<and> cap = map_option (capability_bits T) c"
    unfolding info_columns(1) by auto
  have len: "length (info_opcodes T i) = 14" by (simp add: info_opcodes_def)
  obtain n where n: "n < 14" "info_opcodes T i ! n = (op, cap, x)"
    using assms(1) by (auto simp: in_set_conv_nth len)
  have nib: "nibble_lo op = n"
    using arg_cong [OF info_columns(2) [of T i], of "\<lambda>l. l ! n"] n len by simp
  show "if cap = None then nibble_lo op < 10 \<and> info_params i ! nibble_lo op = x
      else \<exists>k<4. nibble_lo op = 10 + k \<and> info_additional T i ! k = (the cap, x)"
  proof (cases "n < 10")
    case True
    have "info_params i ! n = x"
      unfolding info_columns(3) [of T i, symmetric] using True n len by (simp only: nth_map length_take nth_take) simp
    moreover have "cap = None"
      using info_columns(4) [of T i, unfolded list_all_length, rule_format, of n] True n len by simp
    ultimately show ?thesis using True by (simp only: nib simp_thms if_True)
  next
    case False
    then have at: "drop 10 (info_opcodes T i) ! (n - 10) = (op, cap, x)" "n - 10 < length (drop 10 (info_opcodes T i))"
      using n len by simp_all
    have "info_additional T i ! (n - 10) = (the cap, x)"
      unfolding info_columns(5) [OF assms(2), of i, symmetric] nth_map [OF at(2)] at(1) by simp
    moreover have "cap \<noteq> None"
      using info_columns(6) [of T i, unfolded list_all_length, rule_format, OF at(2)] unfolding at(1) by simp
    moreover have "n - 10 < 4" "n = 10 + (n - 10)" using False n by simp_all
    ultimately show ?thesis unfolding nib if_not_P [OF \<open>cap \<noteq> None\<close>] by blast
  qed
qed

text \<open>C26: what the configuration instructions push.  On a machine whose \<open>c7\<close> was made by \<open>into_temp_data_item\<close>,
  the opcodes \<open>F820\<close> to \<open>F82D\<close> find their handlers in the table of code page 0 and push, in this order, the magic
  number, the numbers of actions and messages, the time (\<open>NOW\<close>), the logical times of the block and of the
  transaction, the random seed, the balance, the address, the root of the configuration and, each behind its
  capability, the code (\<open>MYCODE\<close>), the hash of the initial code as an unsigned number, the storage fee and
  the sequence number.  The last four are unknown opcodes on a machine without their capability; when only the contract
  information was made without it they push null or raise a range check error, whatever the other
  capabilities are: never the value of another parameter.\<close>

theorem configuration_instructions:
  assumes "build new_code_page_0 handlers_new = Some h" "bigint_ok (bigint T)"
    and "ctrls e ! 6 = Some (into_temp_data_item T i)" "length (ctrls e) = 7"
    and "get_next_byte T (code_of (cc e)) = (Inr 0xF8, s)" "get_next_byte T s = (Inr op, s')"
    and "(op, cap, x) \<in> set (info_opcodes T i)"
  shows "case bindE (lookup_handler T rest h) (\<lambda>f. f) e of (r, e') \<Rightarrow>
    code_of (cc e') = s' \<and>
    (if cap \<noteq> None \<and> capabilities e AND the cap = 0
     then r = err InvalidOpcode \<and> cc_stack e' = cc_stack e
     else if cap \<noteq> None \<and> info_capabilities i AND the cap = 0
     then r = Inr () \<and> cc_stack e' = cc_stack e @ [Item_None] \<or> r = err RangeCheckError \<and> cc_stack e' = cc_stack e
     else r = Inr () \<and> cc_stack e' = cc_stack e @ [x])"
proof -
  obtain f name c where reader: "(op, f, name, c) \<in> set info_readers" "cap = map_option (capability_bits T) c"
    using info_opcode_at(1) [OF assms(7,2)] by blast
  define e1 where "e1 = e \<lparr> cc := set_code s' (set_code s (cc e)), last_cmd := op \<rparr>"
  have fetch: "bindE (lookup_handler T rest h) (\<lambda>f. f) e = info_reader T name c e1"
    using reader_fetch [OF assms(1) reader(1) assms(5,6)] by (simp add: exec_simps e1_def)
  have e1: "last_cmd e1 = op" "code_of (cc e1) = s'" "cc_stack e1 = cc_stack e" "capabilities e1 = capabilities e"
    "ctrls e1 = ctrls e" by (simp_all add: e1_def cc_stack_def)
  obtain e2 where run: "extract_config T name e1 = bindE (smci_param (nibble_lo op)) push_item e2"
    and e2: "cc e2 = cc e1" "ctrls e2 = ctrls e1"
    using extract_config_run [of T name e1] unfolding e1(1) Let_def by blast
  note places = info_places [of e2 T i, unfolded e2 e1, OF assms(3,4)]
  have same: "code_of (cc e2) = s'" "cc_stack e2 = cc_stack e" using e1 e2 by (simp_all add: cc_stack_def)
  have read: "if cap \<noteq> None \<and> info_capabilities i AND the cap = 0
      then smci_param (nibble_lo op) e2 \<in> {(Inr Item_None, e2), (Inl (exc RangeCheckError), e2)}
      else smci_param (nibble_lo op) e2 = (Inr x, e2)"
  proof (cases "cap = None")
    case True
    then have "nibble_lo op < 10" "info_params i ! nibble_lo op = x" using info_opcode_at(2) [OF assms(7,2)] by simp_all
    then show ?thesis using places [THEN conjunct1, rule_format] True by simp
  next
    case False
    then obtain k where k: "k < 4" "nibble_lo op = 10 + k" "info_additional T i ! k = (the cap, x)"
      using info_opcode_at(2) [OF assms(7,2)] by auto
    show ?thesis using places [THEN conjunct2, rule_format, OF k(1)] False by (simp only: k(2,3) Let_def prod.case if_not_P) metis
  qed
  have push: "push_item y e2 = (Inr (), upd_stack (push y) e2)" for y by (simp add: push_item_def)
  show ?thesis
  proof (cases c)
    case None
    then show ?thesis using read same unfolding fetch info_reader_def reader(2)
      by (simp add: run exec_simps push upd_stack_def cc_stack_def push_def)
  next
    case (Some k)
    then show ?thesis using read same e1 unfolding fetch info_reader_def reader(2)
      by (auto simp: run exec_simps push upd_stack_def cc_stack_def push_def check_capability_def err_def split: if_splits)
  qed
qed

theorem configuration_instructions_witness:
  "let T = octet_crates \<lparr> capability_bits := (\<lambda>c. case c of CapStorageFeeToTvm \<Rightarrow> 4 | _ \<Rightarrow> 2) \<rparr>;
       i = (with_myself T [7]) \<lparr> unix_time := 9, storage_fee_collected := 3, info_capabilities := 4 \<rparr>;
       e = (\<lambda>op. (with_capabilities T 6) \<lparr> cc := new_empty [0xF8, op],
          ctrls := [None, None, None, None, None, None, Some (into_temp_data_item T i)] \<rparr>)
   in \<exists>h. build new_code_page_0 handlers_new = Some h \<and>
     cc_stack (snd (bindE (lookup_handler T (\<lambda>_. throwE Panic) h) (\<lambda>f. f) (e 0x23))) = [item_int 9] \<and>
     cc_stack (snd (bindE (lookup_handler T (\<lambda>_. throwE Panic) h) (\<lambda>f. f) (e 0x2C))) = [item_int 3] \<and>
     cc_stack (snd (bindE (lookup_handler T (\<lambda>_. throwE Panic) h) (\<lambda>f. f) (e 0x2A))) \<in> {[], [Item_None]}"
proof -
  define T where "T = octet_crates \<lparr> capability_bits := (\<lambda>c. case c of CapStorageFeeToTvm \<Rightarrow> 4 | _ \<Rightarrow> 2) \<rparr>"
  define i where "i = (with_myself T [7]) \<lparr> unix_time := 9, storage_fee_collected := 3, info_capabilities := 4 \<rparr>"
  define e where "e = (\<lambda>op. (with_capabilities T 6) \<lparr> cc := new_empty [0xF8, op],
    ctrls := [None, None, None, None, None, None, Some (into_temp_data_item T i)] \<rparr>)"
  obtain h where h: "build new_code_page_0 handlers_new = Some h"
    using build_get_handler [OF new_code_page_0_well_formed] by blast
  have T: "bigint_ok (bigint T)" by (simp add: T_def octet_crates_def bigint_ok_schoolbook)
  have c7: "ctrls (e op) ! 6 = Some (into_temp_data_item T i)" "length (ctrls (e op)) = 7" for op by (simp_all add: e_def)
  have code: "get_next_byte T (code_of (cc (e op))) = (Inr 0xF8, [op])" "get_next_byte T [op] = (Inr op, [])" for op
    by (simp_all add: e_def T_def octet_crates_def new_empty_def)
  have ops: "(0x23, None, item_int 9) \<in> set (info_opcodes T i)" "(0x2C, Some 4, item_int 3) \<in> set (info_opcodes T i)"
    "(0x2A, Some 2, Item_Cell ()) \<in> set (info_opcodes T i)" by (simp_all add: info_opcodes_def T_def i_def)
  have on: "capabilities (e op) = 6" "cc_stack (e op) = []" "info_capabilities i = 4" for op
    by (simp_all add: e_def with_capabilities_def i_def cc_stack_def new_empty_def)
  note run = configuration_instructions [OF h T c7 code, where rest = "\<lambda>_. throwE Panic"]
  have all: "\<exists>h. build new_code_page_0 handlers_new = Some h \<and>
     cc_stack (snd (bindE (lookup_handler T (\<lambda>_. throwE Panic) h) (\<lambda>f. f) (e 0x23))) = [item_int 9] \<and>
     cc_stack (snd (bindE (lookup_handler T (\<lambda>_. throwE Panic) h) (\<lambda>f. f) (e 0x2C))) = [item_int 3] \<and>
     cc_stack (snd (bindE (lookup_handler T (\<lambda>_. throwE Panic) h) (\<lambda>f. f) (e 0x2A))) \<in> {[], [Item_None]}"
    using h run [OF ops(1)] run [OF ops(2)] run [OF ops(3)] by (auto simp: on split: prod.splits)
  show ?thesis using all unfolding e_def i_def T_def Let_def .
qed

end
