(* ===== verification/Gas_Theorems.thy ===== *)
theory Gas_Theorems
  imports Example_Crates
begin

text \<open>
  The gas account in integers: when the 64-bit sums of the source do not wrap, and what its
  operations do to the gas used and the gas left.
\<close>

section \<open>Signed arithmetic\<close>

lemma sint_range: "- (2 ^ 63) \<le> sint (a :: i64)" "sint (a :: i64) < 2 ^ 63"
  using sint_ge [of a] sint_lt [of a] by simp_all

lemma sint_diff:
  fixes a b :: i64
  assumes "- (2 ^ 63) \<le> sint a - sint b" "sint a - sint b < 2 ^ 63"
  shows "sint (a - b) = sint a - sint b"
  using assms by (simp add: sint_word_ariths signed_take_bit_int_eq_self)

lemma sint_sum:
  fixes a b :: i64
  assumes "- (2 ^ 63) \<le> sint a + sint b" "sint a + sint b < 2 ^ 63"
  shows "sint (a + b) = sint a + sint b"
  using assms by (simp add: sint_word_ariths signed_take_bit_int_eq_self)

section \<open>The limit\<close>

lemma new_gas_limit_used: "get_gas_used_full (new_gas_limit limit g) = get_gas_used_full g"
  by (simp add: get_gas_used_full_def new_gas_limit_def Let_def)

lemma new_gas_limit_limit:
  "sint (gas_limit (new_gas_limit limit g)) = max 0 (min (sint limit) (sint (gas_limit_max g)))"
  by (auto simp: new_gas_limit_def signed_max_def signed_min_def Let_def)

lemma new_gas_limit_remaining:
  assumes "0 \<le> sint (get_gas_used_full g)"
  shows "sint (gas_remaining (new_gas_limit limit g)) =
    max 0 (min (sint limit) (sint (gas_limit_max g))) - sint (get_gas_used_full g)"
proof -
  let ?l = "gas_limit (new_gas_limit limit g)"
  have "gas_remaining (new_gas_limit limit g) = ?l - get_gas_used_full g"
    by (simp add: new_gas_limit_def Let_def get_gas_used_full_def)
  moreover have "sint (?l - get_gas_used_full g) = sint ?l - sint (get_gas_used_full g)"
    using assms sint_range [of ?l] sint_range [of "get_gas_used_full g"]
    by (intro sint_diff) (simp_all add: new_gas_limit_limit)
  ultimately show ?thesis by (simp add: new_gas_limit_limit)
qed

text \<open>C11: changing the gas limit never changes the gas used.  A limit below the gas already used is
  refused with \<open>OutOfGas\<close> and nothing changes; any other limit is cut to the range from 0 to the
  maximum of the account, the credit is cleared, and the gas left is exactly the new limit less the
  gas used, without wrapping; it is negative, and the machine stops, just when the cut limit does not
  cover the gas used.  The check is of the limit that was asked for, not of the cut one, so in that case the
  new limit is set before the machine stops.\<close>

theorem setgaslimit_account:
  assumes "0 \<le> sint (gas_used e)"
  shows "\<exists>e'. setgaslimit limit e = (if sint limit < sint (gas_used e) then err OutOfGas else Inr (), e') \<and>
    gas_used e' = gas_used e \<and>
    (sint limit < sint (gas_used e) \<longrightarrow> e' = e) \<and>
    (sint (gas_used e) \<le> sint limit \<longrightarrow>
      sint (gas_limit (egas e')) = max 0 (min (sint limit) (sint (gas_limit_max (egas e)))) \<and>
      gas_credit (egas e') = 0 \<and>
      sint (gas_remaining (egas e')) = sint (gas_limit (egas e')) - sint (gas_used e) \<and>
      (is_ok (check_gas_remaining (egas e')) \<longleftrightarrow> sint (gas_used e) \<le> sint (gas_limit (egas e'))))"
proof (cases "sint limit < sint (gas_used e)")
  case True
  then show ?thesis by (simp add: setgaslimit_def)
next
  case False
  let ?g = "new_gas_limit limit (egas e)"
  have "setgaslimit limit e = (Inr (), e \<lparr> egas := ?g \<rparr>)" using False by (simp add: setgaslimit_def)
  moreover have "gas_credit ?g = 0" by (simp add: new_gas_limit_def Let_def)
  ultimately show ?thesis
    using False new_gas_limit_used new_gas_limit_remaining [of "egas e" limit] assms
    by (auto simp: gas_used_def new_gas_limit_limit check_gas_remaining_def)
qed

theorem setgaslimit_account_witness:
  "\<exists>e'. setgaslimit 700 ((with_capabilities octet_crates 0) \<lparr> egas := gas_test \<rparr>) = (Inr (), e') \<and>
     sint (gas_remaining (egas e')) = 700"
  using setgaslimit_account [of "(with_capabilities octet_crates 0) \<lparr> egas := gas_test \<rparr>" 700]
  by (auto simp: gas_used_def get_gas_used_full_def gas_test_def)

text \<open>C12: the gas bought for an amount is its quotient by the price, rounded down, and saturates at the
  largest 64-bit number instead of wrapping.\<close>

theorem gramtogas_saturates:
  assumes "0 \<le> n" "integer_ok (Value n)" "0 < sint (gas_price g)"
  shows "\<exists>w. gramtogas (Value n) g = Inr w \<and> sint w = min (n div sint (gas_price g)) (2 ^ 63 - 1)"
proof -
  let ?p = "sint (gas_price g)"
  have div: "n sdiv ?p = n div ?p" "n smod ?p = n mod ?p"
    using assms(1,3) by (cases "n = 0"; simp add: signed_divide_int_def signed_modulo_int_def)+
  have q: "0 \<le> n div ?p" "n div ?p \<le> n" "0 \<le> n mod ?p" "n mod ?p \<le> n"
    using assms(1,3) by (simp_all add: pos_imp_zdiv_nonneg_iff int_div_less_self zdiv_mono2 zmod_le_nonneg_dividend
      div_by_1 order_trans [OF zdiv_mono2 [of n 1]])
  have "integer_ok (Value (n div ?p))" "integer_ok (Value (n mod ?p))"
    using q assms(2) unfolding integer_ok.simps by linarith+
  then have "integer_div Quiet (Value n) (Value ?p) FloorToZero = Inr (Value (n div ?p), Value (n mod ?p))"
    using assms(3) by (simp add: integer_div_def unary_op_def process_double_result_def integer_from_eq div
      del: integer_ok.simps)
  moreover have "sint (word_of_int v :: i64) = v" if "0 \<le> v" "v < 2 ^ 63" for v
    using that by (simp add: sint_sbintrunc' signed_take_bit_int_eq_self)
  ultimately show ?thesis
    using q(1) by (auto simp: gramtogas_def to_primitive_def I64_MAX_def)
qed

theorem gramtogas_saturates_witness:
  "\<exists>w. gramtogas (Value 12345) gas_test = Inr w \<and> sint w = 1234"
  using gramtogas_saturates [of 12345 gas_test] by (simp add: gas_test_def)

end
