(* ===== verification/Run_Theorems.thy ===== *)
theory Run_Theorems
  imports Control_Theorems Gas_Theorems
begin

text \<open>
  How a run ends: a machine at the end of its code unwinds the calls it is in and stops with the exit
  code of the outermost continuation; a machine whose gas is spent stops with that error whatever
  handler of exceptions is installed; and what an installed handler receives.
\<close>

section \<open>Unwinding\<close>










section \<open>Running out of gas\<close>

definition out_of_gas :: "('c, 's, 'b) tvm_error \<Rightarrow> bool" where
  "out_of_gas er \<longleftrightarrow> (\<exists>ex. tvm_exception_full er = Some ex \<and> exception_code_of (exception ex) = Some OutOfGas)"

lemma out_of_gas_dispatch:
  "out_of_gas er \<Longrightarrow> dispatch_error T er e = (Inl er, e \<lparr> step := step e + 1 \<rparr>)"
  by (auto simp: out_of_gas_def dispatch_error_def raise_exception_bugfix0_def raise_exception_def continueE_def
    charge_exception_def exec_simps inc_step_def split: option.splits)

lemma out_of_gas_check: "check_gas_remaining g = Inl er \<Longrightarrow> out_of_gas er"
  by (auto simp: check_gas_remaining_def out_of_gas_def from_code_and_value_def split: if_splits)

lemma use_exception_gas:
  assumes "- (2 ^ 63) + 50 \<le> sint (gas_remaining g)"
  shows "sint (gas_remaining (use_gas exception_price g)) = sint (gas_remaining g) - 50"
proof -
  have "sint (gas_remaining g - 50) = sint (gas_remaining g) - sint (50 :: i64)"
    by (rule sint_diff) (use assms sint_range [of "gas_remaining g"] in simp_all)
  then show ?thesis by (simp add: use_gas_def exception_price_def EXCEPTION_GAS_PRICE_def)
qed

text \<open>An exception whose price the balance does not cover becomes the error of spent gas.\<close>

lemma unpaid_dispatch:
  fixes T :: "('c, 's, 'b, 'h) ton"
  assumes "tvm_exception_full er = Some ex" "sint (gas_remaining (egas e)) < 50" "- (2 ^ 63) + 50 \<le> sint (gas_remaining (egas e))"
  shows "\<exists>er' n g. dispatch_error T er e = (Inl er', e \<lparr> step := n, egas := g \<rparr>) \<and> out_of_gas er'"
proof (cases "exception_code_of (exception ex) = Some OutOfGas")
  case True
  then have "out_of_gas er" using assms(1) by (simp add: out_of_gas_def)
  from out_of_gas_dispatch [OF this, of T e] \<open>out_of_gas er\<close> show ?thesis
    by (intro exI [of _ er] exI [of _ "step e + 1"] exI [of _ "egas e"]) simp
next
  case False
  let ?g = "use_gas exception_price (egas e)"
  obtain er' where check: "check_gas_remaining ?g = (Inl er' :: ('c, 's, 'b) tvm_error + int option)"
    using use_exception_gas [OF assms(3)] assms(2) by (auto simp: check_gas_remaining_def)
  define n where "n = (if exception_code_of (exception ex) = None then step e + 1 else step e + 2)"
  have "charge_exception er e = (Inl er', e \<lparr> step := n, egas := ?g \<rparr>)"
    using assms(1) False check by (cases "exception_code_of (exception ex)") (simp_all add: charge_exception_def exec_simps
      inc_step_def try_use_gas_def gas_try_use_gas_def Let_def whenE_def n_def)
  then have "dispatch_error T er e = (Inl er', e \<lparr> step := n, egas := ?g \<rparr>)"
    by (simp add: dispatch_error_def raise_exception_bugfix0_def raise_exception_def continueE_def exec_simps)
  then show ?thesis using out_of_gas_check [OF check] by blast
qed

lemma foreign_dispatch: "tvm_exception_full er = None \<Longrightarrow> dispatch_error T er e = (Inl er, e)"
  by (simp add: dispatch_error_def raise_exception_bugfix0_def raise_exception_def continueE_def charge_exception_def exec_simps)

text \<open>C8: spent gas is never caught.  When an instruction succeeds with a negative balance, or fails, with
  whatever error, and the balance does not cover the price of an exception, or fails because the gas is spent, the run ends
  there, whatever handler of exceptions is installed.  It ends with the error of spent gas, but for an error that
  is no exception of the machine, which ends the run as it is.  The registers, the continuation with its stack and
  the committed state are those the instruction left, so nothing is committed by the run's end.\<close>

theorem out_of_gas_ends_run:
  fixes T :: "('c, 's, 'b, 'h) ton"
  assumes "remaining_bits T (code_of (cc e)) \<noteq> 0"
    "search (e \<lparr> cmd_code_proto := slice_proto_from T (code_of (cc e)) \<rparr>) = (Inr h, e1)" "h e1 = (r, e2)"
    "sint (gas_remaining (egas e2)) < (if is_ok r then 0 else 50) \<or> (\<exists>er. r = Inl er \<and> out_of_gas (update_error_description er))"
    "- (2 ^ 63) + 50 \<le> sint (gas_remaining (egas e2))"
  shows "\<exists>er e'. execute T search (Suc n) e = (Inl er, e') \<and>
    (out_of_gas er \<or> tvm_exception_full er = None \<and> (\<exists>er'. r = Inl er' \<and> er = update_error_description er')) \<and>
    ctrls e' = ctrls e2 \<and> cc e' = cc e2 \<and> cstate e' = cstate e2"
proof -
  let ?e = "e2 \<lparr> cmd := (cmd e2) \<lparr> params := [] \<rparr> \<rparr>"
  define er where "er = (case r of Inl er \<Rightarrow> update_error_description er
    | Inr _ \<Rightarrow> (case check_gas_remaining (egas e2) of Inl er \<Rightarrow> er | Inr _ \<Rightarrow> Panic))"
  have ok: "check_gas_remaining (egas e2) = (Inl er :: ('c, 's, 'b) tvm_error + int option) \<and> out_of_gas er" if "is_ok r"
    using that assms(4) by (cases r) (auto simp: er_def check_gas_remaining_def out_of_gas_def from_code_and_value_def)
  have run: "run_cmd T search e = thenE (dispatch_error T er) (returnE ()) ?e"
  proof (cases r)
    case (Inl er0)
    then show ?thesis using assms(2,3) by (simp add: run_cmd_def Let_def exec_simps clear_params_def er_def)
  next
    case (Inr u)
    then show ?thesis using assms(2,3) ok by (simp add: run_cmd_def Let_def exec_simps clear_params_def)
  qed
  obtain er' e' where last: "dispatch_error T er ?e = (Inl er', e')" "ctrls e' = ctrls e2" "cc e' = cc e2" "cstate e' = cstate e2"
    "out_of_gas er' \<or> tvm_exception_full er' = None \<and> (\<exists>er'. r = Inl er' \<and> er = update_error_description er') \<and> er' = er"
  proof (cases "out_of_gas er")
    case True
    then show ?thesis using out_of_gas_dispatch [OF True, of T ?e] that by simp
  next
    case False
    then have "\<not> is_ok r" using ok by blast
    then obtain er0 where r: "r = Inl er0" "er = update_error_description er0" by (cases r) (simp_all add: er_def)
    show ?thesis
    proof (cases "tvm_exception_full er")
      case None
      then show ?thesis using foreign_dispatch [OF None, of T ?e] r that by auto
    next
      case (Some ex)
      have "sint (gas_remaining (egas ?e)) < 50" using assms(4) False r by (auto split: if_splits)
      then show ?thesis using unpaid_dispatch [OF Some, of ?e T] assms(5) that by fastforce
    qed
  qed
  have "seek_next_cmd T n e = (Inr None, e)" using assms(1) by (cases n) simp_all
  then show ?thesis using last run by (auto simp: execute_def exec_simps)
qed

theorem out_of_gas_ends_run_witness:
  "\<exists>er e'. execute octet_crates (returnE (execute_setcpx octet_crates)) 4 ((with_capabilities octet_crates 1)
      \<lparr> cc := with_code [0x00, 0x00], egas := gas_test \<lparr> gas_remaining := 5 \<rparr>,
        ctrls := savelist_new[2 := Some (Item_Continuation (with_code [0x00]))] \<rparr>) = (Inl er, e') \<and> out_of_gas er \<and>
     ctrls e' ! 2 = Some (Item_Continuation (with_code [0x00]))"
proof -
  define e where "e = (with_capabilities octet_crates 1) \<lparr> cc := with_code [0x00, 0x00], egas := gas_test \<lparr> gas_remaining := 5 \<rparr>,
      ctrls := savelist_new[2 := Some (Item_Continuation (with_code [0x00]))] \<rparr>"
  define e1 where "e1 = e \<lparr> cmd_code_proto := slice_proto_from octet_crates (code_of (cc e)) \<rparr>"
  obtain r e2 where h: "execute_setcpx octet_crates e1 = (r, e2)" by fastforce
  have "r = Inl (exc StackUnderflow) \<and> sint (gas_remaining (egas e2)) = - 5 \<and> ctrls e2 = ctrls e"
    using h by (auto simp: execute_setcpx_def load_def load_instruction_def extract_instruction_def basic_use_gas_def engine_use_gas_def
      exec_simps instr_new_def e1_def e_def octet_crates_def slice_proto_from_def with_capabilities_def use_gas_def basic_gas_price_def
      gas_test_def with_code_def errE_def fetch_stack_def stack_depth_def depth_def cc_stack_def)
  then have r: "r = Inl (exc StackUnderflow)" and spent: "sint (gas_remaining (egas e2)) = - 5" and c2: "ctrls e2 = ctrls e" by auto
  have code: "remaining_bits octet_crates (code_of (cc e)) \<noteq> 0" "ctrls e ! 2 = Some (Item_Continuation (with_code [0x00]))"
    by (simp_all add: e_def octet_crates_def with_code_def)
  have found: "returnE (execute_setcpx octet_crates) (e \<lparr> cmd_code_proto := slice_proto_from octet_crates (code_of (cc e)) \<rparr>) =
      (Inr (execute_setcpx octet_crates), e1)" by (simp add: exec_simps e1_def)
  have "sint (gas_remaining (egas e2)) < (if is_ok r then 0 else 50) \<or> (\<exists>er. r = Inl er \<and> out_of_gas (update_error_description er))"
    "- (2 ^ 63) + 50 \<le> sint (gas_remaining (egas e2))" by (simp_all add: spent r)
  from out_of_gas_ends_run [where search = "returnE (execute_setcpx octet_crates)" and n = 3, OF code(1) found h this] show ?thesis
    using code(2) c2 r unfolding e_def [symmetric] by (auto simp: eval_nat_numeral exc_def)
qed

section \<open>Handlers of exceptions\<close>

lemma addr_neq: "i < 16 \<Longrightarrow> j < 16 \<Longrightarrow> var_addr i \<noteq> ctrl_addr j"
  using addr_tag [of i] addr_tag [of j] tags_distinct by metis

text \<open>A continuation that asks for as many items as are on top of the stack takes them, for free up to the free depth.\<close>

lemma free_stack_price: "n \<le> 32 \<Longrightarrow> 0 \<le> sint (gas_remaining (egas e)) \<Longrightarrow> try_use_gas (stack_price n) e = (Inr (), e)"
  by (simp add: try_use_gas_def gas_try_use_gas_def use_gas_def check_gas_remaining_def stack_price_def FREE_STACK_DEPTH_def Let_def)

lemma pop_top_var:
  assumes "i < 16" "i < length (vars (cmd e))" "vars (cmd e) ! i = Item_Continuation k" "nargs_of k = int (length xs)" "xs \<noteq> []"
    "length (stack_of k) + length xs \<le> 32" "params (cmd e) = []" "cc_stack e = st @ xs" "0 \<le> sint (gas_remaining (egas e))"
  shows "pop_all (var_addr i) e =
    (Inr (), var_set i (Item_Continuation (set_nargs 0 (set_stack (stack_of k @ xs) k))) (upd_stack (\<lambda>_. st) e))"
proof -
  have gas: "try_use_gas (stack_price (length xs)) e = (Inr (), e)"
      "try_use_gas (stack_price (length xs + length (stack_of k))) e = (Inr (), e)"
    using assms(6,9) by (simp_all add: free_stack_price)
  show ?thesis using assms(1-5,7,8) gas
    by (cases k; cases "stack_of k = []"; cases "st = []") (auto simp: pop_all_defs first_param_def whenE_def)
qed

lemma switch_var:
  assumes "pop_all (var_addr i) e1 = (Inr (), e2)" "i < 16" "i < length (vars (cmd e2))" "vars (cmd e2) ! i = Item_Continuation k"
  shows "\<exists>e'. switch T (var_addr i) e1 = (Inr (), e') \<and> code_of (cc e') = code_of k \<and> type_of (cc e') = type_of k \<and>
    cc_stack e' = stack_of k \<and> ctrls e' = fst (savelist_apply (ctrls e2) (savelist_of k)) \<and> egas e' = egas e2"
  using assms swap_var_cc [OF assms(2-4)]
  by (cases k) (simp add: switch_def exec_simps var_set_def apply_savelist_def Let_def cc_stack_def addr_neq whenE_def
    split: prod.split)

lemma charge_exception_run:
  assumes "tvm_exception_full er = Some ex" "exception_code_of (exception ex) \<noteq> Some OutOfGas"
    "50 \<le> sint (gas_remaining (egas e))"
  shows "\<exists>n. charge_exception er e = (Inr ex, e \<lparr> step := n, egas := use_gas exception_price (egas e) \<rparr>)"
proof -
  define n where "n = (if exception_code_of (exception ex) = None then step e else step e + 1)"
  have "charge_exception er e = (Inr ex, e \<lparr> step := n, egas := use_gas exception_price (egas e) \<rparr>)"
    using assms use_exception_gas [of "egas e"]
    by (cases "exception_code_of (exception ex)") (simp_all add: charge_exception_def exec_simps inc_step_def try_use_gas_def
      gas_try_use_gas_def Let_def check_gas_remaining_def whenE_def n_def)
  then show ?thesis by blast
qed

text \<open>The part both kinds of handlers share: the continuation of \<open>c2\<close> in a variable, the exception on the stack.\<close>

definition at_handler :: "('c, 's, 'b, 'h) ton \<Rightarrow> ('c, 's, 'b) exception_data \<Rightarrow> ('c, 's, 'b) continuation_data \<Rightarrow>
  ('c, 's, 'b, 'h) engine \<Rightarrow> ('c, 's, 'b, 'h) engine \<Rightarrow> bool" where
  "at_handler T ex k e e1 \<longleftrightarrow> vars (cmd e1) = vars (cmd e) @ [Item_Continuation (catch_nargs k)] \<and> params (cmd e1) = params (cmd e) \<and>
     cc_stack e1 = cc_stack e @ [exc_value ex, item_int (exception_or_custom_code (code_number T) (exception ex))] \<and>
     ctrls e1 = (ctrls e)[2 := None] \<and> egas e1 = use_gas exception_price (egas e)"

lemma dispatch_at_handler:
  assumes "bugfixes2022 T e" "tvm_exception_full er = Some ex" "exception_code_of (exception ex) \<noteq> Some OutOfGas"
    "length (ctrls e) = 7" "ctrls e ! 2 = Some (Item_Continuation k)" "type_of k \<noteq> ExcQuit" "50 \<le> sint (gas_remaining (egas e))"
  shows "\<exists>e1. at_handler T ex k e e1 \<and> dispatch_error T er e = continueE (switch T (var_addr (length (vars (cmd e))))) e1"
proof -
  let ?xy = "[exc_value ex, item_int (exception_or_custom_code (code_number T) (exception ex))]"
  obtain n where charged: "charge_exception er e = (Inr ex, e \<lparr> step := n, egas := use_gas exception_price (egas e) \<rparr>)"
    using charge_exception_run [OF assms(2,3,7)] by blast
  define e1 where "e1 = e \<lparr> step := n, egas := use_gas exception_price (egas e), ctrls := (ctrls e)[2 := None],
    cc := set_stack (cc_stack e @ ?xy) (cc e), cmd := (cmd e) \<lparr> vars := vars (cmd e) @ [Item_Continuation (catch_nargs k)] \<rparr> \<rparr>"
  have "is_exc_quit (Item_Continuation k) = False" using assms(6) by (simp add: is_exc_quit_def)
  then have "dispatch_error T er e = continueE (switch T (var_addr (length (vars (cmd e))))) e1"
    using assms(1,4,5) charged
    by (simp add: dispatch_error_def raise_exception_bugfix0_def exec_simps var_count_def ctrls_remove_def savelist_remove_def adjust_def
      continueE_def push_var_def push_exception_def push_item_def upd_cont_var_def cont_var_def cmd_var_def set_var_def e1_def upd_stack_def
      push_def cc_stack_def split: prod.split sum.split)
  moreover have "at_handler T ex k e e1" by (simp add: at_handler_def e1_def cc_stack_def)
  ultimately show ?thesis by blast
qed

text \<open>What a handler finds on its stack: an ordinary one the two items of the exception on top of its own, the one of
  \<open>TRYKEEP\<close> the whole stack below them.\<close>

lemma handler_entered:
  assumes at: "at_handler T ex k e e1" and vars: "length (vars (cmd e)) < 16" and params: "params (cmd e) = []"
    and k: "if \<exists>d. type_of k = CatchRevert d then plain k else length (stack_of k) \<le> 30"
    and gas: "50 \<le> sint (gas_remaining (egas e))"
  shows "\<exists>e'. switch T (var_addr (length (vars (cmd e)))) e1 = (Inr (), e') \<and> code_of (cc e') = code_of k \<and> type_of (cc e') = type_of k \<and>
    cc_stack e' = (case type_of k of CatchRevert _ \<Rightarrow> cc_stack e | _ \<Rightarrow> stack_of k) @
      [exc_value ex, item_int (exception_or_custom_code (code_number T) (exception ex))] \<and>
    ctrls e' = fst (savelist_apply ((ctrls e)[2 := None]) (savelist_of k)) \<and> egas e' = use_gas exception_price (egas e)"
proof (cases "\<exists>d. type_of k = CatchRevert d")
  case True
  let ?i = "length (vars (cmd e))"
  have "catch_nargs k = k" "plain k" using True k by (auto simp: catch_nargs_def)
  then have "pop_all (var_addr ?i) e1 = (Inr (), var_set ?i (Item_Continuation (set_stack (cc_stack e1) k)) (upd_stack (\<lambda>_. []) e1))"
    using at vars params by (intro pop_all_var) (simp_all add: at_handler_def first_param_def)
  from switch_var [OF this, where k = "set_stack (cc_stack e1) k" and T = T] show ?thesis
    using at vars True by (cases k) (auto simp: at_handler_def var_set_def upd_stack_def)
next
  case False
  let ?i = "length (vars (cmd e))" and ?xy = "[exc_value ex, item_int (exception_or_custom_code (code_number T) (exception ex))]"
  have nargs: "catch_nargs k = set_nargs 2 k" using False by (auto simp: catch_nargs_def split: continuation_type.split)
  define k2 where "k2 = set_nargs 0 (set_stack (stack_of k @ ?xy) (set_nargs 2 k))"
  have "pop_all (var_addr ?i) e1 = (Inr (), var_set ?i (Item_Continuation (set_nargs 0 (set_stack (stack_of (set_nargs 2 k) @ ?xy)
      (set_nargs 2 k)))) (upd_stack (\<lambda>_. cc_stack e) e1))"
    by (rule pop_top_var) (use at vars params k False nargs gas use_exception_gas [of "egas e"] in \<open>simp_all add: at_handler_def\<close>)
  then have "pop_all (var_addr ?i) e1 = (Inr (), var_set ?i (Item_Continuation k2) (upd_stack (\<lambda>_. cc_stack e) e1))"
    by (simp add: k2_def)
  from switch_var [OF this, where k = k2 and T = T] show ?thesis
    using at vars False by (cases k) (auto simp: at_handler_def var_set_def upd_stack_def k2_def split: continuation_type.split)
qed

text \<open>The default of \<open>c2\<close> is not entered: it quits on an exception that is a normal termination, and ends the run with any other.\<close>

lemma default_handler:
  assumes "bugfixes2022 T e" "tvm_exception_full er = Some ex" "exception_code_of (exception ex) \<noteq> Some OutOfGas"
    "length (ctrls e) = 7" "ctrls e ! 2 = Some (Item_Continuation k)" "type_of k = ExcQuit" "50 \<le> sint (gas_remaining (egas e))"
    "length (vars (cmd e)) < 16" "params (cmd e) = []"
  shows "\<exists>e'. dispatch_error T er e =
      (case is_normal_termination (exception ex) of Some q \<Rightarrow> Inr None | None \<Rightarrow> Inl (TvmExceptionFull ex), e') \<and>
    (case is_normal_termination (exception ex) of Some q \<Rightarrow> type_of (cc e') = Quit q \<and> cc_stack e' = [exc_value ex]
     | None \<Rightarrow> cc_stack e' = [exc_value ex, item_int (exception_or_custom_code (code_number T) (exception ex))]) \<and>
    ctrls e' = (ctrls e)[2 := None] \<and> egas e' = use_gas exception_price (egas e)"
proof -
  obtain n where charged: "charge_exception er e = (Inr ex, e \<lparr> step := n, egas := use_gas exception_price (egas e) \<rparr>)"
    using charge_exception_run [OF assms(2,3,7)] by blast
  note run = dispatch_error_def raise_exception_bugfix0_def exec_simps var_count_def ctrls_remove_def savelist_remove_def adjust_def
    is_exc_quit_def continueE_def push_exception_def push_item_def upd_stack_def push_def cc_stack_def
  show ?thesis
  proof (cases "is_normal_termination (exception ex)")
    case None
    then show ?thesis using assms(1,4-6) charged by (simp add: run)
  next
    case (Some q)
    let ?i = "length (vars (cmd e))" and ?k = "set_nargs 1 (with_type (slice_default T) (Quit q))"
    define e1 where "e1 = e \<lparr> step := n, egas := use_gas exception_price (egas e), ctrls := (ctrls e)[2 := None],
      cc := set_stack (cc_stack e @ [exc_value ex]) (cc e), cmd := (cmd e) \<lparr> vars := vars (cmd e) @ [Item_Continuation ?k] \<rparr> \<rparr>"
    have "dispatch_error T er e = continueE (switch T (var_addr ?i)) e1"
      using assms(1,4-6) charged Some by (simp add: run quit_with_def push_typed_def push_var_def upd_cont_var_def cont_var_def
        cmd_var_def set_var_def e1_def split: prod.split sum.split)
    moreover have "pop_all (var_addr ?i) e1 = (Inr (), var_set ?i (Item_Continuation (set_nargs 0 (set_stack (stack_of ?k @ [exc_value ex])
        ?k))) (upd_stack (\<lambda>_. cc_stack e) e1))"
      by (rule pop_top_var) (use assms(7-9) use_exception_gas [of "egas e"] in \<open>simp_all add: e1_def cc_stack_def with_type_def\<close>)
    from switch_var [OF this, where k = "set_nargs 0 (set_stack (stack_of ?k @ [exc_value ex]) ?k)" and T = T]
    obtain e' where "switch T (var_addr ?i) e1 = (Inr (), e')" "type_of (cc e') = Quit q" "cc_stack e' = [exc_value ex]"
      "ctrls e' = (ctrls e)[2 := None]" "egas e' = use_gas exception_price (egas e)"
      using assms(4,8) by (auto simp: e1_def var_set_def upd_stack_def with_type_def savelist_apply_empty)
    ultimately show ?thesis using Some by (simp add: continueE_def exec_simps)
  qed
qed

text \<open>C9: what an exception other than spent gas does with the capability for the bug fixes, by the continuation in \<open>c2\<close>, for
  fifty units of gas.  A handler is entered whatever was on the stack, with \<open>c2\<close> cleared and its own saved registers
  restored: an ordinary one starts with the value and the number of the exception on top of its own stack, which is all
  of the machine's stack it sees, and the handler of \<open>TRYKEEP\<close> with the whole stack below them.  The own stack of an ordinary handler has at most thirty items,
  and a handler of \<open>TRYKEEP\<close> is one as \<open>TRYKEEP\<close> makes it, without arguments or a stack of its own.  The default \<open>ExcQuit\<close> is not
  entered: it quits with the value on the stack when the exception is a normal termination, and any other exception
  ends the run with the value and the number on the stack.\<close>

theorem exception_reaches_handler:
  fixes T :: "('c, 's, 'b, 'h) ton"
  assumes "bugfixes2022 T e" "tvm_exception_full er = Some ex" "exception_code_of (exception ex) \<noteq> Some OutOfGas"
    "length (ctrls e) = 7" "ctrls e ! 2 = Some (Item_Continuation k)"
    "if \<exists>d. type_of k = CatchRevert d then plain k else length (stack_of k) \<le> 30"
    "length (vars (cmd e)) < 16" "params (cmd e) = []" "50 \<le> sint (gas_remaining (egas e))"
  shows "\<exists>r e'. dispatch_error T er e = (r, e') \<and> sint (gas_remaining (egas e')) = sint (gas_remaining (egas e)) - 50 \<and>
    (let v = exc_value ex; x = item_int (exception_or_custom_code (code_number T) (exception ex)) in
     if type_of k = ExcQuit
     then ctrls e' = (ctrls e)[2 := None] \<and>
       (case is_normal_termination (exception ex) of
          Some q \<Rightarrow> r = Inr None \<and> type_of (cc e') = Quit q \<and> cc_stack e' = [v]
        | None \<Rightarrow> r = Inl (TvmExceptionFull ex) \<and> cc_stack e' = [v, x])
     else r = Inr None \<and> code_of (cc e') = code_of k \<and> type_of (cc e') = type_of k \<and>
       ctrls e' = fst (savelist_apply ((ctrls e)[2 := None]) (savelist_of k)) \<and>
       cc_stack e' = (case type_of k of CatchRevert _ \<Rightarrow> cc_stack e | _ \<Rightarrow> stack_of k) @ [v, x])"
proof (cases "type_of k = ExcQuit")
  case True
  then show ?thesis
    using default_handler [OF assms(1-5) True assms(9,7,8)] use_exception_gas [of "egas e"] assms(9)
    by (auto simp: Let_def split: option.splits)
next
  case False
  obtain e1 where e1: "at_handler T ex k e e1" "dispatch_error T er e = continueE (switch T (var_addr (length (vars (cmd e))))) e1"
    using dispatch_at_handler [OF assms(1-5) False assms(9)] by blast
  from handler_entered [OF e1(1) assms(7,8,6,9)] show ?thesis
    using e1(2) False use_exception_gas [of "egas e"] assms(9) by (auto simp: Let_def continueE_def exec_simps)
qed

theorem exception_reaches_handler_witness:
  "\<exists>e'. dispatch_error octet_crates (exc RangeCheckError) ((with_capabilities octet_crates 1)
      \<lparr> cc := set_stack [item_int 8] (with_code []), egas := gas_test,
        ctrls := savelist_new[2 := Some (Item_Continuation (with_code [0x30]))] \<rparr>) = (Inr None, e') \<and>
     code_of (cc e') = [0x30] \<and> cc_stack e' = [item_int 0, item_int 5]"
proof -
  define e where "e = (with_capabilities octet_crates 1) \<lparr> cc := set_stack [item_int 8] (with_code []), egas := gas_test,
    ctrls := savelist_new[2 := Some (Item_Continuation (with_code [0x30]))] \<rparr>"
  have "bugfixes2022 octet_crates e" "length (ctrls e) = 7" "ctrls e ! 2 = Some (Item_Continuation (with_code [0x30]))"
    "length (vars (cmd e)) < 16" "params (cmd e) = []" "50 \<le> sint (gas_remaining (egas e))"
    by (simp_all add: e_def bugfixes2022_def check_capabilities_def octet_crates_def with_capabilities_def savelist_new_simps
      instr_ext_new_def gas_test_def)
  moreover have "tvm_exception_full (exc RangeCheckError :: (unit, u8 list, unit) tvm_error) = Some (from_code RangeCheckError)"
    by (simp add: exc_def)
  moreover have "exception_or_custom_code (code_number octet_crates) (System RangeCheckError) = 5"
    by (simp add: octet_crates_def)
  ultimately show ?thesis
    using exception_reaches_handler [where e = e and T = octet_crates and er = "exc RangeCheckError"
        and ex = "from_code RangeCheckError" and k = "with_code [0x30]"]
    unfolding e_def [symmetric]
    by (auto simp: from_code_def from_code_and_value_def with_code_def item_int_def)
qed

end
