(* ===== verification/Gas_Balance.thy ===== *)
theory Gas_Balance
  imports Run_Theorems
begin

text \<open>
  The machine never goes on with an overdrawn account.  Instructions may charge more than is left,
  since most prices are taken without a check; the loop checks the account after every step, and the dispatch of an
  exception only uses the checked form.
\<close>

section \<open>Actions that keep the account in balance\<close>

definition balanced :: "('c, 's, 'b, 'h) engine \<Rightarrow> bool" where
  "balanced e \<longleftrightarrow> 0 \<le> sint (gas_remaining (egas e))"

definition solvent :: "('c, 's, 'b, 'h, 'a) action \<Rightarrow> bool" where
  "solvent m \<longleftrightarrow> (\<forall>e x e'. balanced e \<and> m e = (Inr x, e') \<longrightarrow> balanced e')"

named_theorems solvent

lemma solventI: "(\<And>e x e'. balanced e \<Longrightarrow> m e = (Inr x, e') \<Longrightarrow> balanced e') \<Longrightarrow> solvent m"
  unfolding solvent_def by blast

lemma solventD: "solvent m \<Longrightarrow> balanced e \<Longrightarrow> m e = (Inr x, e') \<Longrightarrow> balanced e'"
  unfolding solvent_def by blast

text \<open>An action that leaves the account alone.\<close>

lemma solvent_keeps: "(\<And>e. egas (snd (m e)) = egas e) \<Longrightarrow> solvent m"
  by (rule solventI) (metis balanced_def snd_conv)

lemma solvent_basic [solvent]:
  "solvent (returnE x)" "solvent (throwE er)" "solvent (errE c)" "solvent (liftE r)" "solvent (getE f)"
  by (rule solvent_keeps; simp add: returnE_def throwE_def errE_def liftE_def getE_def)+

lemma solvent_modify: "(\<And>e. egas (g e) = egas e) \<Longrightarrow> solvent (modifyE g)"
  by (rule solvent_keeps) (simp add: modifyE_def)

lemma solvent_bind [solvent]:
  assumes "solvent m" "\<And>x. solvent (f x)"
  shows "solvent (bindE m f)"
proof (rule solventI)
  fix e x e'
  assume e: "balanced e" "bindE m f e = (Inr x, e')"
  then obtain y e1 where "m e = (Inr y, e1)" "f y e1 = (Inr x, e')" by (auto simp: bindE_def split: prod.splits sum.splits)
  then show "balanced e'" using solventD [OF assms(1) e(1)] solventD [OF assms(2)] by blast
qed

lemma solvent_then [solvent]: "solvent m \<Longrightarrow> solvent n \<Longrightarrow> solvent (thenE m n)"
  unfolding thenE_def by (rule solvent_bind)

lemma solvent_branch [solvent]:
  "solvent m \<Longrightarrow> solvent n \<Longrightarrow> solvent (if b then m else n)"
  "solvent n \<Longrightarrow> (\<And>y. solvent (g y)) \<Longrightarrow> solvent (case x of None \<Rightarrow> n | Some y \<Rightarrow> g y)"
  "(\<And>a b. solvent (h a b)) \<Longrightarrow> solvent (case p of (a, b) \<Rightarrow> h a b)"
  "solvent l \<Longrightarrow> solvent (whenE b l)"
  by (simp_all add: whenE_def solvent_basic split: option.split prod.split)

lemma solvent_seq [solvent]: "list_all solvent ms \<Longrightarrow> solvent (seqE ms)"
  by (induction ms) (simp_all add: solvent)

text \<open>The checked charge refuses what would overdraw the account.\<close>

lemma charge_in_balance: "try_use_gas n e = (Inr x, e') \<Longrightarrow> balanced e'"
  by (auto simp: try_use_gas_def gas_try_use_gas_def check_gas_remaining_def Let_def balanced_def split: if_splits)

lemma solvent_charge [solvent]: "solvent (try_use_gas n)"
  by (rule solventI) (rule charge_in_balance)

section \<open>The micro-operations\<close>

lemma solvent_access [solvent]:
  "solvent (cmd_var i)" "solvent (set_var i x)" "solvent (ctrl_get i)" "solvent (set_ctrl i x)" "solvent (ctrls_put i x)"
  "solvent (ctrls_remove i)" "solvent (push_var x)" "solvent (push_item x)" "solvent (upd_cc f)" "solvent var_count"
  "solvent stack_depth" "solvent (cmd_param g)" "solvent (swap_vars i j)" "solvent apply_savelist"
  "solvent (modifyE (upd_stack h))" "solvent (modifyE (\<lambda>e. e \<lparr> ctrls := sl \<rparr>))" "solvent (modifyE (\<lambda>e. e \<lparr> cc := k \<rparr>))"
  by (rule solvent_keeps; simp add: cmd_var_def set_var_def ctrl_get_def set_ctrl_def ctrls_put_def ctrls_remove_def push_var_def
    push_item_def upd_cc_def var_count_def stack_depth_def cmd_param_def swap_vars_def apply_savelist_def upd_stack_def
    modifyE_def getE_def split: sum.split prod.split)+

lemma solvent_address [solvent]:
  "solvent (item_by_address a)" "solvent (continuation_by_address a)" "solvent (set_continuation_by_address a k)"
  "solvent (swap_cc_with a)" "solvent (move_stack_from_cc a i j)"
  unfolding item_by_address_def continuation_by_address_def set_continuation_by_address_def swap_cc_with_def
    move_stack_from_cc_def Let_def
  by (intro solvent)+

lemma solvent_pop_all [solvent]: "solvent (pop_all a)"
  unfolding pop_all_def pop_range_def Let_def by (intro solvent)

lemma solvent_info [solvent]:
  "solvent (info_item i)" "solvent (info_set_item i x)" "solvent (info_list i)" "solvent (info_set_list i sl)" "solvent (info_get i)"
  "solvent (put_to_list i x)" "solvent (put_to_list_from_item i j)" "solvent (put_to_list_from_list i j)"
  unfolding info_item_def info_set_item_def info_list_def info_set_list_def info_get_def put_to_list_def
    put_to_list_from_item_def put_to_list_from_list_def Let_def
  by (intro solvent)+

lemma solvent_swap [solvent]: "solvent (swap a b)"
  unfolding swap_def swap_ordered_def swap_with_list_def swap_between_lists_def Let_def by (intro solvent)

lemma solvent_switch [solvent]: "solvent (switch T a)"
  unfolding switch_def Let_def by (intro solvent) (simp add: solvent)

section \<open>Dispatch and steps\<close>

lemma solvent_continue [solvent]: "solvent m \<Longrightarrow> solvent (continueE m)"
  unfolding continueE_def by (intro solvent)

lemma charge_exception_balance: "charge_exception er e = (Inr ex, e') \<Longrightarrow> balanced e'"
  by (auto simp: charge_exception_def exec_simps whenE_def inc_step_def dest: charge_in_balance
    split: option.splits if_splits prod.splits sum.splits)

lemma after_charge:
  assumes "\<And>ex. solvent (f ex)" "bindE (charge_exception er) f e = (Inr x, e')"
  shows "balanced e'"
proof -
  obtain ex e1 where "charge_exception er e = (Inr ex, e1)" "f ex e1 = (Inr x, e')"
    using assms(2) by (auto simp: bindE_def split: prod.splits sum.splits)
  then show ?thesis using charge_exception_balance solventD [OF assms(1)] by blast
qed

lemma dispatch_balance:
  assumes "dispatch_error T er e = (Inr x, e')"
  shows "balanced e'"
proof (cases "bugfixes2022 T e")
  case True
  then have "raise_exception_bugfix0 T er e = (Inr x, e')" using assms by (simp add: dispatch_error_def)
  from this [unfolded raise_exception_bugfix0_def] show ?thesis
    by (rule after_charge [rotated]) (unfold quit_with_def push_typed_def push_exception_def upd_cont_var_def cont_var_def,
      intro solvent; simp add: solvent)
next
  case False
  then have "raise_exception T er e = (Inr (), e')"
    using assms by (auto simp: dispatch_error_def continueE_def exec_simps split: prod.splits sum.splits)
  from this [unfolded raise_exception_def] show ?thesis
    by (rule after_charge [rotated]) (unfold quit_with_def push_typed_def push_exception_def upd_cont_var_def cont_var_def,
      intro solvent; simp add: solvent)
qed

lemma check_balance: "check_gas_remaining (egas e) = Inr x \<Longrightarrow> balanced e"
  by (simp add: check_gas_remaining_def balanced_def split: if_splits)

lemma seek_round_balance: "seek_round T e = (Inr x, e') \<Longrightarrow> balanced e'"
  by (auto simp: seek_round_def is_ok_def bindR_def dest: check_balance dispatch_balance split: prod.splits if_splits sum.splits)

lemma run_cmd_balance: "run_cmd T search e = (Inr x, e') \<Longrightarrow> balanced e'"
  by (auto simp: run_cmd_def Let_def exec_simps clear_params_def balanced_def
    dest: check_balance [unfolded balanced_def] dispatch_balance [unfolded balanced_def]
    split: prod.splits sum.splits option.splits)

lemma seek_next_cmd_balance:
  "seek_next_cmd T n e = (Inr x, e') \<Longrightarrow> (x = None \<and> e' = e) \<or> balanced e'"
proof (induction n arbitrary: e)
  case (Suc n)
  then show ?case by (auto dest: seek_round_balance split: if_splits prod.splits sum.splits option.splits)
qed (auto split: if_splits)

lemma execute_loop_balance: "execute_loop T search n e = (Inr q, e') \<Longrightarrow> balanced e'"
proof (induction n arbitrary: e)
  case (Suc n)
  then show ?case by (auto dest: seek_next_cmd_balance split: prod.splits sum.splits option.splits)
qed simp

text \<open>C27: the machine never goes on with an overdrawn account.  Whatever instructions charge and whatever exceptions they
  raise, the balance is not negative after an explicit instruction or an implicit step after which the machine goes on,
  those that end in the handler of an exception included, and at the end of a run that returns a result.\<close>

theorem never_overdrawn:
  "(run_cmd T search e = (Inr u, e') \<longrightarrow> 0 \<le> sint (gas_remaining (egas e'))) \<and>
   (seek_round T e = (Inr x, e') \<longrightarrow> 0 \<le> sint (gas_remaining (egas e'))) \<and>
   (execute T search fuel e = (Inr q, e') \<longrightarrow> 0 \<le> sint (gas_remaining (egas e')))"
proof (intro conjI impI)
  assume "execute T search fuel e = (Inr q, e')"
  then obtain e1 where "execute_loop T search fuel e = (Inr q, e1)" "egas e' = egas e1"
    by (auto simp: execute_def exec_simps commit_def split: prod.splits sum.splits)
  then show "0 \<le> sint (gas_remaining (egas e'))" using execute_loop_balance [of T search fuel e q e1] by (simp add: balanced_def)
qed (use run_cmd_balance seek_round_balance in \<open>auto simp: balanced_def\<close>)

theorem never_overdrawn_witness:
  "\<exists>e'. execute octet_crates (returnE (execute_nop octet_crates)) 2 ((with_capabilities octet_crates 0)
      \<lparr> cc := with_type [] (Quit 7), egas := gas_test \<lparr> gas_remaining := 5 \<rparr> \<rparr>) = (Inr 7, e') \<and> 0 \<le> sint (gas_remaining (egas e'))"
proof -
  define e where "e = (with_capabilities octet_crates 0) \<lparr> cc := with_type [] (Quit 7), egas := gas_test \<lparr> gas_remaining := 5 \<rparr> \<rparr>"
  have "fst (execute octet_crates (returnE (execute_nop octet_crates)) 2 e) = Inr 7"
    by (simp add: e_def execute_def exec_simps eval_nat_numeral seek_round_def implicit_step_def octet_crates_def with_type_def
      leaves_loop_def check_gas_remaining_def commit_def)
  then obtain e' where "execute octet_crates (returnE (execute_nop octet_crates)) 2 e = (Inr 7, e')"
    by (metis prod.collapse)
  with never_overdrawn [of octet_crates "returnE (execute_nop octet_crates)" e _ e' _ 2 7] show ?thesis
    unfolding e_def [symmetric] by blast
qed

end
