(* ===== verification/Cell_Loading.thy ===== *)
theory Cell_Loading
  imports Example_Crates Gas_Theorems
begin

text \<open>
  Loading cells returns.  The loop of \<open>load_hashed_cell\<close> follows exotic cells until it reaches an
  ordinary one, and the search in a library dictionary loads cells itself; both are bounded by the gas,
  because every exotic cell is paid for before it is followed.
\<close>

section \<open>Metered actions\<close>

definition gas_left :: "('c, 's, 'b, 'h) engine \<Rightarrow> int" where
  "gas_left e = sint (gas_remaining (egas e))"

text \<open>From less than \<open>k\<close> units of gas, an action does not run out of the model's fuel, and when
  it succeeds the account is not overdrawn and has not grown.\<close>

definition metered :: "nat \<Rightarrow> ('c, 's, 'b, 'h, 'a) action \<Rightarrow> bool" where
  "metered k m \<longleftrightarrow> (\<forall>e. 0 \<le> gas_left e \<and> gas_left e < int k \<longrightarrow>
     (case m e of (Inl er, _) \<Rightarrow> er \<noteq> OutOfFuel | (Inr _, e') \<Rightarrow> 0 \<le> gas_left e' \<and> gas_left e' \<le> gas_left e))"

lemma meteredD:
  assumes "metered k m" "m e = (r, e')" "0 \<le> gas_left e" "gas_left e < int k"
  shows "r \<noteq> Inl OutOfFuel \<and> (is_ok r \<longrightarrow> 0 \<le> gas_left e' \<and> gas_left e' \<le> gas_left e)"
  using assms by (cases r) (force simp: metered_def)+

text \<open>What is asked of the crates: their errors are not the model's own, and the search in a
  dictionary spends gas only through the callback.\<close>

definition answers :: "('c, 's, 'b, 'a) ext_result \<Rightarrow> bool" where
  "answers r \<longleftrightarrow> r \<noteq> Inl OutOfFuel"

definition metered_crates :: "('c, 's, 'b, 'h) ton \<Rightarrow> bool" where
  "metered_crates T \<longleftrightarrow>
     (\<forall>s i. answers (slice_reference T s i)) \<and> (\<forall>s. answers (fst (get_next_hash T s))) \<and>
     (\<forall>n s. answers (fst (move_by T n s))) \<and> (\<forall>c. answers (slice_load_cell T c)) \<and>
     (\<forall>c i. answers (cell_reference T c i)) \<and>
     (\<forall>k h key reader. (\<forall>c. metered k (reader c)) \<longrightarrow> metered k (hashmap_get_with_gas T h key reader))"

named_theorems metered

lemma metered_return [metered]: "metered k (returnE x)"
  by (simp add: metered_def returnE_def)

lemma metered_throw: "er \<noteq> OutOfFuel \<Longrightarrow> metered k (throwE er)"
  by (simp add: metered_def throwE_def)

lemma metered_err [metered]: "metered k (errE c)"
  by (simp add: errE_def metered_throw exc_def)

lemma metered_lift: "answers r \<Longrightarrow> metered k (liftE r)"
  by (cases r) (simp_all add: metered_def liftE_def answers_def)

lemma metered_get [metered]: "metered k (getE f)"
  by (simp add: metered_def getE_def)

lemma metered_modify: "(\<And>e. gas_left (g e) = gas_left e) \<Longrightarrow> metered k (modifyE g)"
  by (simp add: metered_def modifyE_def)

lemma metered_bind [metered]:
  fixes m :: "('c, 's, 'b, 'h, 'a) action"
  assumes "metered k m" "\<And>x. metered k (f x)"
  shows "metered k (bindE m f)"
  unfolding metered_def
proof (intro allI impI)
  fix e :: "('c, 's, 'b, 'h) engine"
  assume e: "0 \<le> gas_left e \<and> gas_left e < int k"
  obtain r e' where m: "m e = (r, e')" by fastforce
  show "case bindE m f e of (Inl er, _) \<Rightarrow> er \<noteq> OutOfFuel
    | (Inr _, e') \<Rightarrow> 0 \<le> gas_left e' \<and> gas_left e' \<le> gas_left e"
  proof (cases r)
    case (Inl er)
    then show ?thesis using assms(1) e m by (force simp: metered_def bindE_def)
  next
    case (Inr x)
    then have "0 \<le> gas_left e' \<and> gas_left e' \<le> gas_left e" using assms(1) e m by (force simp: metered_def)
    then show ?thesis
      using assms(2) [of x, unfolded metered_def, rule_format, of e'] e m Inr
      by (auto simp: bindE_def split: sum.splits)
  qed
qed

lemma metered_then [metered]: "metered k m \<Longrightarrow> metered k n \<Longrightarrow> metered k (thenE m n)"
  unfolding thenE_def by (rule metered_bind)

lemma metered_if [metered]: "metered k m \<Longrightarrow> metered k n \<Longrightarrow> metered k (if b then m else n)"
  by simp

lemma metered_option_state:
  "(\<And>x. metered k (m x)) \<Longrightarrow> metered k n \<Longrightarrow> metered k (\<lambda>e. case h e of Some x \<Rightarrow> m x e | None \<Rightarrow> n e)"
  by (simp add: metered_def split: option.splits)

text \<open>Paying makes room for one more unit of fuel.\<close>

lemma try_use_gas_run:
  assumes "0 \<le> gas_left e" "0 \<le> sint n" "sint n \<le> 2 ^ 32"
  shows "try_use_gas n e = (if sint n \<le> gas_left e then Inr () else
      fst (try_use_gas n e), e \<lparr> egas := use_gas n (egas e) \<rparr>) \<and>
    (gas_left e < sint n \<longrightarrow> (\<exists>ex. fst (try_use_gas n e) = Inl (TvmExceptionFull ex))) \<and>
    gas_left (e \<lparr> egas := use_gas n (egas e) \<rparr>) = gas_left e - sint n"
proof -
  have "sint (gas_remaining (egas e)) < 2 ^ 63" using sint_lt [of "gas_remaining (egas e)"] by simp
  then have "sint (gas_remaining (egas e) - n) = sint (gas_remaining (egas e)) - sint n"
    using assms by (intro sint_diff) (simp_all add: gas_left_def)
  then show ?thesis
    by (auto simp: try_use_gas_def gas_try_use_gas_def use_gas_def check_gas_remaining_def gas_left_def Let_def)
qed

lemma metered_pay:
  assumes "0 \<le> sint n" "sint n \<le> 2 ^ 32"
  shows "metered k (try_use_gas n :: ('c, 's, 'b, 'h) handler)"
  unfolding metered_def
proof (intro allI impI)
  fix e :: "('c, 's, 'b, 'h) engine"
  assume "0 \<le> gas_left e \<and> gas_left e < int k"
  then show "case try_use_gas n e of (Inl er, _) \<Rightarrow> er \<noteq> OutOfFuel
    | (Inr _, e') \<Rightarrow> 0 \<le> gas_left e' \<and> gas_left e' \<le> gas_left e"
    using try_use_gas_run [of e n] assms by (cases "try_use_gas n e") (auto split: if_splits sum.splits)
qed

lemma metered_pay_first:
  fixes m :: "('c, 's, 'b, 'h, 'a) action"
  assumes "1 \<le> sint n" "sint n \<le> 2 ^ 32" "metered k m"
  shows "metered (Suc k) (thenE (try_use_gas n) m)"
  unfolding metered_def
proof (intro allI impI)
  fix e :: "('c, 's, 'b, 'h) engine"
  let ?e = "e \<lparr> egas := use_gas n (egas e) \<rparr>"
  assume e: "0 \<le> gas_left e \<and> gas_left e < int (Suc k)"
  note run = try_use_gas_run [of e n]
  show "case thenE (try_use_gas n) m e of (Inl er, _) \<Rightarrow> er \<noteq> OutOfFuel
    | (Inr _, e') \<Rightarrow> 0 \<le> gas_left e' \<and> gas_left e' \<le> gas_left e"
  proof (cases "sint n \<le> gas_left e")
    case True
    then have "thenE (try_use_gas n) m e = m ?e" "0 \<le> gas_left ?e" "gas_left ?e < int k" "gas_left ?e \<le> gas_left e"
      using run e assms(1,2) by (auto simp: thenE_def bindE_def)
    then show ?thesis
      using assms(3) [unfolded metered_def, rule_format, of ?e] by (auto split: prod.splits sum.splits)
  next
    case False
    then obtain ex where "fst (try_use_gas n e) = Inl (TvmExceptionFull ex)" using run e assms(1,2) by auto
    then show ?thesis by (cases "try_use_gas n e") (simp add: thenE_def bindE_def)
  qed
qed

lemma cell_prices: "0 \<le> sint (load_cell_price b)" "1 \<le> sint (load_cell_price b)" "sint (load_cell_price b) \<le> 2 ^ 32"
  by (simp_all add: load_cell_price_def CELL_LOAD_GAS_PRICE_def CELL_RELOAD_GAS_PRICE_def)

lemmas metered_cell_price [metered] = metered_pay [OF cell_prices(1,3)]

section \<open>The loop\<close>

lemma metered_slice: "answers (fst (f sl)) \<Longrightarrow> metered k (with_object f sl)"
  by (cases "f sl") (auto simp: with_object_def answers_def intro: metered_throw metered_return split: sum.splits)

lemma metered_cratesD:
  assumes "metered_crates T"
  shows "metered k (liftE (slice_reference T s i))" "metered k (with_object (get_next_hash T) s)"
    "metered k (with_object (move_by T n) s)" "metered k (liftE (slice_load_cell T c))"
    "metered k (liftE (cell_reference T c i))"
    "(\<And>c. metered k (reader c)) \<Longrightarrow> metered k (hashmap_get_with_gas T h key reader)"
  using assms by (auto simp: metered_crates_def intro: metered_lift metered_slice)

lemma metered_find_library:
  assumes T: "metered_crates T" and reader: "\<And>c. metered k (reader c)"
  shows "metered k (find_library T reader key ls)"
proof (induction ls)
  case (Cons l ls)
  have "metered k (case b of None \<Rightarrow> find_library T reader key ls
      | Some b \<Rightarrow> bindE (liftE (slice_reference T b 0)) (\<lambda>lib.
          if \<not> slice_hash_eq T (repr_hash T lib) key then errE DictionaryError else returnE lib))" for b
    by (cases b) (simp_all add: Cons metered metered_cratesD [OF T])
  then show ?case by (simp add: metered metered_cratesD [OF T] reader)
qed (simp add: metered)

lemma metered_load_library_cell:
  assumes T: "metered_crates T" and reader: "\<And>c. metered k (reader c)"
  shows "metered k (load_library_cell T reader cell)"
proof -
  have "metered k (check_capability T cap)" for cap
    by (auto simp: metered_def check_capability_def err_def exc_def)
  then show ?thesis
    unfolding load_library_cell_def
    by (auto intro!: metered metered_cratesD [OF T] metered_find_library [OF T] reader split: prod.splits)
qed

lemma metered_resolve_merkle:
  assumes "metered_crates T"
  shows "metered k (resolve_merkle_proof T cell)" "metered k (resolve_merkle_update T cell)"
  unfolding resolve_merkle_proof_def resolve_merkle_update_def Let_def
  by (auto intro!: metered metered_cratesD [OF assms] split: prod.splits)

text \<open>Following an exotic cell starts with its price, so the rest of the loop needs less fuel.\<close>

lemma metered_if_state: "metered k m \<Longrightarrow> metered k n \<Longrightarrow> metered k (\<lambda>e. if P e then m e else n e)"
  by (simp add: metered_def)

lemma bind_if_state: "bindE (\<lambda>e. if P e then m e else n e) f = (\<lambda>e. if P e then bindE m f e else bindE n f e)"
  by (rule ext) (simp add: bindE_def)

lemma bind_then: "bindE (thenE m n) f = thenE m (bindE n f)"
  by (rule ext) (simp add: thenE_def bindE_def split: prod.splits sum.splits)

lemma metered_resolve_exotic:
  assumes T: "metered_crates T" and reader: "\<And>c. metered k (reader c)" and rest: "\<And>c. metered k (f c)"
  shows "metered (Suc k) (bindE (resolve_exotic T reader cell) f)"
proof -
  have err: "metered (Suc k) (bindE (errE c) f)" for c by (simp add: errE_def metered_throw exc_def)
  note first = metered_pay_first [OF cell_prices(2,3)]
  have merkle: "metered (Suc k) (bindE (resolve_merkle_proof T cell) f)"
    "metered (Suc k) (bindE (resolve_merkle_update T cell) f)"
    unfolding resolve_merkle_proof_def resolve_merkle_update_def Let_def bind_then
    by (auto intro!: first metered metered_cratesD [OF T] rest split: prod.splits)
  have library: "metered (Suc k) (bindE (thenE (try_use_gas (load_cell_price True)) (load_library_cell T reader cell)) f)"
    unfolding bind_then by (intro first metered metered_load_library_cell T reader rest)
  show ?thesis
    by (cases "cell_type_of T cell")
      (simp_all add: resolve_exotic_def bind_if_state err merkle library metered_if_state)
qed

lemma metered_load_plain_cell: "metered_crates T \<Longrightarrow> metered k (load_plain_cell T cell)"
  unfolding load_plain_cell_def
  by (intro metered_if_state metered metered_cratesD metered_modify) (simp_all add: gas_left_def)

lemma metered_remember [metered]: "metered k (remember_exotic hs sl)"
  unfolding remember_exotic_def by (intro metered metered_modify) (simp add: gas_left_def)

lemma metered_load_cell_loop: "metered_crates T \<Longrightarrow> metered n (load_cell_loop n T resolve_special hs cell)"
proof (induction n arbitrary: resolve_special hs cell)
  case 0
  then show ?case by (simp add: metered_def)
next
  case (Suc n)
  have "metered (Suc n) (\<lambda>e. case visited_exotic_cells e (repr_hash T cell) of
      Some sl \<Rightarrow> thenE (try_use_gas (load_cell_price False)) (remember_exotic hs sl) e
    | None \<Rightarrow> bindE (resolve_exotic T (load_cell_loop n T True []) cell)
        (load_cell_loop n T resolve_special (hs @ [repr_hash T cell])) e)"
    by (intro metered_option_state metered metered_resolve_exotic Suc)
  moreover have "metered (Suc n) (bindE (load_plain_cell T cell) (remember_exotic hs))"
    by (intro metered metered_load_plain_cell Suc)
  ultimately show ?case unfolding load_cell_loop.simps by (intro metered_if_state)
qed

section \<open>Loading returns\<close>

text \<open>From an account already overdrawn the first price is refused.\<close>

lemma overdrawn_pay:
  assumes "gas_left e < 0" "- (2 ^ 62) \<le> gas_left e"
  shows "\<exists>ex e'. thenE (try_use_gas (load_cell_price b)) m e = (Inl (TvmExceptionFull ex), e')"
proof -
  let ?n = "load_cell_price b"
  have "sint (gas_remaining (egas e) - ?n) = gas_left e - sint ?n"
    unfolding gas_left_def using assms cell_prices [of b] by (intro sint_diff) (simp_all add: gas_left_def)
  then show ?thesis
    using assms cell_prices(1) [of b]
    by (simp add: try_use_gas_def gas_try_use_gas_def use_gas_def check_gas_remaining_def thenE_def bindE_def)
qed

definition refused :: "('c, 's, 'b, 'h, 'a) action \<Rightarrow> ('c, 's, 'b, 'h) engine \<Rightarrow> bool" where
  "refused m e \<longleftrightarrow> (\<exists>er. fst (m e) = Inl er \<and> er \<noteq> OutOfFuel)"

lemma refused_bind: "refused m e \<Longrightarrow> refused (bindE m f) e"
  by (auto simp: refused_def bindE_def split: prod.splits)

lemma refused_pay:
  "gas_left e < 0 \<Longrightarrow> - (2 ^ 62) \<le> gas_left e \<Longrightarrow> refused (thenE (try_use_gas (load_cell_price b)) m) e"
  using overdrawn_pay [of e b m] by (auto simp: refused_def)

lemma refused_exotic:
  assumes "gas_left e < 0" "- (2 ^ 62) \<le> gas_left e"
  shows "refused (load_plain_cell T cell) e" "refused (resolve_exotic T l cell) e"
proof -
  note pay = refused_pay [OF assms, unfolded refused_def]
  show "refused (load_plain_cell T cell) e" by (simp add: refused_def load_plain_cell_def pay)
  show "refused (resolve_exotic T l cell) e"
    by (cases "cell_type_of T cell") (auto simp: refused_def resolve_exotic_def resolve_merkle_proof_def
      resolve_merkle_update_def pay errE_def throwE_def exc_def)
qed

lemma overdrawn_load:
  assumes "gas_left e < 0" "- (2 ^ 62) \<le> gas_left e"
  shows "refused (load_cell_loop (Suc n) T resolve_special hs cell) e"
  using refused_bind [OF refused_exotic(1) [OF assms]] refused_bind [OF refused_exotic(2) [OF assms]]
    refused_pay [OF assms]
  by (auto simp: refused_def split: option.splits)

text \<open>C4: loading a cell always returns, however long the chain of library references and Merkle
  cells is and whatever the libraries hold: the loop of the source stops before the gas is spent, so the
  model never cuts it off; and when the load succeeds it has been paid for from the account.\<close>

theorem load_hashed_cell_returns:
  assumes "metered_crates T" "- (2 ^ 62) \<le> gas_left e"
    "load_hashed_cell T cell resolve_special e = (r, e')"
  shows "r \<noteq> Inl OutOfFuel \<and> (is_ok r \<longrightarrow> 0 \<le> gas_left e' \<and> gas_left e' \<le> gas_left e)"
proof (cases "gas_left e < 0")
  case True
  then show ?thesis
    using overdrawn_load [OF True assms(2), of "Suc (nat (gas_left e))" T resolve_special "[]" cell] assms(3)
    by (auto simp: refused_def load_hashed_cell_def load_fuel_def gas_left_def simp del: load_cell_loop.simps)
next
  case False
  then have fuel: "gas_left e < int (load_fuel e)" by (simp add: load_fuel_def gas_left_def)
  then show ?thesis
    using meteredD [OF metered_load_cell_loop [OF assms(1)] _ _ fuel] False assms(3)
    by (simp add: load_hashed_cell_def)
qed

lemma octet_crates_metered: "metered_crates octet_crates"
  by (simp add: metered_crates_def octet_crates_def answers_def no_result_def metered_return)

theorem load_hashed_cell_returns_witness:
  "fst (load_hashed_cell octet_crates () True
     ((with_capabilities octet_crates 0 :: (unit, u8 list, unit, unit) engine) \<lparr> egas := gas_test \<rparr>)) \<noteq> Inl OutOfFuel"
proof -
  have "- (2 ^ 62) \<le> gas_left (with_capabilities octet_crates 0 \<lparr> egas := gas_test \<rparr>)"
    by (simp add: gas_left_def gas_test_def)
  from load_hashed_cell_returns [OF octet_crates_metered this prod.collapse [symmetric]] show ?thesis by blast
qed

end
