(* ===== verification/Format_Reading.thy ===== *)
theory Format_Reading
  imports Cell_Loading
begin

text \<open>
  Reading a continuation from cells ends: every part of the list of \<open>items_deserialize\<close> comes with
  the loading of a cell, and the gas pays for the loads.
\<close>

section \<open>Every load is paid for\<close>

definition costs :: "nat \<Rightarrow> ('c, 's, 'b, 'h, 'a) action \<Rightarrow> bool" where
  "costs k m \<longleftrightarrow> (\<forall>e x e'. 0 \<le> gas_left e \<and> gas_left e < int k \<and> m e = (Inr x, e') \<longrightarrow>
     0 \<le> gas_left e' \<and> gas_left e' < gas_left e)"

lemma costs_pay_first:
  fixes m :: "('c, 's, 'b, 'h, 'a) action"
  assumes "metered k m"
  shows "costs (Suc k) (thenE (try_use_gas (load_cell_price b)) m)"
  unfolding costs_def
proof (intro allI impI)
  fix e e' :: "('c, 's, 'b, 'h) engine" and x
  assume e: "0 \<le> gas_left e \<and> gas_left e < int (Suc k) \<and> thenE (try_use_gas (load_cell_price b)) m e = (Inr x, e')"
  let ?e = "e \<lparr> egas := use_gas (load_cell_price b) (egas e) \<rparr>"
  have run: "try_use_gas (load_cell_price b) e = (Inr (), ?e) \<and> sint (load_cell_price b) \<le> gas_left e \<and>
      gas_left ?e = gas_left e - sint (load_cell_price b)"
    using try_use_gas_run [of e "load_cell_price b"] cell_prices [of b] e
    by (cases "sint (load_cell_price b) \<le> gas_left e") (auto simp: thenE_def bindE_def split: prod.splits sum.splits)
  then have "m ?e = (Inr x, e')" using e by (simp add: thenE_def bindE_def)
  then show "0 \<le> gas_left e' \<and> gas_left e' < gas_left e"
    using meteredD [OF assms, of ?e "Inr x" e'] run cell_prices(2) [of b] e by auto
qed

lemma costsD: "costs k m \<Longrightarrow> m e = (Inr x, e') \<Longrightarrow> 0 \<le> gas_left e \<Longrightarrow> gas_left e < int k \<Longrightarrow>
    0 \<le> gas_left e' \<and> gas_left e' < gas_left e"
  unfolding costs_def by blast

lemma costs_bind:
  fixes m :: "('c, 's, 'b, 'h, 'a) action"
  assumes "costs (Suc k) m" "\<And>x. metered k (f x)"
  shows "costs (Suc k) (bindE m f)"
  unfolding costs_def
proof (intro allI impI)
  fix e e' :: "('c, 's, 'b, 'h) engine" and x
  assume e: "0 \<le> gas_left e \<and> gas_left e < int (Suc k) \<and> bindE m f e = (Inr x, e')"
  then obtain y e1 where "m e = (Inr y, e1)" "f y e1 = (Inr x, e')"
    by (auto simp: bindE_def split: prod.splits sum.splits)
  then show "0 \<le> gas_left e' \<and> gas_left e' < gas_left e"
    using costsD [OF assms(1), of e y e1] meteredD [OF assms(2), of y e1 "Inr x" e'] e by auto
qed

lemma costsI:
  "(\<And>e x e'. m e = (Inr x, e') \<Longrightarrow> 0 \<le> gas_left e \<Longrightarrow> gas_left e < int k \<Longrightarrow>
    0 \<le> gas_left e' \<and> gas_left e' < gas_left e) \<Longrightarrow> costs k m"
  unfolding costs_def by blast

lemma costs_fails: "(\<And>e x e'. m e \<noteq> (Inr x, e')) \<Longrightarrow> costs k m"
  by (rule costsI) blast

lemma costs_if_state:
  assumes "costs k m" "costs k n"
  shows "costs k (\<lambda>e. if P e then m e else n e)"
proof (rule costsI)
  fix e x e'
  assume "(if P e then m e else n e) = (Inr x, e')" "0 \<le> gas_left e" "gas_left e < int k"
  then show "0 \<le> gas_left e' \<and> gas_left e' < gas_left e"
    by (cases "P e") (simp_all only: if_True if_False costsD [OF assms(1)] costsD [OF assms(2)])
qed

lemma costs_option_state:
  assumes "\<And>x. costs k (m x)" "costs k n"
  shows "costs k (\<lambda>e. case h e of Some x \<Rightarrow> m x e | None \<Rightarrow> n e)"
proof (rule costsI)
  fix e x e'
  assume "(case h e of Some x \<Rightarrow> m x e | None \<Rightarrow> n e) = (Inr x, e')" "0 \<le> gas_left e" "gas_left e < int k"
  then show "0 \<le> gas_left e' \<and> gas_left e' < gas_left e"
    by (cases "h e") (simp_all only: option.case costsD [OF assms(1)] costsD [OF assms(2)])
qed

lemma costs_resolve_exotic:
  assumes T: "metered_crates T" and reader: "\<And>c. metered k (reader c)"
  shows "costs (Suc k) (resolve_exotic T reader cell)"
proof -
  have err: "costs (Suc k) (errE c)" for c by (rule costs_fails) (simp add: errE_def throwE_def)
  have merkle: "costs (Suc k) (resolve_merkle_proof T cell)" "costs (Suc k) (resolve_merkle_update T cell)"
    unfolding resolve_merkle_proof_def resolve_merkle_update_def Let_def
    by (auto intro!: costs_pay_first metered metered_cratesD [OF T] split: prod.splits)
  have library: "costs (Suc k) (thenE (try_use_gas (load_cell_price True)) (load_library_cell T reader cell))"
    by (intro costs_pay_first metered_load_library_cell T reader)
  show ?thesis
    by (cases "cell_type_of T cell") (simp_all add: resolve_exotic_def costs_if_state err merkle library)
qed

lemma costs_load_cell_loop:
  assumes T: "metered_crates T"
  shows "costs n (load_cell_loop n T resolve_special hs cell)"
proof (cases n)
  case 0
  then show ?thesis by (simp add: costs_def)
next
  case (Suc k)
  have "costs (Suc k) (load_plain_cell T cell)"
    unfolding load_plain_cell_def
    by (intro costs_if_state costs_pay_first metered metered_cratesD metered_modify T) (simp add: gas_left_def)
  then have "costs (Suc k) (bindE (load_plain_cell T cell) (remember_exotic hs))" by (rule costs_bind) (rule metered)
  moreover have "costs (Suc k) (bindE (resolve_exotic T (load_cell_loop k T True []) cell)
      (load_cell_loop k T resolve_special (hs @ [repr_hash T cell])))"
    by (intro costs_bind costs_resolve_exotic metered_load_cell_loop T)
  moreover have "costs (Suc k) (thenE (try_use_gas (load_cell_price False)) (remember_exotic hs sl))" for sl
    by (intro costs_pay_first metered)
  ultimately show ?thesis unfolding Suc load_cell_loop.simps by (intro costs_if_state costs_option_state)
qed

section \<open>The size of the list\<close>

text \<open>\<open>spends m parts n\<close>: the action does not run out of fuel, and \<open>parts\<close> of its result, with 36 for every unit of gas,
  is at most \<open>n\<close> with the gas it started from.\<close>

definition spends :: "('c, 's, 'b, 'h, 'a) action \<Rightarrow> ('a \<Rightarrow> nat) \<Rightarrow> nat \<Rightarrow> bool" where
  "spends m parts n \<longleftrightarrow> (\<forall>e. 0 \<le> gas_left e \<longrightarrow> (case m e of
     (Inl er, _) \<Rightarrow> er \<noteq> OutOfFuel
   | (Inr x, e') \<Rightarrow> 0 \<le> gas_left e' \<and> gas_left e' \<le> gas_left e \<and> int (parts x) + 36 * gas_left e' \<le> int n + 36 * gas_left e))"

named_theorems spends

lemma spendsD:
  assumes "spends m parts n" "m e = (r, e')" "0 \<le> gas_left e"
  shows "r \<noteq> Inl OutOfFuel" "r = Inr x \<Longrightarrow> 0 \<le> gas_left e'" "r = Inr x \<Longrightarrow> gas_left e' \<le> gas_left e"
    "r = Inr x \<Longrightarrow> int (parts x) + 36 * gas_left e' \<le> int n + 36 * gas_left e"
  using assms(1) [unfolded spends_def, rule_format, OF assms(3)] assms(2) by (auto split: sum.splits)

lemma spends_bind:
  fixes m :: "('c, 's, 'b, 'h, 'a) action"
  assumes "spends m f n" "\<And>x. spends (g x) h (f x)"
  shows "spends (bindE m g) h n"
  unfolding spends_def
proof (intro allI impI)
  fix e :: "('c, 's, 'b, 'h) engine"
  assume e: "0 \<le> gas_left e"
  obtain r e' where m: "m e = (r, e')" by fastforce
  note first = spendsD [OF assms(1) m e]
  show "case bindE m g e of (Inl er, _) \<Rightarrow> er \<noteq> OutOfFuel | (Inr y, e') \<Rightarrow>
      0 \<le> gas_left e' \<and> gas_left e' \<le> gas_left e \<and> int (h y) + 36 * gas_left e' \<le> int n + 36 * gas_left e"
  proof (cases r)
    case (Inr x)
    obtain r2 e2 where g: "g x e' = (r2, e2)" by fastforce
    show ?thesis using spendsD [OF assms(2) g] first(2-4) [OF Inr] m g Inr by (cases r2) (auto simp: bindE_def)
  qed (use first m in \<open>simp add: bindE_def\<close>)
qed

lemma spends_keep [spends]: "spends m (\<lambda>_. n) n \<Longrightarrow> (\<And>x. spends (g x) h n) \<Longrightarrow> spends (bindE m g) h n"
  by (rule spends_bind)

lemma spends_weaken:
  fixes m :: "('c, 's, 'b, 'h, 'a) action"
  assumes "spends m f n" "\<And>x. g x \<le> f x"
  shows "spends m g n"
  unfolding spends_def
proof (intro allI impI)
  fix e :: "('c, 's, 'b, 'h) engine"
  assume e: "0 \<le> gas_left e"
  obtain r e' where m: "m e = (r, e')" by fastforce
  show "case m e of (Inl er, _) \<Rightarrow> er \<noteq> OutOfFuel | (Inr y, e') \<Rightarrow>
      0 \<le> gas_left e' \<and> gas_left e' \<le> gas_left e \<and> int (g y) + 36 * gas_left e' \<le> int n + 36 * gas_left e"
  proof (cases r)
    case (Inr x)
    then show ?thesis using spendsD [OF assms(1) m e] assms(2) [of x] m by auto
  qed (use spendsD [OF assms(1) m e] m in simp)
qed

lemma spends_more: "spends m f n \<Longrightarrow> n \<le> n' \<Longrightarrow> spends m f n'"
  by (fastforce simp: spends_def split: prod.splits sum.splits)

lemma spends_return: "f x \<le> n \<Longrightarrow> spends (returnE x) f n"
  by (simp add: spends_def returnE_def)

lemma spends_throw: "er \<noteq> OutOfFuel \<Longrightarrow> spends (throwE er) f n"
  by (simp add: spends_def throwE_def)

lemma spends_err [spends]: "spends (errE c) f n"
  by (simp add: errE_def spends_throw exc_def)

lemma spends_if [spends]: "spends m f n \<Longrightarrow> spends m' f n \<Longrightarrow> spends (if b then m else m') f n"
  by simp

lemma spends_prod [spends]: "(\<And>a b. p = (a, b) \<Longrightarrow> spends (g a b) f n) \<Longrightarrow> spends (case p of (a, b) \<Rightarrow> g a b) f n"
  by (cases p) simp

lemma spends_lift: "answers r \<Longrightarrow> spends (liftE r) (\<lambda>_. n) n"
  by (cases r) (simp_all add: spends_def liftE_def answers_def)

lemma spends_object: "answers (fst (f s)) \<Longrightarrow> spends (with_object f s) (\<lambda>_. n) n"
  by (cases "f s") (auto simp: with_object_def answers_def spends_def returnE_def throwE_def split: sum.splits)

lemma spends_load_cell:
  fixes T :: "('c, 's, 'b, 'h) ton"
  assumes T: "metered_crates T"
  shows "spends (load_cell T c) (\<lambda>_. n + 36) n"
  unfolding spends_def
proof (intro allI impI)
  fix e :: "('c, 's, 'b, 'h) engine"
  assume e: "0 \<le> gas_left e"
  then have fuel: "gas_left e < int (load_fuel e)" by (simp add: load_fuel_def gas_left_def)
  obtain r e' where l: "load_cell_loop (load_fuel e) T True [] c e = (r, e')" by fastforce
  then have run: "load_cell T c e = (r, e')" by (simp only: load_cell_def load_hashed_cell_def)
  show "case load_cell T c e of (Inl er, _) \<Rightarrow> er \<noteq> OutOfFuel
    | (Inr x, e') \<Rightarrow> 0 \<le> gas_left e' \<and> gas_left e' \<le> gas_left e \<and> int (n + 36) + 36 * gas_left e' \<le> int n + 36 * gas_left e"
  proof (cases r)
    case (Inl er)
    then show ?thesis using meteredD [OF metered_load_cell_loop [OF T] l e fuel] run by auto
  next
    case (Inr x)
    then have "0 \<le> gas_left e' \<and> gas_left e' < gas_left e"
      using costsD [OF costs_load_cell_loop [OF T] _ e fuel] l by blast
    then show ?thesis using run Inr by simp
  qed
qed

text \<open>What is asked of the readers of slices and dictionaries: their errors are not the model's own, and a
  dictionary with keys of four bits has at most 16 entries.\<close>

definition reading_crates :: "('c, 's, 'b, 'h) ton \<Rightarrow> bool" where
  "reading_crates T \<longleftrightarrow> metered_crates T \<and>
     (\<forall>n s. answers (fst (get_next_int T n s))) \<and> (\<forall>s. answers (fst (get_next_byte T s))) \<and>
     (\<forall>s. answers (fst (checked_drain_reference T s))) \<and> (\<forall>s. answers (fst (get_next_bit (slices T) s))) \<and>
     (\<forall>n s. answers (fst (get_next_bits (slices T) n s))) \<and> (\<forall>s. answers (fst (get_next_u32 (formats T) s))) \<and>
     (\<forall>c. answers (builder_from_cell (formats T) c)) \<and>
     (\<forall>c. length (fst (hashmap_slices (formats T) (with_hashmap T 4 (Some c)))) \<le> 16 \<and>
       snd (hashmap_slices (formats T) (with_hashmap T 4 (Some c))) \<noteq> Some OutOfFuel)"

lemma reading_cratesD:
  assumes "reading_crates T"
  shows "metered_crates T" "answers (fst (get_next_int T n s))" "answers (fst (get_next_byte T s))"
    "answers (fst (checked_drain_reference T s))" "answers (fst (get_next_bit (slices T) s))"
    "answers (fst (get_next_bits (slices T) n s))" "answers (fst (get_next_u32 (formats T) s))"
    "answers (builder_from_cell (formats T) c)" "answers (slice_load_cell T c)"
    "length (fst (hashmap_slices (formats T) (with_hashmap T 4 (Some c)))) \<le> 16"
    "snd (hashmap_slices (formats T) (with_hashmap T 4 (Some c))) \<noteq> Some OutOfFuel"
  using assms by (simp_all add: reading_crates_def metered_crates_def)

section \<open>The pure readers answer\<close>

named_theorems answers

lemma answers_ok [answers]: "answers (Inr x)"
  by (simp add: answers_def)

lemma answers_err [answers]: "answers (err c)"
  by (simp add: answers_def err_def exc_def)

lemma answers_bind [answers]: "answers r \<Longrightarrow> (\<And>x. answers (f x)) \<Longrightarrow> answers (bindR r f)"
  by (cases r) (simp_all add: answers_def)

lemma answers_step [answers]: "answers (fst (f s)) \<Longrightarrow> answers (step_object f s)"
  by (cases "f s") (auto simp: step_object_def answers_def split: sum.splits)

lemma answers_if [answers]: "answers r \<Longrightarrow> answers r' \<Longrightarrow> answers (if b then r else r')"
  by simp

lemma answers_prod [answers]: "(\<And>a b. answers (g a b)) \<Longrightarrow> answers (case p of (a, b) \<Rightarrow> g a b)"
  by (cases p) simp

lemma answers_slice_deserialize: "reading_crates T \<Longrightarrow> answers (slice_deserialize T s)"
  unfolding slice_deserialize_def by (intro answers reading_cratesD)

lemma answers_integer_item: "reading_crates T \<Longrightarrow> answers (integer_item T s)"
proof -
  have panic: "answers (case r of Inr x \<Rightarrow> Inr (Item_Integer x, s) | Inl _ \<Rightarrow> Inl Panic)" for r s
    by (cases r) (simp_all add: answers_def)
  show "reading_crates T \<Longrightarrow> answers (integer_item T s)"
    unfolding integer_item_def by (intro answers reading_cratesD panic)
qed

lemma answers_iterate_slices:
  "(\<And>x k v. answers (f x k v)) \<Longrightarrow> snd w \<noteq> Some OutOfFuel \<Longrightarrow> answers (iterate_slices f x w)"
  by (induction f x w rule: iterate_slices.induct) (auto intro: answers_bind simp: answers_def [where r = "Inl _"] answers_ok)

lemma answers_savelist_items: "reading_crates T \<Longrightarrow> answers (savelist_items T s)"
  unfolding savelist_items_def by (intro answers answers_iterate_slices reading_cratesD)

text \<open>A save list has two parts for each of its entries.\<close>

lemma iterate_slices_length:
  "(\<And>x k v y. f x k v = Inr y \<Longrightarrow> length y \<le> length x + 2) \<Longrightarrow> iterate_slices f x w = Inr l \<Longrightarrow>
     length l \<le> length x + 2 * length (fst w)"
proof (induction f x w rule: iterate_slices.induct)
  case (3 f x k v kvs er)
  then obtain y where y: "f x k v = Inr y" "iterate_slices f y (kvs, er) = Inr l" by (auto simp: bindR_eq_Inr)
  then have "length l \<le> length y + 2 * length kvs" using "3.IH" [of y] "3.prems" by simp
  then show ?case using "3.prems"(1) [OF y(1)] by simp
qed simp_all

lemma savelist_items_length:
  assumes T: "reading_crates T" and run: "savelist_items T s = Inr (l, s')"
  shows "length l \<le> 32"
proof -
  let ?f = "\<lambda>is k v. bindR (step_object (get_next_int T 4) k) (\<lambda>(key, _). Inr (De_Items 1 v # De_SaveListItem key # is))"
  have two: "length y \<le> length x + 2" if "?f x k v = Inr y" for x k v y
    using that by (auto simp: bindR_eq_Inr)
  show ?thesis
  proof (cases "l = []")
    case False
    then obtain c where "iterate_slices ?f [] (hashmap_slices (formats T) (with_hashmap T 4 (Some c))) = Inr l"
      using run unfolding savelist_items_def by (auto simp: bindR_eq_Inr split: if_splits)
    then show ?thesis using iterate_slices_length [of ?f "[]", OF two] reading_cratesD(10) [OF T, of c] by fastforce
  qed simp
qed

section \<open>The readers\<close>

text \<open>What an action returns when it succeeds.\<close>

definition gives :: "('c, 's, 'b, 'h, 'a) action \<Rightarrow> ('a \<Rightarrow> bool) \<Rightarrow> bool" where
  "gives m P \<longleftrightarrow> (\<forall>e x e'. m e = (Inr x, e') \<longrightarrow> P x)"

lemma givesD: "gives m P \<Longrightarrow> m e = (Inr x, e') \<Longrightarrow> P x"
  unfolding gives_def by blast

lemma gives_bind: "gives m Q \<Longrightarrow> (\<And>x. Q x \<Longrightarrow> gives (f x) P) \<Longrightarrow> gives (bindE m f) P"
  unfolding gives_def bindE_def by (fastforce split: prod.splits sum.splits)

lemma gives_any: "gives m (\<lambda>_. True)"
  by (simp add: gives_def)

lemma gives_lift: "(\<And>x. r = Inr x \<Longrightarrow> P x) \<Longrightarrow> gives (liftE r) P"
  by (cases r) (simp_all add: gives_def liftE_def)

lemma gives_return: "P x \<Longrightarrow> gives (returnE x) P"
  by (simp add: gives_def returnE_def)

lemma spends_gives:
  fixes m :: "('c, 's, 'b, 'h, 'a) action"
  assumes "spends m (\<lambda>_. n) n" "gives m (\<lambda>x. f x \<le> n)"
  shows "spends m f n"
  unfolding spends_def
proof (intro allI impI)
  fix e :: "('c, 's, 'b, 'h) engine"
  assume e: "0 \<le> gas_left e"
  obtain r e' where m: "m e = (r, e')" by fastforce
  show "case m e of (Inl er, _) \<Rightarrow> er \<noteq> OutOfFuel | (Inr y, e') \<Rightarrow>
      0 \<le> gas_left e' \<and> gas_left e' \<le> gas_left e \<and> int (f y) + 36 * gas_left e' \<le> int n + 36 * gas_left e"
  proof (cases r)
    case (Inr x)
    then show ?thesis using spendsD [OF assms(1) m e] givesD [OF assms(2), of e x e'] m by auto
  qed (use spendsD [OF assms(1) m e] m in simp)
qed

lemma spends_child_slice:
  assumes T: "reading_crates T"
  shows "spends (child_slice T s) (\<lambda>_. n + 36) n"
  unfolding child_slice_def
  by (intro spends spends_object spends_bind [OF spends_load_cell] spends_return reading_cratesD T order_refl)

lemma spends_child: "reading_crates T \<Longrightarrow> spends (child_slice T s) (\<lambda>_. n) n"
  by (rule spends_weaken [OF spends_child_slice]) simp_all

lemma spends_child_body: "reading_crates T \<Longrightarrow> spends (child_body T s) (\<lambda>_. n) n"
  unfolding child_body_def
  by (intro spends spends_child spends_lift answers_slice_deserialize spends_return order_refl)

lemma spends_deserialize_type: "reading_crates T \<Longrightarrow> spends (deserialize_type T s) (\<lambda>_. n) n"
  unfolding deserialize_type_def
  by (intro spends spends_child spends_child_body spends_lift answers_slice_deserialize spends_object
    reading_cratesD spends_return order_refl)

lemma cont_deserialize_internal_length:
  assumes T: "reading_crates T"
  shows "gives (cont_deserialize_internal T list s) (\<lambda>p. length (fst p) \<le> length list + 35)"
proof -
  have items: "gives (liftE (savelist_items T s)) (\<lambda>p. length (fst p) \<le> 32)" for s
    by (rule gives_lift) (use savelist_items_length [OF T] in \<open>metis prod.collapse\<close>)
  show ?thesis unfolding cont_deserialize_internal_def
    by (auto intro!: gives_bind [OF gives_any] gives_bind [OF items] gives_return split: prod.splits)
qed

lemma spends_cont_deserialize_internal:
  assumes T: "reading_crates T"
  shows "spends (cont_deserialize_internal T list s) (\<lambda>p. length (fst p)) (length list + 35)"
proof (rule spends_gives)
  show "spends (cont_deserialize_internal T list s) (\<lambda>_. length list + 35) (length list + 35)"
    unfolding cont_deserialize_internal_def
    by (intro spends spends_deserialize_type spends_child spends_lift answers_savelist_items answers_slice_deserialize
      spends_object reading_cratesD T spends_return order_refl)
qed (rule cont_deserialize_internal_length [OF T])

text \<open>A tuple or a continuation is read from a cell of its own: its price pays for its parts.\<close>

lemma spends_item_deserialize_internal:
  assumes T: "reading_crates T"
  shows "spends (item_deserialize_internal T list s) (\<lambda>(r, l, s). length l) (length list)"
proof -
  have cont: "spends (bindE (child_slice T s) (\<lambda>(child, s).
      bindE (cont_deserialize_internal T list child) (\<lambda>(l, _). returnE (None, l, s)))) (\<lambda>(r, l, s). length l) (length list)"
    for s :: 'b
  proof (intro spends_bind [OF spends_child_slice [OF T]] spends_prod)
    fix child s
    have "spends (cont_deserialize_internal T list child) (\<lambda>p. length (fst p)) (length list + 36)"
      by (rule spends_more [OF spends_cont_deserialize_internal [OF T]]) simp
    then show "spends (bindE (cont_deserialize_internal T list child) (\<lambda>(l, _). returnE (None, l, s)))
        (\<lambda>(r, l, s). length l) (length list + 36)"
      by (rule spends_bind) (auto intro!: spends_return split: prod.splits)
  qed
  have tuple: "spends (bindE (child_slice T s) (\<lambda>(child, s). returnE (None, De_Items len child # De_Tuple len # list, s)))
      (\<lambda>(r, l, s). length l) (length list)" for s :: 'b and len
    by (rule spends_bind [OF spends_child_slice [OF T]]) (auto intro!: spends_return split: prod.splits)
  have plain: "spends (bindE (liftE r) (\<lambda>(x, s). returnE (Some x, list, s))) (\<lambda>(r, l, s). length l) (length list)"
    if "answers r" for r :: "('a, 'b, 'c) tvm_error + ('a, 'b, 'c) stack_item \<times> 'b"
    by (rule spends_keep [OF spends_lift [OF that]]) (auto intro!: spends_return split: prod.splits)
  show ?thesis unfolding item_deserialize_internal_def Let_def
    by (intro spends cont tuple plain answers answers_integer_item answers_slice_deserialize spends_object
      reading_cratesD T spends_return) simp
qed

lemma spends_next_in_list:
  assumes T: "reading_crates T"
  shows "spends (next_in_list T s) (\<lambda>_. n) n"
  unfolding next_in_list_def
  by (auto intro!: spends_weaken [OF spends_load_cell [OF reading_cratesD(1) [OF T]]] spends_return
    split: prod.splits sum.splits)

lemma spends_read_items:
  assumes T: "reading_crates T"
  shows "spends (read_items T k list items s) (\<lambda>p. length (fst p)) (length list)"
proof (induction k arbitrary: list items s)
  case (Suc k)
  have next_item: "spends (bindE (next_in_list T s) (\<lambda>s. case r of None \<Rightarrow> returnE (list, items, s)
      | Some x \<Rightarrow> read_items T k list (items @ [x]) s)) (\<lambda>p. length (fst p)) (length list)" for r list s
    by (rule spends_keep [OF spends_next_in_list [OF T]]) (auto intro!: spends_return Suc split: option.splits)
  show ?case
    by (simp, rule spends_bind [OF spends_item_deserialize_internal [OF T]]) (auto intro!: next_item split: prod.splits)
qed (simp add: spends_return)

section \<open>Reading ends\<close>

lemma pop_items_list [simp]: "de_list (pop_items T new st) = de_list st"
  by (simp add: pop_items_def split: list.splits)

lemma savelist_put_answers: "answers (savelist_put i x sl)"
  by (auto simp: savelist_put_def check_can_put_def answers_def bindR_def err_def exc_def split: stack_item.splits)

lemma deserialize_step_answers: "answers (deserialize_step T i st)"
  by (auto simp: deserialize_step_def answers_ok answers_err split: deserialize_item.splits list.splits
    intro!: answers savelist_put_answers)

lemma deserialize_step_list: "deserialize_step T i st = Inr st' \<Longrightarrow> de_list st' = de_list st"
  by (auto simp: deserialize_step_def err_def bindR_eq_Inr split: deserialize_item.splits list.splits if_splits)

lemma items_deserialize_loop_ends:
  assumes T: "reading_crates T"
  shows "0 \<le> gas_left e \<Longrightarrow> int (length (de_list st)) + 36 * gas_left e < int n \<Longrightarrow>
    items_deserialize_loop n T st e = (r, e') \<Longrightarrow>
    r \<noteq> Inl OutOfFuel \<and> (is_ok r \<longrightarrow> 0 \<le> gas_left e' \<and> gas_left e' \<le> gas_left e)"
proof (induction n arbitrary: st e)
  case (Suc n)
  obtain q e1 where read: "read_items T (de_length st - length (de_items st)) (de_list st) (de_items st) (de_slice st) e = (q, e1)"
    by fastforce
  note read_ok = spendsD [OF spends_read_items [OF T] read Suc.prems(1)]
  show ?case
  proof (cases q)
    case (Inl er)
    then show ?thesis using Suc.prems(3) read read_ok(1) by (auto simp: bindE_def is_ok_def)
  next
    case (Inr p)
    obtain l items s where p: "p = (l, items, s)" by (cases p)
    show ?thesis
    proof (cases l)
      case Nil
      then show ?thesis using Suc.prems(3) read read_ok(2,3) [OF Inr] Inr p by (auto simp: bindE_def returnE_def)
    next
      case (Cons i l')
      let ?st = "st \<lparr> de_list := l', de_items := items, de_slice := s \<rparr>"
      show ?thesis
      proof (cases "deserialize_step T i ?st")
        case (Inl er)
        then show ?thesis using Suc.prems(3) read Inr p Cons deserialize_step_answers [of T i ?st]
          by (auto simp: bindE_def liftE_def answers_def is_ok_def)
      next
        case step: (Inr st')
        then have "items_deserialize_loop n T st' e1 = (r, e')"
          using Suc.prems(3) read Inr p Cons by (simp add: bindE_def liftE_def)
        moreover have "int (length (de_list st')) + 36 * gas_left e1 < int n"
          using read_ok(4) [OF Inr] deserialize_step_list [OF step] Suc.prems(2) p Cons by simp
        ultimately show ?thesis using Suc.IH read_ok(2,3) [OF Inr] by fastforce
      qed
    qed
  qed
qed simp

text \<open>C6: reading a continuation from cells always returns, whatever the cells hold: a slice can announce
  lists and tuples of any length, but each is in a cell that has to be paid for, so the loop ends before the gas does
  and the model never cuts it off; when reading succeeds it has been paid for from the account.\<close>

theorem cont_deserialize_returns:
  assumes T: "reading_crates T" and e: "0 \<le> gas_left e" and run: "cont_deserialize T s e = (r, e')"
  shows "r \<noteq> Inl OutOfFuel \<and> (is_ok r \<longrightarrow> 0 \<le> gas_left e' \<and> gas_left e' \<le> gas_left e)"
proof -
  obtain q e1 where first: "cont_deserialize_internal T [] s e = (q, e1)" by fastforce
  note first_ok = spendsD [OF spends_cont_deserialize_internal [OF T] first e]
  show ?thesis
  proof (cases q)
    case (Inl er)
    then show ?thesis using run first first_ok(1) by (auto simp: cont_deserialize_def bindE_def is_ok_def)
  next
    case (Inr p)
    obtain l s1 where p: "p = (l, s1)" by (cases p)
    obtain q2 e2 where loop: "items_deserialize T l e1 = (q2, e2)" by fastforce
    have "length l \<le> 35" using givesD [OF cont_deserialize_internal_length [OF T]] first Inr p by fastforce
    then have "int (length l) + 36 * gas_left e1 < int (deserialize_fuel e1)"
      using first_ok(2) [OF Inr] by (simp add: deserialize_fuel_def gas_left_def)
    then have "q2 \<noteq> Inl OutOfFuel \<and> (is_ok q2 \<longrightarrow> 0 \<le> gas_left e2 \<and> gas_left e2 \<le> gas_left e1)"
      using items_deserialize_loop_ends [OF T first_ok(2) [OF Inr] _ loop [unfolded items_deserialize_def]] by simp
    moreover have "as_continuation x \<noteq> Inl OutOfFuel" for x :: "('a, 'b, 'c) stack_item"
      by (cases x) (simp_all add: err_def exc_def)
    ultimately show ?thesis using run first Inr p loop first_ok(3) [OF Inr]
      by (auto simp: cont_deserialize_def bindE_def is_ok_def liftE_def throwE_def returnE_def split: sum.splits list.splits)
  qed
qed

text \<open>Slices of octets with one octet for every number, and one cell that holds the empty item.\<close>

definition octet_readers :: "(unit, u8 list, unit, unit) ton" where
  "octet_readers = octet_crates \<lparr>
     get_next_int := (\<lambda>_ s. map_prod (map_sum id unat) id (octet_of s)),
     checked_drain_reference := (\<lambda>s. (Inr (), s)), slice_load_cell := (\<lambda>_. Inr [0]),
     slices := no_slices \<lparr> get_next_bit := (\<lambda>s. map_prod (map_sum id (\<lambda>b. b \<noteq> 0)) id (octet_of s)) \<rparr> \<rparr>"

lemma octet_readers_ok: "reading_crates octet_readers"
proof -
  have octets: "answers (fst (octet_of s))" "answers (map_sum id unat (fst (octet_of s)))"
    "answers (map_sum id (\<lambda>b. b \<noteq> 0) (fst (octet_of s)))" for s
    by (cases s; simp add: answers_def)+
  show ?thesis
    by (simp add: reading_crates_def metered_crates_def octet_readers_def octet_crates_def no_slices_def no_formats_def
      no_result_def octets metered_return) (simp add: answers_def)
qed

definition poor_engine :: "(unit, u8 list, unit, unit) engine" where
  "poor_engine = with_capabilities octet_readers 0 \<lparr> egas := gas_test \<lparr> gas_remaining := 130 \<rparr> \<rparr>"

lemma reading_example:
  "fst (cont_deserialize octet_readers [0, 5, 1, 1, 0, 0, 0, 0, 0, 0] poor_engine) =
     Inr (ContinuationData [0] 5 savelist_new [Item_None] Ordinary, [])"
  by code_simp

theorem cont_deserialize_returns_witness:
  "is_ok (fst (cont_deserialize octet_readers [0, 5, 1, 1, 0, 0, 0, 0, 0, 0] poor_engine)) \<and>
   0 \<le> gas_left (snd (cont_deserialize octet_readers [0, 5, 1, 1, 0, 0, 0, 0, 0, 0] poor_engine)) \<and>
   gas_left (snd (cont_deserialize octet_readers [0, 5, 1, 1, 0, 0, 0, 0, 0, 0] poor_engine)) \<le> 130"
proof -
  have left: "gas_left poor_engine = 130" by (simp add: gas_left_def poor_engine_def)
  show ?thesis
    using cont_deserialize_returns [OF octet_readers_ok _ prod.collapse [symmetric],
      of poor_engine "[0, 5, 1, 1, 0, 0, 0, 0, 0, 0]"]
    by (simp add: left reading_example is_ok_def)
qed

end
