(* ===== verification/Spec2Isabelle.thy ===== *)
theory Spec2Isabelle
  imports Integer_Theorems Stack_Theorems Machine_Steps Instruction_Theorems Cell_Laws Contract_Theorems Gas_Balance
    Format_Reading
begin

text \<open>
  \<^bold>\<open>A verification development for the TVM\<close>

  The repository is a virtual machine for TON smart contracts: a stack machine over 257-bit
  integers, cells, slices, builders, tuples and continuations, with control registers, gas and
  exceptions.  The development is a shallow embedding of its instruction set and of its engine.

  \<^bold>\<open>The program and its model\<close> (paths are relative to \<open>src/src\<close>)

  \<^item> \<open>stack/integer\<close>: the integers.  \<open>Integer_Data\<close> has the value type with its not-a-number, the
    signaling and quiet behaviours, arithmetic, division with its rounding modes, bit logic and
    range conversions; \<open>Integer_Octets\<close> the decoder of long literals, on 32-bit digits;
    \<open>Integer_Serialization\<close> the four encodings of \<open>stack/integer/serialization\<close>.
  \<^item> \<open>types.rs\<close>, \<open>error.rs\<close>: exceptions and errors, in \<open>Exception_Types\<close> and \<open>Stack_Items\<close>.
  \<^item> \<open>stack/mod.rs\<close>: the items with their accessors (\<open>Stack_Items\<close>) and the stack (\<open>Stack_Ops\<close>),
    stored as the vector of the source with the top at the end.
  \<^item> \<open>stack/savelist.rs\<close>, \<open>stack/continuation.rs\<close>: save lists and continuations (\<open>Save_List\<close>).  Their cell
    formats, with those of items, are in \<open>Continuation_Cells\<close> (the new one, with explicit stacks and
    gas for every cell) and \<open>Old_Format\<close> (the recursive one, and \<open>STCONT\<close> and \<open>LDCONT\<close>).
  \<^item> \<open>executor/gas\<close>: the gas account on 64-bit words (\<open>Gas_State\<close>) and the gas instructions
    (\<open>Exec_Gas\<close>).
  \<^item> \<open>executor/types.rs\<close>, \<open>executor/microcode.rs\<close>: instructions, their parameters and the 16-bit
    storage addresses (\<open>Instructions\<close>).
  \<^item> \<open>executor/engine/core.rs\<close>: the state \<open>engine\<close> and its accessors (\<open>Engine_State\<close>), decoding of
    instructions (\<open>Decoding\<close>), loading of cells (\<open>Storage\<close>), and the machine's loop with its
    implicit steps and exception dispatch (\<open>Engine_Loop\<close>).
  \<^item> \<open>executor/engine/storage.rs\<close>, \<open>executor/engine/data.rs\<close>: the micro-operations on addresses (\<open>Storage\<close>).
  \<^item> \<open>executor/engine/handlers.rs\<close>: the tables of handlers (\<open>Handlers\<close>), the opcodes of code page 0
    (\<open>Code_Page\<close>) and the map from names to the models of handlers (\<open>Dispatch\<close>).
  \<^item> \<open>executor\<close>, the instructions, one definition for each handler: \<open>stack.rs\<close> (\<open>Exec_Stack\<close>), \<open>math.rs\<close>
    (\<open>Exec_Math\<close>), \<open>tuple.rs\<close>, \<open>null.rs\<close> and \<open>globals.rs\<close> (\<open>Exec_Tuple\<close>), \<open>config.rs\<close> and \<open>rand.rs\<close> (\<open>Exec_Config\<close>),
    \<open>continuation.rs\<close> (\<open>Exec_Continuation\<close>, its loops in \<open>Exec_Loops\<close>), \<open>exceptions.rs\<close> (\<open>Exec_Exceptions\<close>),
    \<open>serialization.rs\<close> (\<open>Exec_Serialize\<close>), \<open>deserialization.rs\<close> (\<open>Exec_Deserialize\<close>), \<open>slice_comparison.rs\<close>,
    \<open>currency.rs\<close> and \<open>crypto.rs\<close> (\<open>Exec_Slices\<close>), \<open>dictionary.rs\<close> (\<open>Exec_Dictionary\<close>), \<open>blockchain.rs\<close>
    (\<open>Exec_Blockchain\<close>).
  \<^item> \<open>smart_contract_info.rs\<close>: the contract's context, the tuple in \<open>c7\<close> (\<open>Contract_Info\<close>).

  \<^bold>\<open>Reading the definitions\<close>

  A handler of the source takes \<open>&mut Engine\<close> and returns a \<open>Result\<close>: here a function from the
  state to a result and a new state, so that an error keeps the changes made before it.  An error
  is a \<open>tvm_error\<close>; a Rust panic is its constructor \<open>Panic\<close> and the end of the fuel is
  \<open>OutOfFuel\<close>, so that neither is confused with an outcome of the program.  The crates outside the
  repository (big integers, cells, slices, builders, hash maps, hashes, signatures, the numbers of the block
  crate) are the fields of the record \<open>ton\<close>, an argument \<open>T\<close> of every definition that uses them; nothing is
  assumed of them but by the hypotheses of a theorem.  A big integer is a HOL integer; gas amounts,
  storage addresses, code bytes and digits are words of the source's width.  \<open>Example_Crates\<close> has a small
  instance of the record, on which the hypotheses are discharged and the machine is run.

  \<^bold>\<open>What is proved\<close>

  \<^item> Integers (\<open>Integer_Theorems\<close>, \<open>Integer_Octets\<close>, \<open>Integer_Serialization\<close>): arithmetic is exact or not a number,
    division rounds as its mode says, the shift forms equal the general ones, literals have the value of their
    bytes, which only the longest take out of range, encodings have their layout and are read back.
  \<^item> Stack (\<open>Stack_Theorems\<close>): the compound instructions are their compositions of exchanges and pushes.
  \<^item> Dispatch (\<open>Dispatch\<close>): building the table of code page 0 does not panic, and walking it finds the
    handler registered for the opcode.
  \<^item> Safety (\<open>Safety\<close>, \<open>Safety_Data\<close>, \<open>Safety_Control\<close>, \<open>Safety_Cells\<close>, \<open>Safety_Formats\<close>, \<open>Safety_Machine\<close>): a judgement
    with one rule for each operation, by which every handler keeps the type invariant of the machine;
    \<open>Machine_Theorems\<close> has it for whole runs and for \<open>setup\<close>.
  \<^item> The machine as a transition system (\<open>Machine_Steps\<close>): the loops with fuel compute its finite runs.
  \<^item> Control flow (\<open>Control_Theorems\<close>, \<open>Run_Theorems\<close>, \<open>Instruction_Theorems\<close>): a call and its return, the end of the code,
    spent gas, exceptions and their handlers, and two instructions that cannot succeed.
  \<^item> Gas (\<open>Gas_Theorems\<close>, \<open>Gas_Balance\<close>): the account after a change of the limit, amounts that saturate, and a machine
    that never goes on with a negative balance.
  \<^item> Cells (\<open>Cell_Loading\<close>, \<open>Format_Reading\<close>, \<open>Cell_Laws\<close>): loading a cell and reading a continuation return, bounded by
    the gas; stored integers are loaded back, under the laws of builders and slices, and the little-endian encoding
    loses bits at widths that are no whole number of octets.
  \<^item> The context of a contract (\<open>Contract_Theorems\<close>): what the configuration opcodes push when \<open>c7\<close> holds the tuple of
    \<open>smart_contract_info.rs\<close>.

  \<^bold>\<open>Fuel\<close>

  \<^item> The loop of the machine (\<open>execute\<close>) and the loop over implicit steps may run forever and take a number
    of rounds; \<open>Machine_Steps\<close> shows that more rounds never change a result.
  \<^item> Loading of cells takes \<open>load_fuel\<close>, two rounds more than there is gas; \<open>Cell_Loading\<close> shows that it is enough.
  \<^item> Reading a continuation in the new format takes \<open>deserialize_fuel\<close>, 64 rounds for every unit of gas, where 36
    are needed; \<open>Format_Reading\<close> shows that it is enough.
  \<^item> The readers of the old format recurse at most \<open>OLD_DEPTH\<close> deep: a tree of cells is at most 1024 deep, and an
    item nested in a cell takes eight of its 1023 bits.

  \<^bold>\<open>Not modelled\<close>

  The search of accounts and the election of validators (\<open>executor/accounts.rs\<close>), which are over types of the
  block crate; the optional feature of \<open>executor/diff.rs\<close>; the debug output (\<open>executor/dump.rs\<close>), tracing and the
  texts of items and integers, which have no effect on a run.  The handlers of the instructions left out are
  the argument \<open>rest\<close> of the dispatch.
\<close>

end
